(* ===== verification/Rust_Prelude.thy ===== *)
theory Rust_Prelude
  imports Main "HOL-Library.Word"
begin

text \<open>
  The vocabulary the component theories share.

  \<^item> The machine types of the driver: unsigned words keep their width, \<open>usize\<close> is a
    natural number (its 64-bit bound is written out where the code checks it), a C \<open>int\<close>
    status is an integer.
  \<^item> The outcome of a fallible Rust call: \<open>Ok\<close>, an error number, or a fault (a panic or
    undefined behaviour in an unsafe block), and sequencing of effectful calls with the
    meaning of the \<open>?\<close> operator.
  \<^item> Slices: range checks and \<open>copy_from_slice\<close>, both of which panic when violated.
  \<^item> Positional numbers: the value of a list of words, least significant first, for limbs
    (64-bit words) and for bytes (8-bit words), and the byte order conversions of \<open>u64\<close>.
\<close>

named_theorems rust_simps \<open>unfolding rules for outcomes and sequencing\<close>
named_theorems bytes_simps \<open>lengths and values of byte and limb encodings\<close>

section \<open>Machine types\<close>

type_synonym u8 = "8 word"
type_synonym u32 = "32 word"
type_synonym u64 = "64 word"
type_synonym usize = nat
type_synonym isize = int
type_synonym c_int = int
type_synonym c_uint = "32 word"
type_synonym c_ulong = "64 word"

abbreviation size_of_u64 :: usize where
  "size_of_u64 \<equiv> 8"

definition checked_add :: "usize \<Rightarrow> usize \<Rightarrow> usize option" where
  "checked_add a b = (if a + b < 2 ^ 64 then Some (a + b) else None)"

definition checked_mul :: "usize \<Rightarrow> usize \<Rightarrow> usize option" where
  "checked_mul a b = (if a * b < 2 ^ 64 then Some (a * b) else None)"

definition overflowing_add :: "'a::len word \<Rightarrow> 'a word \<Rightarrow> 'a word \<times> bool" where
  "overflowing_add a b = (a + b, 2 ^ LENGTH('a) \<le> unat a + unat b)"

section \<open>Outcomes\<close>

text \<open>
  \<open>error\<close> has the error numbers the driver names; \<open>Errno\<close> is any other number a kernel
  function returns.
\<close>

datatype error =
    EPERM | ENOENT | ENXIO | E2BIG | ENOMEM | EFAULT | EBUSY | EINVAL | ENOTTY | EOVERFLOW
  | Errno int

datatype fault = Panic | UndefinedBehaviour

datatype 'a outcome = Ok 'a | Err error | Fault fault

type_synonym ('w, 'a) prog = "'w \<Rightarrow> 'a outcome \<times> 'w"

definition ret :: "'a \<Rightarrow> ('w, 'a) prog" where
  "ret x w = (Ok x, w)"

definition fail :: "error \<Rightarrow> ('w, 'a) prog" where
  "fail e w = (Err e, w)"

definition lift_outcome :: "'a outcome \<Rightarrow> ('w, 'a) prog" where
  "lift_outcome r w = (r, w)"

definition bind :: "('w, 'a) prog \<Rightarrow> ('a \<Rightarrow> ('w, 'b) prog) \<Rightarrow> ('w, 'b) prog" where
  "bind m f w =
     (case m w of
        (Ok x, w') \<Rightarrow> f x w'
      | (Err e, w') \<Rightarrow> (Err e, w')
      | (Fault b, w') \<Rightarrow> (Fault b, w'))"

text \<open>A local value with a destructor is dropped on every exit but a fault.\<close>

definition drop_after :: "('w \<Rightarrow> 'w) \<Rightarrow> ('w, 'a) prog \<Rightarrow> ('w, 'a) prog" where
  "drop_after d m w =
     (case m w of
        (Fault b, w') \<Rightarrow> (Fault b, w')
      | (r, w') \<Rightarrow> (r, d w'))"

definition ok_or :: "'a option \<Rightarrow> error \<Rightarrow> 'a outcome" where
  "ok_or x e = (case x of Some v \<Rightarrow> Ok v | None \<Rightarrow> Err e)"

fun bind_outcome :: "'a outcome \<Rightarrow> ('a \<Rightarrow> 'b outcome) \<Rightarrow> 'b outcome" where
  "bind_outcome (Ok x) f = f x"
| "bind_outcome (Err e) f = Err e"
| "bind_outcome (Fault b) f = Fault b"

fun is_fault :: "'a outcome \<Rightarrow> bool" where
  "is_fault (Fault b) = True"
| "is_fault (Ok x) = False"
| "is_fault (Err e) = False"

lemma ret_apply [rust_simps]: "ret x w = (Ok x, w)"
  by (simp add: ret_def)

lemma fail_apply [rust_simps]: "fail e w = (Err e, w)"
  by (simp add: fail_def)

lemma lift_outcome_apply [rust_simps]: "lift_outcome r w = (r, w)"
  by (simp add: lift_outcome_def)

lemma ok_or_simps [rust_simps]:
  "ok_or (Some v) e = Ok v"
  "ok_or None e = Err e"
  by (simp_all add: ok_or_def)

text \<open>The three ways a sequence of calls can end, as an elimination rule.\<close>

lemma bind_cases:
  assumes "bind m f w = (r, w')"
  obtains (Ok) x w1 where "m w = (Ok x, w1)" "f x w1 = (r, w')"
    | (Err) e where "m w = (Err e, w')" "r = Err e"
    | (Fault) b where "m w = (Fault b, w')" "r = Fault b"
  using assms by (auto simp: bind_def split: prod.splits outcome.splits)

lemma bind_OkE:
  assumes "bind m f w = (Ok y, w')"
  obtains x w1 where "m w = (Ok x, w1)" "f x w1 = (Ok y, w')"
  using assms by (auto simp: bind_def split: prod.splits outcome.splits)

lemma bind_apply [rust_simps]:
  "m w = (Ok x, w1) \<Longrightarrow> bind m f w = f x w1"
  "m w = (Err e, w1) \<Longrightarrow> bind m f w = (Err e, w1)"
  "m w = (Fault b, w1) \<Longrightarrow> bind m f w = (Fault b, w1)"
  by (simp_all add: bind_def)

lemma drop_after_apply [rust_simps]:
  "m w = (Ok x, w1) \<Longrightarrow> drop_after d m w = (Ok x, d w1)"
  "m w = (Err e, w1) \<Longrightarrow> drop_after d m w = (Err e, d w1)"
  "m w = (Fault b, w1) \<Longrightarrow> drop_after d m w = (Fault b, w1)"
  by (simp_all add: drop_after_def)

lemma drop_after_cases:
  assumes "drop_after d m w = (r, w')"
  obtains (Exit) w1 where "m w = (r, w1)" "\<not> is_fault r" "w' = d w1"
    | (Fault) b where "m w = (r, w')" "r = Fault b"
  using assms by (auto simp: drop_after_def split: prod.splits outcome.splits)

text \<open>A property of outcome and final state that every call of a sequence establishes.\<close>

definition prog_post :: "('w, 'a) prog \<Rightarrow> 'w \<Rightarrow> ('a outcome \<Rightarrow> 'w \<Rightarrow> bool) \<Rightarrow> bool" where
  "prog_post m w P \<longleftrightarrow> P (fst (m w)) (snd (m w))"

lemma prog_postI: "(\<And>r w'. m w = (r, w') \<Longrightarrow> P r w') \<Longrightarrow> prog_post m w P"
  by (simp add: prog_post_def)

text \<open>
  Sequencing: the first call establishes \<open>Q\<close>, the rest starts from an \<open>Ok\<close> outcome that
  satisfies \<open>Q\<close>, and an error or fault of the first call is the outcome of the whole.
\<close>

lemma bind_post:
  assumes "prog_post m w Q"
    and "\<And>x w1. Q (Ok x) w1 \<Longrightarrow> prog_post (f x) w1 P"
    and "\<And>e w1. Q (Err e) w1 \<Longrightarrow> P (Err e) w1"
    and "\<And>b w1. Q (Fault b) w1 \<Longrightarrow> P (Fault b) w1"
  shows "prog_post (bind m f) w P"
  using assms unfolding prog_post_def bind_def
  by (cases "m w"; cases "fst (m w)") auto

lemma lift_post:
  "prog_post (bind (lift_outcome (Ok x)) f) w P \<longleftrightarrow> prog_post (f x) w P"
  by (simp add: prog_post_def bind_def lift_outcome_def)

lemma ret_post: "prog_post (ret x) w P \<longleftrightarrow> P (Ok x) w"
  by (simp add: prog_post_def ret_def)

lemma fail_post: "prog_post (fail e) w P \<longleftrightarrow> P (Err e) w"
  by (simp add: prog_post_def fail_def)

lemma prog_postD: "prog_post m w P \<Longrightarrow> m w = (r, w') \<Longrightarrow> P r w'"
  by (simp add: prog_post_def)

section \<open>Slices\<close>

definition slice_to :: "'a list \<Rightarrow> usize \<Rightarrow> 'a list outcome" where
  "slice_to xs n = (if n \<le> length xs then Ok (take n xs) else Fault Panic)"

text \<open>\<open>copy_into buf lo hi src\<close> is \<open>buf[lo..hi].copy_from_slice(src)\<close>.\<close>

definition copy_into :: "'a list \<Rightarrow> usize \<Rightarrow> usize \<Rightarrow> 'a list \<Rightarrow> 'a list outcome" where
  "copy_into buf lo hi src =
     (if lo \<le> hi \<and> hi \<le> length buf \<and> length src = hi - lo
      then Ok (take lo buf @ src @ drop hi buf) else Fault Panic)"

text \<open>
  \<open>write_out buf ws\<close> is the buffer after a foreign function wrote the elements \<open>ws\<close> through a
  pointer to its start. A write past the end shows as a longer buffer.
\<close>

definition write_out :: "'a list \<Rightarrow> 'a list \<Rightarrow> 'a list" where
  "write_out buf ws = ws @ drop (length ws) buf"

lemma write_out_full [simp]: "length ws = length buf \<Longrightarrow> write_out buf ws = ws"
  by (simp add: write_out_def)

lemma length_write_out: "length (write_out buf ws) = max (length ws) (length buf)"
  by (auto simp: write_out_def)

lemma copy_into_OkE:
  assumes "copy_into buf lo hi src = Ok buf'"
  shows "buf' = take lo buf @ src @ drop hi buf" "length buf' = length buf"
    "lo \<le> hi" "hi \<le> length buf" "length src = hi - lo"
  using assms by (auto simp: copy_into_def split: if_splits)

lemma copy_into_ok:
  "lo \<le> hi \<Longrightarrow> hi \<le> length buf \<Longrightarrow> length src = hi - lo \<Longrightarrow>
   copy_into buf lo hi src = Ok (take lo buf @ src @ drop hi buf)"
  by (simp add: copy_into_def)

section \<open>Positional numbers\<close>

lemma unat_word_of_nat_small:
  "v < 2 ^ LENGTH('a) \<Longrightarrow> unat (word_of_nat v :: 'a::len word) = v"
  by (simp add: unat_of_nat)

lemma mod_once: "(x::nat) < 2 * b \<Longrightarrow> x mod b = (if x < b then x else x - b)"
  by (simp add: le_mod_geq)

definition digits_val :: "'a::len word list \<Rightarrow> nat" where
  "digits_val ws = horner_sum unat (2 ^ LENGTH('a)) ws"

lemma digits_val_Nil [simp]: "digits_val [] = 0"
  by (simp add: digits_val_def)

lemma digits_val_Cons [simp]:
  "digits_val (w # ws) = unat (w :: 'a::len word) + 2 ^ LENGTH('a) * digits_val ws"
  by (simp add: digits_val_def)

lemma digits_val_append:
  "digits_val (us @ ws) =
   digits_val (us :: 'a::len word list) + 2 ^ (LENGTH('a) * length us) * digits_val ws"
  by (induction us) (simp_all add: power_add algebra_simps)

lemma digits_val_bound: "digits_val (ws :: 'a::len word list) < 2 ^ (LENGTH('a) * length ws)"
proof (induction ws)
  case (Cons w ws)
  let ?B = "2 ^ LENGTH('a) :: nat"
  have "unat w + ?B * digits_val ws < ?B * (digits_val ws + 1)"
    using unsigned_less [of w, where ?'a = nat] by (simp add: algebra_simps)
  also have "\<dots> \<le> ?B * 2 ^ (LENGTH('a) * length ws)"
    using Cons by (intro mult_le_mono2) simp
  finally show ?case by (simp add: power_add)
qed simp

lemma digits_val_inj:
  "length us = length ws \<Longrightarrow> digits_val us = digits_val ws \<Longrightarrow> us = (ws :: 'a::len word list)"
proof (induction us ws rule: list_induct2)
  case (Cons u us w ws)
  let ?B = "2 ^ LENGTH('a) :: nat"
  have e: "unat u + ?B * digits_val us = unat w + ?B * digits_val ws" using Cons.prems by simp
  have "unat u = unat w" using arg_cong [OF e, of "\<lambda>k. k mod ?B"] by simp
  moreover from this e have "digits_val us = digits_val ws" by simp
  ultimately show ?case using Cons.IH by (simp add: word_unat_eq_iff)
qed simp

lemma digits_val_eq_iff:
  "length us = length ws \<Longrightarrow> digits_val us = digits_val ws \<longleftrightarrow> us = (ws :: 'a::len word list)"
  using digits_val_inj by blast

lemma digits_val_replicate_0 [simp]: "digits_val (replicate n 0) = 0"
  by (induction n) simp_all

lemma digits_val_0_iff: "digits_val (ws :: 'a::len word list) = 0 \<longleftrightarrow> ws = replicate (length ws) 0"
  by (induction ws) (auto simp: unat_eq_0)

text \<open>The digits of a number, the inverse of the value.\<close>

fun to_digits :: "nat \<Rightarrow> nat \<Rightarrow> 'a::len word list" where
  "to_digits 0 v = []"
| "to_digits (Suc n) v = word_of_nat v # to_digits n (v div 2 ^ LENGTH('a))"

lemma length_to_digits [simp]: "length (to_digits n v) = n"
  by (induction n arbitrary: v) simp_all

lemma digits_val_to_digits:
  "digits_val (to_digits n v :: 'a::len word list) = v mod 2 ^ (LENGTH('a) * n)"
proof (induction n arbitrary: v)
  case (Suc n)
  have "v mod 2 ^ (LENGTH('a) + LENGTH('a) * n) =
        2 ^ LENGTH('a) * (v div 2 ^ LENGTH('a) mod 2 ^ (LENGTH('a) * n)) + v mod 2 ^ LENGTH('a)"
    by (simp add: power_add mod_mult2_eq)
  then show ?case by (simp add: Suc unat_of_nat)
qed simp

lemma to_digits_digits_val: "to_digits (length ws) (digits_val ws) = ws"
  by (rule digits_val_inj) (simp_all add: digits_val_to_digits digits_val_bound)

section \<open>Byte order\<close>

text \<open>Little-endian memory: the bytes of a \<open>u64\<close>, and the \<open>u64\<close> made of eight bytes.\<close>

definition u64_to_le_bytes :: "u64 \<Rightarrow> u8 list" where
  "u64_to_le_bytes x = map (\<lambda>i. ucast (drop_bit (8 * i) x)) [0..<8]"

definition u64_to_be_bytes :: "u64 \<Rightarrow> u8 list" where
  "u64_to_be_bytes x = rev (u64_to_le_bytes x)"

definition u64_from_le_bytes :: "u8 list \<Rightarrow> u64" where
  "u64_from_le_bytes bs = word_of_nat (digits_val bs)"

text \<open>\<open>u64::from_be\<close> on a little-endian target swaps the bytes.\<close>

definition u64_from_be :: "u64 \<Rightarrow> u64" where
  "u64_from_be x = u64_from_le_bytes (rev (u64_to_le_bytes x))"

definition limbs_to_le_bytes :: "u64 list \<Rightarrow> u8 list" where
  "limbs_to_le_bytes ls = concat (map u64_to_le_bytes ls)"

definition be_val :: "u8 list \<Rightarrow> nat" where
  "be_val bs = digits_val (rev bs)"

definition to_be_bytes :: "nat \<Rightarrow> nat \<Rightarrow> u8 list" where
  "to_be_bytes n v = rev (to_digits n v)"

lemma length_u64_bytes [simp, bytes_simps]:
  "length (u64_to_le_bytes x) = 8" "length (u64_to_be_bytes x) = 8"
  by (simp_all add: u64_to_le_bytes_def u64_to_be_bytes_def)

lemma u64_to_le_bytes_digits: "u64_to_le_bytes x = to_digits 8 (unat x)"
proof (rule nth_equalityI)
  have nth: "i < n \<Longrightarrow> (to_digits n v :: u8 list) ! i = word_of_nat (v div 256 ^ i)" for n i v
    by (induction n arbitrary: i v) (auto simp: nth_Cons div_mult2_eq split: nat.splits)
  fix i assume "i < length (u64_to_le_bytes x)"
  then have i: "i < 8" by simp
  have "ucast (drop_bit (8 * i) x) = (word_of_nat (unat (drop_bit (8 * i) x)) :: u8)" by simp
  also have "unat (drop_bit (8 * i) x) = unat x div 256 ^ i"
    by (simp only: unat_drop_bit_eq) (simp add: drop_bit_eq_div power_mult)
  finally show "u64_to_le_bytes x ! i = to_digits 8 (unat x) ! i"
    using i by (simp add: u64_to_le_bytes_def nth)
qed simp

lemma digits_val_u64_to_le_bytes [bytes_simps]: "digits_val (u64_to_le_bytes x) = unat x"
  using unsigned_less [of x, where ?'a = nat] by (simp add: u64_to_le_bytes_digits digits_val_to_digits)

lemma u64_le_bytes_roundtrip [simp]: "u64_from_le_bytes (u64_to_le_bytes x) = x"
  by (simp add: u64_from_le_bytes_def digits_val_u64_to_le_bytes)

lemma u64_to_le_bytes_from [simp]:
  "length bs = 8 \<Longrightarrow> u64_to_le_bytes (u64_from_le_bytes bs) = bs"
  using digits_val_bound [of bs]
  by (intro digits_val_inj)
    (simp_all add: digits_val_u64_to_le_bytes u64_from_le_bytes_def unat_of_nat)

lemma u64_from_be_involution [simp]: "u64_from_be (u64_from_be x) = x"
  by (simp add: u64_from_be_def)

lemma u64_to_le_bytes_from_be [bytes_simps]: "u64_to_le_bytes (u64_from_be x) = u64_to_be_bytes x"
  by (simp add: u64_from_be_def u64_to_be_bytes_def)

lemma length_limbs_to_le_bytes [simp, bytes_simps]:
  "length (limbs_to_le_bytes ls) = 8 * length ls"
  by (induction ls) (simp_all add: limbs_to_le_bytes_def)

lemma digits_val_limbs_to_le_bytes [bytes_simps]:
  "digits_val (limbs_to_le_bytes ls) = digits_val ls"
  by (induction ls)
    (simp_all add: limbs_to_le_bytes_def digits_val_append digits_val_u64_to_le_bytes)

lemma length_to_be_bytes [simp, bytes_simps]: "length (to_be_bytes n v) = n"
  by (simp add: to_be_bytes_def)

lemma be_val_to_be_bytes: "v < 256 ^ n \<Longrightarrow> be_val (to_be_bytes n v) = v"
  by (simp add: be_val_def to_be_bytes_def digits_val_to_digits power_mult)

lemma to_be_bytes_be_val: "to_be_bytes (length bs) (be_val bs) = bs"
  using to_digits_digits_val [of "rev bs"] by (simp add: be_val_def to_be_bytes_def)

lemma be_val_bound: "be_val bs < 256 ^ length bs"
  using digits_val_bound [of "rev bs"] by (simp add: be_val_def power_mult)

lemma to_be_bytes_digits_val:
  "to_be_bytes (8 * length ls) (digits_val ls) = rev (limbs_to_le_bytes ls)"
  using to_digits_digits_val [of "limbs_to_le_bytes ls"]
  by (simp add: to_be_bytes_def digits_val_limbs_to_le_bytes)

end
