(* ===== verification/Primality.thy ===== *)
theory Primality
  imports Main
begin

text \<open>
  Primality of natural numbers and the criterion of Pocklington, by which a large number is
  shown prime from a few modular powers. The driver relies on the order of the P-256 group
  being prime: every nonce and every private key is then invertible modulo the order.
\<close>

definition is_prime :: "nat \<Rightarrow> bool" where
  "is_prime n \<longleftrightarrow> 1 < n \<and> (\<forall>d. d dvd n \<longrightarrow> d = 1 \<or> d = n)"

lemma is_prime_coprime:
  assumes "is_prime n" and "0 < k" and "k < n"
  shows "coprime k n"
proof -
  have "gcd k n dvd n" by simp
  then have "gcd k n = 1 \<or> gcd k n = n" using assms(1) by (simp add: is_prime_def)
  moreover have "gcd k n \<le> k" using assms(2) by (simp add: dvd_imp_le)
  ultimately show ?thesis using assms(3) by (auto simp: coprime_iff_gcd_eq_1)
qed

lemma is_prime_coprime_iff: "is_prime q \<Longrightarrow> \<not> q dvd t \<Longrightarrow> coprime q t"
  unfolding is_prime_def coprime_iff_gcd_eq_1
  by (metis gcd_dvd1 gcd_dvd2)

definition mult_order :: "nat \<Rightarrow> nat \<Rightarrow> nat" where
  "mult_order p a = (LEAST t. 0 < t \<and> a ^ t mod p = 1)"

lemma mult_order_props:
  assumes "0 < k" and "a ^ k mod p = 1"
  shows "0 < mult_order p a" "a ^ mult_order p a mod p = 1"
    "0 < j \<Longrightarrow> a ^ j mod p = 1 \<Longrightarrow> mult_order p a \<le> j"
  unfolding mult_order_def
  using LeastI [of "\<lambda>t. 0 < t \<and> a ^ t mod p = 1" k] assms
  by (auto intro: Least_le)

lemma mult_order_dvd:
  assumes k: "0 < k" "a ^ k mod p = 1" and m: "a ^ m mod p = 1"
  shows "mult_order p a dvd m"
proof -
  let ?t = "mult_order p a"
  have t: "0 < ?t" "a ^ ?t mod p = 1" using mult_order_props [OF k] by auto
  then have p1: "1 mod p = 1" by (metis mod_mod_trivial)
  have "a ^ m = (a ^ ?t) ^ (m div ?t) * a ^ (m mod ?t)"
    by (metis mult_div_mod_eq power_add power_mult)
  then have "a ^ m mod p = ((a ^ ?t mod p) ^ (m div ?t) mod p) * (a ^ (m mod ?t)) mod p"
    by (simp add: power_mod mod_mult_left_eq)
  then have r: "a ^ (m mod ?t) mod p = 1" using m t p1 by (simp add: power_one mod_mult_left_eq)
  show ?thesis
  proof (rule ccontr)
    assume "\<not> ?t dvd m"
    then have "0 < m mod ?t" by (simp add: dvd_eq_mod_eq_0)
    then have "?t \<le> m mod ?t" using mult_order_props(3) [OF k] r by blast
    then show False using t(1) by (meson leD mod_less_divisor)
  qed
qed

lemma mult_order_le:
  assumes k: "0 < k" "a ^ k mod p = 1" and p: "0 < p"
  shows "mult_order p a \<le> p"
proof -
  let ?t = "mult_order p a"
  have t: "0 < ?t" "a ^ ?t mod p = 1" using mult_order_props [OF k] by auto
  have False if ij: "i < j" "j < ?t" "a ^ i mod p = a ^ j mod p" for i j
  proof -
    have "a ^ (i + (?t - j)) mod p = (a ^ i mod p) * a ^ (?t - j) mod p"
      by (simp add: power_add mod_mult_left_eq)
    also have "\<dots> = a ^ ?t mod p"
      using ij(2,3) by (simp add: mod_mult_left_eq flip: power_add)
    finally have "?t \<le> i + (?t - j)"
      using mult_order_props(3) [OF k, of "i + (?t - j)"] t ij by simp
    then show False using ij by simp
  qed
  then have "inj_on (\<lambda>i. a ^ i mod p) {..<?t}"
    by (intro inj_onI) (metis lessThan_iff linorder_neqE_nat)
  moreover have "(\<lambda>i. a ^ i mod p) ` {..<?t} \<subseteq> {..<p}" using p by auto
  ultimately have "card {..<?t} \<le> card {..<p}" by (intro card_inj_on_le) auto
  then show ?thesis by simp
qed

definition pock_cert :: "nat \<Rightarrow> nat \<Rightarrow> nat \<Rightarrow> bool" where
  "pock_cert n a q \<longleftrightarrow> is_prime q \<and> q dvd n - 1 \<and>
     (\<exists>r u v. a ^ ((n - 1) div q) mod n = Suc r \<and> r * u = v * n + 1)"

lemma mod_eq_one_of_dvd: "(x::nat) mod n = 1 \<Longrightarrow> p dvd n \<Longrightarrow> 1 < p \<Longrightarrow> x mod p = 1"
  by (metis mod_less mod_mod_cancel)

lemma pock_cert_dvd:
  assumes c: "pock_cert n a q" and f: "a ^ (n - 1) mod n = 1"
    and n: "1 < n" and p: "p dvd n" "1 < p"
  shows "q dvd mult_order p a"
proof (rule ccontr)
  assume "\<not> q dvd mult_order p a"
  then have cop: "coprime q (mult_order p a)"
    using c by (auto simp: pock_cert_def intro: is_prime_coprime_iff)
  have fp: "a ^ (n - 1) mod p = 1" using f p by (rule mod_eq_one_of_dvd)
  have n1: "0 < n - 1" using n by simp
  obtain m where m: "n - 1 = q * m" using c by (auto simp: pock_cert_def)
  have q0: "0 < q" using c by (auto simp: pock_cert_def is_prime_def)
  have "mult_order p a dvd q * m" using mult_order_dvd [OF n1 fp fp] m by simp
  then have "mult_order p a dvd m" using cop by (simp add: coprime_commute coprime_dvd_mult_right_iff)
  then have "a ^ m mod p = 1"
    using mult_order_props(2) [OF n1 fp] p
    by (metis dvdE mod_less power_mod power_mult power_one)
  obtain r u v where r: "a ^ m mod n = Suc r" "r * u = v * n + 1"
    using c m q0 by (auto simp: pock_cert_def)
  have "Suc r mod p = 1" using r(1) p \<open>a ^ m mod p = 1\<close> by (metis mod_mod_cancel)
  then have "p dvd r" using p(2)
    by (metis Suc_eq_plus1 add_diff_cancel_right' mod_eq_dvd_iff_nat mod_less le_add2 One_nat_def)
  then have "p dvd v * n + 1" using r(2) by (metis dvd_mult2)
  then have "p dvd 1" using p(1) by (metis dvd_add_right_iff dvd_mult)
  then show False using p by simp
qed

lemma prod_list_dvd:
  "distinct qs \<Longrightarrow> (\<And>q. q \<in> set qs \<Longrightarrow> is_prime q \<and> q dvd t) \<Longrightarrow> prod_list qs dvd (t::nat)"
proof (induction qs)
  case Nil
  then show ?case by simp
next
  case (Cons q qs)
  have "coprime q r" if "r \<in> set qs" for r
    using Cons.prems that is_prime_coprime_iff [of q r] by (force simp: is_prime_def)
  then have "coprime q (prod_list qs)"
    by (induction qs) (auto simp: coprime_mult_right_iff)
  then show ?case using Cons by (simp add: divides_mult)
qed

theorem pocklington:
  assumes n: "1 < n" and m: "m + 1 = n" and fm: "a ^ m mod n = 1"
    and qs: "\<And>q. q \<in> set qs \<Longrightarrow> pock_cert n a q" "distinct qs" "n < prod_list qs * prod_list qs"
  shows "is_prime n"
proof -
  have f: "a ^ (n - 1) mod n = 1" using m fm by auto
  have big: "prod_list qs \<le> p" if p: "p dvd n" "1 < p" for p
  proof -
    have fp: "a ^ (n - 1) mod p = 1" using f p by (rule mod_eq_one_of_dvd)
    have n1: "0 < n - 1" using n by simp
    have "prod_list qs dvd mult_order p a"
      by (rule prod_list_dvd)
        (use qs pock_cert_dvd [OF _ f n p] in \<open>auto simp: pock_cert_def\<close>)
    then have "prod_list qs \<le> mult_order p a"
      using mult_order_props(1) [OF n1 fp] by (rule dvd_imp_le)
    also have "\<dots> \<le> p" using mult_order_le [OF n1 fp] p by simp
    finally show ?thesis .
  qed
  have "d = 1 \<or> d = n" if d: "d dvd n" for d
  proof (rule ccontr)
    assume no: "\<not> (d = 1 \<or> d = n)"
    obtain e where e: "n = d * e" using d by blast
    have "1 < d" "1 < e" using no e n by (auto intro: Nat.gr0I simp: nat_neq_iff)
    then have "prod_list qs * prod_list qs \<le> d * e"
      using big [of d] big [of e] e d by (intro mult_le_mono) auto
    then show False using qs(3) e by simp
  qed
  then show ?thesis using n by (simp add: is_prime_def)
qed

lemma is_prime_iff_upt: "is_prime n \<longleftrightarrow> 1 < n \<and> (\<forall>d\<in>set [2..<n]. \<not> d dvd n)"
proof
  assume r: "1 < n \<and> (\<forall>d\<in>set [2..<n]. \<not> d dvd n)"
  have "d = 1 \<or> d = n" if "d dvd n" for d
    using that r dvd_imp_le [OF that] by (cases "d = 0"; cases "d = 1"; cases "d = n") auto
  then show "is_prime n" using r by (simp add: is_prime_def)
qed (auto simp: is_prime_def)

datatype pow_step = Sq nat nat | Mul nat nat

fun pow_run :: "nat \<Rightarrow> nat \<Rightarrow> nat \<Rightarrow> nat \<Rightarrow> pow_step list \<Rightarrow> nat \<Rightarrow> nat \<Rightarrow> bool" where
  "pow_run n b e r [] e' r' = (e = e' \<and> r = r')"
| "pow_run n b e r (Sq q s # st) e' r' = (r * r = q * n + s \<and> pow_run n b (e + e) s st e' r')"
| "pow_run n b e r (Mul q s # st) e' r' = (r * b = q * n + s \<and> pow_run n b (e + 1) s st e' r')"

lemmas pow_run_eval = pow_run.simps numeral_times_numeral numeral_plus_numeral one_plus_numeral
  numeral_plus_one one_add_one mult_num_simps add_num_simps BitM.simps num.inject simp_thms
  mult_1_left mult_1_right numeral_eq_iff refl num.distinct mult_zero_left add_0_left add_0_right

lemma pow_run_sound:
  "pow_run n b e r st e' r' \<Longrightarrow> b ^ e mod n = r mod n \<Longrightarrow> b ^ e' mod n = r' mod n"
proof (induction n b e r st e' r' rule: pow_run.induct)
  case (2 n b e r q s st e' r')
  have "b ^ (e + e) mod n = (r mod n) * (r mod n) mod n"
    using 2 by (simp add: power_add mod_mult_eq flip: \<open>b ^ e mod n = r mod n\<close>)
  also have "\<dots> = s mod n" using 2 by (simp add: mod_mult_eq)
  finally show ?case using 2 by simp
next
  case (3 n b e r q s st e' r')
  have "b ^ (e + 1) mod n = (r mod n) * b mod n"
    using 3 by (simp add: mult.commute mod_mult_eq mod_mult_left_eq mod_mult_right_eq flip: \<open>b ^ e mod n = r mod n\<close>)
  also have "\<dots> = s mod n" using 3 by (simp add: mod_mult_left_eq)
  finally show ?case using 3 by simp
qed simp

lemma pow_run_append:
  "pow_run n b e r st e1 r1 \<Longrightarrow> pow_run n b e1 r1 st' e2 r2 \<Longrightarrow> pow_run n b e r (st @ st') e2 r2"
  by (induction n b e r st e1 r1 rule: pow_run.induct) auto

lemma pow_run_mod:
  "pow_run n b 1 b st e r \<Longrightarrow> r < n \<Longrightarrow> b ^ e mod n = r"
  using pow_run_sound [of n b 1 b st e r] by simp

lemma pow_mod_compose:
  assumes "b ^ e mod n = c" and "c ^ f mod n = d"
  shows "b ^ (e * f) mod n = (d::nat)"
  using assms by (metis power_mod power_mult)

lemma pock_certI:
  assumes "is_prime q" and "k * q + 1 = n" and "r * u = v * n + 1" and "a ^ k mod n = s" and "r + 1 = s"
  shows "pock_cert n a q"
proof -
  have "(n - 1) div q = k" using assms(1,2) by (auto simp: is_prime_def)
  then show ?thesis using assms unfolding pock_cert_def by (metis Suc_eq_plus1 add_diff_cancel_right' dvd_triv_right)
qed

end
