(* ===== verification/Kernel_Interface.thy ===== *)
theory Kernel_Interface
  imports Rust_Prelude Primality
begin

text \<open>
  The kernel the driver runs in. The functions declared in \<open>src/driver/src/ffi.rs\<close> and the
  parts of the \<open>kernel\<close> crate that the driver calls are not code of the repository: they are
  the fields of two records, \<open>ffi\<close> and \<open>krate\<close>, which every definition of the model that
  calls them takes as a parameter. The state they share with the driver is a \<open>world\<close>: the
  allocated curve points, the memory of the calling process, the IMA measurement list, the
  current task's \<open>mm\<close>, and a field \<open>w_env\<close> of any type for whatever else the kernel keeps
  (the state of its random generator, for one).

  What the driver relies on is stated as locales, one per kernel interface, each with the
  documented behaviour of the functions as its assumptions.
\<close>

section \<open>Structures shared with C code\<close>

text \<open>A pointer field is an option (null is \<open>None\<close>) of the words it points to.\<close>

type_synonym ptr = nat
type_synonym inode = nat

record ffi_point =
  pt_x :: "u64 list option"
  pt_y :: "u64 list option"
  pt_ndigits :: u8

record ffi_curve =
  cu_name :: string
  cu_nbits :: u32
  cu_g :: ffi_point
  cu_p :: "u64 list option"
  cu_n :: "u64 list option"
  cu_a :: "u64 list option"
  cu_b :: "u64 list option"

record kfile =
  f_inode :: "inode option"

record mm_struct =
  exe_file :: "kfile option"

record ima_event =
  ev_label :: string
  ev_name :: string
  ev_buf :: "u8 list"
  ev_hash :: bool

text \<open>
  \<open>w_mm\<close> is the \<open>mm\<close> of the current task: \<open>None\<close> for a kernel thread, \<open>Some None\<close> for a
  null raw pointer.
\<close>

record 's world =
  w_points :: "ptr \<rightharpoonup> ffi_point"
  w_umem :: "usize \<Rightarrow> u8"
  w_ima :: "ima_event list"
  w_mm :: "mm_struct option option"
  w_env :: 's

text \<open>Nothing the driver can see changed.\<close>

definition same_kernel :: "'s world \<Rightarrow> 's world \<Rightarrow> bool" where
  "same_kernel w w' \<longleftrightarrow>
     w_points w' = w_points w \<and> w_umem w' = w_umem w \<and> w_ima w' = w_ima w \<and> w_mm w' = w_mm w"

lemma same_kernel_refl [simp]: "same_kernel w w"
  by (simp add: same_kernel_def)

lemma same_kernel_trans: "same_kernel a b \<Longrightarrow> same_kernel b c \<Longrightarrow> same_kernel a c"
  by (simp add: same_kernel_def)

lemma same_kernel_fields:
  assumes "same_kernel w w'"
  shows "w_points w' = w_points w" "w_umem w' = w_umem w" "w_ima w' = w_ima w" "w_mm w' = w_mm w"
  using assms by (simp_all add: same_kernel_def)

section \<open>The foreign functions\<close>

text \<open>
  One field per function of the \<open>extern\<close> block. An input pointer is the list of words it
  points to. An output pointer is part of the result: the words the function writes there.
  The two output pointers of \<open>fsverity_get_digest\<close> that the driver passes as null are left out.
\<close>

record 's ffi =
  ecc_alloc_point :: "c_uint \<Rightarrow> 's world \<Rightarrow> ptr option \<times> 's world"
  ecc_free_point :: "ptr \<Rightarrow> 's world \<Rightarrow> 's world"
  ecc_gen_privkey :: "c_uint \<Rightarrow> c_uint \<Rightarrow> 's world \<Rightarrow> (c_int \<times> u64 list) \<times> 's world"
  ecc_make_pub_key ::
    "c_uint \<Rightarrow> c_uint \<Rightarrow> u64 list \<Rightarrow> 's world \<Rightarrow> (c_int \<times> u64 list) \<times> 's world"
  ecc_get_curve :: "c_uint \<Rightarrow> ffi_curve option"
  ecc_digits_from_bytes :: "u8 list \<Rightarrow> c_uint \<Rightarrow> c_uint \<Rightarrow> u64 list"
  vli_mod_inv :: "u64 list \<Rightarrow> u64 list \<Rightarrow> c_uint \<Rightarrow> u64 list"
  vli_mod_mult_slow :: "u64 list \<Rightarrow> u64 list \<Rightarrow> u64 list \<Rightarrow> c_uint \<Rightarrow> u64 list"
  vli_cmp :: "u64 list \<Rightarrow> u64 list \<Rightarrow> c_uint \<Rightarrow> c_int"
  vli_sub :: "u64 list \<Rightarrow> u64 list \<Rightarrow> c_uint \<Rightarrow> u64 list \<times> u64"
  vli_is_zero :: "u64 list \<Rightarrow> c_uint \<Rightarrow> bool"
  sha256 :: "u8 list \<Rightarrow> c_ulong \<Rightarrow> u8 list"
  ima_measure_critical_data ::
    "string \<Rightarrow> string \<Rightarrow> u8 list \<Rightarrow> c_ulong \<Rightarrow> bool \<Rightarrow> u8 list option \<Rightarrow> c_ulong \<Rightarrow>
     's world \<Rightarrow> c_int \<times> 's world"
  fsverity_get_digest :: "inode \<Rightarrow> 's world \<Rightarrow> (c_int \<times> u8 list) \<times> 's world"

text \<open>
  The \<open>kernel\<close> crate: error numbers, the ioctl number macros (the size argument of \<open>_IOR\<close> and
  \<open>_IOWR\<close> is the size of their type parameter), reads and writes of user memory (start
  address, length of the slice, then the bytes asked for or given), allocation of a boxed
  value, and registration of a misc device.
\<close>

record 's krate =
  from_errno :: "c_int \<Rightarrow> error"
  k_IO :: "u32 \<Rightarrow> u32 \<Rightarrow> u32"
  k_IOR :: "usize \<Rightarrow> u32 \<Rightarrow> u32 \<Rightarrow> u32"
  k_IOWR :: "usize \<Rightarrow> u32 \<Rightarrow> u32 \<Rightarrow> u32"
  k_IOC_SIZE :: "u32 \<Rightarrow> usize"
  read_slice :: "usize \<Rightarrow> usize \<Rightarrow> usize \<Rightarrow> ('s world, u8 list) prog"
  write_slice :: "usize \<Rightarrow> usize \<Rightarrow> u8 list \<Rightarrow> ('s world, unit) prog"
  kbox_alloc :: "('s world, unit) prog"
  misc_register :: "string \<Rightarrow> ('s world, unit) prog"
  misc_deregister :: "'s world \<Rightarrow> 's world"

section \<open>Contracts\<close>

subsection \<open>Multi-limb arithmetic of crypto/ecc.c\<close>

locale vli_ffi =
  fixes F :: "'s ffi"
  assumes ffi_is_zero:
      "length a = unat d \<Longrightarrow> vli_is_zero F a d \<longleftrightarrow> digits_val a = 0"
    and ffi_cmp:
      "length a = unat d \<Longrightarrow> length b = unat d \<Longrightarrow>
       vli_cmp F a b d =
         (if digits_val a < digits_val b then -1 else if digits_val b < digits_val a then 1 else 0)"
    and ffi_sub_length:
      "length a = unat d \<Longrightarrow> length b = unat d \<Longrightarrow> length (fst (vli_sub F a b d)) = unat d"
    and ffi_sub:
      "length a = unat d \<Longrightarrow> length b = unat d \<Longrightarrow>
       digits_val (fst (vli_sub F a b d)) + digits_val b =
         digits_val a + 2 ^ (64 * unat d) * unat (snd (vli_sub F a b d))"
    and ffi_mod_inv_length:
      "length a = unat d \<Longrightarrow> length m = unat d \<Longrightarrow> length (vli_mod_inv F a m d) = unat d"
    and ffi_mod_inv:
      "length a = unat d \<Longrightarrow> length m = unat d \<Longrightarrow> 1 < digits_val m \<Longrightarrow>
       0 < digits_val a \<Longrightarrow> digits_val a < digits_val m \<Longrightarrow>
       coprime (digits_val a) (digits_val m) \<Longrightarrow>
       digits_val (vli_mod_inv F a m d) < digits_val m \<and>
       digits_val (vli_mod_inv F a m d) * digits_val a mod digits_val m = 1"
    and ffi_mod_mult_length:
      "length a = unat d \<Longrightarrow> length b = unat d \<Longrightarrow> length m = unat d \<Longrightarrow>
       length (vli_mod_mult_slow F a b m d) = unat d"
    and ffi_mod_mult:
      "length a = unat d \<Longrightarrow> length b = unat d \<Longrightarrow> length m = unat d \<Longrightarrow>
       2 ^ (64 * unat d - 1) < digits_val m \<Longrightarrow>
       digits_val (vli_mod_mult_slow F a b m d) = digits_val a * digits_val b mod digits_val m"
    and ffi_from_bytes:
      "length bs = unat l \<Longrightarrow> unat l = 8 * unat d \<Longrightarrow>
       length (ecc_digits_from_bytes F bs l d) = unat d \<and>
       digits_val (ecc_digits_from_bytes F bs l d) = be_val bs"

subsection \<open>The curve group\<close>

text \<open>
  A group of points with affine coordinates and a base point of order \<open>cg_order\<close>. It is the
  mathematical object that \<open>ecc_make_pub_key\<close> computes in.
\<close>

record 'p curve_group =
  cg_order :: nat
  cg_on :: "'p \<Rightarrow> bool"
  cg_zero :: 'p
  cg_add :: "'p \<Rightarrow> 'p \<Rightarrow> 'p"
  cg_base :: 'p
  cg_x :: "'p \<Rightarrow> nat"
  cg_y :: "'p \<Rightarrow> nat"

primrec smul :: "'p curve_group \<Rightarrow> nat \<Rightarrow> 'p \<Rightarrow> 'p" where
  "smul C 0 P = cg_zero C"
| "smul C (Suc k) P = cg_add C P (smul C k P)"

locale p256_group =
  fixes C :: "'p curve_group"
  assumes on_zero: "cg_on C (cg_zero C)"
    and on_base: "cg_on C (cg_base C)"
    and on_add: "cg_on C P \<Longrightarrow> cg_on C Q \<Longrightarrow> cg_on C (cg_add C P Q)"
    and add_assoc: "cg_on C P \<Longrightarrow> cg_on C Q \<Longrightarrow> cg_on C R \<Longrightarrow>
      cg_add C (cg_add C P Q) R = cg_add C P (cg_add C Q R)"
    and add_zero: "cg_on C P \<Longrightarrow> cg_add C (cg_zero C) P = P"
    and add_comm: "cg_on C P \<Longrightarrow> cg_on C Q \<Longrightarrow> cg_add C P Q = cg_add C Q P"
    and order_base: "smul C (cg_order C) (cg_base C) = cg_zero C"
    and order_least: "0 < k \<Longrightarrow> k < cg_order C \<Longrightarrow> smul C k (cg_base C) \<noteq> cg_zero C"
    and order_prime: "is_prime (cg_order C)"
    and order_bounds: "2 ^ 255 < cg_order C" "cg_order C < 2 ^ 256"
    and coords_bound: "cg_on C P \<Longrightarrow> P \<noteq> cg_zero C \<Longrightarrow> cg_x C P < 2 ^ 256 \<and> cg_y C P < 2 ^ 256"
begin

lemma on_smul: "cg_on C P \<Longrightarrow> cg_on C (smul C k P)"
  by (induction k) (simp_all add: on_zero on_add)

lemma smul_add: "cg_on C P \<Longrightarrow> smul C (a + b) P = cg_add C (smul C a P) (smul C b P)"
  by (induction a) (simp_all add: add_zero on_smul add_assoc)

lemma smul_mult: "cg_on C P \<Longrightarrow> smul C (a * b) P = smul C a (smul C b P)"
  by (induction a) (simp_all add: smul_add)

lemma smul_zero: "smul C k (cg_zero C) = cg_zero C"
  by (induction k) (simp_all add: add_zero on_zero)

lemma smul_mod: "smul C (a mod cg_order C) (cg_base C) = smul C a (cg_base C)"
proof -
  let ?n = "cg_order C"
  have "smul C a (cg_base C) = smul C ((a div ?n) * ?n + a mod ?n) (cg_base C)" by simp
  also have "\<dots> = cg_add C (smul C (a div ?n * ?n) (cg_base C)) (smul C (a mod ?n) (cg_base C))"
    by (rule smul_add) (rule on_base)
  also have "\<dots> = smul C (a mod ?n) (cg_base C)"
    by (simp add: smul_mult on_base order_base smul_zero add_zero on_smul)
  finally show ?thesis by simp
qed

lemma order_pos: "1 < cg_order C" "0 < cg_order C"
  using order_prime by (auto simp: is_prime_def)

lemma base_coords:
  "0 < k \<Longrightarrow> k < cg_order C \<Longrightarrow>
   cg_x C (smul C k (cg_base C)) < 2 ^ 256 \<and> cg_y C (smul C k (cg_base C)) < 2 ^ 256"
  by (rule coords_bound) (simp_all add: on_smul on_base order_least)

lemma order_invertible: "0 < k \<Longrightarrow> k < cg_order C \<Longrightarrow> coprime k (cg_order C)"
  using order_prime by (rule is_prime_coprime)

end

subsection \<open>Keys and points of crypto/ecc.c\<close>

text \<open>\<open>ecc_swap_digits\<close> writes a number most significant limb first, each limb big-endian.\<close>

definition ecc_swap_digits :: "u64 list \<Rightarrow> u64 list" where
  "ecc_swap_digits ls = map u64_from_be (rev ls)"

definition point_limbs :: "'p curve_group \<Rightarrow> nat \<Rightarrow> u64 list" where
  "point_limbs C k =
     ecc_swap_digits (to_digits 4 (cg_x C (smul C k (cg_base C)))) @
     ecc_swap_digits (to_digits 4 (cg_y C (smul C k (cg_base C))))"

locale ecc_ffi = vli_ffi F + p256_group C
  for F :: "'s ffi" and C :: "'p curve_group" +
  assumes ffi_get_curve:
      "ecc_get_curve F 2 = Some c \<Longrightarrow> cu_n c = Some n \<Longrightarrow>
       length n = 4 \<and> digits_val n = cg_order C"
    and ffi_gen_privkey:
      "ecc_gen_privkey F 2 4 w = ((r, key), w') \<Longrightarrow>
       same_kernel w w' \<and> length key \<le> 4 \<and>
       (0 \<le> r \<longrightarrow> length key = 4 \<and> 0 < digits_val key \<and> digits_val key < cg_order C)"
    and ffi_make_pub_key:
      "length key = 4 \<Longrightarrow> 0 < digits_val key \<Longrightarrow> digits_val key < cg_order C \<Longrightarrow>
       ecc_make_pub_key F 2 4 key w = ((r, pub), w') \<Longrightarrow>
       same_kernel w w' \<and> length pub \<le> 8 \<and> (0 \<le> r \<longrightarrow> pub = point_limbs C (digits_val key))"
    and ffi_alloc_none:
      "ecc_alloc_point F 4 w = (None, w') \<Longrightarrow> same_kernel w w'"
    and ffi_alloc_some:
      "ecc_alloc_point F 4 w = (Some p, w') \<Longrightarrow>
       w_points w p = None \<and>
       (\<exists>pt. same_kernel (w\<lparr>w_points := (w_points w)(p \<mapsto> pt)\<rparr>) w' \<and>
          (\<forall>b. pt_x pt = Some b \<longrightarrow> length b = 4) \<and> (\<forall>b. pt_y pt = Some b \<longrightarrow> length b = 4))"
    and ffi_free:
      "w_points w p \<noteq> None \<Longrightarrow>
       same_kernel (w\<lparr>w_points := (w_points w)(p := None)\<rparr>) (ecc_free_point F p w)"

subsection \<open>Hashing, IMA, fs-verity\<close>

locale sha256_ffi =
  fixes F :: "'s ffi"
  assumes ffi_sha256_length: "length (sha256 F bs l) = 32"

text \<open>
  IMA returns 0 when the buffer was measured, a negative number on failure, and 1 when the
  digest was only written to a digest buffer the caller passed.
\<close>

locale ima_ffi =
  fixes F :: "'s ffi"
  assumes ffi_ima_measured:
      "ima_measure_critical_data F lb nm buf l h dg dl w = (0, w') \<Longrightarrow>
       same_kernel (w\<lparr>w_ima := w_ima w @
         [\<lparr>ev_label = lb, ev_name = nm, ev_buf = take (unat l) buf, ev_hash = h\<rparr>]\<rparr>) w'"
    and ffi_ima_failed:
      "ima_measure_critical_data F lb nm buf l h dg dl w = (r, w') \<Longrightarrow> r \<noteq> 0 \<Longrightarrow> same_kernel w w'"
    and ffi_ima_positive:
      "ima_measure_critical_data F lb nm buf l h dg dl w = (r, w') \<Longrightarrow> 0 < r \<Longrightarrow> dg \<noteq> None"

text \<open>fs-verity returns the number of digest bytes it wrote, 0 for a file without fs-verity.\<close>

locale fsverity_ffi =
  fixes F :: "'s ffi"
  assumes ffi_digest:
      "fsverity_get_digest F i w = ((r, bs), w') \<Longrightarrow>
       same_kernel w w' \<and> length bs \<le> 64 \<and> (0 \<le> r \<longrightarrow> r = int (length bs))"

subsection \<open>User memory, ioctl numbers\<close>

definition write_umem :: "(usize \<Rightarrow> u8) \<Rightarrow> usize \<Rightarrow> u8 list \<Rightarrow> usize \<Rightarrow> u8" where
  "write_umem m a bs i = (if a \<le> i \<and> i < a + length bs then bs ! (i - a) else m i)"

definition read_umem :: "(usize \<Rightarrow> u8) \<Rightarrow> usize \<Rightarrow> usize \<Rightarrow> u8 list" where
  "read_umem m a n = map m [a..<a + n]"

lemma read_write_umem [simp]: "read_umem (write_umem m a bs) a (length bs) = bs"
  by (rule nth_equalityI) (simp_all add: read_umem_def write_umem_def)

lemma length_read_umem [simp]: "length (read_umem m a n) = n"
  by (simp add: read_umem_def)

locale user_access =
  fixes K :: "'s krate"
  assumes user_read_ok:
      "read_slice K a len n w = (Ok bs, w') \<Longrightarrow>
       same_kernel w w' \<and> n \<le> len \<and> bs = read_umem (w_umem w) a n"
    and user_read_err:
      "read_slice K a len n w = (Err e, w') \<Longrightarrow> same_kernel w w' \<and> e = EFAULT"
    and user_read_no_fault: "\<not> is_fault (fst (read_slice K a len n w))"
    and user_write_ok:
      "write_slice K a len bs w = (Ok u, w') \<Longrightarrow>
       length bs \<le> len \<and> same_kernel (w\<lparr>w_umem := write_umem (w_umem w) a bs\<rparr>) w'"
    and user_write_err:
      "write_slice K a len bs w = (Err e, w') \<Longrightarrow>
       e = EFAULT \<and> same_kernel (w\<lparr>w_umem := w_umem w'\<rparr>) w' \<and>
       (\<forall>i. i < a \<or> a + length bs \<le> i \<longrightarrow> w_umem w' i = w_umem w i)"
    and user_write_no_fault: "\<not> is_fault (fst (write_slice K a len bs w))"

text \<open>
  The ioctl number layout: sequence number in bits 0 to 7, type in bits 8 to 15, size in bits
  16 to 29, direction (1 write, 2 read) in bits 30 and 31.
\<close>

locale ioctl_abi =
  fixes K :: "'s krate"
  assumes abi_IO: "t < 256 \<Longrightarrow> s < 256 \<Longrightarrow> unat (k_IO K t s) = 256 * unat t + unat s"
    and abi_IOR: "t < 256 \<Longrightarrow> s < 256 \<Longrightarrow> n < 2 ^ 14 \<Longrightarrow>
      unat (k_IOR K n t s) = 2 * 2 ^ 30 + 2 ^ 16 * n + 256 * unat t + unat s"
    and abi_IOWR: "t < 256 \<Longrightarrow> s < 256 \<Longrightarrow> n < 2 ^ 14 \<Longrightarrow>
      unat (k_IOWR K n t s) = 3 * 2 ^ 30 + 2 ^ 16 * n + 256 * unat t + unat s"
    and abi_SIZE: "k_IOC_SIZE K c = unat c div 2 ^ 16 mod 2 ^ 14"

text \<open>Misc devices and allocation: no effect that the driver can see.\<close>

locale misc_api =
  fixes K :: "'s krate"
  assumes misc_register_effect:
      "misc_register K name w = (r, w') \<Longrightarrow> same_kernel w w' \<and> \<not> is_fault r"
    and misc_deregister_effect: "same_kernel w (misc_deregister K w)"
    and kbox_alloc_effect:
      "kbox_alloc K w = (r, w') \<Longrightarrow> same_kernel w w' \<and> (r = Ok () \<or> r = Err ENOMEM)"

subsection \<open>The kernel as a whole\<close>

locale tarako_kernel =
  ecc_ffi F C + sha256_ffi F + ima_ffi F + fsverity_ffi F + user_access K + ioctl_abi K + misc_api K
  for F :: "'s ffi" and C :: "'p curve_group" and K :: "'s krate"

end
