(* ===== verification/P256_Order.thy ===== *)
theory P256_Order
  imports Primality
begin

text \<open>
  The order of the NIST P-256 group is prime. The criterion of Pocklington is applied with the
  two largest prime factors of the order less one, whose own primality is shown the same way.
  Each \<open>pow_run\<close> lemma is a stretch of a square-and-multiply computation, given with the
  quotient and remainder of every reduction, so that checking it needs only multiplication.
\<close>

definition p256_order :: nat where
  "p256_order = 115792089210356248762697446949407573529996955224135760342422259061068512044369"

lemma prime_p43: "is_prime 43"
  by (simp add: is_prime_iff_upt)

lemma prime_p7: "is_prime 7"
  by (simp add: is_prime_iff_upt)

lemma prime_p3: "is_prime 3"
  by (simp add: is_prime_iff_upt)

lemma p155317_fermat_run1:
  "pow_run 155317 3 1 3
    [Sq 0 9,
     Sq 0 81,
     Sq 0 6561,
     Mul 0 19683,
     Sq 2494 59891,
     Sq 23094 41083,
     Mul 0 123249,
     Sq 97802 2767,
     Mul 0 8301,
     Sq 443 101170,
     Mul 1 148193,
     Sq 141395 118034,
     Mul 2 43468,
     Sq 12165 35719,
     Sq 8214 73123,
     Mul 1 64052,
     Sq 26414 115466,
     Sq 85839 141193,
     Mul 2 112945,
     Sq 82132 77181,
     Mul 1 76226,
     Sq 37409 149423,
     Sq 143752 103545,
     Mul 2 1,
     Sq 0 1,
     Sq 0 1]
    155316 1"
  by (simp only: pow_run_eval)

lemma p155317_fermat: "3 ^ 155316 mod 155317 = (1::nat)"
  by (rule pow_run_mod [OF p155317_fermat_run1]) simp_all

lemma p155317_cert1_run1:
  "pow_run 155317 3 1 3
    [Sq 0 9,
     Mul 0 27,
     Sq 0 729,
     Mul 0 2187,
     Sq 30 123459,
     Sq 98135 90886,
     Sq 53183 40985,
     Sq 10815 16870,
     Sq 1832 56156,
     Mul 1 13151,
     Sq 1113 80980,
     Mul 1 87623,
     Sq 49433 4868,
     Mul 0 14604,
     Sq 1373 26575,
     Sq 4547 4226]
    3612 4226"
  by (simp only: pow_run_eval)

lemma p155317_cert1: "3 ^ 3612 mod 155317 = (4226::nat)"
  by (rule pow_run_mod [OF p155317_cert1_run1]) simp_all

lemma p155317_cert2_run1:
  "pow_run 155317 3 1 3
    [Sq 0 9,
     Sq 0 81,
     Mul 0 243,
     Sq 0 59049,
     Sq 22449 73068,
     Mul 1 63887,
     Sq 26278 128643,
     Mul 2 75295,
     Sq 36501 111208,
     Sq 79625 103139,
     Mul 1 154100,
     Sq 152892 83236,
     Sq 44607 6277,
     Mul 0 18831,
     Sq 2283 17850,
     Sq 2051 67333,
     Mul 1 46682,
     Sq 14030 111614,
     Mul 2 24208,
     Sq 3773 16223,
     Sq 1694 78731]
    22188 78731"
  by (simp only: pow_run_eval)

lemma p155317_cert2: "3 ^ 22188 mod 155317 = (78731::nat)"
  by (rule pow_run_mod [OF p155317_cert2_run1]) simp_all

lemma p155317_cert3_run1:
  "pow_run 155317 3 1 3
    [Sq 0 9,
     Mul 0 27,
     Sq 0 729,
     Sq 3 65490,
     Sq 27614 16462,
     Mul 0 49386,
     Sq 15703 34145,
     Sq 7506 71623,
     Mul 1 59552,
     Sq 22833 87643,
     Sq 49455 93214,
     Sq 55942 106182,
     Sq 72591 777,
     Mul 0 2331,
     Sq 34 152783,
     Mul 2 147715,
     Sq 140485 12480,
     Mul 0 37440,
     Sq 9025 17675,
     Mul 0 53025,
     Sq 18102 102291,
     Sq 67368 53025]
    51772 53025"
  by (simp only: pow_run_eval)

lemma p155317_cert3: "3 ^ 51772 mod 155317 = (53025::nat)"
  by (rule pow_run_mod [OF p155317_cert3_run1]) simp_all

lemma p155317_pock1: "pock_cert 155317 3 43"
  by (rule pock_certI [where r = 4225 and u = 7242 and v = 197 and k = 3612, OF prime_p43 _ _ p155317_cert1])
    (simp_all only: pow_run_eval)

lemma p155317_pock2: "pock_cert 155317 3 7"
  by (rule pock_certI [where r = 78730 and u = 13843 and v = 7017 and k = 22188, OF prime_p7 _ _ p155317_cert2])
    (simp_all only: pow_run_eval)

lemma p155317_pock3: "pock_cert 155317 3 3"
  by (rule pock_certI [where r = 53024 and u = 85869 and v = 29315 and k = 51772, OF prime_p3 _ _ p155317_cert3])
    (simp_all only: pow_run_eval)

lemma prime_p155317: "is_prime 155317"
proof (rule pocklington [where a = 3 and qs = "[43, 7, 3]"])
  show "1 < (155317::nat)" by simp
  show "155316 + 1 = (155317::nat)" by simp
  show "3 ^ 155316 mod 155317 = (1::nat)" by (rule p155317_fermat)
  show "pock_cert 155317 3 q" if "q \<in> set [43, 7, 3]" for q
    using that p155317_pock1 p155317_pock2 p155317_pock3 by auto
qed simp_all

lemma p191039911_fermat_run1:
  "pow_run 191039911 2 1 2
    [Sq 0 4,
     Sq 0 16,
     Mul 0 32,
     Sq 0 1024,
     Mul 0 2048,
     Sq 0 4194304,
     Sq 92086 84800070,
     Mul 0 169600140,
     Sq 150566482 167156498,
     Mul 1 143273085,
     Sq 107449677 154358478,
     Sq 124720220 1776064,
     Sq 16511 143361575,
     Sq 107582447 86438408,
     Mul 0 172876816,
     Sq 156440574 176548942,
     Mul 1 162057973,
     Sq 137472774 102985615,
     Sq 55517388 34455757,
     Sq 6214404 3365005,
     Sq 59271 132085144,
     Sq 91323771 181476355,
     Mul 1 171912799,
     Sq 154700713 16857858,
     Sq 1487581 34502873,
     Sq 6231411 42409708,
     Mul 0 84819416,
     Sq 37658797 103333989,
     Mul 1 15628067,
     Sq 1278457 166659162,
     Sq 145389914 47684590,
     Mul 0 95369180,
     Sq 47609321 47261969,
     Sq 11692288 54850593,
     Sq 15748476 99026013,
     Mul 1 7012115,
     Sq 257379 95519956,
     Mul 1 1,
     Sq 0 1]
    191039910 1"
  by (simp only: pow_run_eval)

lemma p191039911_fermat: "2 ^ 191039910 mod 191039911 = (1::nat)"
  by (rule pow_run_mod [OF p191039911_fermat_run1]) simp_all

lemma p191039911_cert1_run1:
  "pow_run 191039911 2 1 2
    [Sq 0 4,
     Sq 0 16,
     Sq 0 256,
     Mul 0 512,
     Sq 0 262144,
     Mul 0 524288,
     Sq 1438 162514926,
     Sq 138249128 63837868,
     Sq 21332052 75258052,
     Mul 0 150516104,
     Sq 118588296 49857160,
     Mul 0 99714320,
     Sq 52046431 66954759,
     Mul 0 133909518,
     Sq 93863941 76243073]
    1230 76243073"
  by (simp only: pow_run_eval)

lemma p191039911_cert1: "2 ^ 1230 mod 191039911 = (76243073::nat)"
  by (rule pow_run_mod [OF p191039911_cert1_run1]) simp_all

lemma p191039911_pock1: "pock_cert 191039911 2 155317"
  by (rule pock_certI [where r = 76243072 and u = 69522358 and v = 27746025 and k = 1230, OF prime_p155317 _ _ p191039911_cert1])
    (simp_all only: pow_run_eval)

lemma prime_p191039911: "is_prime 191039911"
proof (rule pocklington [where a = 2 and qs = "[155317]"])
  show "1 < (191039911::nat)" by simp
  show "191039910 + 1 = (191039911::nat)" by simp
  show "2 ^ 191039910 mod 191039911 = (1::nat)" by (rule p191039911_fermat)
  show "pock_cert 191039911 2 q" if "q \<in> set [155317]" for q
    using that p191039911_pock1 by auto
qed simp_all

lemma prime_p151: "is_prime 151"
  by (simp add: is_prime_iff_upt)

lemma p1511_fermat_run1:
  "pow_run 1511 2 1 2
    [Sq 0 4,
     Sq 0 16,
     Mul 0 32,
     Sq 0 1024,
     Mul 1 537,
     Sq 190 1279,
     Mul 1 1047,
     Sq 725 734,
     Mul 0 1468,
     Sq 1426 338,
     Sq 75 919,
     Sq 558 1423,
     Mul 1 1335,
     Sq 1179 756,
     Mul 1 1,
     Sq 0 1]
    1510 1"
  by (simp only: pow_run_eval)

lemma p1511_fermat: "2 ^ 1510 mod 1511 = (1::nat)"
  by (rule pow_run_mod [OF p1511_fermat_run1]) simp_all

lemma p1511_cert1_run1:
  "pow_run 1511 2 1 2
    [Sq 0 4,
     Sq 0 16,
     Mul 0 32,
     Sq 0 1024]
    10 1024"
  by (simp only: pow_run_eval)

lemma p1511_cert1: "2 ^ 10 mod 1511 = (1024::nat)"
  by (rule pow_run_mod [OF p1511_cert1_run1]) simp_all

lemma p1511_pock1: "pock_cert 1511 2 151"
  by (rule pock_certI [where r = 1023 and u = 418 and v = 283 and k = 10, OF prime_p151 _ _ p1511_cert1])
    (simp_all only: pow_run_eval)

lemma prime_p1511: "is_prime 1511"
proof (rule pocklington [where a = 2 and qs = "[151]"])
  show "1 < (1511::nat)" by simp
  show "1510 + 1 = (1511::nat)" by simp
  show "2 ^ 1510 mod 1511 = (1::nat)" by (rule p1511_fermat)
  show "pock_cert 1511 2 q" if "q \<in> set [151]" for q
    using that p1511_pock1 by auto
qed simp_all

lemma p3023_fermat_run1:
  "pow_run 3023 2 1 2
    [Sq 0 4,
     Sq 0 16,
     Mul 0 32,
     Sq 0 1024,
     Mul 0 2048,
     Sq 1387 1403,
     Mul 0 2806,
     Sq 2604 1744,
     Mul 1 465,
     Sq 71 1592,
     Sq 838 1190,
     Sq 468 1336,
     Mul 0 2672,
     Sq 2361 2281,
     Mul 1 1539,
     Sq 783 1512,
     Mul 1 1,
     Sq 0 1]
    3022 1"
  by (simp only: pow_run_eval)

lemma p3023_fermat: "2 ^ 3022 mod 3023 = (1::nat)"
  by (rule pow_run_mod [OF p3023_fermat_run1]) simp_all

lemma p3023_cert1_run1:
  "pow_run 3023 2 1 2
    [Sq 0 4]
    2 4"
  by (simp only: pow_run_eval)

lemma p3023_cert1: "2 ^ 2 mod 3023 = (4::nat)"
  by (rule pow_run_mod [OF p3023_cert1_run1]) simp_all

lemma p3023_pock1: "pock_cert 3023 2 1511"
  by (rule pock_certI [where r = 3 and u = 1008 and v = 1 and k = 2, OF prime_p1511 _ _ p3023_cert1])
    (simp_all only: pow_run_eval)

lemma prime_p3023: "is_prime 3023"
proof (rule pocklington [where a = 2 and qs = "[1511]"])
  show "1 < (3023::nat)" by simp
  show "3022 + 1 = (3023::nat)" by simp
  show "2 ^ 3022 mod 3023 = (1::nat)" by (rule p3023_fermat)
  show "pock_cert 3023 2 q" if "q \<in> set [1511]" for q
    using that p3023_pock1 by auto
qed simp_all

lemma p208150935158385979_fermat_run1:
  "pow_run 208150935158385979 2 1 2
    [Sq 0 4,
     Sq 0 16,
     Mul 0 32,
     Sq 0 1024,
     Mul 0 2048,
     Sq 0 4194304,
     Mul 0 8388608,
     Sq 0 70368744177664,
     Sq 23789276533 56124891215566089,
     Sq 15133265731245600 80364851481313521,
     Sq 31028010269082760 161292121122795401,
     Mul 1 114433307087204823,
     Sq 62910991780797441 159264112060981590,
     Mul 1 110377288963577201,
     Sq 58530344385330940 36396104116104141,
     Mul 0 72792208232208282,
     Sq 25456073859525473 138249492712848457,
     Sq 91822418289000503 84849456048133412,
     Sq 34587546705884079 157881029437833403,
     Sq 119751657312435488 149437579141337657,
     Sq 107285562001588063 18725509373280972,
     Sq 1684569425652694 121723820404087358,
     Sq 71182425591757325 165427699644873989,
     Sq 131473460779655344 76854628746750345,
     Sq 28376687115560423 39309169027109908,
     Sq 7423511061461803 82705089272508327,
     Mul 0 165410178545016654,
     Sq 131445612509380012 8587957253703968,
     Sq 354324662223239 165103918353379043,
     Mul 1 122056901548372107,
     Sq 71572521181578729 196928582977378758,
     Mul 1 185706230796371537,
     Sq 165681716156372544 207602822473581793,
     Sq 207056153104489903 48581579078824812,
     Sq 11338742360183060 149382182409519604,
     Sq 107206034911402417 148337616980805573,
     Sq 105711985366776668 203912331392320357,
     Mul 1 199673727626254735,
     Sq 191541764988114194 34987903129434299,
     Mul 0 69975806258868598,
     Sq 23524340440040723 31841781318262787,
     Sq 4870979977815492 179737770607220701,
     Mul 1 151324606056055423,
     Sq 110012171603245405 15919188399532434,
     Sq 1217484606095934 164461125943454970,
     Mul 1 120771316728523961,
     Sq 70072762023590758 196353340449947439,
     Mul 1 184555745741508899,
     Sq 163635216244822326 118397259511625047,
     Mul 1 28643583864864115,
     Sq 3941634449055942 45758406415296007,
     Sq 10059199378922639 27336138286865468,
     Sq 3590012487188801 31572406526637845,
     Sq 4788913646363333 102065488499336018,
     Mul 0 204130976998672036,
     Sq 200188655115699075 57441626225115871,
     Mul 0 114883252450231742,
     Sq 63406689398252988 157643589110299312,
     Mul 1 107136243062212645,
     Sq 55143516740636054 89376862702409159,
     Mul 0 178753725404818318,
     Sq 153508291095534251 105389110715682395,
     Mul 1 2627286272978811,
     Sq 33161672585955 146295594310648776,
     Mul 1 84440253462911573,
     Sq 34254741154322843 120355843846716032,
     Sq 69591468023109195 3643321371848119,
     Mul 0 7286642743696238,
     Sq 255080105375745 78904750880673289,
     Mul 0 157809501761346578,
     Sq 119643175406416729 95718116327667393,
     Sq 44015933852737007 81532558752191596,
     Mul 0 163065117504383192,
     Sq 127744958371122797 197739607840045601,
     Sq 187849035984308070 146187913454900671,
     Sq 102670237940732778 162260531455330579,
     Mul 1 116370127752275179,
     Sq 65058591366771795 57407987118819736,
     Mul 0 114815974237639472,
     Sq 63332446381311327 169814227821754651,
     Mul 1 131477520485123323,
     Sq 83047132984353500 183350037738985829,
     Sq 161504133110463988 104075467579192989,
     Mul 0 208150935158385978,
     Sq 208150935158385977 1]
    208150935158385978 1"
  by (simp only: pow_run_eval)

lemma p208150935158385979_fermat: "2 ^ 208150935158385978 mod 208150935158385979 = (1::nat)"
  by (rule pow_run_mod [OF p208150935158385979_fermat_run1]) simp_all

lemma p208150935158385979_cert1_run1:
  "pow_run 208150935158385979 2 1 2
    [Sq 0 4,
     Sq 0 16,
     Sq 0 256,
     Sq 0 65536,
     Sq 0 4294967296,
     Sq 88 129461779771585464,
     Sq 80520187953386932 124462424665468868,
     Mul 1 40773914172551757,
     Sq 7987050722042541 163848705107854410,
     Mul 1 119546475057322841,
     Sq 68658637962671397 186526388431168618,
     Mul 1 164901841703951257,
     Sq 130638939367068525 7679982539669074,
     Mul 0 15359965079338148,
     Sq 1133449278327598 125585291636121462,
     Sq 75770332058939447 14138243402203831,
     Sq 960312411509754 80022974415737395,
     Sq 30764581621836497 28288365246110462,
     Mul 0 56576730492220924,
     Sq 15377910412719287 2294699736803,
     Sq 25297253 13195472290245122,
     Mul 0 26390944580490244,
     Sq 3346042886238013 64064647063159809,
     Mul 0 128129294126319618,
     Sq 78871209494287542 204517432644492306,
     Mul 1 200883930130598633,
     Sq 193870632164149747 123660191560271376,
     Mul 1 39169447962156773,
     Sq 7370832384167147 29631055152541616,
     Mul 0 59262110305083232,
     Sq 16872360987182242 100262282596980906,
     Sq 48294403788806924 58975752228862240,
     Sq 16709698413382421 83474928446342441,
     Sq 33476014286555374 127691321189137335,
     Sq 78332934198064471 49078595346450116,
     Mul 0 98157190692900232,
     Sq 46287729033698804 87376042442984708,
     Mul 0 174752084885969416,
     Sq 146712245845813268 138284296584011684,
     Sq 91868656113335250 202614886522056106,
     Mul 1 197078837885726233,
     Sq 186595694671437434 125751510503032403,
     Mul 1 43352085847678827,
     Sq 9029041094215797 89709188498985666]
    1089567798 89709188498985666"
  by (simp only: pow_run_eval)

lemma p208150935158385979_cert1: "2 ^ 1089567798 mod 208150935158385979 = (89709188498985666::nat)"
  by (rule pow_run_mod [OF p208150935158385979_cert1_run1]) simp_all

lemma p208150935158385979_cert2_run1:
  "pow_run 208150935158385979 2 1 2
    [Sq 0 4,
     Mul 0 8,
     Sq 0 64,
     Mul 0 128,
     Sq 0 16384,
     Mul 0 32768,
     Sq 0 1073741824,
     Mul 0 2147483648,
     Sq 22 32365444942896366,
     Sq 5032511747086683 59816635331188299,
     Mul 0 119633270662376598,
     Sq 68758372084598587 158379414554041931,
     Sq 120508893872584093 75086041476576714,
     Sq 27085699232300847 107074449252413583,
     Mul 1 5997963346441187,
     Sq 172834026798282 21393029919880891,
     Mul 0 42786059839761782,
     Sq 8794805150496692 28311445609134056,
     Mul 0 56622891218268112,
     Sq 15403014199653739 144085528803519063,
     Mul 1 80020122448652147,
     Sq 30762388801303977 179850955133971126,
     Mul 1 151550975109556273,
     Sq 110341555944395780 13344231774881909,
     Mul 0 26688463549763818,
     Sq 3421911537918814 35927966604028218,
     Sq 6201359524606308 7005539458099992,
     Mul 0 14011078916199984,
     Sq 943115303549356 207557507756720732,
     Mul 1 206964080355055485,
     Sq 205783992873347239 178729406972623244,
     Mul 1 149307878786860509,
     Sq 107099411544170028 105805812996501669,
     Sq 53782463457741822 123126298713071823,
     Mul 1 38101662267757667,
     Sq 6974442206861162 181180180576835291,
     Sq 157704109322768712 101248243502365633,
     Mul 0 202496487004731266,
     Sq 196995642695796445 164613474751918101,
     Sq 130182437322615463 50710084663652924,
     Sq 12354077028950818 65619818881968954,
     Mul 0 131239637763937908,
     Sq 82746889930154240 135512798356015504,
     Sq 88223089193929481 136987846383227117,
     Sq 90154147241449950 152537493880639,
     Mul 0 305074987761278,
     Sq 447131059424 78469458138777188,
     Mul 0 156938916277554376,
     Sq 118326748922035463 181517577156776099,
     Mul 1 154884219155166219,
     Sq 115248683966045036 180140171733805717,
     Sq 155898802220575333 4266491241428082,
     Mul 0 8532982482856164,
     Sq 349802848578730 207910490203168226,
     Sq 207670322997250257 40752816793040473,
     Mul 0 81505633586080946,
     Sq 31915149942581685 14215442298060301,
     Sq 970828209710978 204675706474633139,
     Mul 1 201200477790880299,
     Sq 194482106133586561 89362346101101182,
     Mul 0 178724692202202364,
     Sq 153458429473143182 185948164918943318,
     Mul 1 163745394679500657,
     Sq 128813037800398364 130118417391293293,
     Sq 81339065479248745 2662311485437494,
     Mul 0 5324622970874988,
     Sq 136206977693356 113110860972144620,
     Sq 61465334566595061 66786827761894681,
     Sq 21429067129114372 54778559723901573,
     Mul 0 109557119447803146,
     Sq 57663744880930165 110093767953340781,
     Mul 1 12036600748295583,
     Sq 696032220386749 178020065538317618]
    68855750962086 178020065538317618"
  by (simp only: pow_run_eval)

lemma p208150935158385979_cert2: "2 ^ 68855750962086 mod 208150935158385979 = (178020065538317618::nat)"
  by (rule pow_run_mod [OF p208150935158385979_cert2_run1]) simp_all

lemma p208150935158385979_pock1: "pock_cert 208150935158385979 2 191039911"
  by (rule pock_certI [where r = 89709188498985665 and u = 133855595432530999 and v = 57689276452991746 and k = 1089567798, OF prime_p191039911 _ _ p208150935158385979_cert1])
    (simp_all only: pow_run_eval)

lemma p208150935158385979_pock2: "pock_cert 208150935158385979 2 3023"
  by (rule pock_certI [where r = 178020065538317617 and u = 70005499209399486 and v = 59871859561029959 and k = 68855750962086, OF prime_p3023 _ _ p208150935158385979_cert2])
    (simp_all only: pow_run_eval)

lemma prime_p208150935158385979: "is_prime 208150935158385979"
proof (rule pocklington [where a = 2 and qs = "[191039911, 3023]"])
  show "1 < (208150935158385979::nat)" by simp
  show "208150935158385978 + 1 = (208150935158385979::nat)" by simp
  show "2 ^ 208150935158385978 mod 208150935158385979 = (1::nat)" by (rule p208150935158385979_fermat)
  show "pock_cert 208150935158385979 2 q" if "q \<in> set [191039911, 3023]" for q
    using that p208150935158385979_pock1 p208150935158385979_pock2 by auto
qed simp_all

lemma p256_q1_fermat_run1:
  "pow_run 2624747550333869278416773953 2 1 2
    [Sq 0 4,
     Sq 0 16,
     Sq 0 256,
     Sq 0 65536,
     Sq 0 4294967296,
     Mul 0 8589934592,
     Sq 0 73786976294838206464,
     Mul 0 147573952589676412928,
     Sq 8297206137089 562553840842023280723090367,
     Mul 0 1125107681684046561446180734,
     Sq 482281541789964087024768534 1156360855712341552567583854,
     Mul 0 2312721711424683105135167708,
     Sq 2037789010914501110639267250 391800136766053720480034014,
     Sq 58484613939489984271875520 1097655313415724867402621636,
     Mul 0 2195310626831449734805243272,
     Sq 1836134201807737262680011038 2386886974026157884710372770,
     Mul 1 2149026397718446491003971587,
     Sq 1759527104807954011683254758 1532192874452755214105580195,
     Sq 894415542639587807146248904 1544602996912205520734240513,
     Sq 908963003991256970663601822 504629828178673770357560803,
     Mul 0 1009259656357347540715121606,
     Sq 388077342455652219148202894 2554105688136388046389599254,
     Sq 2485365065048204454278456553 2139115225837704112384792507,
     Sq 1743334877607046784278789003 1771997470823683860610106190,
     Sq 1196296015670583575672082181 816365388373552722760084607,
     Mul 0 1632730776747105445520169214,
     Sq 1015644262244616198319858613 1221189153346125624652270607,
     Mul 0 2442378306692251249304541214,
     Sq 2272680202041575542972550264 1966442400766517387006120204,
     Mul 1 1308137251199165495595466455,
     Sq 651957201658209045044363847 2162852153715833702145789834,
     Mul 1 1700956757097798125874805715,
     Sq 1102297967341138917573416306 1763437172820992839430383607,
     Mul 1 902126795308116400443993261,
     Sq 310061344646029744587049349 2128351473896165884024607524,
     Sq 1725834545825094132940133422 1192313415788251727603053410,
     Mul 0 2384626831576503455206106820,
     Sq 2166473162400427783917656002 1850694275466108346802796494,
     Sq 1304913800493823908575738618 23709605458961071060075082,
     Sq 214171222275487571987306 2083452237464110069889866106,
     Mul 1 1542156924594350861362958259,
     Sq 906086370009867031245456311 1166916139668503897752043698,
     Mul 0 2333832279337007795504087396,
     Sq 2075160754939095289414553832 2592655008285651790512122920,
     Mul 1 2560562466237434302607471887,
     Sq 2497946952144004910649724481 1203274890084665653188097376,
     Sq 551622749747530698578633042 1728305402173681628607330350,
     Mul 1 831863254013493978797886747,
     Sq 263643059040057581287511359 57141931710698652415409882,
     Sq 1244005488914472177101703 2208237608540983871220911965,
     Sq 1857821844677799160184399524 2005467317729079055731362853,
     Sq 1532299425126762846850923197 1315918373798144824235211868,
     Sq 659736273029110297966513495 1095697212321048785909053689,
     Mul 0 2191394424642097571818107378,
     Sq 1829589106099604230072299352 976189566976395825205656428,
     Sq 363061990686436852110121542 1052138650350922344007923658,
     Sq 421753223246727091284065744 1710370646276426730317334932,
     Mul 1 795993742218984182217895911,
     Sq 241396944087513337348693712 1530561248294820678294036385,
     Mul 1 436374946255772078171298817,
     Sq 72549108082987276738514700 1814312799739004417837990389,
     Mul 1 1003878049144139557259206825,
     Sq 383949739252163299925183513 991144027106784277163143736,
     Sq 374270844578746778590186693 1812168291042128093546430267,
     Mul 1 999589031750386908676086581,
     Sq 380675936727164487531222712 2232836369308607324404649025,
     Sq 1899442958418259244213895971 79344023697962294069007262,
     Sq 2398506513810066981716324 161281082779261295130627872,
     Mul 0 322562165558522590261255744,
     Sq 39640517289584282587696277 1001475724784747231244320555,
     Mul 0 2002951449569494462488641110,
     Sq 1528457282995552920446743742 557788893671993583050679974,
     Mul 0 1115577787343987166101359948,
     Sq 474146094338483500163251567 1034705529332155448146528353,
     Mul 0 2069411058664310896293056706,
     Sq 1631571054967710149157403903 1217178992297676507060631877,
     Mul 0 2434357984595353014121263754,
     Sq 2257778580042620128347159879 1716527799359503468940340829,
     Sq 1122571839565747017319243697 347529418709689394115383000,
     Sq 46014595519226886751984354 2325897660276332974878268638,
     Mul 1 2027047770218796671339763323,
     Sq 1565454423312572811350004542 622695182195109246118707803,
     Mul 0 1245390364390218492237415606,
     Sq 590912889705798005691327285 2588039628201397273586139631,
     Sq 2551845077934768987312039712 1906690705568198621765594625,
     Sq 1385073945963954304046699810 1290507237269815223410841695,
     Sq 634502517864596261156105218 1581650749340293942560686271,
     Mul 1 538553948346718606704598589,
     Sq 110502191055649053296814556 1065183967196921386808731053,
     Mul 0 2130367934393842773617462106,
     Sq 1729106304077202744321634448 1098352615613114892032022292,
     Sq 459616951760072672612375960 172047381241678709613563384,
     Mul 0 344094762483357419227126768,
     Sq 45109559413977721568756537 1638954828946055843522045063,
     Mul 1 653162107558242408627316173,
     Sq 162537817663896339701049710 280422462980008043021162299,
     Mul 0 560844925960016086042324598,
     Sq 119838965440727957457898952 731340669300217194296264348,
     Mul 0 1462681338600434388592528696,
     Sq 815101893520320121114203794 814108871311640139910482734,
     Sq 252509333426754712876687390 2135596861812697435836562086,
     Mul 1 1646446173291525593256350219,
     Sq 1032779324320731354147642154 2360712184607524590629333199,
     Mul 1 2096676818881179902841892445,
     Sq 1674848189599995518734464091 1821305358163719214405456302,
     Sq 1263798953638009828457683244 1846372156827829698007771672,
     Sq 1298825916067780946751097318 2191936621385556770575117530,
     Mul 1 1759125692437244262733461107,
     Sq 1178979365615252829413255887 2523361097978864350856154138,
     Sq 2425890912816803812526418407 2621145591076254045597170173,
     Mul 1 2617543631818638812777566393,
     Sq 2610359485278037861150741981 2438117199201680145218609556,
     Sq 2264757033981006084118353522 2115714437418767544759104670,
     Mul 1 1606681324503665811101435387,
     Sq 983494537667249282356260217 946683600451251800800111968,
     Sq 341446109455115785362862656 1501919527253001784799633856,
     Mul 1 379091504172134291182493759,
     Sq 54752072639218684370023499 2514549226297565979692828534,
     Sq 2408977507444250820158670956 51313752517389799966180088,
     Mul 0 102627505034779599932360176,
     Sq 4012730591299717439920672 459452854175860751314894560,
     Sq 80425610906272918912848039 1679400822097185722215265433,
     Sq 1074536528628038346816972014 606907636202954172879526147,
     Sq 140332306943044760453572709 1353937237062529138353816932,
     Mul 1 83126923791188998290859911,
     Sq 2632666695167379801876760 566443301386658029742895641,
     Mul 0 1132886602773316059485791282,
     Sq 488973522265031535455765718 479969900714217706734460270,
     Sq 87768862023440188157530047 2117983191981839477804007109,
     Mul 1 1611218833629809677191240265,
     Sq 989057454120945237978761975 2581534581238623240590433050,
     Sq 2539033056067875450185750116 2624747550333869278416773952,
     Sq 2624747550333869278416773951 1,
     Sq 0 1,
     Sq 0 1,
     Sq 0 1]
    2624747550333869278416773952 1"
  by (simp only: pow_run_eval)

lemma p256_q1_fermat: "2 ^ 2624747550333869278416773952 mod 2624747550333869278416773953 = (1::nat)"
  by (rule pow_run_mod [OF p256_q1_fermat_run1]) simp_all

lemma p256_q1_cert1_run1:
  "pow_run 2624747550333869278416773953 2 1 2
    [Sq 0 4,
     Sq 0 16,
     Mul 0 32,
     Sq 0 1024,
     Mul 0 2048,
     Sq 0 4194304,
     Mul 0 8388608,
     Sq 0 70368744177664,
     Sq 1 2327012606807651821179722943,
     Mul 1 2029277663281434363942671933,
     Sq 1568900534517748503626959165 2545597497581822252699327244,
     Mul 1 2466447444829775226981880535,
     Sq 2317694514024223059878159389 285028267039813876094291508,
     Mul 0 570056534079627752188583016,
     Sq 123807888497902263574609542 1935862829777395012672796730,
     Mul 1 1246978109220920746928819507,
     Sq 592420556665874982058309022 1930368136082018476989219083,
     Mul 1 1235988721830167675561664213,
     Sq 582024781886948104706645549 173122457038306045338324172,
     Sq 11418768683932192379569231 1191569996521927962518445441,
     Sq 540943092386413747399670082 1822501072414583392322710335,
     Mul 1 1020254594495297506228646717,
     Sq 396578877635816231083540364 264618725399869142455539197,
     Mul 0 529237450799738284911078394,
     Sq 106712083336691757470174459 2220781642780403141136552809,
     Sq 1878988744758744316813847576 2260971868294631060256802553,
     Mul 1 1897196186255392842096831153,
     Sq 1371314116926851724570516713 2016937216576625232461732920,
     Sq 1549876952964260558500177103 626060485508423972994328241,
     Mul 0 1252120971016847945988656482,
     Sq 597317226131232431365555329 916499631098394474893070787,
     Sq 320019947707598901027052287 1304650793812398379002118858,
     Mul 0 2609301587624796758004237716,
     Sq 2593946520424505534176178039 1361340824206899252491078489,
     Mul 1 97934098079929226565383025,
     Sq 3654099063930626777301917 643306656626685568335582724,
     Sq 157669812629242467330219274 1808697909017717213465490054,
     Mul 1 992648267701565148514206155,
     Sq 375407754260245344808765580 1159339253362931350012946285,
     Sq 512074962872963927982562650 410786833748270455584645775,
     Mul 0 821573667496540911169291550,
     Sq 257161223386172331722945674 1696571825508860987544173178,
     Mul 1 768396100683852696671572403,
     Sq 224948325971785802938736551 1644138177077870041285338306,
     Mul 1 663528803821870804153902659,
     Sq 167738216745941937954894166 295065344245047575186812083,
     Sq 33170259503003974455603694 1617264094696110297805016507,
     Sq 996493225285811103097740751 2408864718986512998379022346,
     Sq 2210738032173751233595808104 2323863321893184295033828604,
     Sq 2057470532034023342225242312 868487945714315943693489480,
     Sq 287369088792988448444817159 9274061155462587152010873]
    12609828288 9274061155462587152010873"
  by (simp only: pow_run_eval)

lemma p256_q1_cert1: "2 ^ 12609828288 mod 2624747550333869278416773953 = (9274061155462587152010873::nat)"
  by (rule pow_run_mod [OF p256_q1_cert1_run1]) simp_all

lemma p256_q1_pock1: "pock_cert 2624747550333869278416773953 2 208150935158385979"
  by (rule pock_certI [where r = 9274061155462587152010872 and u = 2035673288804527262494271578 and v = 7192675947259547095846255 and k = 12609828288, OF prime_p208150935158385979 _ _ p256_q1_cert1])
    (simp_all only: pow_run_eval)

lemma prime_p256_q1: "is_prime 2624747550333869278416773953"
proof (rule pocklington [where a = 2 and qs = "[208150935158385979]"])
  show "1 < (2624747550333869278416773953::nat)" by simp
  show "2624747550333869278416773952 + 1 = (2624747550333869278416773953::nat)" by simp
  show "2 ^ 2624747550333869278416773952 mod 2624747550333869278416773953 = (1::nat)" by (rule p256_q1_fermat)
  show "pock_cert 2624747550333869278416773953 2 q" if "q \<in> set [208150935158385979]" for q
    using that p256_q1_pock1 by auto
qed simp_all

lemma p337_fermat_run1:
  "pow_run 337 2 1 2
    [Sq 0 4,
     Sq 0 16,
     Mul 0 32,
     Sq 3 13,
     Sq 0 169,
     Mul 1 1,
     Sq 0 1,
     Sq 0 1,
     Sq 0 1,
     Sq 0 1]
    336 1"
  by (simp only: pow_run_eval)

lemma p337_fermat: "2 ^ 336 mod 337 = (1::nat)"
  by (rule pow_run_mod [OF p337_fermat_run1]) simp_all

lemma p337_cert1_run1:
  "pow_run 337 2 1 2
    [Sq 0 4,
     Mul 0 8,
     Sq 0 64,
     Sq 12 52,
     Sq 8 8,
     Sq 0 64]
    48 64"
  by (simp only: pow_run_eval)

lemma p337_cert1: "2 ^ 48 mod 337 = (64::nat)"
  by (rule pow_run_mod [OF p337_cert1_run1]) simp_all

lemma p337_cert2_run1:
  "pow_run 337 2 1 2
    [Sq 0 4,
     Mul 0 8,
     Sq 0 64,
     Mul 0 128,
     Sq 48 208,
     Sq 128 128,
     Sq 48 208,
     Sq 128 128]
    112 128"
  by (simp only: pow_run_eval)

lemma p337_cert2: "2 ^ 112 mod 337 = (128::nat)"
  by (rule pow_run_mod [OF p337_cert2_run1]) simp_all

lemma p337_pock1: "pock_cert 337 2 7"
  by (rule pock_certI [where r = 63 and u = 107 and v = 20 and k = 48, OF prime_p7 _ _ p337_cert1])
    (simp_all only: pow_run_eval)

lemma p337_pock2: "pock_cert 337 2 3"
  by (rule pock_certI [where r = 127 and u = 69 and v = 26 and k = 112, OF prime_p3 _ _ p337_cert2])
    (simp_all only: pow_run_eval)

lemma prime_p337: "is_prime 337"
proof (rule pocklington [where a = 2 and qs = "[7, 3]"])
  show "1 < (337::nat)" by simp
  show "336 + 1 = (337::nat)" by simp
  show "2 ^ 336 mod 337 = (1::nat)" by (rule p337_fermat)
  show "pock_cert 337 2 q" if "q \<in> set [7, 3]" for q
    using that p337_pock1 p337_pock2 by auto
qed simp_all

lemma p104471_fermat_run1:
  "pow_run 104471 2 1 2
    [Sq 0 4,
     Mul 0 8,
     Sq 0 64,
     Sq 0 4096,
     Sq 160 61856,
     Mul 1 19241,
     Sq 3543 75328,
     Mul 1 46185,
     Sq 20417 69818,
     Sq 46659 40735,
     Sq 15883 27332,
     Sq 7150 70574,
     Sq 47675 34551,
     Sq 11426 85955,
     Sq 70720 72905,
     Mul 1 41339,
     Sq 16357 80774,
     Sq 62452 16184,
     Mul 0 32368,
     Sq 10028 52236,
     Mul 1 1,
     Sq 0 1]
    104470 1"
  by (simp only: pow_run_eval)

lemma p104471_fermat: "2 ^ 104470 mod 104471 = (1::nat)"
  by (rule pow_run_mod [OF p104471_fermat_run1]) simp_all

lemma p104471_cert1_run1:
  "pow_run 104471 2 1 2
    [Sq 0 4,
     Sq 0 16,
     Sq 0 256,
     Mul 0 512,
     Sq 2 53202,
     Mul 1 1933,
     Sq 35 80004,
     Sq 61267 15259,
     Mul 0 30518,
     Sq 8914 93830,
     Mul 1 83189,
     Sq 66242 41739]
    310 41739"
  by (simp only: pow_run_eval)

lemma p104471_cert1: "2 ^ 310 mod 104471 = (41739::nat)"
  by (rule pow_run_mod [OF p104471_cert1_run1]) simp_all

lemma p104471_pock1: "pock_cert 104471 2 337"
  by (rule pock_certI [where r = 41738 and u = 27776 and v = 11097 and k = 310, OF prime_p337 _ _ p104471_cert1])
    (simp_all only: pow_run_eval)

lemma prime_p104471: "is_prime 104471"
proof (rule pocklington [where a = 2 and qs = "[337]"])
  show "1 < (104471::nat)" by simp
  show "104470 + 1 = (104471::nat)" by simp
  show "2 ^ 104470 mod 104471 = (1::nat)" by (rule p104471_fermat)
  show "pock_cert 104471 2 q" if "q \<in> set [337]" for q
    using that p104471_pock1 by auto
qed simp_all

lemma p3969899_fermat_run1:
  "pow_run 3969899 2 1 2
    [Sq 0 4,
     Mul 0 8,
     Sq 0 64,
     Mul 0 128,
     Sq 0 16384,
     Mul 0 32768,
     Sq 270 1869094,
     Sq 880000 1260836,
     Sq 400440 1063336,
     Mul 0 2126672,
     Sq 1139256 2540440,
     Sq 1625692 2348492,
     Sq 1389308 2234172,
     Mul 1 498445,
     Sq 62582 3198807,
     Sq 2577487 3159436,
     Sq 2514430 2695526,
     Mul 1 1421153,
     Sq 508747 1642856,
     Mul 0 3285712,
     Sq 2719440 1210384,
     Sq 369034 1719890,
     Mul 0 3439780,
     Sq 2980450 973850,
     Mul 0 1947700,
     Sq 955574 3022974,
     Sq 2301915 1748091,
     Mul 0 3496182,
     Sq 3078992 1315316,
     Sq 435793 1984949,
     Mul 0 3969898,
     Sq 3969897 1]
    3969898 1"
  by (simp only: pow_run_eval)

lemma p3969899_fermat: "2 ^ 3969898 mod 3969899 = (1::nat)"
  by (rule pow_run_mod [OF p3969899_fermat_run1]) simp_all

lemma p3969899_cert1_run1:
  "pow_run 3969899 2 1 2
    [Sq 0 4,
     Sq 0 16,
     Sq 0 256,
     Mul 0 512,
     Sq 0 262144,
     Mul 0 524288,
     Sq 69240 2100184]
    38 2100184"
  by (simp only: pow_run_eval)

lemma p3969899_cert1: "2 ^ 38 mod 3969899 = (2100184::nat)"
  by (rule pow_run_mod [OF p3969899_cert1_run1]) simp_all

lemma p3969899_pock1: "pock_cert 3969899 2 104471"
  by (rule pock_certI [where r = 2100183 and u = 2243650 and v = 1186951 and k = 38, OF prime_p104471 _ _ p3969899_cert1])
    (simp_all only: pow_run_eval)

lemma prime_p3969899: "is_prime 3969899"
proof (rule pocklington [where a = 2 and qs = "[104471]"])
  show "1 < (3969899::nat)" by simp
  show "3969898 + 1 = (3969899::nat)" by simp
  show "2 ^ 3969898 mod 3969899 = (1::nat)" by (rule p3969899_fermat)
  show "pock_cert 3969899 2 q" if "q \<in> set [104471]" for q
    using that p3969899_pock1 by auto
qed simp_all

lemma p1002328039319_fermat_run1:
  "pow_run 1002328039319 2 1 2
    [Sq 0 4,
     Mul 0 8,
     Sq 0 64,
     Mul 0 128,
     Sq 0 16384,
     Sq 0 268435456,
     Mul 0 536870912,
     Sq 287560 925165140104,
     Sq 853942524690 9500844706,
     Sq 90056395 299040831431,
     Mul 0 598081662862,
     Sq 356870866043 821344086327,
     Sq 673039246315 682982491444,
     Mul 1 363636943569,
     Sq 131924700837 508242247758,
     Sq 257710222874 345330843758,
     Mul 0 690661687516,
     Sq 475905639561 416980351297,
     Mul 0 833960702594,
     Sq 693875084990 746931607026,
     Mul 1 491535174733,
     Sq 241045664215 833850351704,
     Mul 1 665372664089,
     Sq 441692504599 279169871840,
     Mul 0 558339743680,
     Sq 311019204435 759320762635,
     Sq 575228865153 98079192418,
     Mul 0 196158384836,
     Sq 38388741441 986702028217,
     Mul 1 971076017115,
     Sq 940798415313 830217231378,
     Sq 687659752335 421905719019,
     Mul 0 843811438038,
     Sq 710363987669 662450132033,
     Sq 437820913130 92009354619,
     Sq 8446058580 940079328141,
     Sq 881696519034 297370618035,
     Sq 88223895772 285293401957,
     Sq 81203280769 736342873538,
     Sq 540941494342 92268604346,
     Mul 0 184537208692,
     Sq 33974886520 157637270984,
     Mul 0 315274541968,
     Sq 99167171738 172103746602,
     Mul 0 344207493204,
     Sq 118203615712 756204005488,
     Mul 1 510079971657,
     Sq 259577271391 488941502920,
     Mul 0 977883005840,
     Sq 954034144111 514553805191,
     Mul 1 26779571063,
     Sq 715479761 302710227210,
     Sq 91420650787 929120090047,
     Sq 861259096688 9301786737,
     Mul 0 18603573474,
     Sq 345289099 403622345095,
     Sq 162532615141 319127830046,
     Mul 0 638255660092,
     Sq 406424116316 501164019660,
     Mul 1 1,
     Sq 0 1]
    1002328039318 1"
  by (simp only: pow_run_eval)

lemma p1002328039319_fermat: "2 ^ 1002328039318 mod 1002328039319 = (1::nat)"
  by (rule pow_run_mod [OF p1002328039319_fermat_run1]) simp_all

lemma p1002328039319_cert1_run1:
  "pow_run 1002328039319 2 1 2
    [Sq 0 4,
     Mul 0 8,
     Sq 0 64,
     Mul 0 128,
     Sq 0 16384,
     Mul 0 32768,
     Sq 0 1073741824,
     Sq 1150243 693676442459,
     Mul 1 385024845599,
     Sq 147899815143 608054061184,
     Mul 1 213780083049,
     Sq 45595775151 105525974232,
     Sq 11109867030 338026237254,
     Mul 0 676052474508,
     Sq 455985396356 783422520500,
     Sq 612325328186 536333304666,
     Sq 286985300630 110701900586,
     Mul 0 221403801172,
     Sq 48905788574 683535632478,
     Sq 466135778446 884527702210,
     Sq 780572053544 939433587564,
     Sq 880485660206 592413814382,
     Sq 350138990134 483844963178,
     Mul 0 967689926356,
     Sq 934248825571 221842812587]
    252482 221842812587"
  by (simp only: pow_run_eval)

lemma p1002328039319_cert1: "2 ^ 252482 mod 1002328039319 = (221842812587::nat)"
  by (rule pow_run_mod [OF p1002328039319_cert1_run1]) simp_all

lemma p1002328039319_pock1: "pock_cert 1002328039319 2 3969899"
  by (rule pock_certI [where r = 221842812586 and u = 718861591819 and v = 159103877307 and k = 252482, OF prime_p3969899 _ _ p1002328039319_cert1])
    (simp_all only: pow_run_eval)

lemma prime_p1002328039319: "is_prime 1002328039319"
proof (rule pocklington [where a = 2 and qs = "[3969899]"])
  show "1 < (1002328039319::nat)" by simp
  show "1002328039318 + 1 = (1002328039319::nat)" by simp
  show "2 ^ 1002328039318 mod 1002328039319 = (1::nat)" by (rule p1002328039319_fermat)
  show "pock_cert 1002328039319 2 q" if "q \<in> set [3969899]" for q
    using that p1002328039319_pock1 by auto
qed simp_all

lemma p256_n_powR_run1:
  "pow_run 115792089210356248762697446949407573529996955224135760342422259061068512044369 2 1 2
    [Sq 0 4,
     Sq 0 16,
     Sq 0 256,
     Sq 0 65536,
     Sq 0 4294967296,
     Mul 0 8589934592,
     Sq 0 73786976294838206464,
     Sq 0 5444517870735015415413993718908291383296,
     Sq 256 6901746345183625743175765586757895537025229746441043186392222104465152,
     Sq 411376139234520539212323496796132121497748389608361564748867297 20617964579690178497605265460590834871275935226087363761637319828861425282511,
     Mul 0 41235929159380356995210530921181669742551870452174727523274639657722850565022,
     Sq 14684957022827032017162102880612303942013339025765150705249290311461146615726 7164136552954279777328226988567749622360626919916847757932994818390744713590,
     Mul 0 14328273105908559554656453977135499244721253839833695515865989636781489427180,
     Sq 1773000311139915831226493085338099837642830811632794751949829955095868845751 105464559481415228575523586761967605894944598132894331400134593934427193626281,
     Mul 1 95137029752474208388349726574527638259892241041652902457846928807785875208193,
     Sq 78166431678077466843527790846190654952482857052253051508192322026443013686230 58548563311517266254060650304740730560372540219172061592719899403327089986379,
     Sq 29604218122494649897625170414547142959469175344148443920708619729502545832067 2872943630556106881003106241159963864998168436151531785526015231384078550918,
     Sq 71281252118687033448962605603847460209198406854128855544732714320264987889 34652925177768467956686519487025672016679335216464789291129088636182302995683,
     Mul 0 69305850355536935913373038974051344033358670432929578582258177272364605991366,
     Sq 41482116146795286530946209002888775255257133002466867626920991019654665473744 39520257924932246506938014150057177658892977351099267312103809664982333998420,
     Sq 13488406652856909847286324362212407966147229801895615873979599187772418740719 40674836496333085274412331489207171029823910689439718462185826314237327535089,
     Sq 14288042778102490708198678787331583219771396141583271596195624736226037947508 34427522266426375523228686312829623872554219359626535671825819342674737255469,
     Mul 0 68855044532852751046457372625659247745108438719253071343651638685349474510938,
     Sq 40944223305343962648151397077538332484265481834627155477751363883653210079943 2252249247997059934283270489710822935185287015097552841866310526021428648877]
    271250 2252249247997059934283270489710822935185287015097552841866310526021428648877"
  by (simp only: pow_run_eval)

lemma p256_n_powR_run2:
  "pow_run 115792089210356248762697446949407573529996955224135760342422259061068512044369 2 271250 2252249247997059934283270489710822935185287015097552841866310526021428648877
    [Mul 0 4504498495994119868566540979421645870370574030195105683732621052042857297754,
     Sq 175232235973841806307219054408677265166819904969519224844252496069626262903 110181566056008553188873003008374380225358132337752409752941035666517018701309,
     Sq 104842891956981782590709882667075668784639658611639243570864664528292610037886 58276415290983852948745161783864427318191845160103506139247571314784555349547,
     Mul 1 760741371611457134792876618321281106386735096071251936072883568500598654725,
     Sq 4997987672801405122083095663475245289428924045653063785586277230734200218 101411788360933633078218376261882884218001207163398519226366859438698419353183,
     Sq 88817387169511225417020591604324590578324672529505254489941108992564877193958 43751880143521059065353748734538265623457196163617737365177664347073377508987,
     Mul 0 87503760287042118130707497469076531246914392327235474730355328694146755017974,
     Sq 66126348670175893116177780294081282300355547853904357990005280874247908791905 70814344775771422061324513795235383819874144758471626816603389351088515031731,
     Mul 1 25836600341186595359951580641063194109751334292807493290784519641108518019093,
     Sq 5764900881765077852471201993641958663692167656615788903271243658978286785996 62524303944443587045356526713052829536618576906286024632409972448104352686125,
     Mul 1 9256518678530925328015606476698085543240198588436288922397685835140193327881,
     Sq 739974022666900400467159184157551918948394215363614466194862488900943724611 84083602600037014181120314031059868846326903909209829333704023674828622684702,
     Sq 61058162733008342759355568912452721420802635072948714419748584997545456720443 40072747911239364342195120574871867629391469159481101632704052950390059493337,
     Mul 0 80145495822478728684390241149743735258782938318962203265408105900780118986674,
     Sq 55472705816387206270902390496114146425510997382330432407435257980553547836403 105192358618505216773174429937308427911861329314092324453188780438262300217569,
     Mul 1 94592628026654184783651412925209282293725703404048888563955301815456088390769,
     Sq 77274409141489864131556856358434827556436013282745509883761935604210273609023 21803043429674401316590735682916513554526653722395798792018315554242509669874,
     Mul 0 43606086859348802633181471365833027109053307444791597584036631108485019339748,
     Sq 16421595155181000026486078413353141431968252246934127407852561194492238314829 21512960423911855940328785170499262263930821127311927838783336076899614055603,
     Mul 0 43025920847823711880657570340998524527861642254623855677566672153799228111206,
     Sq 15987533150387446773507273009595592418220580288393741430258669613543344687283 84346600951471875736779769757386496444182307629892638645768530995116976715009,
     Sq 61440717933177605834784039402739467534364746049886289178194258727972338421094 8148461325946038320162492508595035713497297252535221893798575719621272350395,
     Sq 573419327980307274286715310567615458727275298943205652049046407795440917982 22368150319347848855423348610805950161333000363143309471914800824626782712667,
     Mul 0 44736300638695697710846697221611900322666000726286618943829601649253565425334]
    4444182393 44736300638695697710846697221611900322666000726286618943829601649253565425334"
  by (simp only: pow_run_eval)

lemma p256_n_powR_run3:
  "pow_run 115792089210356248762697446949407573529996955224135760342422259061068512044369 2 4444182393 44736300638695697710846697221611900322666000726286618943829601649253565425334
    [Sq 17283880172504642297140488406062911546601162638777942733545995845124422619277 103085620536196361869779198411648123642867965028422946800720362742399310310343,
     Sq 91773498809815411070327832671972887459285397712511949098609036108735052543814 114016010989201205549978852031504755540095224229924961704017577956891888294283,
     Mul 1 112239932768046162337260257113601937550193493235714163065612896852715264544197,
     Sq 108796745906272122879251693571812409398449370903831936204257569583444831038866 92153436859023405951301060117098667447322049251880641140426927048846410929255,
     Mul 1 68514784507690563139904673284789761364647143279625521938431595036624309814141,
     Sq 40540556165346628168974530172038656635051082672252953978093195939693606770132 81153664248281367469858807097754185537878442007428758483958950831847595581173,
     Mul 1 46515239286206486177020167246100797545759928790721756625495642602626679117977,
     Sq 18685797109354967355308402129239804485445509657463160830015324950837212347880 110805810150363422257933101372669810555565159582463802133971252462201461484809,
     Mul 1 105819531090370595753168755795932047581133363940791843925520245863334410925249,
     Sq 96705856475594182640222147743835788866075448374124630194355752754926798987168 32004949816354313991629090129739092370772854910513112938170091895893988055009,
     Sq 8846172650762957926917212996148647890878919876042941921701745989655877860885 41547585379474248046154250606785880220730181628455616884844698577176880383516,
     Mul 0 83095170758948496092308501213571760441460363256911233769689397154353760767032,
     Sq 59631080590618230934271277697744786373216834941564742701633519452127125356668 44630762204272953275974693447179173448327491177924975644904381534606012086532,
     Mul 0 89261524408545906551949386894358346896654982355849951289808763069212024173064,
     Sq 68809707071291241619365297395616655935892387410225087644692092630950956193008 76512105087680795244987795359879237798460244708852416332947097949133599576144,
     Sq 50557013565178236917448075046156134529554794978055848148990292946983501898756 49534458266249003290176709482431191064132439335427035993885229143289636003772,
     Sq 21190243413548434194707949993547067440564847523756396323685921266809305517418 54635980432490719987459835267688302893541137350057668822630018303595479908742,
     Mul 0 109271960864981439974919670535376605787082274700115337645260036607190959817484,
     Sq 103118973953275122538701911922569252461788757218751644577694089512263717321891 98599169421159971552519347793375648168724526763487069613825150332252545108477,
     Sq 83959070752072643120307712858821699690442405157092728321278955351295923105233 35614664585999956719041987094184406810484364562354033991477128896124145176552,
     Mul 0 71229329171999913438083974188368813620968729124708067982954257792248290353104,
     Sq 43816614493206174178423251163105657152095962626591070288319426563212821905568 64245037333064104613572999042093433695986399033169824168646482948539058288224,
     Sq 35645136468939802659859032571298013942302667467651041428364381890039217371316 104508042055754215048893606122516021807814572329320684575944812837351717154572,
     Sq 94323635827018592754568389812375293772148978093744959860432361020512436715963 103464984045967527683239723653738832826486442081721616577948364204862433940837]
    291253937339176 103464984045967527683239723653738832826486442081721616577948364204862433940837"
  by (simp only: pow_run_eval)

lemma p256_n_powR_run4:
  "pow_run 115792089210356248762697446949407573529996955224135760342422259061068512044369 2 291253937339176 103464984045967527683239723653738832826486442081721616577948364204862433940837
    [Mul 1 91137878881578806603782000358070092122975928939307472813474469348656355837305,
     Sq 71732991637657087187017231134450649908311339128791125609387792242140794231892 33566747481780328695548868775470459597003519860093720487561580072063650846877,
     Sq 9730600287025769638934270802193466220398128738534668515646079879859575708383 38794432372670545645502454376654755985723975787447823650071851810908599407802,
     Mul 0 77588864745341091291004908753309511971447951574895647300143703621817198815604,
     Sq 51990010487973924606616076992260899071231825190616454763368247185952627907864 52393918237923142857357738749547262483844750561244510391433115932854381867000,
     Mul 0 104787836475846285714715477499094524967689501122489020782866231865708763734000,
     Sq 94829368294242891989641643486627380115400424164350726007740478188671217652529 109359754746965524818341207966787921772075856558384376095674818401299882940799,
     Mul 1 102927420283574800873984968984168270014154757892632991848927377741531253837229,
     Sq 91492034719105241526329573536587115102004804806656701212167875709048544071038 48647061597153723162038342940082547052939838928000685495819717460729482513419,
     Sq 20437808991752862479581774876349332193778942070117833895652210740399996390365 46382983603279654263020677008853491271164400072631497902484688094974790964876,
     Sq 18579690396929925711340954441237805099282397860830446124039799694726548144837 17068182037338765430469723563067549576575657099657007011414658013595883422523,
     Mul 0 34136364074677530860939447126135099153151314199314014022829316027191766845046,
     Sq 10063652536072499403805043942030226006914579299791131231028412124037801095522 80337672256079012849806638828255156294656926129246866582934842411296503526498,
     Mul 1 44883255301801776936915830707102739059316897034357972823447425761524495008627,
     Sq 17397618613021305191846844089985113879735602583311909487629854618307389933838 106660703884333956258498190754992208642398483754202574390587629422943773966907,
     Sq 98249421274662321725691929234399851344972763755248784567384463073850308671276 36139969682571725955243100450597889703618131444197074813088472932568383301805,
     Sq 11279677373161934050868550015784918505355580640814264745026016824046727769609 86841828816166930231085253282008563566990653877812102569967506061037498476304,
     Sq 65129693086684040169442193509445087151062086227226400939899577951285264906315 83546363311840424219817045799978974414906115429898527948520832760749741210181,
     Mul 1 51300637413324599676936644650550375299815275635661295554619406460430970375993,
     Sq 22728283226951396246018854302896336225352210747229908028993547020886179746143 87603027043521522870652992599959004787706642166594000047918426353889418117282,
     Mul 1 59413964876686796978608538250510436045416329109052239753414593646710324190195,
     Sq 30485841014192992082410977558654043279113116635467402981165499755283855335960 542696147933458657192644468389043432573974004830120376070184589513612928785,
     Sq 2543516668455388330667045226490376851271126099000665490003640282763985095 78247044455653997163449572005226456305525758893351738357664291697321586896170,
     Mul 1 40701999700951745564201697061045339081054562562567716372906324333574661747971]
    9543809018730166669 40701999700951745564201697061045339081054562562567716372906324333574661747971"
  by (simp only: pow_run_eval)

lemma p256_n_powR_run5:
  "pow_run 115792089210356248762697446949407573529996955224135760342422259061068512044369 2 9543809018730166669 40701999700951745564201697061045339081054562562567716372906324333574661747971
    [Sq 14307132645708475226114728237094602363107090567479832174099153433406300214421 78557302928283702565214028449310850705039110926010117972716235491539356971492,
     Mul 1 41322516646211156367730609949214127880081266627884475603010211922010201898615,
     Sq 14746692918497559106705271290356910934893217766756191212372638072355192377556 26957660608496283519415495129526070149805704149765068327989047380703467136061,
     Sq 6276037252965257077269102096275124853430723231715707548999472662910148427217 104577229194060724989679157329449243363373688141099392963157218934998815404648,
     Sq 94448566741370911714313338300866523739223998226284562442040585515584311417470 112454675578578403173104085428504207705095262474279361453794342562130058277474,
     Sq 109213454439962520462407980353719235479385607908478005131643895967592319709499 8086848183263217319767687875229623862715248495032587694377537835675297059545,
     Mul 0 16173696366526434639535375750459247725430496990065175388755075671350594119090,
     Sq 2259121982688903455341163559050084436066949498951094797896242335132253114111 79082634789756099060738744223760247866368605667708994940193752512581850437141,
     Sq 54011143316780131557939875596928640996749069085962758168136013354959178139893 70514753991207163061025392946374756948501930177022757936599048208048687341364,
     Mul 1 25237418772058077359353338943341940367006905129909755530775837355028862638359,
     Sq 5500611575624492069689742370603362571875050081998794497873708352923521530338 105223218741164944166012711110727260530169626743932556902500142214798582646159,
     Sq 95619017134555606664982380884519560080998694109608870035232440178337261788227 62988456578180377974118644843155064308691109189236728529321327670334091609518,
     Mul 1 10184823946004507185539842736902555087385263154337696716220396279599671174667,
     Sq 895835281308918016091848261380612972243588077282776057581675386133215494612 43069749064902909445767690888932228267732880459018103678309499269003998121061,
     Sq 16020121039044148137897234476645513218806515954021959441250904913077246763423 75533546303586667464288273264268670262553928896311061087088449407020189450634,
     Mul 1 35275003396817086165879099579129766995110902568486361831754639752971866856899,
     Sq 10746207907043848078596331009932013570802820716605326174179934493365810668075 65445509973904011509762524531718069590827574726264358762962751420933412076526,
     Sq 36989701152756253252659829667794808096441310601523902380959717558625501184800 19539602123162541711385215688903347699693884195222554010074269816699611837476,
     Sq 3297255052008776730095304707549325539010583792381716221106504763059042920136 47400942052644663548982255636269912920979217399601232762449238961512082536392,
     Mul 0 94801884105289327097964511272539825841958434799202465524898477923024165072784,
     Sq 77616677367186596544246528229641331222994481549061029068595696219528390907528 65960839164789590672172047925088998315641588517811949496322452686921505400824,
     Mul 1 16129589119222932581646648900770423101286221811488138650222646312774498757279,
     Sq 2246817091989097829651447925674098709099204773324607003431331364998635810034 88762031128813641561387236975971807133324793197366790435894246807193692085295,
     Sq 68041765407647765791997963136374141639403351115182911960262459239546215825350 55200471602577809281748298284237765655866767379922810799492095633496400282875]
    1250926135703000405710156 55200471602577809281748298284237765655866767379922810799492095633496400282875"
  by (simp only: pow_run_eval)

lemma p256_n_powR_run6:
  "pow_run 115792089210356248762697446949407573529996955224135760342422259061068512044369 2 1250926135703000405710156 55200471602577809281748298284237765655866767379922810799492095633496400282875
    [Mul 0 110400943205155618563496596568475531311733534759845621598984191266992800565750,
     Sq 105260802734509167888178033622459806931099376730859921361315042508922247928966 61671847623831172144271693187030315326495868882456713942890452946983120770046,
     Mul 1 7551606037306095525845939424653057122994782540777667543358646832897729495723,
     Sq 492492657586296443946378038887752417215662551866216337987829138951963232459 95461913287718560094631604331920382300335633053912031479411214422184206319358,
     Mul 1 75131737365080871426565761714433191070674310883688302616400169783299900594347,
     Sq 48749253925635446295560613971973496002485152403797273546924533312807569784870 111568303064711511603600874620260624516755996605994277703891415761606623459379,
     Mul 1 107344516919066774444504302291113675503515037987852795065360572462144734874389,
     Sq 99513234376958017466605220860662463327801880766136764292999669292217305961936 69930810033467358001729555365768990423549077586411620382837140750592150984937,
     Mul 1 24069530856578467240761663782130407317101199948687480423252022440115789925505,
     Sq 5003297890266993864311815328513137462547914619834384315797973448007218412807 4013455581777907327866905871652516193362728238964363631835314490946507671242,
     Sq 139109897893297393469304212961618827576558934627135431507132133966350948247 37607927620441951367415175626557231244908674793418870889588460693630267051421,
     Sq 12214618714884565572912824360450402807161575537093866560377543823215963277614 45266371034034622131362146831085162559746522581869050032589216813956425663675,
     Sq 17695892358142421376274944982246642845436701475676496078977685856255958977305 98897990658037323623766517505968851132669518557828114692655157407400190460080,
     Mul 1 82003892105718398484835588062530128735342081891520469042888055753731868875791,
     Sq 58075110021288604475768746804882442055187970554577547504688145507462199758119 51213231528445921025332349876313005261832115208086125083977685919992189893770,
     Mul 0 102426463056891842050664699752626010523664230416172250167955371839984379787540,
     Sq 90603601730389331938307482398015078855352438988655814580207169281595072296461 68818090885602970633522770110438372324667252255877165296770806849396785573491,
     Mul 1 21844092560849692504348093271469171119337549287618570251119354637725059102613,
     Sq 4120872013459552479817704626008633697350102043264415021900090144235105255984 107729531880706436395883153426514914311280321521091855440647823354607952673673,
     Mul 1 99666974551056624029068859903622255092563687818047950538873387648147393302977,
     Sq 85787430591351077988950326182288031356250524071736046911657164627464877677945 92714751508880326626745583654861812960307881049288985477264476848944184320824,
     Sq 74236722093659338185814394486880161914731745503510077333936292763192312688144 97813358610217933871136443784839941394045310920619614619311987440034771777840,
     Mul 1 79834628010079618979575440620272309258093666617103468896201715819001031511311,
     Sq 55043206085772465088342208138770752725286651683193225324491481331392535137643 11932653688194052235955617110503969758241789992331015734273828304995982856454]
    20495173807357958647155227770 11932653688194052235955617110503969758241789992331015734273828304995982856454"
  by (simp only: pow_run_eval)

lemma p256_n_powR_run7:
  "pow_run 115792089210356248762697446949407573529996955224135760342422259061068512044369 2 20495173807357958647155227770 11932653688194052235955617110503969758241789992331015734273828304995982856454
    [Sq 1229688703376777448189178699126293871272592554194903541759308805300698004933 9721881181937234781325508620209210255637235271632565774614646368629692581839,
     Sq 816247244179199640995739084365951486665858834965345675379570562519155536398 38336785116791526574015614488098143346515583907564949212431494326953942179059,
     Mul 0 76673570233583053148031228976196286693031167815129898424862988653907884358118,
     Sq 50770621831378097440503205830859674738345489710237919316436251171212656748556 72757382361412175200837515385241921319735740574401993157579457215896923820760,
     Sq 45716738718375914689934975315364356786740615520110423977144123712690776671651 51547281442546750553482457282871988152966428223541011848417827630493150494381,
     Sq 22947355404305772623274662389325618629212122666792167381401396004189989434797 34724840382079798088032057168822847717842715816786143671374692488771416065068,
     Sq 10413617612256311574964453949043359680663890152943296474406756630160454172835 110220455096136315815868650411738424569742678517421172134303595999534095328509,
     Sq 104916914483937442299204650400584254928970351638398756504737044479880735962343 6339574516752190507125268354288848436074416726210036499701840913719098966514,
     Mul 0 12679149033504381014250536708577696872148833452420072999403681827438197933028,
     Sq 1388357540744993338663492187093318133567320681395791268356389011668170550285 74510560184882921593181732852428806242025843974953988227519650990826507653619,
     Mul 1 33229031159409594423666018755450038954054732725772216112617042920584503262869,
     Sq 9535785383292477716493245669838258334936641874211096788231209104037343546129 68457804621321786142370099840326427127890040418604085130909796330221467913560,
     Mul 1 21123520032287323522042752731245280725783125613072409919397333599374423782751,
     Sq 3853485169818804844132161643875435825404662702659362970115604063233309397663 20092524540355278530006860272649196598717631058121496216359921293175924218354,
     Sq 3486503656319485403918451452355244950429860969965220399279421649325955358635 70251059700208900789312063057499387735169497156202012736508999838351443193001,
     Mul 1 24710030190061552815926679165591201940342039088268265130595740615634374341633,
     Sq 5273120090997923168672795723976700439293893510730344107458536898255234054859 69518636046745541053223523751590812186905500808456404912687792260322609067718,
     Sq 41737227394007736746421331045348901860966922246170768966709052049947472760040 99748404196779410762747903602481611258476716464477162683088755638597739512764,
     Mul 1 83704719183202572762798360255555648986956477704818565023755252216126966981159,
     Sq 60509142388909872514333491774375701053233809826524083335781693902290545502268 4264559861092485050521668101019933092775016036783760535284956464031254854389,
     Mul 0 8529119722184970101043336202039866185550032073567521070569912928062509708778,
     Sq 628245709456102919217279063389094568387763562430588363834406544187727348639 78346476747165714588328368154337871143663937286194662617604724505280470489493,
     Mul 1 40900864283975180413959289359268168757330919348253564892787189949492428934617,
     Sq 14447279694013301602645745143849744395367685053853876497551924993943848677918 32989099829309676460325587096968811551610994591082587338860252799893654392947]
    1343171710639011177899965007152046 32989099829309676460325587096968811551610994591082587338860252799893654392947"
  by (simp only: pow_run_eval)

lemma p256_n_powR_run8:
  "pow_run 115792089210356248762697446949407573529996955224135760342422259061068512044369 2 1343171710639011177899965007152046 32989099829309676460325587096968811551610994591082587338860252799893654392947
    [Sq 9398575627831626837535206460363953298156850326011924636821626388892356248671 83992736888670189178391799435601557765638306072942534295390073334569134061210,
     Mul 1 52193384566984129594086151921795542001279656921749308248357887608069756078051,
     Sq 23526213328858857824398402799547390476648281139468586732060431465055762230216 61254902392821252308364606511202425759942144428627103969675252289384219504897,
     Sq 32404312701687324407632514256313298844137714909618270254816446713017238345874 312935334480582111765036208499042956318868673295591050806838680928150897103,
     Mul 0 625870668961164223530072416998085912637737346591182101613677361856301794206,
     Sq 3382908944274070215431570966451897813202585232236244214332294348869204686 26318871282233830985553253130007680994829407292585052830392648729989800457302,
     Sq 5982127020028240955131041736676562853784288156411220789703689749490829670222 1922027390972392449576747607463045141602400860218443283195484524377023039286,
     Sq 31903641404526449272803885245603106578987250305444447775259041257290189019 39361557125516354031692379834649843804457804215683596869097073746674574805785,
     Mul 0 78723114251032708063384759669299687608915608431367193738194147493349149611570,
     Sq 53521175407092235499925014305917091472143041667774366183606294451276267897045 27459676317675739415891100068145782975440311097066020924199489695404513875295,
     Mul 0 54919352635351478831782200136291565950880622194132041848398979390809027750590,
     Sq 26047852789034308052026500024198704213569875126898193155255916191167540463942 56348657123020080917492895101854766151330115685184124354797284784518096705502,
     Sq 27421313331685699996293323324177819244700379957572448724531801031345042580718 115032004150636991951690035236736114994167155507708143852980656551680237195062,
     Sq 114276908458515713976189855740703617025352633274479501677750477602147020220381 90465046585993017938398326860236140461885505736110908156221442628934207099255,
     Mul 1 65138003961629787114099206771064707393774056248086055970020626196799902154141,
     Sq 36642913942050323662464591910073609669605023427455356148593970935706312909272 102240105366392883583803194548161118547598697648226991825732141485971387958513,
     Mul 1 88688121522429518404908942146914663565200440072318223309042023910874263872657,
     Sq 67928499717178792524258707872788233384080735970421778660101656246170586580102 81367076383415095052217836258286163597947417124481704586818758432510915694011,
     Sq 57176627214636793421656347075283182131342884820629094815791731177608711782366 50612751011189567939365635630741935212518066393926998061158948610349317471067,
     Sq 22122846063058692396256555239523685395297826250081176464060520752258782833926 26649198024650542454064578967991774566203468860281192417141739358770711655795,
     Sq 6133232073107124634821279532598607354160274027620904710775216075017542089410 33422750357966337878331101054518575604830426967606952675588495505287672049735]
    44013050614219118277426053354358264624 33422750357966337878331101054518575604830426967606952675588495505287672049735"
  by (simp only: pow_run_eval)

lemma p256_n_powR: "2 ^ 44013050614219118277426053354358264624 mod 115792089210356248762697446949407573529996955224135760342422259061068512044369 = (33422750357966337878331101054518575604830426967606952675588495505287672049735::nat)"
  by (rule pow_run_mod [OF pow_run_append [OF pow_run_append [OF pow_run_append [OF pow_run_append [OF pow_run_append [OF pow_run_append [OF pow_run_append [OF p256_n_powR_run1 p256_n_powR_run2] p256_n_powR_run3] p256_n_powR_run4] p256_n_powR_run5] p256_n_powR_run6] p256_n_powR_run7] p256_n_powR_run8]]) simp_all

lemma p256_n_pow_q2_run1:
  "pow_run 115792089210356248762697446949407573529996955224135760342422259061068512044369 33422750357966337878331101054518575604830426967606952675588495505287672049735 1 33422750357966337878331101054518575604830426967606952675588495505287672049735
    [Sq 9647293257327541145412746373482627247917163041477195337168930789662159635489 53540746728061818433716857153219159746820848485463310437811587252753078558784,
     Mul 15454242375921007193356512847836441944464593461580194986888166548655271393123 37035620311950116277667538011923920264146530186124627640726508282493551647853,
     Sq 11845689815641180413621573820090488928249018917440552827642742353529823007483 41813198708018245152194226535172783588688427226649445975658995074019404496382,
     Mul 12069150074210279462907438277189754980394709537733474106717681498219630465535 80281498833201009469615710942603213594327981191715000204390219951767286236355,
     Sq 55661134528772406753464608180703077539423851693080701685203989410396733854645 65216905521074603489504593725335587445068722095696872715357837622698286942020,
     Sq 36731738711597303793275163414873109422891440549097554599361468204416704018999 18993984675275567715937783527794828559077226180126372574358118822242734713769,
     Mul 5482509318503559623632447216235439816684356630087163901552019061322950057176 113320603706065381225091044342962043721432584718115322592843955275553558459271,
     Sq 110901869997165502911521316261662854658604879034918667418197921240829258545274 34495879916192963459270699406641821805228248128730133178806253359298682589335,
     Sq 10276744631756558131237230988738782635945237612571084175598899922512968120976 52795501216392319484472865980767204892013874188112044684474644283669984158081,
     Sq 24072153527054468899894661072380759546481214877270126631827383359478891659577 12808271405672603585107845008472667384821222439266219822802794628622929830648,
     Mul 3697037169190195287584955742688932259551409052342711937320064482180798181623 1109626624287013226332661263346275657090133947917679943218271141397086847393,
     Sq 10633466014157291771084068353126525659202370456161987525313950237084109424 65200375004022023811434206687695607806547710501837896568106679760469731862993,
     Sq 36713120297382886454479152448278284609255421142015122185544346412792505680907 37143009513163684427092496344910963299961496229711642384238679742889582755366,
     Mul 10721125622379805743511265803234605418521378719385254844583080829356626344250 81165521487532656715248587165737306093716564148314685177212441773636022099760,
     Sq 56893712888927821224521694431191968960338399575618652212446384659811262934376 77633806941174722443637686080532816990541550276769009192574062081225744728856,
     Sq 52050256811849138884787383847054343926955382259617663252894425946839692161241 83550499523672598848998283459769892864685494511091415299321821896024064966807,
     Mul 24116392638792973208988952844519597286494117054666430148517023824667218616954 93473979268688937069204272270340806867761658813993518990595239684599164514119,
     Sq 75457527883880967791436462950676047351585104137973424670865914984670558609031 8870717394357335205563917503419659646444900275254977798984865610510554249722,
     Mul 2560483837795352928793975143716224169499678272790680775626568847359156173741 62425832550924683240218070358778414626688741936160916045396587023699129209241,
     Sq 33655015608160803708700730671537505011913979791292257597554616885617186395167 73408737768508258090121030375490785724096369909696158981852579858321288631458,
     Mul 21189028829707198656752533432657739488042832067132534231037044871775317206908 105207563901152508700231613889195039243723102666852766571866351421345812262578,
     Sq 95590567347886912300646825137177329705379493429274355656653037900717012890901 27585614946436812455349484543798319998004970812889890491622659569761350819615,
     Mul 7962436191567407733004226270557357647737994742591696909099020324361965818812 86547625270057647405174017319075902475230782703914420055083316309560134682397,
     Sq 64689146650411971062210509569706937804932252388665012614555114393805152340403 42666296481226078373285819640709368106716337821160498953389210300493534324902]
    59742 42666296481226078373285819640709368106716337821160498953389210300493534324902"
  by (simp only: pow_run_eval)

lemma p256_n_pow_q2_run2:
  "pow_run 115792089210356248762697446949407573529996955224135760342422259061068512044369 33422750357966337878331101054518575604830426967606952675588495505287672049735 59742 42666296481226078373285819640709368106716337821160498953389210300493534324902
    [Mul 12315392059300157694970591458098800677288188621336856644418989173220873502489 80491674712395337332255210036286950151570776471045472533361452000674993066529,
     Sq 55952956218243968580527997199065639934169224069420409943966500151254329362001 51789956269839919790079925593337863429034158184867168998042690548471045485472,
     Sq 23163927594045343663011429097891776001463508993095057987329092970369411424013 111434054166818488803072714153075816392801801635995237286457937100158035029987,
     Mul 32164827486855345354727159777075787377545148615229108797287989643786482049645 114243609001661098880713375785815035868377827432313846754688591248592179704440,
     Sq 112715836519832890445722653579385210365813266107990762526320028872978472916632 97344000851974551167610183355911867993680471434227399738076480392489333668392,
     Mul 28097811012034317875627628796922498440823741817312448317779472942313402356909 63229413660696040325329084934935108893245863060896201993004491241774839780699,
     Sq 34527045665550046617136094709100427529143961453210064578500572136300139917808 17035498275852399974394799467133379878942987571019984305085840833904703705449,
     Sq 2506286944865093263563189946720163908290836279676670919706284105219863225346 75569761521128669511318659560198944523383059827411239616370298786134354914927,
     Mul 21812796462660553486146753953967190950058527531023985927496495226594739598489 101140111805416333848006106443098709392895248920285394123911511631342024535904,
     Sq 88342150882421622038806345359472066409931553427254542813526580995958501749136 13557401040065428593535149469148032446791769644080512003720979192776845682032,
     Sq 1587354751214974401600576992687318969293302777152333002897741280884596849724 91298198167979026234050659056455972149794865917433852133867029878794934244868,
     Sq 71985582482901329520388808864809679394431466330417345529274065346697671125933 13530380106396196140424409382705641547990659306394811208531245149965501816147,
     Sq 1581033618721410568792424191777767670005139070655589425724759139968401488155 76627379589179873603914667968824878131041863551692006193074672319674401976414,
     Sq 50709468520230313144326386638476472689522200056318101569917544843276397386619 19056544690579701550024344092546653313248086178787168684158800081592837400985,
     Sq 3136240981750778543715583075177699208316069815681068951060362964717370159932 27835292657813028957343883631882908113180659342485575521684153782391868947317,
     Sq 6691333774438908737298243431871502071013978146524314157923867375961627013427 39241254042962374655804349825850863143647952049094841836255871626994138755926,
     Mul 11326772377591455000874044706165741045037768639638213976167449588659876471728 4386881921694088107797064824361975312773379799900437029481781889147387879978,
     Sq 166200757980323227388842584899611097263668214701431202578798540562790201772 112058474917594003105219557145379190217861438990514153214739839422167606858616,
     Mul 32345063105832650802519353150586028478081328332909080076013033468907654723320 3180985860854545613832512960202839557222871347674815776998757929876806281680,
     Sq 87386548735416873298501425898601439977914633246476441856574212929113763990 48616085484476383585889110474896882465798708717088877843470427993176029150090,
     Mul 14032765965361632987853347226644591849085686008487062427499921217589186114775 750348944708858509164936654615042701579701815491212149001695139436733274175,
     Sq 4862366182916593669436250106545125624420037371129772575724604663225428574 9285194800170203321070371671457680654812977401968346016047729542504793530819,
     Mul 2680120463733889067067032417966416880132148391605120232276882652664899662268 8936123990923743930228319750969344578417030090244760853441397570431292114073,
     Sq 689635298280988836216444016440610242836394492255956255425267226293219492713 113105539678874026621799815532056630347729049939357284270612553099948916466232]
    3915343902 113105539678874026621799815532056630347729049939357284270612553099948916466232"
  by (simp only: pow_run_eval)

lemma p256_n_pow_q2_run3:
  "pow_run 115792089210356248762697446949407573529996955224135760342422259061068512044369 33422750357966337878331101054518575604830426967606952675588495505287672049735 3915343902 113105539678874026621799815532056630347729049939357284270612553099948916466232
    [Mul 32647292596323231572856624759605903913860461558910849393308741108528135093090 70799118269508914905034122272003138375785137849865359069504586520644326738310,
     Sq 43288925710924992327798208480403209147847013798499082573667838345430704935017 43347359704090086939597875611507460721319445366159586415931664141371255886827,
     Mul 12511977216636967067173498906348159285697228848232533016949699271685191436214 31367210186168954688497333330609737784949600453165746873478351077555873961879,
     Sq 8497142434971308110911992998664524570581832073338196059950444509252493120779 35044123665737096242914329474947070759103414363082913058869680627377821367190,
     Sq 10605997455218525135499131085441822629849183001009192691109776834324616233854 84992679392893673704876093221269006673179687804788929722858921108617880627974,
     Sq 62385570548433739178285736387786159156791372488060312300529498473603731246298 78421150218835362418916533963743064612524110562574560329094404161224348348714,
     Mul 22635834143964035463519115163029388195744372929832709781352389830231787961941 10487513334892974969538285763760011197101015116890249244948195430517055930561,
     Sq 949874354108474227721814980715854361799672254275645290318009399615101707746 59793518997053958614412648027607862958413295311317569089510621558760030792447,
     Sq 30876590434049159425667694174812536844979443268470937340710406293347181237510 19947604606250231907861762605613791734261531031824970160560861744245345166619,
     Mul 5757766472137304237704679601077513606035005653646073881973154509838509454433 73156774558599456827440011249055864817735591756544567739314058228923150058188,
     Sq 46220028503804546937257941810500075174254480738279111058689462781422419514825 2255474035830795174459007872017429430236337463854705719779337604485932572919,
     Mul 651030188267000019043101384446998979917925233004774549581032877385264112844 104024785681723035280314587702579342529193240306813836773176752229659531351029,
     Sq 93453327510741415195983018907686204483251734247912697760884533804421300661052 67733359943354068340110972045152394411112873478009095035606678841454365142653,
     Mul 19550862202515009170741170111258135871635400938841785850208608999756037499708 87100853353288773503221377379439407917267979139877395891460378271501865302703]
    1002328039319 87100853353288773503221377379439407917267979139877395891460378271501865302703"
  by (simp only: pow_run_eval)

lemma p256_n_pow_q2: "33422750357966337878331101054518575604830426967606952675588495505287672049735 ^ 1002328039319 mod 115792089210356248762697446949407573529996955224135760342422259061068512044369 = (87100853353288773503221377379439407917267979139877395891460378271501865302703::nat)"
  by (rule pow_run_mod [OF pow_run_append [OF pow_run_append [OF p256_n_pow_q2_run1 p256_n_pow_q2_run2] p256_n_pow_q2_run3]]) simp_all

lemma p256_n_pow_q1_run1:
  "pow_run 115792089210356248762697446949407573529996955224135760342422259061068512044369 33422750357966337878331101054518575604830426967606952675588495505287672049735 1 33422750357966337878331101054518575604830426967606952675588495505287672049735
    [Sq 9647293257327541145412746373482627247917163041477195337168930789662159635489 53540746728061818433716857153219159746820848485463310437811587252753078558784,
     Sq 24756540621620267155592453500954917668612341622807974918534953262712739372176 22445078240056987044787547583936393207483020917227315273297558932131227481712,
     Sq 4350742271236455812169083838266630225209628968024394004815657775866626530242 5506173537605302244911031844350337785627608353022629515995958096180870143646,
     Sq 261830900823864769099484529130202502616459783734700158720921386873982494389 47748470920457565995883946742150083772030806529913604395339113298216212627775,
     Sq 19689742976309213387617737796350229538009486184880706072704142239076103656872 10695529622850967629765246316986100712836549036295760037695267810113085696857,
     Mul 3087205861545245158467050310237480320833095887137846193084479720047876115275 81543381981199803977869154344288799200407227242812189924583208356627878546420,
     Sq 57424675470292461432252460228379521563297121355702007941562944787664380322475 80801372943189371385792696022290833710391429450738573140857235585194366923125,
     Mul 23322872355770714106108978639094728590713544233143040945231490125825051984071 44078014771653563859765026810127463383430968315586066924870032680650088375676,
     Sq 16778964776087161610421652897696290606343735148263997931397783784240129564319 65627566867285393344057990821835200274261836552586818863280555429128141187265,
     Mul 18943036600896254114549652541677092949817484486609413793039915325416458161249 7715281751302531021085419838347554208123017363955241816665861000675384167894,
     Sq 514072877585302118642884764746390829308548306013020324309581049136804044849 43820948242214849947035152231085848562876389183468765293074327581317426489955,
     Mul 12648675946145014421864185441110381152617617142337466893220908453175176981218 33276686368021541714561077448707356521455165513379739739521921750906142250483,
     Sq 9563156370933086842072440839044682880106289243336936849708584594754468818974 96562388955585802171720031327654456640853220265387796299396912809822196675883,
     Sq 80526182957720480646767093052367832503576539775234111171243642241219260198455 16153848530600404135974401093718165544196427133069227796517038398150248579794,
     Mul 4662719624808102815807049457119643747319509303121848287369660437888795357586 58359402418333034145650011282204503848396785873218739886461164446219431321356,
     Sq 29413234305131829530842483206418280469569048407420111760769130487778618407715 109277928661907203979983393625446366802635358657847769583235150130149929771901,
     Mul 31542473706190951355269871240216686886171274665057612326930552656320939690679 67716864422700155064304179811614228636457591768134444631800104543488893759684,
     Sq 39601787639498157020644343398974332536645553628535378179692838096940793830099 15743575004368563276635724961959555577430522499120311142715929989132608117325,
     Sq 2140562067827431633633483011447856977889306261396068037096356494173472520688 11449322607026654650410902006772249585548587918262100225108638342302438749753,
     Sq 1132089325391042630541976456421830139459824693260636952291874114931010486275 50263915046016921418875995535037311199111310164305152234955972819480692025534,
     Mul 14508402914685462183275245499852428404846607270138486853303559710752705733078 26549090254381106013738779626974128665959005036638517363498936582194130995708,
     Sq 6087239621825847949417208353436510072078922372300837103353995383649380557381 23485430570340654283101740665588298116248488498486048831934006478926491983675,
     Sq 4763412188481009532948817039743820164722628516403336674328382826933080364604 89116776426552293412188999709673016620505692780230355165348362136444521390749,
     Sq 68586722070731973587751907068968370736118465190792463663231308201306829138894 73226285208594123917541625483990501793830238432862827502957746280817351193115]
    138952 73226285208594123917541625483990501793830238432862827502957746280817351193115"
  by (simp only: pow_run_eval)

lemma p256_n_pow_q1_run2:
  "pow_run 115792089210356248762697446949407573529996955224135760342422259061068512044369 33422750357966337878331101054518575604830426967606952675588495505287672049735 138952 73226285208594123917541625483990501793830238432862827502957746280817351193115
    [Sq 46307903087483064551883807761293719406773029540756764870850668376321760410780 67127719320069994966076093888725161798784347597542609192169981422966997505405,
     Mul 19376047364155081786376230926991262913444926803440437560287042774034640227310 16789459423470824977690476311692439513656711163638881346634613857073125800285,
     Sq 2434414558496124654830407863400235367704647151750598814650668371142298379098 1053025662186877322498952313272951052255735929043767420548868417922747882063,
     Mul 303950071786565635786382475900956770230705930386289676441268687851595663951 76530057823186988474112888997931458833616708459375092867629377504634324561386,
     Sq 50580741658269667299400004080521463493098038224880203715490005134544809742889 29800510098242698643284189843024583556511117546291085220466183313066631998955,
     Mul 8601753507911823079280360987471160973469995363400871839661094840800326453836 91300404905180169706730313641717576390001492797269984963035267576428765777441,
     Sq 71989062402238015366478863002884284112244598944049797355267905335170911287689 17543989353341435643935079299767537127614630597256184137259907567273453035240,
     Mul 5063976135488073499350224392575662094673689790048340812578419825914816105058 68117020803686025793707921806661838553197885789287743631084668556538526342998,
     Sq 40071204819014591767168399827105073650809681555400143101257036817746407231038 16591375913923856919282499581322470836592418481820208796589009757581653702982,
     Mul 4789009500112348706192410296881599218737131195815802597024698655448672276129 81599081140264122295562267136281747966209332255349418055023539824494554242169,
     Sq 57503151453112317035260025558231094145073132008403571552803961108032556590273 108409129205451885590555604384507477365170972684681872076291541897066768001824,
     Sq 101496910326350979482846731724507969328898886155223511445610590312539334959029 22439672959467778743204653403367259536471850716954055002759300783822022169275,
     Mul 6477088310205745183834940837677652485195476642414271921158132325842785631735 69260863589855424577938313440032235816776162359332784947132858387966374441910,
     Sq 41428281136700651789134663070819926472507875511997502266694398185324462078126 79908867641365017273599718320309443538700393774799030685959130073237508075606,
     Sq 55145624984146942297128888824349087373239224533216011424307287315429006600165 79393025582737411673522052657662460531394111213302995841376340928967089546351,
     Sq 54435951144557506392744703553346021357086947103431890664061507581182456035293 113239461475487395008075146177404774245898199976105605493323560869997131500084,
     Mul 32685948387113632341811865214319711368824446125352655309521571173538396840892 39623049126976317310681509943087509973908624825498073485979439119177467140592,
     Sq 13558663919316880284478817257581341470107155282243567997316633836095894597824 99575890552561036932940206314490551241533765570172741976786335197035395257408,
     Mul 28742033711511672320374353886092928345430990821045872792086674970646962551113 56682324716352637651485756050840699452493073122464917889086844254522016854183,
     Sq 27747024491571968599854513421503614906896843918670359135089777477809915986058 65321896420346140090798023219504812313689655947132244610376492147403190087,
     Mul 18854806505822151899059719557485902240064121101050566083194343164486443300 4177224166465893518494062415287856197121146506507319380739818016336520199245,
     Sq 150694247386859065080618698232602827032523952041790048196124269041935077175 100157843022455110568303969975843585680713414684774621116650258535863459392450,
     Sq 86634532525677506369096345779549867613369299765422117273264210032326830662202 75249956284021142406369716926296320419557942355844472680784950190041761962,
     Mul 21720486438064683896027815448816915724955633082082280599395010506602213171 105983082848462353395105682345016787912694107555999929806332327831654346995971]
    2276605597 105983082848462353395105682345016787912694107555999929806332327831654346995971"
  by (simp only: pow_run_eval)

lemma p256_n_pow_q1_run3:
  "pow_run 115792089210356248762697446949407573529996955224135760342422259061068512044369 33422750357966337878331101054518575604830426967606952675588495505287672049735 2276605597 105983082848462353395105682345016787912694107555999929806332327831654346995971
    [Sq 97005019312316086583164245837018362701404339177578803165672893777456363623172 25419895765409572751541348027183904579248652789853747424105370934114229714373,
     Sq 5580442542585155094972987691429004605270400462478452954947784582539086205523 10536187877659024393496113623986967471162602940136308499753885717229533933142,
     Sq 958711909858176371430254216671145876771337886638818231919367597852521706161 55890647285415549811286400399890144391220823374135400211704601019598113334755,
     Sq 26977356357288562971131433135414360622442270503826107201742189306035657733386 43761753378851712418478803540799323607698957153584205396188779229907086306591,
     Sq 16539049185927951637905722393837359503388154399976333978126752928748341436090 72872495147810541776863091681364709280424890198651204033156788688342392164071,
     Mul 21034245343502698697122382076644757983467054401987873953462011788035275355214 68207514984910217056102330416944421695437235296889011698745151658953188581219,
     Sq 40177745579537061149220193256890291466344997352652864128005848397086385811069 49755642729186645352072201342224642005662143330524853060190152347478780205500,
     Sq 21379906004606817831245275626280781847710685885331669363410527987528240716654 16281904074915872176236069885814457774131219017911578467628893664711025028674,
     Sq 2289451741587990551135209193290361290777182757712335077737097613311303901722 26960172376781491307435512504789333250386828965810602027314373506842042694858,
     Mul 7781905630184591334988841244784961326786118666308456530215358368031472673250 71247767682656977320594355145226493990519617068214257443137576966068965333380,
     Sq 43839302273404781681908394782139277689540838464172176244474653063260356647971 59798025517595199166091857696087586429721728659680348790636733672661276399101,
     Mul 17260371519362243691393308379122870110647533687969842839510456433218086965661 16183815171639081260754659709135577261403759326764081217856291130097569875326,
     Sq 2261949631411866711326437242188770799470047114400098183971768089643479734299 32157580002259692409108137235732554613577633783678993450581511144285764493945,
     Mul 9282108785335988697935303543178568357141661662625459166113106707212219642258 63950525736878845720685187732341024278276232142905197522089337612289743009373,
     Sq 35319077235005364110309494556202394434978515355685872507946608047084159299849 26191887525223152492806799884418271397896582810460190706567341215203702852848,
     Sq 5924540932046540670871931891371231616077186418412252922532598356441370073678 107363891296818990574955435515424501850078146895514729298855193105438006691922,
     Mul 30989997336989717114037644576727516184116362691546621525701078972329389332859 44643624425735060649623938119495547070712206006924178738746339993337289119699,
     Sq 17212343394593771728794148172249020032223930948181509067231983839544090843672 28586712295228727086570341464829738385839550135195082905647353875903642967633,
     Sq 7057477979912744162349359367661962812161289198090050367134858952136115269945 9669808070423559423927386958631866514367597388618711773971270355804833432984,
     Sq 807526565558035164771937435124403889102612220675286637609093145834482570534 34075956823595675280835409892555322915512853367655727284414667512228239121210,
     Mul 9835837714741012270049221369279760243235844276360177380282164240632540747892 14587671972746928421818037445565511930809448093012493081770412441418666159202,
     Sq 1837778168056698078072147765781249324998064614406439647920086669427054588038 106168647176931909160901898958318304445065080677193495450316704962309936618782,
     Mul 30644996688774103104182362161850507955524355673188091935326667967799872850196 14544388089321572284293327068790477529949791876157603263058384411766396776446,
     Sq 1826888402613600181633192024212203159271335124954231873627186141967194060742 18107093137986359247986656214658286746390284096207928372788569864830915329118]
    298399248815014 18107093137986359247986656214658286746390284096207928372788569864830915329118"
  by (simp only: pow_run_eval)

lemma p256_n_pow_q1_run4:
  "pow_run 115792089210356248762697446949407573529996955224135760342422259061068512044369 33422750357966337878331101054518575604830426967606952675588495505287672049735 298399248815014 18107093137986359247986656214658286746390284096207928372788569864830915329118
    [Mul 5226512949083540160533808257914409770331773960264636508405190784141995599634 36211546892104868869939826782504586123806008734304497838068828721279821522784,
     Sq 11324401669072151665548045031844528477027739476915779417938285008918192033251 47183607520829071467748437083202967106979408958198535450271472556801795797037,
     Mul 13619289071570601689446683139039617024191573945294170488994145361033983979953 94862386333874926935052193291073638638770150898060097524748193463166687100538,
     Sq 77715778360379532449572154889627935002716001818006876743339476924634213158453 94274182630957567118670213130666873872569167845027946851696482033429756488287,
     Mul 27211724848937344741290960774047215226832724150931927521199005188077673606449 40317710302999069758349266534497833867312634031464363765946442730102676418264,
     Sq 14038245403133928252808301703104506413704687234979241555946581395211275300820 93055485059967051774624991270050275755763308903339341228015940748670210691116,
     Sq 74783375607072783831511003230681927970301916644906766289572719292004535114304 33416122184470812430325864562484167299117038725371501551822674777772226771280,
     Sq 9643467265012541420833543038151579759098776539241886921912597819740773530723 95996831768845719971945087827906146317843147811822191939861024083258472189613,
     Mul 27708958057895217083668880995054338633229481892333507175376468134774207521157 93673866291792060012646833181282071068962663414293530871864551092143396187622,
     Sq 75780593353934700989588131391176004631407138996303552626416495355334956763686 74390718966569246889815257788394927643322694998671147359196195576171946030750,
     Mul 21472472307261049680769956534411330720799037799240124400008954355962555580450 106902785487147184673745644624597480672820679356620016566160433139230890365200,
     Sq 98695909391095841293992262455765949885507595672064204364240006694391959068543 59938622278018565822602410197952367915571352816501560010654345038339442855633,
     Sq 31026631137644798783115735993767762835198483517850696132134151895329066286427 114073836108846846812554503363016317621820949877546017850836752030256993351126,
     Sq 112381080377157615807712928656238250708394080382243970622571125172893910514198 24668232896637257864583273802850865932857089462540392005577112726322545016814,
     Sq 5255296094858883019213291142808669545676260716555749923482701326829243935396 111518863572331644010798007865664130844897059092320382826562084054968621125472,
     Mul 32189307255791237410049274325148001679329553832913487820253481732166452136841 88650225673592405013218496543922197199112612715783037427653544037587407851591,
     Sq 67870461320564709165622518851765844543463980907628966100687567776231770492222 47468622255915966717127110484534470001161890951924008218550762712215647833363,
     Mul 13701557008906507551419376394924321588430497773571707224253716064555988436466 18116004527038553532687048333608810186634427188783278783818602409636398748851,
     Sq 2834300877216823208692855096059674025484457355432153474995609428407011194473 90780694689645486150261970002152749077271245722495248059159281857704310247664,
     Sq 71171826888477585434519679819960140401631974540790797281274914213526407340757 9294789657577784978932912429984737682678375667260089362808780200414131409563,
     Mul 2682889966607883365489881216737343038724148348188829642254037781521744419351 109529347525395821481264293630497695981423096336101619844193221355779136431286,
     Sq 103605333068521654762438957614966209081884507634067758724149518633061847879323 111191046773611660315144999524716947471129241864244397048847355684777865931609,
     Mul 32094684737953587239527973766024382150207285424635089415084790797659594456730 43343767653940611245054286468333956731242315754802557668235180941954145920245,
     Sq 16224616096405679487050022289306640791164715845897052724372128159009270696243 90154486033750947907892671242636851077469692107565028286071689363845963254358]
    9777946585170437686 90154486033750947907892671242636851077469692107565028286071689363845963254358"
  by (simp only: pow_run_eval)

lemma p256_n_pow_q1_run5:
  "pow_run 115792089210356248762697446949407573529996955224135760342422259061068512044369 33422750357966337878331101054518575604830426967606952675588495505287672049735 9777946585170437686 90154486033750947907892671242636851077469692107565028286071689363845963254358
    [Mul 26022597060864881729586564905615427349221753575326282966666410306499861586524 73402248559512364932038804392334548392579010764836593382149212904366011011774,
     Sq 46530727015421630967422293550578891397959698443884405449092722864768323774089 81445530430599303044727549288466853007788518961063549860692068386684066072235,
     Mul 23508804875338652143736030957578749543644596272099634511740599791474256925436 7699295573777598202870838041647891321030940362781217260993856546236265937841,
     Sq 511944751464847806999839288864755006583203988527308500236564874757553789778 58274942684511859085332655536646626003590429890908655515849375934712841081199,
     Sq 29328160222705546611363546719760738326297950431110683260845643784829621102827 77114968055227771365566865182569933436478723251565913605953781227617175946438,
     Mul 22258811838951679552013948326493742445398429163819284525840615787428743851100 112995676635171008401503834557831031009075754621542617319671567341458902638030,
     Sq 110266798235627490090291022213464727771278154091035614413765518053934348877055 8098372557780991616434222674699740768541321709663050594907397017975716227605,
     Mul 2337550744185995288434549710583843657855146067660869736008197089321486667258 8173575550276598210834039058497956831890222254165559742927467784610104364473,
     Sq 576959425567599655239739092768888288950129856780409323627582785760204130832 85661264511818804646685695595815087623561405079235370309565415654944159682721,
     Sq 63370928772459722138566051046169885479160168055849199686176534749395030242363 37832844876253064967368661319345780526411591807273326371665526527948706559894,
     Sq 12361156631610482917277355492371135460965001323610907733949654863779376374163 47564698823111437189484373163736850572649664009527598839644426945102008053089,
     Mul 13729288982157210315587119877057205802659185888567407151067944196795586337665 38099042201679594038157612224258064063221199931157690797309728887114632523030,
     Sq 12535718342972428816848393880157611842361733684112280237840066613810191083594 71176424083810082613029238715131830411396641003038421469053805658663164398714,
     Sq 43751549694858412017585832572444168368437925203460067682660231806299094905106 5524188442230090589175402537868408871254667646365520344816998056537048205682,
     Mul 1594526642485918218374605823766474936721031661380978242673627091852769734587 17149989956210757186109872678286669085485000278407813122593291426479915703667,
     Sq 2540088511260958064517195013039051743364475886523487905611311330494878658484 14777306710356349271067174982893237010919500121511242243563728008864750970293,
     Sq 1885869709244457204301350737877474111095406530967312758949977232506898274825 43115830704014740456937532369958996949246318913581949239297490282305012795424,
     Mul 12445147642847259754145171933634810955643468597007291870421635255063152626144 100887876977098803706673565066412354099430792073108691030764565041627711029504,
     Sq 87902064729616150684686670828745109385059694176797885227342801445921466074524 101139795180203449346040460562597831913803563641387861436187976137655009930660,
     Sq 88341597762436929242780798239415444184412281077812051373722192715882465483835 51407179523897970529938052167611953243806216890224296703661464950603435760485,
     Mul 14838399924826043543666215286470722258125326135874421077224102614931021520895 59852556731813682653769953245059342339578370028846964865352362368066367131220,
     Sq 30937593161714694839890761643687769036500100697604886948791876146941169642585 54596324721606348222937187647603678052972651917815424516862563155833306834535,
     Sq 25742334329006048184720159214518296416029663044533198898532229701148583488773 11613902570854323672093738738516937185458984375073314296563011935425279296988,
     Mul 3352289167200641352068309927961591720997691251270106530855062195110283062758 41332611489750285607652040411318386070027985218275332216010194957572464188478]
    320403753702864902150485 41332611489750285607652040411318386070027985218275332216010194957572464188478"
  by (simp only: pow_run_eval)

lemma p256_n_pow_q1_run6:
  "pow_run 115792089210356248762697446949407573529996955224135760342422259061068512044369 33422750357966337878331101054518575604830426967606952675588495505287672049735 320403753702864902150485 41332611489750285607652040411318386070027985218275332216010194957572464188478
    [Sq 14753898856242782753075807492419096198870481425840527097723100996097574049331 13594761122593319326739954736769168666198951047103551423480630669746641189345,
     Sq 1596115341218361922335261372388587697619446759206147141002750253740193119491 35403184446811814471239442515605905453062517649365611050954532084320230832846,
     Sq 10824448177094271512618909975467890256579544480056389400134541587830953087195 75096894242400713027579370186645121158102383452670055318682056156781426704761,
     Sq 48704048465773136085786940143384546028030214144937344314271308187456323815931 72514998286842095043136535307448717938200355533255435625055285027938999024582,
     Mul 20931055838767203009971478819057115468015668877787063645268007496769031070134 75085305934209671676310169873482336207259721580832737800287630859509432810324,
     Sq 48689018444013242221223918457592928886470725289479955937124667391648551921540 20114852947150317941388684282489675556004330147870639631855001623459874176716,
     Mul 5806041786831148412831847681191593366927574410027992325240271915096412318994 20071233576999193722245289900415747287271851760517219227447422175452221525474,
     Sq 3479118651798444541043390195318289507874241658047215009006435577030177315533 4958005416142919657780358669137342777254995866155196352797359995297422040999,
     Sq 212292721153389204932850754645086635456954774991166897637217948291727365543 11071443417662597372084670527414863385761416782690166144887832335277339140634,
     Mul 3195711313047031974909694728222566212789440405746331362393644459080109546117 64419245051754237625975883101300298304836375095341968165307664166977851766817,
     Sq 35838710237787196182255796903144924907635365646575023241278600309680467402335 67272266085386353531747362447835940775690028898489984556820006794694848109874,
     Sq 39083479839815039304717288746630846511294799195025112804616005420769177327604 47267506368727788044026183073941416435584486823671402100454052687036279834000,
     Sq 19295075972408462224811857407094539870405458076344839893771948165380108891741 18861715435549666347445778270460565483914531350987097624148657013056746343571,
     Sq 3072440540608482096008336664822976909589889817710184369112101371909203943091 30528603184584574757917559604230648656733714885443709762921126015157630027462,
     Sq 8048871203184675996406025589026671237901536303727750107976658788735523407660 100592635390778160909453287578097038963238856722581532261418689045630879694904,
     Sq 87388338563261881211997423839843644104553995554975053912058875972412594962982 81077661829907029456476725172262053686529694712860806976194636821915427020858,
     Mul 23402621624916976508867609963999760119556246071844078625237520554915255434221 75826181402772799521319382390190118258099127975743022721581095372707945421081]
    2624747550333869278416773953 75826181402772799521319382390190118258099127975743022721581095372707945421081"
  by (simp only: pow_run_eval)

lemma p256_n_pow_q1: "33422750357966337878331101054518575604830426967606952675588495505287672049735 ^ 2624747550333869278416773953 mod 115792089210356248762697446949407573529996955224135760342422259061068512044369 = (75826181402772799521319382390190118258099127975743022721581095372707945421081::nat)"
  by (rule pow_run_mod [OF pow_run_append [OF pow_run_append [OF pow_run_append [OF pow_run_append [OF pow_run_append [OF p256_n_pow_q1_run1 p256_n_pow_q1_run2] p256_n_pow_q1_run3] p256_n_pow_q1_run4] p256_n_pow_q1_run5] p256_n_pow_q1_run6]]) simp_all

lemma p256_n_pow_q1q2_run1:
  "pow_run 115792089210356248762697446949407573529996955224135760342422259061068512044369 75826181402772799521319382390190118258099127975743022721581095372707945421081 1 75826181402772799521319382390190118258099127975743022721581095372707945421081
    [Sq 49654599250567561025883570029337046168822827553092417004585697361041715297753 2996032665313529765690277206867510327786808873919593893693993021034817205704,
     Mul 1961945050978302953195999636462857719935437818899205456111213911934592083058 100038275311641258350157762665018141239635805261121567542317438983596245845622,
     Sq 86427808631616476778058696194936054708302732017592893086363852586551467853273 80571418648046638466626729970865907562009996984547680759622138354976898697147,
     Mul 52762006868938323696262549515215956813810956388462358065277864470248962448726 63258394118838287927127060069853818658206079378473963961145501813882608832013,
     Sq 34558703049434019266194420097985362619498250720029850783923163656577033323260 76989848665288710696410850041443520284147356500747566728675184915771413909229,
     Sq 51190343294832942166701905862968757675269809901658626905946272433810885423501 98316108712330550429351822919095865338911756332988425720746989970891984058572,
     Mul 64382076054373071950025923414237071617968009029326121913948389230059756808285 25570933900129746929933887506487082545516275921775035421658788941722160759167,
     Sq 5646954511175047048626757349350652404604978992006491597311542043884756246499 92962156430064635378490696210795339443758969419582876517290463852768385619758,
     Sq 74633445057098815263486112151125137198074203015919566105784069377687454687400 60767628435539086144101495116745352025716720857120476915978790725059934727964,
     Sq 31890819924419061762986582862458064529983771720181812928547466585375059347681 8738092515775836580477986135602688787666780779966421503902259340789814327007,
     Mul 5722119643352719043578573240720256879732525335828747583787836807232268190446 7852643135712635907858287769315289862240608896095641943247304894433551535993,
     Sq 532540734322804280517179495689091560018872162533705500880693855558070023781 64720501314581636699656425317931457623590164409605539967026133479596817356860,
     Sq 36174693098430848966178965397145481943375328124935680839144813002325684540487 79636805685506243818620450139123832682591256397925599087061087196213868191897,
     Mul 52149977735322583236639497680384875426803962822022187834361373083405181339983 1538724280048590506401948249560750818125271500969049347677729195947607474930,
     Sq 20447618020862970707415436284796176129587247944707170027924971210380783767 75888519427180292119035076183155761531042170850412255522076970565380879546877,
     Sq 49736276632742881358650430567934118342253867977203873864586971285368355841609 24492781203659591074948096189453557949427156655451740941035755161332696103408,
     Mul 16039041037019407797347499620164978848871455479299441225779985449605821606930 72376221320361571906454057994032916505210733662367939415975503611497441266878,
     Sq 45238992130953404567878644639121296690912642607612943955509441491176233949616 52583878240373363902804304963603696433599506567482738992206073978774117354580,
     Mul 34434430862305026235111214650289051575259426237876723367932277334070270075582 93182577155941434205786607120899785805887937791576844665710843248160916403222,
     Sq 74987788411424450178301016580118232361190843243947600981521811234125126846821 44466723632774984371534933921603006676252099759303130691352746429751873380335,
     Mul 29118930969804087164830831071680824680044330079024784072952762033334494855071 76947017442602262459219015778177423155721820723872981931650579350029863196936,
     Sq 51133402408483243670910225839033677514959872737857569852222919833645766567460 5606747340366025017018302836446722985335052353237659693659940572401968155356,
     Mul 3671565508570895497095785999952679490736467068404525494310705573648290876525 61149007343130398758977666894828724743104262365534418335495381010157544922111,
     Sq 32292370960310711814907119821638430695833756209678727401018718996394766381861 46022009935183027311807685230796211423570131529121309804722748788510627905612]
    59742 46022009935183027311807685230796211423570131529121309804722748788510627905612"
  by (simp only: pow_run_eval)

lemma p256_n_pow_q1q2_run2:
  "pow_run 115792089210356248762697446949407573529996955224135760342422259061068512044369 75826181402772799521319382390190118258099127975743022721581095372707945421081 59742 46022009935183027311807685230796211423570131529121309804722748788510627905612
    [Mul 30137406602326765846353334676016949463714461647081560482139209207451016260548 104567556899361487657871196154279473335399066436735882212937938281391422752360,
     Sq 94431096549584065470552047364012495826384790147660013007292053118364602715827 81602708003618279137944995088210491933731572438834173735206628952280563041437,
     Sq 57508263292724291491196026388365518232198169042091485699212472755191430840549 88955065452546156363395639575183513616017044854417221416294938943091726706388,
     Mul 58252018559287037305309379477701702961606054476246769111681121267673017873773 104952538571123629040194554922430196007428008784216158023040362392160095131191,
     Sq 95127701966863094991704038929702467916919183084417880496266400244609595371217 14699695228582237250094233986491540110517626367031418039833690382107371551408,
     Mul 9626061370591978301381173494523614559571312139929658455678556859611598278133 17489977794421806202288132334051180183624473748155502859575286440204699948971,
     Sq 2641798117085953313791594360537796853581131213806096980213148480039753758044 41604808868783490447642180648544336027330725153602526710769418549784985304605,
     Sq 14948863370652364343786928554992242772265741084619437215776591091689594698283 54190114187148081065549329908240437293057949210031219608240613328412570087598,
     Mul 35486270751423298601770469781238758025330119233711624125614176134229939032154 19253772420189554959405265489438479409645495920170443879230938400891400212612,
     Sq 3201494635225015679604362719789982461819058338006881364249751346494802423808 26087312084946079421192896142839458421495971664522932569185020068896365925392,
     Sq 5877325959470698552651862763289941990937910345161475148008209947737440259763 62904449699450426085224006332209994963533156314724138344518264733486968929117,
     Sq 34173058099005127113536656478061688823378646773666731141058163205963321991370 23108752632938417701172281794621179932288598898089389556225894217982895304159,
     Sq 4611838787019458171558847582684308939568075322276440519864977857875503584080 10925617648213865595674595146359594960109226999012804462307049433105640651761,
     Sq 1030891849425980535091319720163831861721317057743234568394806575020989568684 86864541840474719404777170331076542979369850627352214956779140170524491460725,
     Sq 65163766200366052119837142843029707529237127959871409199734226994992680521551 56805969134443073680360344860502067042336961378487585986769346539700044829306,
     Sq 27868208884641914430517974920227725886079722253822669059664437046944774559869 83966965421851398547816168050825277687865690140206307148236553358619301613975,
     Mul 54985572808442003318609421405801390363616965653686771053733613698764869485058 37938197440952885057837165701397837585338785847704814571239756382886410668573,
     Sq 12430096346685442364520712399097777609099193437716752230670808629079050308087 65810490151679404835675069464313272700215919939967781831101754508993186344226,
     Mul 43095847034775878702886461604373579445510714759698707024275728384780640399211 82792776085320834297010128663768573273169841138258481837013289660996678435447,
     Sq 59197859013161373180329563400206828527751030166284123973109508958943281405190 39311765608435212921154365018144569964829130835371814258998038148249799214699,
     Mul 25743218648324468556991919070544833620268198472956016003198422578875949754082 23579185718754499238498932711011940725293296156058941264822172551106056805361,
     Sq 4801519714783679697667854219284555131889707756220079660641964622729361883472 63682322530974566835683928671110558770604888054341005324535210753889966571153,
     Mul 41702221397968215935298480086111461276399414959434386843998422973348371462181 75796097727335027665748485991517559466716650845201755300610244720086255167604,
     Sq 49615206616186477131011940716582720572932613558651819181064772906132708384867 19844699728087516552196152914284114937928953584817429110912836745247898936893]
    3915343902 19844699728087516552196152914284114937928953584817429110912836745247898936893"
  by (simp only: pow_run_eval)

lemma p256_n_pow_q1q2_run3:
  "pow_run 115792089210356248762697446949407573529996955224135760342422259061068512044369 75826181402772799521319382390190118258099127975743022721581095372707945421081 3915343902 19844699728087516552196152914284114937928953584817429110912836745247898936893
    [Mul 12995255649389716502577507203658167721695846828684009083688186186124466207620 71126906878920741627212374057988872140905516023930290567231132012344524949553,
     Sq 43690695250968759670720897288093612789290791958609342902063533349629231014465 72681184604650449567931727797981134215591054017532014912686839809120234102224,
     Mul 47595105382274559350334338238616247237027109834678605284915336442057803805024 44245149216876831236794980059893326522761662964530200251270928567764365474288,
     Sq 16906450540566022233778936141905311920136068990692518246484984694086068844461 80684070120379020411012416521978273854189651054066468627533397178018597216835,
     Sq 56220759255529543245863024425344819374205564728027188897923404595028719571634 5327925508164389382958670603824724887011769920380320290590851938960725588279,
     Sq 245153105139844910024050512920345573593595036907752909116502673115550579676 73736541820451173995780159852756859111617759960675760990074976363404840537397,
     Mul 48286203610450183160823400764047731231280565131639697656739877941617143460378 71970125782273880581317200249346781052458118577350401482928430378721763154675,
     Sq 44732753683254728133129762477673679940879013155519464680445269271032243510476 22524370362990151303613349159890285149377188844140335041654708891063946045981,
     Sq 4381536456497174928705545337945432151332608455833980562113726027061489884934 104480823611599370328575487598324122756303310343400057651024354276761253615715,
     Mul 68419025326435486146973996352345166955051192618364601299071438847352309978592 106713742326742970627863665392829088738104958738582721957462173322852889739467,
     Sq 98347157211150713198885959677365922552680661894982955671589224824306512968782 40790345669717531291623181790787894933915609686223257212363026561220841555531,
     Mul 26711463376525543386458388288388303214488342903306643863202367981866742709884 61708607167948124749684401711316188900438443742158369902688680086496936705815,
     Sq 32886117044579258462712161506859550909540146348094417526876474922266938486497 68309355338604828222472398765539600816965349380824144617755174800587683428832,
     Mul 44732223114152587940514522255322222756018636139755158899698750566105330933039 1]
    1002328039319 1"
  by (simp only: pow_run_eval)

lemma p256_n_pow_q1q2: "75826181402772799521319382390190118258099127975743022721581095372707945421081 ^ 1002328039319 mod 115792089210356248762697446949407573529996955224135760342422259061068512044369 = (1::nat)"
  by (rule pow_run_mod [OF pow_run_append [OF pow_run_append [OF p256_n_pow_q1q2_run1 p256_n_pow_q1q2_run2] p256_n_pow_q1q2_run3]]) simp_all

lemma p256_n_cert1: "2 ^ 44115514726598157485257412756682202504057278751056 mod 115792089210356248762697446949407573529996955224135760342422259061068512044369 = (87100853353288773503221377379439407917267979139877395891460378271501865302703::nat)"
  using pow_mod_compose [OF p256_n_powR p256_n_pow_q2] by (simp only: pow_run_eval)

lemma p256_n_cert2: "2 ^ 115523146782392231311324540489179156958562150085032625197564538672 mod 115792089210356248762697446949407573529996955224135760342422259061068512044369 = (75826181402772799521319382390190118258099127975743022721581095372707945421081::nat)"
  using pow_mod_compose [OF p256_n_powR p256_n_pow_q1] by (simp only: pow_run_eval)

lemma p256_n_fermat: "2 ^ 115792089210356248762697446949407573529996955224135760342422259061068512044368 mod 115792089210356248762697446949407573529996955224135760342422259061068512044369 = (1::nat)"
  using pow_mod_compose [OF p256_n_cert2 p256_n_pow_q1q2] by (simp only: pow_run_eval)

lemma p256_n_pock1: "pock_cert 115792089210356248762697446949407573529996955224135760342422259061068512044369 2 2624747550333869278416773953"
  by (rule pock_certI [where r = 87100853353288773503221377379439407917267979139877395891460378271501865302702 and u = 51921223869577043025896233410665706485550009771255122920941358412934482395187 and v = 39056061057604895623894328425221634065315908529882929548383616334901599789017 and k = 44115514726598157485257412756682202504057278751056, OF prime_p256_q1 _ _ p256_n_cert1])
    (simp_all only: pow_run_eval)

lemma p256_n_pock2: "pock_cert 115792089210356248762697446949407573529996955224135760342422259061068512044369 2 1002328039319"
  by (rule pock_certI [where r = 75826181402772799521319382390190118258099127975743022721581095372707945421080 and u = 9631013060085677371482002832704039550345574303883859918124457045788451041694 and v = 6306846593464998713267894978977654199470285288516574978017596443495004344351 and k = 115523146782392231311324540489179156958562150085032625197564538672, OF prime_p1002328039319 _ _ p256_n_cert2])
    (simp_all only: pow_run_eval)

lemma prime_p256_n: "is_prime 115792089210356248762697446949407573529996955224135760342422259061068512044369"
proof (rule pocklington [where a = 2 and qs = "[2624747550333869278416773953, 1002328039319]"])
  show "1 < (115792089210356248762697446949407573529996955224135760342422259061068512044369::nat)" by simp
  show "115792089210356248762697446949407573529996955224135760342422259061068512044368 + 1 = (115792089210356248762697446949407573529996955224135760342422259061068512044369::nat)" by simp
  show "2 ^ 115792089210356248762697446949407573529996955224135760342422259061068512044368 mod 115792089210356248762697446949407573529996955224135760342422259061068512044369 = (1::nat)" by (rule p256_n_fermat)
  show "pock_cert 115792089210356248762697446949407573529996955224135760342422259061068512044369 2 q" if "q \<in> set [2624747550333869278416773953, 1002328039319]" for q
    using that p256_n_pock1 p256_n_pock2 by auto
qed simp_all

lemma p256_order_prime: "is_prime p256_order"
  unfolding p256_order_def by (rule prime_p256_n)

lemma p256_order_bounds: "2 ^ 255 < p256_order" "p256_order < 2 ^ 256"
  by (simp_all add: p256_order_def)

end
