(* ===== verification/Reference_Kernel.thy ===== *)
theory Reference_Kernel
  imports Kernel_Interface P256_Order
begin

text \<open>
  A kernel that meets every contract of \<open>Kernel_Interface\<close>, executable, over the true order of
  the P-256 group. Its multi-limb arithmetic is the arithmetic of natural numbers, its random
  generator replays a list of keys, its group is the integers modulo the order with base
  point 1, and its state says which allocations, measurements and user addresses succeed. The
  interpretation at the end shows that the contracts are consistent; the witnesses of the
  component theories run the driver on this kernel.
\<close>

section \<open>Arithmetic\<close>

definition ref_vli_is_zero :: "u64 list \<Rightarrow> c_uint \<Rightarrow> bool" where
  "ref_vli_is_zero a d \<longleftrightarrow> digits_val a = 0"

definition ref_vli_cmp :: "u64 list \<Rightarrow> u64 list \<Rightarrow> c_uint \<Rightarrow> c_int" where
  "ref_vli_cmp a b d =
     (if digits_val a < digits_val b then -1 else if digits_val b < digits_val a then 1 else 0)"

definition ref_vli_sub :: "u64 list \<Rightarrow> u64 list \<Rightarrow> c_uint \<Rightarrow> u64 list \<times> u64" where
  "ref_vli_sub a b d =
     (if digits_val a < digits_val b
      then (to_digits (unat d) (digits_val a + 2 ^ (64 * unat d) - digits_val b), 1)
      else (to_digits (unat d) (digits_val a - digits_val b), 0))"

definition ref_vli_mod_inv :: "u64 list \<Rightarrow> u64 list \<Rightarrow> c_uint \<Rightarrow> u64 list" where
  "ref_vli_mod_inv a m d =
     to_digits (unat d) (nat (fst (bezw (digits_val a) (digits_val m)) mod int (digits_val m)))"

definition ref_vli_mod_mult :: "u64 list \<Rightarrow> u64 list \<Rightarrow> u64 list \<Rightarrow> c_uint \<Rightarrow> u64 list" where
  "ref_vli_mod_mult a b m d = to_digits (unat d) (digits_val a * digits_val b mod digits_val m)"

definition ref_digits_from_bytes :: "u8 list \<Rightarrow> c_uint \<Rightarrow> c_uint \<Rightarrow> u64 list" where
  "ref_digits_from_bytes bs l d = to_digits (unat d) (be_val bs)"

definition ref_sha256 :: "u8 list \<Rightarrow> c_ulong \<Rightarrow> u8 list" where
  "ref_sha256 bs l = to_be_bytes 32 (digits_val bs)"

section \<open>State\<close>

record ref_env =
  re_keys :: "nat list"
  re_next :: ptr
  re_alloc :: bool
  re_null_buffers :: bool
  re_ima :: bool
  re_digest :: "inode \<Rightarrow> u8 list"
  re_mapped :: "usize \<Rightarrow> bool"

type_synonym ref_world = "ref_env world"

definition ref_curve :: "nat curve_group" where
  "ref_curve = \<lparr>cg_order = p256_order, cg_on = (\<lambda>e. e < p256_order), cg_zero = 0,
     cg_add = (\<lambda>a b. (a + b) mod p256_order), cg_base = 1, cg_x = (\<lambda>e. e), cg_y = (\<lambda>e. 2 * e mod p256_order)\<rparr>"

definition ref_gen_privkey :: "c_uint \<Rightarrow> c_uint \<Rightarrow> ref_world \<Rightarrow> (c_int \<times> u64 list) \<times> ref_world" where
  "ref_gen_privkey c d w =
     (case re_keys (w_env w) of
        [] \<Rightarrow> ((-11, []), w)
      | k # ks \<Rightarrow> ((0, to_digits 4 (1 + k mod (p256_order - 1))), w\<lparr>w_env := (w_env w)\<lparr>re_keys := ks\<rparr>\<rparr>))"

definition ref_make_pub_key ::
    "c_uint \<Rightarrow> c_uint \<Rightarrow> u64 list \<Rightarrow> ref_world \<Rightarrow> (c_int \<times> u64 list) \<times> ref_world" where
  "ref_make_pub_key c d key w =
     ((0, ecc_swap_digits (to_digits 4 (digits_val key)) @
          ecc_swap_digits (to_digits 4 (2 * digits_val key mod p256_order))), w)"

definition ref_alloc_point :: "c_uint \<Rightarrow> ref_world \<Rightarrow> ptr option \<times> ref_world" where
  "ref_alloc_point d w =
     (let e = w_env w; p = re_next e;
          b = (if re_null_buffers e then None else Some (replicate 4 0))
      in if re_alloc e \<and> w_points w p = None
         then (Some p, w\<lparr>w_points := (w_points w)(p \<mapsto> \<lparr>pt_x = b, pt_y = b, pt_ndigits = 4\<rparr>)\<rparr>)
         else (None, w))"

definition ref_free_point :: "ptr \<Rightarrow> ref_world \<Rightarrow> ref_world" where
  "ref_free_point p w = w\<lparr>w_points := (w_points w)(p := None)\<rparr>"

definition ref_get_curve :: "c_uint \<Rightarrow> ffi_curve option" where
  "ref_get_curve c =
     (if c = 2 then Some \<lparr>cu_name = ''nist_256'', cu_nbits = 256,
        cu_g = \<lparr>pt_x = Some (to_digits 4 1), pt_y = Some (to_digits 4 2), pt_ndigits = 4\<rparr>,
        cu_p = None, cu_n = Some (to_digits 4 p256_order), cu_a = None, cu_b = None\<rparr>
      else None)"

definition ref_ima ::
    "string \<Rightarrow> string \<Rightarrow> u8 list \<Rightarrow> c_ulong \<Rightarrow> bool \<Rightarrow> u8 list option \<Rightarrow> c_ulong \<Rightarrow>
     ref_world \<Rightarrow> c_int \<times> ref_world" where
  "ref_ima lb nm buf l h dg dl w =
     (if re_ima (w_env w)
      then (0, w\<lparr>w_ima := w_ima w @
        [\<lparr>ev_label = lb, ev_name = nm, ev_buf = take (unat l) buf, ev_hash = h\<rparr>]\<rparr>)
      else (-2, w))"

definition ref_get_digest :: "inode \<Rightarrow> ref_world \<Rightarrow> (c_int \<times> u8 list) \<times> ref_world" where
  "ref_get_digest i w =
     (let bs = take 64 (re_digest (w_env w) i) in ((int (length bs), bs), w))"

definition ref_ffi :: "ref_env ffi" where
  "ref_ffi = \<lparr>
     ecc_alloc_point = ref_alloc_point, ecc_free_point = ref_free_point,
     ecc_gen_privkey = ref_gen_privkey, ecc_make_pub_key = ref_make_pub_key,
     ecc_get_curve = ref_get_curve, ecc_digits_from_bytes = ref_digits_from_bytes,
     vli_mod_inv = ref_vli_mod_inv, vli_mod_mult_slow = ref_vli_mod_mult,
     vli_cmp = ref_vli_cmp, vli_sub = ref_vli_sub, vli_is_zero = ref_vli_is_zero,
     sha256 = ref_sha256, ima_measure_critical_data = ref_ima,
     fsverity_get_digest = ref_get_digest\<rparr>"

section \<open>The kernel crate\<close>

definition ref_from_errno :: "c_int \<Rightarrow> error" where
  "ref_from_errno r =
     (if r < -4095 \<or> 0 \<le> r then EINVAL
      else if r = -1 then EPERM else if r = -2 then ENOENT else if r = -6 then ENXIO
      else if r = -7 then E2BIG else if r = -12 then ENOMEM else if r = -14 then EFAULT
      else if r = -16 then EBUSY else if r = -22 then EINVAL else if r = -25 then ENOTTY
      else if r = -75 then EOVERFLOW else Errno r)"

definition ref_mapped :: "ref_world \<Rightarrow> usize \<Rightarrow> usize \<Rightarrow> bool" where
  "ref_mapped w a n = list_all (re_mapped (w_env w)) [a..<a + n]"

definition ref_read_slice :: "usize \<Rightarrow> usize \<Rightarrow> usize \<Rightarrow> (ref_world, u8 list) prog" where
  "ref_read_slice a len n w =
     (if n \<le> len \<and> ref_mapped w a n then (Ok (read_umem (w_umem w) a n), w) else (Err EFAULT, w))"

definition ref_write_slice :: "usize \<Rightarrow> usize \<Rightarrow> u8 list \<Rightarrow> (ref_world, unit) prog" where
  "ref_write_slice a len bs w =
     (if length bs \<le> len \<and> ref_mapped w a (length bs)
      then (Ok (), w\<lparr>w_umem := write_umem (w_umem w) a bs\<rparr>) else (Err EFAULT, w))"

definition ref_krate :: "ref_env krate" where
  "ref_krate = \<lparr>
     from_errno = ref_from_errno,
     k_IO = (\<lambda>t s. word_of_nat (256 * unat t + unat s)),
     k_IOR = (\<lambda>n t s. word_of_nat (2 * 2 ^ 30 + 2 ^ 16 * n + 256 * unat t + unat s)),
     k_IOWR = (\<lambda>n t s. word_of_nat (3 * 2 ^ 30 + 2 ^ 16 * n + 256 * unat t + unat s)),
     k_IOC_SIZE = (\<lambda>c. unat c div 2 ^ 16 mod 2 ^ 14),
     read_slice = ref_read_slice, write_slice = ref_write_slice,
     kbox_alloc = (\<lambda>w. (Ok (), w)),
     misc_register = (\<lambda>name w. (Ok (), w)), misc_deregister = (\<lambda>w. w)\<rparr>"

text \<open>
  A state of this kernel for the witnesses: the given IMA log and random keys, working allocation and IMA, a
  caller whose executable has inode 7 and a 32-byte digest, and all of user memory mapped.
\<close>

definition ref_memory :: "(usize \<Rightarrow> u8) \<Rightarrow> ima_event list \<Rightarrow> nat list \<Rightarrow> ref_world" where
  "ref_memory mem log keys =
     \<lparr>w_points = (\<lambda>_. None), w_umem = mem, w_ima = log,
      w_mm = Some (Some \<lparr>exe_file = Some \<lparr>f_inode = Some 7\<rparr>\<rparr>),
      w_env = \<lparr>re_keys = keys, re_next = 1, re_alloc = True, re_null_buffers = False, re_ima = True,
        re_digest = (\<lambda>i. replicate 32 0xAB), re_mapped = (\<lambda>a. True)\<rparr>\<rparr>"

abbreviation ref_world :: "ima_event list \<Rightarrow> nat list \<Rightarrow> ref_world" where
  "ref_world \<equiv> ref_memory (\<lambda>_. 0x41)"

section \<open>The contracts hold\<close>

lemmas ref_ffi_fields = ref_ffi_def ref_vli_is_zero_def ref_vli_cmp_def ref_vli_sub_def
  ref_vli_mod_inv_def ref_vli_mod_mult_def ref_digits_from_bytes_def ref_sha256_def

lemma ref_inverse:
  assumes "1 < (m::nat)" "coprime a m"
  shows "nat (fst (bezw a m) mod int m) < m" "nat (fst (bezw a m) mod int m) * a mod m = 1"
proof -
  let ?u = "fst (bezw a m)"
  have nonneg: "0 \<le> ?u mod int m" using assms(1) by simp
  show "nat (?u mod int m) < m" using assms(1) by (simp add: nat_less_iff nonneg)
  have "?u * int a + snd (bezw a m) * int m = 1"
    using bezw_aux [of a m] assms(2) by (simp add: coprime_iff_gcd_eq_1)
  then have "?u * int a mod int m = 1"
    using assms(1) by (metis mod_mult_self1 mod_pos_pos_trivial of_nat_1 of_nat_less_iff zero_le_one mod_mult_self3)
  then have "int (nat (?u mod int m) * a mod m) = 1"
    using nonneg by (simp add: zmod_int mod_mult_left_eq)
  then show "nat (?u mod int m) * a mod m = 1" by simp
qed

lemma to_digits_small:
  "v < 2 ^ (LENGTH('a) * n) \<Longrightarrow> digits_val (to_digits n v :: 'a::len word list) = v"
  by (simp add: digits_val_to_digits)

interpretation ref_vli: vli_ffi ref_ffi
proof unfold_locales
  fix a b m :: "u64 list" and d :: c_uint
  assume len: "length a = unat d" "length b = unat d"
  let ?B = "2 ^ (64 * unat d) :: nat"
  have bd: "digits_val a < ?B" "digits_val b < ?B"
    using digits_val_bound [of a] digits_val_bound [of b] len by simp_all
  show "digits_val (fst (vli_sub ref_ffi a b d)) + digits_val b =
      digits_val a + ?B * unat (snd (vli_sub ref_ffi a b d))"
    using bd by (auto simp: ref_ffi_fields to_digits_small)
next
  fix a m :: "u64 list" and d :: c_uint
  assume len: "length m = unat d" and m: "1 < digits_val m"
    and cop: "coprime (digits_val a) (digits_val m)"
  have "digits_val m < 2 ^ (64 * unat d)" using digits_val_bound [of m] len by simp
  with ref_inverse(1) [OF m cop]
  have "nat (fst (bezw (digits_val a) (digits_val m)) mod int (digits_val m)) < 2 ^ (64 * unat d)"
    by (rule less_trans)
  then show "digits_val (vli_mod_inv ref_ffi a m d) < digits_val m \<and>
      digits_val (vli_mod_inv ref_ffi a m d) * digits_val a mod digits_val m = 1"
    using ref_inverse [OF m cop] by (simp add: ref_ffi_fields to_digits_small)
next
  fix a b m :: "u64 list" and d :: c_uint
  assume len: "length m = unat d" and m: "2 ^ (64 * unat d - 1) < digits_val m"
  have "digits_val a * digits_val b mod digits_val m < digits_val m" using m by simp
  also have "\<dots> < 2 ^ (64 * unat d)" using digits_val_bound [of m] len by simp
  finally show "digits_val (vli_mod_mult_slow ref_ffi a b m d) =
      digits_val a * digits_val b mod digits_val m"
    by (simp add: ref_ffi_fields to_digits_small)
next
  fix bs :: "u8 list" and l d :: c_uint
  assume "length bs = unat l" "unat l = 8 * unat d"
  then have "be_val bs < 2 ^ (64 * unat d)" using be_val_bound [of bs] by (simp add: power_mult)
  then show "length (ecc_digits_from_bytes ref_ffi bs l d) = unat d \<and>
      digits_val (ecc_digits_from_bytes ref_ffi bs l d) = be_val bs"
    by (simp add: ref_ffi_fields to_digits_small)
qed (simp_all add: ref_ffi_fields)

lemma ref_smul: "smul ref_curve k 1 = k mod p256_order"
proof (induction k)
  case (Suc k)
  then show ?case by (simp add: ref_curve_def mod_add_right_eq mod_Suc_eq)
qed (simp add: ref_curve_def)

interpretation ref_group: p256_group ref_curve
proof unfold_locales
  have p: "1 < p256_order" using p256_order_bounds(1) by simp
  show "cg_on ref_curve (cg_base ref_curve)" "cg_on ref_curve (cg_zero ref_curve)"
    using p by (simp_all add: ref_curve_def)
  show "is_prime (cg_order ref_curve)" by (simp add: ref_curve_def p256_order_prime)
  show "2 ^ 255 < cg_order ref_curve" "cg_order ref_curve < 2 ^ 256"
    using p256_order_bounds by (simp_all add: ref_curve_def)
  show "smul ref_curve (cg_order ref_curve) (cg_base ref_curve) = cg_zero ref_curve"
    using ref_smul by (simp add: ref_curve_def)
  show "smul ref_curve k (cg_base ref_curve) \<noteq> cg_zero ref_curve"
    if "0 < k" "k < cg_order ref_curve" for k
    using that ref_smul [of k] by (simp add: ref_curve_def)
  show "cg_x ref_curve P < 2 ^ 256 \<and> cg_y ref_curve P < 2 ^ 256"
    if "cg_on ref_curve P" "P \<noteq> cg_zero ref_curve" for P
  proof -
    have "2 * P mod p256_order < p256_order" using p by simp
    then show ?thesis
      using that p256_order_bounds(2) by (simp only: ref_curve_def curve_group.simps) linarith
  qed
qed (auto simp: ref_curve_def p256_order_def mod_add_left_eq mod_add_right_eq ac_simps)

lemma ref_below_order: "v < p256_order \<Longrightarrow> digits_val (to_digits 4 v :: u64 list) = v"
  by (rule to_digits_small) (use less_trans [OF _ p256_order_bounds(2), of v] in simp)

lemma ref_digits_val_order: "digits_val (to_digits 4 p256_order :: u64 list) = p256_order"
  using p256_order_bounds(2) by (simp add: to_digits_small)

interpretation ref_ecc: ecc_ffi ref_ffi ref_curve
proof unfold_locales
  fix c n assume "ecc_get_curve ref_ffi 2 = Some c" "cu_n c = Some n"
  then have "n = to_digits 4 p256_order" by (auto simp: ref_ffi_def ref_get_curve_def)
  then show "length n = 4 \<and> digits_val n = cg_order ref_curve"
    by (simp only: length_to_digits ref_digits_val_order) (simp add: ref_curve_def)
next
  fix w r key w' assume g: "ecc_gen_privkey ref_ffi 2 4 w = ((r, key), w')"
  have "k mod (p256_order - 1) < p256_order - 1" for k
    using p256_order_bounds(1) by simp
  then have "1 + k mod (p256_order - 1) < p256_order" for k by (metis less_diff_conv add.commute)
  moreover from this have "digits_val (to_digits 4 (1 + k mod (p256_order - 1)) :: u64 list) =
      1 + k mod (p256_order - 1)" for k
    by (rule ref_below_order)
  ultimately show "same_kernel w w' \<and> length key \<le> 4 \<and>
      (0 \<le> r \<longrightarrow> length key = 4 \<and> 0 < digits_val key \<and> digits_val key < cg_order ref_curve)"
    using g by (auto simp: ref_ffi_def ref_gen_privkey_def same_kernel_def ref_curve_def
        simp del: to_digits.simps split: list.splits)
next
  fix key w r pub w'
  assume "length key = 4" "0 < digits_val key" "digits_val key < cg_order ref_curve"
    and m: "ecc_make_pub_key ref_ffi 2 4 key w = ((r, pub), w')"
  then have "smul ref_curve (digits_val key) (cg_base ref_curve) = digits_val key"
    using ref_smul [of "digits_val key"] by (simp add: ref_curve_def)
  then have "pub = point_limbs ref_curve (digits_val key)" "w' = w"
    using m by (auto simp: ref_ffi_def ref_make_pub_key_def point_limbs_def)
      (simp add: ref_curve_def)
  then show "same_kernel w w' \<and> length pub \<le> 8 \<and>
      (0 \<le> r \<longrightarrow> pub = point_limbs ref_curve (digits_val key))"
    by (simp add: point_limbs_def ecc_swap_digits_def)
next
  fix w p w' assume "ecc_alloc_point ref_ffi 4 w = (Some p, w')"
  then show "w_points w p = None \<and>
       (\<exists>pt. same_kernel (w\<lparr>w_points := (w_points w)(p \<mapsto> pt)\<rparr>) w' \<and>
          (\<forall>b. pt_x pt = Some b \<longrightarrow> length b = 4) \<and> (\<forall>b. pt_y pt = Some b \<longrightarrow> length b = 4))"
    by (auto simp: ref_ffi_def ref_alloc_point_def Let_def split: if_splits
        intro!: exI [of _ "the (w_points w' p)"])
next
  fix w w' assume "ecc_alloc_point ref_ffi 4 w = (None, w')"
  then show "same_kernel w w'"
    by (auto simp: ref_ffi_def ref_alloc_point_def Let_def split: if_splits)
qed (simp add: ref_ffi_def ref_free_point_def)

lemma ref_ioctl_word:
  "t < 256 \<Longrightarrow> s < 256 \<Longrightarrow> n < 2 ^ 14 \<Longrightarrow> k < 4 \<Longrightarrow>
   unat (word_of_nat (k * 2 ^ 30 + 2 ^ 16 * n + 256 * unat (t::u32) + unat (s::u32)) :: u32) =
     k * 2 ^ 30 + 2 ^ 16 * n + 256 * unat t + unat s"
  by (rule unat_word_of_nat_small) (simp add: word_less_nat_alt)

interpretation ref: tarako_kernel ref_ffi ref_curve ref_krate
proof unfold_locales
  fix t s :: u32 assume ts: "t < 256" "s < 256"
  show "unat (k_IO ref_krate t s) = 256 * unat t + unat s"
    using ref_ioctl_word [OF ts, of 0 0] by (simp add: ref_krate_def)
  fix n :: nat assume n: "n < 2 ^ 14"
  show "unat (k_IOR ref_krate n t s) = 2 * 2 ^ 30 + 2 ^ 16 * n + 256 * unat t + unat s"
    using ref_ioctl_word [OF ts n, of 2] by (simp add: ref_krate_def)
  show "unat (k_IOWR ref_krate n t s) = 3 * 2 ^ 30 + 2 ^ 16 * n + 256 * unat t + unat s"
    using ref_ioctl_word [OF ts n, of 3] by (simp add: ref_krate_def)
next
  fix i w r bs w' assume "fsverity_get_digest ref_ffi i w = ((r, bs), w')"
  then show "same_kernel w w' \<and> length bs \<le> 64 \<and> (0 \<le> r \<longrightarrow> r = int (length bs))"
    by (auto simp: ref_ffi_def ref_get_digest_def Let_def)
qed (auto simp: ref_krate_def ref_ffi_def ref_sha256_def ref_ima_def ref_read_slice_def
      ref_write_slice_def write_umem_def split: if_splits)

end
