(* ===== verification/Vli.thy ===== *)
theory Vli
  imports Reference_Kernel
begin

text \<open>
  \<open>src/driver/src/vli.rs\<close>: integers of \<open>N\<close> 64-bit limbs, least significant limb first, and the
  size constants of \<open>src/driver/src/ecc.rs\<close> they are used at.

  A \<open>Vli<N>\<close> is a \<open>vli\<close> of length \<open>N\<close> (predicate \<open>vli_ok\<close>); the const parameter \<open>N\<close> is an
  argument of the operations whose code mentions it. The lemmas give each operation its
  arithmetic meaning through \<open>vli_val\<close>, show that no foreign function writes past the limbs of
  its output (\<open>vli_ok\<close> is kept), and show that the comparison operators satisfy the laws that
  Rust demands of \<open>Ord\<close> and \<open>Eq\<close>, which are stated as the locale \<open>rust_ord\<close>.
\<close>

section \<open>Definitions\<close>

subsection \<open>Sizes\<close>

definition P256 :: u32 where
  "P256 = 0x0002"

definition P256_DIGITS :: usize where
  "P256_DIGITS = (256 + 64 - 1) div 64"

definition P256_BYTES :: usize where
  "P256_BYTES = P256_DIGITS * 8"

definition P256_PUBKEY_BYTES :: usize where
  "P256_PUBKEY_BYTES = 1 + P256_BYTES"

subsection \<open>Constructors and raw access\<close>

datatype vli = Vli (limbs: "u64 list")

type_synonym scalar = vli

definition vli_ok :: "usize \<Rightarrow> vli \<Rightarrow> bool" where
  "vli_ok N v \<longleftrightarrow> length (limbs v) = N"

definition vli_val :: "vli \<Rightarrow> nat" where
  "vli_val v = digits_val (limbs v)"

definition Vli_zero :: "usize \<Rightarrow> vli" where
  "Vli_zero N = Vli (replicate N 0)"

definition Vli_from_limbs :: "u64 list \<Rightarrow> vli" where
  "Vli_from_limbs ls = Vli ls"

text \<open>A raw pointer to the limbs: what foreign code reads there, and the value after it wrote there.\<close>

abbreviation Vli_as_ptr :: "vli \<Rightarrow> u64 list" where
  "Vli_as_ptr self \<equiv> limbs self"

abbreviation Vli_as_mut_ptr :: "vli \<Rightarrow> u64 list \<Rightarrow> vli" where
  "Vli_as_mut_ptr self written \<equiv> Vli (write_out (limbs self) written)"

definition Vli_is_zero :: "'s ffi \<Rightarrow> usize \<Rightarrow> vli \<Rightarrow> bool" where
  "Vli_is_zero F N self = vli_is_zero F (Vli_as_ptr self) (word_of_nat N)"

text \<open>The loop of \<open>carrying_add\<close> over the zipped limbs, from the least significant one.\<close>

fun carrying_add_loop :: "(u64 \<times> u64) list \<Rightarrow> u64 \<Rightarrow> u64 list \<times> u64" where
  "carrying_add_loop [] carry = ([], carry)"
| "carrying_add_loop ((left, right) # rest) carry =
     (let (sum, left_carry) = overflowing_add left right;
          (sum, carry_carry) = overflowing_add sum carry;
          (out, carry') = carrying_add_loop rest (of_bool left_carry + of_bool carry_carry)
      in (sum # out, carry'))"

definition Vli_carrying_add :: "vli \<Rightarrow> vli \<Rightarrow> u64 \<Rightarrow> vli \<times> u64" where
  "Vli_carrying_add self right carry =
     (let (ls, carry') = carrying_add_loop (zip (limbs self) (limbs right)) carry
      in (Vli ls, carry'))"

definition Vli_sub_with_borrow :: "'s ffi \<Rightarrow> usize \<Rightarrow> vli \<Rightarrow> vli \<Rightarrow> vli \<times> u64" where
  "Vli_sub_with_borrow F N self right =
     (let (written, borrow) = vli_sub F (Vli_as_ptr self) (Vli_as_ptr right) (word_of_nat N)
      in (Vli_as_mut_ptr (Vli_zero N) written, borrow))"

definition Vli_unswap :: "usize \<Rightarrow> vli \<Rightarrow> vli" where
  "Vli_unswap N self =
     Vli (fold (\<lambda>i out. out[i := u64_from_be (limbs self ! (N - 1 - i))]) [0..<N]
            (limbs (Vli_zero N)))"

subsection \<open>Operations through foreign functions\<close>

definition Vli_from_be_bytes :: "'s ffi \<Rightarrow> usize \<Rightarrow> u8 list \<Rightarrow> vli outcome" where
  "Vli_from_be_bytes F N bytes =
     bind_outcome (ok_or (checked_mul N size_of_u64) EINVAL) (\<lambda>expected_len.
       if length bytes \<noteq> expected_len then Err EINVAL
       else Ok (Vli_as_mut_ptr (Vli_zero N)
              (ecc_digits_from_bytes F bytes (word_of_nat expected_len) (word_of_nat N))))"

definition Vli_mod_inv :: "'s ffi \<Rightarrow> usize \<Rightarrow> vli \<Rightarrow> vli \<Rightarrow> vli" where
  "Vli_mod_inv F N self modulus =
     Vli_as_mut_ptr (Vli_zero N) (vli_mod_inv F (Vli_as_ptr self) (Vli_as_ptr modulus) (word_of_nat N))"

definition Vli_mod_mult :: "'s ffi \<Rightarrow> usize \<Rightarrow> vli \<Rightarrow> vli \<Rightarrow> vli \<Rightarrow> vli" where
  "Vli_mod_mult F N self right modulus =
     Vli_as_mut_ptr (Vli_zero N)
       (vli_mod_mult_slow F (Vli_as_ptr self) (Vli_as_ptr right) (Vli_as_ptr modulus) (word_of_nat N))"

subsection \<open>Drop, clone, dereference\<close>

text \<open>What the storage of a \<open>Vli\<close> holds after its destructor ran.\<close>

definition Vli_drop :: "vli \<Rightarrow> vli" where
  "Vli_drop self = Vli (map (\<lambda>limb. 0) (limbs self))"

definition Vli_clone :: "vli \<Rightarrow> vli" where
  "Vli_clone self = Vli (limbs self)"

definition Vli_deref :: "vli \<Rightarrow> u64 list" where
  "Vli_deref self = limbs self"

definition Vli_deref_mut :: "vli \<Rightarrow> u64 list \<Rightarrow> vli" where
  "Vli_deref_mut self ls = Vli ls"

subsection \<open>Equality, ordering, arithmetic operators\<close>

datatype ordering = Less | Equal | Greater

definition vli_cmp_to_ordering :: "c_int \<Rightarrow> ordering" where
  "vli_cmp_to_ordering r = (if r = 0 then Equal else if r < 0 then Less else Greater)"

definition Vli_cmp_ffi :: "'s ffi \<Rightarrow> usize \<Rightarrow> vli \<Rightarrow> vli \<Rightarrow> ordering" where
  "Vli_cmp_ffi F N self other =
     vli_cmp_to_ordering (vli_cmp F (Vli_as_ptr self) (Vli_as_ptr other) (word_of_nat N))"

definition Vli_eq :: "'s ffi \<Rightarrow> usize \<Rightarrow> vli \<Rightarrow> vli \<Rightarrow> bool" where
  "Vli_eq F N self other \<longleftrightarrow> Vli_cmp_ffi F N self other = Equal"

definition Vli_cmp :: "'s ffi \<Rightarrow> usize \<Rightarrow> vli \<Rightarrow> vli \<Rightarrow> ordering" where
  "Vli_cmp F N self other = Vli_cmp_ffi F N self other"

definition Vli_partial_cmp :: "'s ffi \<Rightarrow> usize \<Rightarrow> vli \<Rightarrow> vli \<Rightarrow> ordering option" where
  "Vli_partial_cmp F N self other = Some (Vli_cmp F N self other)"

text \<open>The comparison with a reference, and the \<open>>=\<close> operator that Rust derives from it.\<close>

definition Vli_partial_cmp_ref :: "'s ffi \<Rightarrow> usize \<Rightarrow> vli \<Rightarrow> vli \<Rightarrow> ordering option" where
  "Vli_partial_cmp_ref F N self other = Some (Vli_cmp_ffi F N self other)"

definition Vli_eq_ref :: "'s ffi \<Rightarrow> usize \<Rightarrow> vli \<Rightarrow> vli \<Rightarrow> bool" where
  "Vli_eq_ref F N self other \<longleftrightarrow> Vli_cmp_ffi F N self other = Equal"

definition Vli_ge_ref :: "'s ffi \<Rightarrow> usize \<Rightarrow> vli \<Rightarrow> vli \<Rightarrow> bool" where
  "Vli_ge_ref F N self other \<longleftrightarrow>
     Vli_partial_cmp_ref F N self other \<in> {Some Greater, Some Equal}"

definition Vli_sub_ref :: "'s ffi \<Rightarrow> usize \<Rightarrow> vli \<Rightarrow> vli \<Rightarrow> vli" where
  "Vli_sub_ref F N self rhs = fst (Vli_sub_with_borrow F N self rhs)"

definition Vli_add :: "vli \<Rightarrow> vli \<Rightarrow> vli" where
  "Vli_add self rhs = fst (Vli_carrying_add self rhs 0)"

definition Vli_sub :: "'s ffi \<Rightarrow> usize \<Rightarrow> vli \<Rightarrow> vli \<Rightarrow> vli" where
  "Vli_sub F N self rhs = fst (Vli_sub_with_borrow F N self rhs)"

section \<open>Limb counts and values\<close>

lemma p256_sizes [simp]:
  "P256_DIGITS = 4" "P256_BYTES = 32" "P256_PUBKEY_BYTES = 33"
  by (simp_all add: P256_DIGITS_def P256_BYTES_def P256_PUBKEY_BYTES_def)

lemma vli_ok_zero [simp]: "vli_ok N (Vli_zero N)"
  by (simp add: vli_ok_def Vli_zero_def)

lemma vli_val_zero [simp]: "vli_val (Vli_zero N) = 0"
  by (simp add: vli_val_def Vli_zero_def)

lemma vli_val_bound: "vli_ok N v \<Longrightarrow> vli_val v < 2 ^ (64 * N)"
  using digits_val_bound [of "limbs v"] by (simp add: vli_ok_def vli_val_def)

lemma vli_val_inj: "vli_ok N a \<Longrightarrow> vli_ok N b \<Longrightarrow> vli_val a = vli_val b \<longleftrightarrow> a = b"
  by (cases a; cases b) (simp add: vli_ok_def vli_val_def digits_val_eq_iff)

lemma unat_word_of_nat_N: "N < 2 ^ 32 \<Longrightarrow> unat (word_of_nat N :: c_uint) = N"
  by (rule unat_word_of_nat_small) simp

lemma length_limbs_zero [simp]: "length (limbs (Vli_zero N)) = N"
  by (simp add: Vli_zero_def)

text \<open>Integers of one size are ordered by value; a size comes before a larger one.\<close>

instantiation vli :: linorder
begin

definition less_eq_vli :: "vli \<Rightarrow> vli \<Rightarrow> bool" where
  "less_eq_vli a b \<longleftrightarrow>
     length (limbs a) < length (limbs b) \<or>
     length (limbs a) = length (limbs b) \<and> vli_val a \<le> vli_val b"

definition less_vli :: "vli \<Rightarrow> vli \<Rightarrow> bool" where
  "less_vli a b \<longleftrightarrow>
     length (limbs a) < length (limbs b) \<or>
     length (limbs a) = length (limbs b) \<and> vli_val a < vli_val b"

instance
proof
  fix a b :: vli assume "a \<le> b" "b \<le> a"
  then have "length (limbs a) = length (limbs b) \<and> vli_val a = vli_val b"
    unfolding less_eq_vli_def by linarith
  then show "a = b" using vli_val_inj [of "length (limbs b)" a b] by (simp add: vli_ok_def)
qed (auto simp: less_eq_vli_def less_vli_def)

end

lemma vli_order:
  "vli_ok N a \<Longrightarrow> vli_ok N b \<Longrightarrow> a \<le> b \<longleftrightarrow> vli_val a \<le> vli_val b"
  "vli_ok N a \<Longrightarrow> vli_ok N b \<Longrightarrow> a < b \<longleftrightarrow> vli_val a < vli_val b"
  by (simp_all add: less_eq_vli_def less_vli_def vli_ok_def)

section \<open>Addition with carry\<close>

lemma overflowing_add_val:
  assumes "overflowing_add a b = (s, c)"
  shows "unat s + 2 ^ LENGTH('a) * of_bool c = unat a + unat (b :: 'a::len word)"
proof -
  have "unat a < 2 ^ LENGTH('a)" "unat b < 2 ^ LENGTH('a)" by (rule unsigned_less)+
  then have "(unat a + unat b) mod 2 ^ LENGTH('a) =
      (if unat a + unat b < 2 ^ LENGTH('a) then unat a + unat b
       else unat a + unat b - 2 ^ LENGTH('a))"
    by (intro mod_once) linarith
  then have "unat (a + b) = (if unat a + unat b < 2 ^ LENGTH('a) then unat a + unat b
       else unat a + unat b - 2 ^ LENGTH('a))"
    by (simp only: unat_word_ariths)
  then show ?thesis using assms by (auto simp: overflowing_add_def split: if_splits)
qed

lemma unat_two_bools: "unat (of_bool p + of_bool q :: u64) = of_bool p + of_bool q"
  by (cases p; cases q) simp_all

lemma carrying_add_loop_val:
  "carrying_add_loop ps c = (out, c') \<Longrightarrow>
   length out = length ps \<and>
   digits_val out + 2 ^ (64 * length ps) * unat c' =
     digits_val (map fst ps) + digits_val (map snd ps) + unat c"
proof (induction ps c arbitrary: out c' rule: carrying_add_loop.induct)
  case (2 left right rest carry)
  obtain s1 lc where 1: "overflowing_add left right = (s1, lc)" by fastforce
  obtain s2 cc where 2: "overflowing_add s1 carry = (s2, cc)" by fastforce
  let ?c = "of_bool lc + of_bool cc :: u64"
  obtain o1 where 3: "carrying_add_loop rest ?c = (o1, c')" and out: "out = s2 # o1"
    using "2.prems" 1 2 by (auto simp: Let_def split: prod.splits)
  have ih: "length o1 = length rest"
    "digits_val o1 + 2 ^ (64 * length rest) * unat c' =
     digits_val (map fst rest) + digits_val (map snd rest) + (of_bool lc + of_bool cc)"
    using "2.IH" [OF 1 [symmetric] refl 2 [symmetric] refl 3]
    by (simp_all add: unat_two_bools)
  have v1: "unat s1 + 2 ^ 64 * of_bool lc = unat left + unat right"
    and v2: "unat s2 + 2 ^ 64 * of_bool cc = unat s1 + unat carry"
    using overflowing_add_val [OF 1] overflowing_add_val [OF 2] by simp_all
  have "digits_val out + 2 ^ (64 * length ((left, right) # rest)) * unat c' =
      unat s2 + 2 ^ 64 * (digits_val o1 + 2 ^ (64 * length rest) * unat c')"
    using digits_val_Cons [of s2 o1] by (simp add: out power_add distrib_left)
  also have "\<dots> = unat s2 + 2 ^ 64 *
      (digits_val (map fst rest) + digits_val (map snd rest) + (of_bool lc + of_bool cc))"
    by (simp only: ih)
  also have "\<dots> = unat left + 2 ^ 64 * digits_val (map fst rest) +
      (unat right + 2 ^ 64 * digits_val (map snd rest)) + unat carry"
    using v1 v2 by simp
  finally show ?case using out ih(1) by simp
qed simp

lemma carrying_add_loop_carry:
  "carrying_add_loop ps c = (out, c') \<Longrightarrow> unat c \<le> 1 \<Longrightarrow> unat c' \<le> 1"
proof -
  assume h: "carrying_add_loop ps c = (out, c')" "unat c \<le> 1"
  have e: "digits_val out + 2 ^ (64 * length ps) * unat c' =
     digits_val (map fst ps) + digits_val (map snd ps) + unat c"
    using carrying_add_loop_val [OF h(1)] by simp
  have "digits_val (map fst ps) < 2 ^ (64 * length ps)" "digits_val (map snd ps) < 2 ^ (64 * length ps)"
    using digits_val_bound [of "map fst ps"] digits_val_bound [of "map snd ps"] by simp_all
  then have "2 ^ (64 * length ps) * unat c' < 2 * 2 ^ (64 * length ps)"
    using e h(2) by linarith
  then show ?thesis by simp
qed

lemma carrying_add_val:
  assumes "vli_ok N a" "vli_ok N b" "Vli_carrying_add a b c = (s, c')"
  shows "vli_ok N s" "vli_val s + 2 ^ (64 * N) * unat c' = vli_val a + vli_val b + unat c"
    "unat c \<le> 1 \<Longrightarrow> unat c' \<le> 1"
proof -
  obtain ls where l: "carrying_add_loop (zip (limbs a) (limbs b)) c = (ls, c')" and s: "s = Vli ls"
    using assms(3) by (auto simp: Vli_carrying_add_def split: prod.splits)
  have "length (zip (limbs a) (limbs b)) = N" using assms(1,2) by (simp add: vli_ok_def)
  then show "vli_ok N s" "vli_val s + 2 ^ (64 * N) * unat c' = vli_val a + vli_val b + unat c"
    using carrying_add_loop_val [OF l] assms(1,2) s
    by (simp_all add: vli_ok_def vli_val_def)
  show "unat c \<le> 1 \<Longrightarrow> unat c' \<le> 1" by (rule carrying_add_loop_carry [OF l])
qed

section \<open>Byte order of whole numbers\<close>

lemma fold_update_upt:
  "n \<le> length xs \<Longrightarrow>
   fold (\<lambda>i out. out[i := f i]) [0..<n] xs = map f [0..<n] @ drop n xs"
proof (induction n)
  case (Suc n)
  then show ?case
    by (simp add: list_update_append upd_conv_take_nth_drop Cons_nth_drop_Suc [symmetric])
qed simp

lemma unswap_eq: "vli_ok N v \<Longrightarrow> Vli_unswap N v = Vli (map u64_from_be (rev (limbs v)))"
  unfolding Vli_unswap_def vli_ok_def vli.inject
  by (subst fold_update_upt) (auto intro!: nth_equalityI simp: rev_nth)

lemma unswap_ok: "vli_ok N v \<Longrightarrow> vli_ok N (Vli_unswap N v)"
  by (simp add: unswap_eq) (simp add: vli_ok_def)

lemma unswap_swap_digits:
  "length ls = N \<Longrightarrow> Vli_unswap N (Vli_from_limbs (ecc_swap_digits ls)) = Vli ls"
  by (subst unswap_eq)
    (simp_all add: vli_ok_def Vli_from_limbs_def ecc_swap_digits_def rev_map comp_def)

text \<open>In memory, a swapped number is its big-endian byte string.\<close>

lemma swap_digits_bytes:
  "limbs_to_le_bytes (ecc_swap_digits ls) = to_be_bytes (8 * length ls) (digits_val ls)"
proof -
  have "limbs_to_le_bytes (ecc_swap_digits ls) = rev (limbs_to_le_bytes ls)"
    by (induction ls)
      (simp_all add: ecc_swap_digits_def limbs_to_le_bytes_def u64_to_le_bytes_from_be
        u64_to_be_bytes_def)
  then show ?thesis by (simp add: to_be_bytes_digits_val)
qed

section \<open>Zeroing\<close>

lemma drop_zero: "vli_ok N v \<Longrightarrow> Vli_drop v = Vli_zero N"
  by (simp add: Vli_drop_def Vli_zero_def vli_ok_def map_replicate_const)

section \<open>The laws of Ord, PartialOrd and Eq\<close>

text \<open>
  What Rust demands of the comparison traits on the values \<open>ok\<close>: one of three answers,
  a total order, equality and the partial comparison consistent with it.
\<close>

fun ordering_reverse :: "ordering \<Rightarrow> ordering" where
  "ordering_reverse Less = Greater"
| "ordering_reverse Equal = Equal"
| "ordering_reverse Greater = Less"

locale rust_ord =
  fixes ok :: "'a \<Rightarrow> bool"
    and cmp :: "'a \<Rightarrow> 'a \<Rightarrow> ordering"
    and eq :: "'a \<Rightarrow> 'a \<Rightarrow> bool"
    and partial_cmp :: "'a \<Rightarrow> 'a \<Rightarrow> ordering option"
    and ge :: "'a \<Rightarrow> 'a \<Rightarrow> bool"
  assumes cmp_dual: "ok a \<Longrightarrow> ok b \<Longrightarrow> cmp b a = ordering_reverse (cmp a b)"
    and cmp_trans: "ok a \<Longrightarrow> ok b \<Longrightarrow> ok c \<Longrightarrow> cmp a b = Less \<Longrightarrow> cmp b c = Less \<Longrightarrow> cmp a c = Less"
    and cmp_Equal: "ok a \<Longrightarrow> ok b \<Longrightarrow> cmp a b = Equal \<longleftrightarrow> a = b"
    and eq_cmp: "ok a \<Longrightarrow> ok b \<Longrightarrow> eq a b \<longleftrightarrow> cmp a b = Equal"
    and partial_cmp_cmp: "ok a \<Longrightarrow> ok b \<Longrightarrow> partial_cmp a b = Some (cmp a b)"
    and ge_cmp: "ok a \<Longrightarrow> ok b \<Longrightarrow> ge a b \<longleftrightarrow> cmp a b \<noteq> Less"
begin

lemma ge_total: "ok a \<Longrightarrow> ok b \<Longrightarrow> ge a b \<or> ge b a"
  using cmp_dual [of a b] by (cases "cmp a b") (simp_all add: ge_cmp)

lemma ge_antisym: "ok a \<Longrightarrow> ok b \<Longrightarrow> ge a b \<Longrightarrow> ge b a \<Longrightarrow> a = b"
  using cmp_dual [of a b] by (cases "cmp a b") (simp_all add: ge_cmp cmp_Equal)

lemma ge_trans: "ok a \<Longrightarrow> ok b \<Longrightarrow> ok c \<Longrightarrow> ge a b \<Longrightarrow> ge b c \<Longrightarrow> ge a c"
proof (rule ccontr)
  assume ok: "ok a" "ok b" "ok c" and ge: "ge a b" "ge b c" and "\<not> ge a c"
  then have ac: "cmp a c = Less" by (simp add: ge_cmp)
  show False
  proof (cases "cmp a b")
    case Less
    then show ?thesis using ge ok by (simp add: ge_cmp)
  next
    case Equal
    then show ?thesis using ge ok ac by (simp add: ge_cmp cmp_Equal)
  next
    case Greater
    then have "cmp b a = Less" using ok cmp_dual [of a b] by simp
    then have "cmp b c = Less" using ok ac by (blast intro: cmp_trans)
    then show ?thesis using ge ok by (simp add: ge_cmp)
  qed
qed

end

context vli_ffi
begin

lemma cmp_ffi_val:
  assumes "N < 2 ^ 32" "vli_ok N a" "vli_ok N b"
  shows "Vli_cmp_ffi F N a b =
    (if vli_val a < vli_val b then Less else if vli_val b < vli_val a then Greater else Equal)"
  using ffi_cmp [of "limbs a" "word_of_nat N" "limbs b"] assms
  by (simp add: Vli_cmp_ffi_def vli_cmp_to_ordering_def vli_ok_def vli_val_def unat_word_of_nat_N)

lemma ge_ref_val:
  "N < 2 ^ 32 \<Longrightarrow> vli_ok N a \<Longrightarrow> vli_ok N b \<Longrightarrow> Vli_ge_ref F N a b \<longleftrightarrow> vli_val b \<le> vli_val a"
  by (simp add: Vli_ge_ref_def Vli_partial_cmp_ref_def cmp_ffi_val)

lemma is_zero_val:
  "N < 2 ^ 32 \<Longrightarrow> vli_ok N a \<Longrightarrow> Vli_is_zero F N a \<longleftrightarrow> vli_val a = 0"
  using ffi_is_zero [of "limbs a" "word_of_nat N"]
  by (simp add: Vli_is_zero_def vli_ok_def vli_val_def unat_word_of_nat_N)

lemma sub_with_borrow_val:
  assumes N: "N < 2 ^ 32" "vli_ok N a" "vli_ok N b" and r: "Vli_sub_with_borrow F N a b = (d, br)"
  shows "vli_ok N d" "vli_val d + vli_val b = vli_val a + 2 ^ (64 * N) * unat br"
proof -
  let ?s = "vli_sub F (limbs a) (limbs b) (word_of_nat N)"
  have u: "unat (word_of_nat N :: c_uint) = N" using N(1) by (rule unat_word_of_nat_N)
  have l: "length (fst ?s) = N"
    using ffi_sub_length [of "limbs a" "word_of_nat N" "limbs b"] N u by (simp add: vli_ok_def)
  have d: "d = Vli (fst ?s)" "br = snd ?s"
    using r l by (auto simp: Vli_sub_with_borrow_def split: prod.splits)
  show "vli_ok N d" using d l by (simp add: vli_ok_def)
  show "vli_val d + vli_val b = vli_val a + 2 ^ (64 * N) * unat br"
    using ffi_sub [of "limbs a" "word_of_nat N" "limbs b"] N u d by (simp add: vli_ok_def vli_val_def)
qed

lemma sub_ref_val:
  assumes "N < 2 ^ 32" "vli_ok N a" "vli_ok N b"
  shows "vli_ok N (Vli_sub_ref F N a b)"
    "vli_val (Vli_sub_ref F N a b) = (vli_val a + 2 ^ (64 * N) - vli_val b) mod 2 ^ (64 * N)"
proof -
  let ?B = "2 ^ (64 * N) :: nat"
  obtain d br where s: "Vli_sub_with_borrow F N a b = (d, br)" by fastforce
  note sv = sub_with_borrow_val [OF assms s]
  show ok: "vli_ok N (Vli_sub_ref F N a b)" using s sv by (simp add: Vli_sub_ref_def)
  have b: "vli_val d < ?B" "vli_val b < ?B" using sv(1) assms(3) by (auto intro: vli_val_bound)
  have "vli_val a + ?B - vli_val b + ?B * unat br = vli_val d + ?B" using sv(2) b(2) by simp
  then have "(vli_val a + ?B - vli_val b) mod ?B = vli_val d mod ?B"
    by (metis mod_add_self2 mod_mult_self2)
  then show "vli_val (Vli_sub_ref F N a b) = (vli_val a + ?B - vli_val b) mod ?B"
    using s b by (simp add: Vli_sub_ref_def)
qed

lemma sub_ref_no_borrow:
  "N < 2 ^ 32 \<Longrightarrow> vli_ok N a \<Longrightarrow> vli_ok N b \<Longrightarrow> vli_val b \<le> vli_val a \<Longrightarrow>
   vli_val (Vli_sub_ref F N a b) = vli_val a - vli_val b"
  using vli_val_bound [of N a] by (simp add: sub_ref_val mod_once)

text \<open>Subtracting the modulus once reduces any number below twice the modulus.\<close>

lemma reduce_once:
  assumes "N < 2 ^ 32" "vli_ok N v" "vli_ok N m" "vli_val v < 2 * vli_val m"
  shows "vli_ok N (if Vli_ge_ref F N v m then Vli_sub_ref F N v m else v)"
    "vli_val (if Vli_ge_ref F N v m then Vli_sub_ref F N v m else v) = vli_val v mod vli_val m"
proof -
  have "vli_val v mod vli_val m = vli_val v - vli_val m" if "vli_val m \<le> vli_val v"
    using that assms(4) by (simp add: mod_if)
  then show
    "vli_ok N (if Vli_ge_ref F N v m then Vli_sub_ref F N v m else v)"
    "vli_val (if Vli_ge_ref F N v m then Vli_sub_ref F N v m else v) = vli_val v mod vli_val m"
    using assms by (auto simp: ge_ref_val sub_ref_no_borrow sub_ref_val(1))
qed

lemma from_be_bytes_ok:
  assumes "N < 2 ^ 29" "length bytes = 8 * N"
  obtains v where "Vli_from_be_bytes F N bytes = Ok v" "vli_ok N v" "vli_val v = be_val bytes"
proof
  let ?v = "Vli (ecc_digits_from_bytes F bytes (word_of_nat (8 * N)) (word_of_nat N))"
  have "unat (word_of_nat (8 * N) :: c_uint) = 8 * N" "unat (word_of_nat N :: c_uint) = N"
    using assms(1) unat_word_of_nat_N [of "8 * N"] unat_word_of_nat_N [of N] by simp_all
  then have d: "length (limbs ?v) = N" "digits_val (limbs ?v) = be_val bytes"
    using ffi_from_bytes [of bytes "word_of_nat (8 * N)" "word_of_nat N"] assms(2) by auto
  show "Vli_from_be_bytes F N bytes = Ok ?v"
    using assms d by (simp add: Vli_from_be_bytes_def checked_mul_def rust_simps mult.commute)
  show "vli_ok N ?v" "vli_val ?v = be_val bytes"
    using d by (simp_all add: vli_ok_def vli_val_def)
qed

lemma mod_inv_val:
  assumes "N < 2 ^ 32" "vli_ok N a" "vli_ok N m"
  shows "vli_ok N (Vli_mod_inv F N a m)"
    "1 < vli_val m \<Longrightarrow> 0 < vli_val a \<Longrightarrow> vli_val a < vli_val m \<Longrightarrow> coprime (vli_val a) (vli_val m) \<Longrightarrow>
     vli_val (Vli_mod_inv F N a m) < vli_val m \<and>
     vli_val (Vli_mod_inv F N a m) * vli_val a mod vli_val m = 1"
  using ffi_mod_inv_length [of "limbs a" "word_of_nat N" "limbs m"]
    ffi_mod_inv [of "limbs a" "word_of_nat N" "limbs m"] assms
  by (simp_all add: Vli_mod_inv_def vli_ok_def vli_val_def unat_word_of_nat_N)

lemma mod_mult_val:
  assumes "N < 2 ^ 32" "vli_ok N a" "vli_ok N b" "vli_ok N m"
  shows "vli_ok N (Vli_mod_mult F N a b m)"
    "2 ^ (64 * N - 1) < vli_val m \<Longrightarrow>
     vli_val (Vli_mod_mult F N a b m) = vli_val a * vli_val b mod vli_val m"
  using ffi_mod_mult_length [of "limbs a" "word_of_nat N" "limbs b" "limbs m"]
    ffi_mod_mult [of "limbs a" "word_of_nat N" "limbs b" "limbs m"] assms
  by (simp_all add: Vli_mod_mult_def vli_ok_def vli_val_def unat_word_of_nat_N)

end

sublocale vli_ffi \<subseteq> scalar_ord: rust_ord "vli_ok P256_DIGITS" "Vli_cmp F P256_DIGITS"
    "Vli_eq F P256_DIGITS" "Vli_partial_cmp F P256_DIGITS" "Vli_ge_ref F P256_DIGITS"
proof unfold_locales
  fix a b assume ok: "vli_ok P256_DIGITS a" "vli_ok P256_DIGITS b"
  show "Vli_cmp F P256_DIGITS a b = Equal \<longleftrightarrow> a = b"
    using ok vli_val_inj [OF ok] by (auto simp: Vli_cmp_def cmp_ffi_val)
qed (auto simp: Vli_cmp_def Vli_eq_def Vli_partial_cmp_def cmp_ffi_val ge_ref_val split: if_splits)

context vli_ffi
begin

lemmas scalar_laws = scalar_ord.cmp_dual scalar_ord.ge_total scalar_ord.ge_trans

end

section \<open>Properties\<close>

lemma add_val:
  assumes "vli_ok N a" "vli_ok N b"
  shows "vli_ok N (Vli_add a b)" "vli_val (Vli_add a b) = (vli_val a + vli_val b) mod 2 ^ (64 * N)"
proof -
  obtain s c where s: "Vli_carrying_add a b 0 = (s, c)" by fastforce
  note sv = carrying_add_val [OF assms s]
  show "vli_ok N (Vli_add a b)" using s sv(1) by (simp add: Vli_add_def)
  have "(vli_val s + 2 ^ (64 * N) * unat c) mod 2 ^ (64 * N) = vli_val s"
    using vli_val_bound [OF sv(1)] by simp
  then show "vli_val (Vli_add a b) = (vli_val a + vli_val b) mod 2 ^ (64 * N)"
    using sv(2) s by (simp add: Vli_add_def)
qed

text \<open>
  C37. \<open>carrying_add\<close> is exact: with operands of \<open>N\<close> limbs and a carry in of 0 or 1, sum and
  carry out together are the integer sum of the operands and the carry in, the sum has \<open>N\<close>
  limbs, and the carry out is 0 or 1.
\<close>

theorem carrying_add_exact:
  assumes "vli_ok N a" "vli_ok N b" "unat c \<le> 1" "Vli_carrying_add a b c = (s, c')"
  shows "vli_ok N s \<and> unat c' \<le> 1 \<and>
    vli_val s + 2 ^ (64 * N) * unat c' = vli_val a + vli_val b + unat c"
  using carrying_add_val [OF assms(1,2,4)] assms(3) by simp

theorem carrying_add_exact_witness:
  "vli_ok 2 (Vli [0, 0]) \<and>
   vli_val (Vli [0, 0]) + 2 ^ 128 * 1 = vli_val (Vli [- 1, - 1]) + vli_val (Vli [1, 0])"
  using carrying_add_exact [of 2 "Vli [- 1, - 1]" "Vli [1, 0]" 0 "Vli [0, 0]" 1]
  by (simp add: vli_ok_def Vli_carrying_add_def overflowing_add_def unsigned_minus_1_eq_mask mask_eq_exp_minus_1)

text \<open>
  C38. \<open>sub_with_borrow\<close> is exact and the operators wrap around: the difference plus the
  subtrahend is the minuend plus the borrow times \<open>2 ^ (64 * N)\<close>, and subtracting what was added
  gives the first operand back, for every pair of operands.
\<close>

theorem sub_exact_and_inverse:
  assumes F: "vli_ffi F" and N: "N < 2 ^ 32" and ok: "vli_ok N a" "vli_ok N b"
  shows "vli_val (fst (Vli_sub_with_borrow F N a b)) + vli_val b =
      vli_val a + 2 ^ (64 * N) * unat (snd (Vli_sub_with_borrow F N a b)) \<and>
    Vli_sub F N (Vli_add a b) b = a"
proof
  obtain d br where s: "Vli_sub_with_borrow F N a b = (d, br)" by fastforce
  show "vli_val (fst (Vli_sub_with_borrow F N a b)) + vli_val b =
      vli_val a + 2 ^ (64 * N) * unat (snd (Vli_sub_with_borrow F N a b))"
    using vli_ffi.sub_with_borrow_val(2) [OF F N ok s] s by simp
  note add = add_val [OF ok]
  have sub: "Vli_sub F N (Vli_add a b) b = Vli_sub_ref F N (Vli_add a b) b"
    by (simp add: Vli_sub_def Vli_sub_ref_def)
  note sv = vli_ffi.sub_ref_val [OF F N add(1) ok(2)]
  have b: "vli_val a < 2 ^ (64 * N)" "vli_val b < 2 ^ (64 * N)" using ok by (auto intro: vli_val_bound)
  have "(vli_val a + vli_val b) mod 2 ^ (64 * N) =
      (if vli_val a + vli_val b < 2 ^ (64 * N) then vli_val a + vli_val b
       else vli_val a + vli_val b - 2 ^ (64 * N))"
    using b by (intro mod_once) simp
  then have "vli_val (Vli_sub_ref F N (Vli_add a b) b) = vli_val a"
    using b by (simp add: sv(2) add(2) mod_once)
  then show "Vli_sub F N (Vli_add a b) b = a" using vli_val_inj [OF sv(1) ok(1)] sub by simp
qed

theorem sub_exact_and_inverse_witness:
  "Vli_sub ref_ffi 2 (Vli_add (Vli [3, - 1]) (Vli [7, 1])) (Vli [7, 1]) = Vli [3, - 1]"
  using sub_exact_and_inverse [OF ref_vli.vli_ffi_axioms, of 2 "Vli [3, - 1]" "Vli [7, 1]"]
  by (simp add: vli_ok_def)

text \<open>
  C39. The comparison operators of a scalar agree with its numeric order: \<open>cmp\<close> is the linear
  order of the numbers, \<open>==\<close> is equality, \<open>partial_cmp\<close> is \<open>cmp\<close>, and \<open>>=\<close> against a reference
  is the order by value. The laws that Rust demands of these traits hold: \<open>cmp\<close> is dual, \<open>>=\<close> is
  total and transitive.
\<close>

theorem scalar_comparisons:
  assumes F: "vli_ffi F" and ok: "vli_ok P256_DIGITS a" "vli_ok P256_DIGITS b" "vli_ok P256_DIGITS c"
  shows "Vli_cmp F P256_DIGITS a b = (if a < b then Less else if a = b then Equal else Greater) \<and>
    (Vli_eq F P256_DIGITS a b \<longleftrightarrow> a = b) \<and> (Vli_eq_ref F P256_DIGITS a b \<longleftrightarrow> a = b) \<and>
    Vli_partial_cmp F P256_DIGITS a b = Some (Vli_cmp F P256_DIGITS a b) \<and>
    (Vli_ge_ref F P256_DIGITS a b \<longleftrightarrow> b \<le> a) \<and>
    Vli_cmp F P256_DIGITS b a = ordering_reverse (Vli_cmp F P256_DIGITS a b) \<and>
    (Vli_ge_ref F P256_DIGITS a b \<or> Vli_ge_ref F P256_DIGITS b a) \<and>
    (Vli_ge_ref F P256_DIGITS a b \<longrightarrow> Vli_ge_ref F P256_DIGITS b c \<longrightarrow> Vli_ge_ref F P256_DIGITS a c)"
proof -
  have c: "Vli_cmp_ffi F P256_DIGITS a b =
      (if a < b then Less else if a = b then Equal else Greater)"
    using vli_ffi.cmp_ffi_val [OF F _ ok(1,2)] vli_order [OF ok(1,2)] vli_val_inj [OF ok(1,2)] by auto
  have "Vli_ge_ref F P256_DIGITS a b \<longleftrightarrow> b \<le> a"
    using vli_ffi.ge_ref_val [OF F _ ok(1,2)] vli_order(1) [OF ok(2,1)] by simp
  then show ?thesis
    using c vli_ffi.scalar_laws(1) [OF F ok(1,2)] vli_ffi.scalar_laws(2) [OF F ok(1,2)]
      vli_ffi.scalar_laws(3) [OF F ok] by (auto simp: Vli_cmp_def Vli_eq_def Vli_eq_ref_def Vli_partial_cmp_def)
qed

theorem scalar_comparisons_witness:
  "Vli_cmp ref_ffi P256_DIGITS (Vli [9, 0, 0, 0]) (Vli [0, 0, 0, 1]) = Less \<and>
   \<not> Vli_ge_ref ref_ffi P256_DIGITS (Vli [9, 0, 0, 0]) (Vli [0, 0, 0, 1])"
  using scalar_comparisons [OF ref_vli.vli_ffi_axioms, of "Vli [9, 0, 0, 0]" "Vli [0, 0, 0, 1]" "Vli [0, 0, 0, 1]"]
  by (simp add: vli_ok_def less_vli_def vli_val_def flip: not_less)

text \<open>
  \<open>unswap\<close> undoes the swapped format of \<open>ecc_make_pub_key\<close>, and applied twice it is the identity.
\<close>

lemma unswap_inverts_swap:
  assumes "length ls = N" "vli_ok N v"
  shows "Vli_unswap N (Vli_from_limbs (ecc_swap_digits ls)) = Vli ls \<and>
    Vli_unswap N (Vli_unswap N v) = v"
  using assms unswap_swap_digits [OF assms(1)] unswap_ok [OF assms(2)]
  by (cases v) (simp add: unswap_eq rev_map vli_ok_def comp_def)

text \<open>
  C40. \<open>from_be_bytes\<close> accepts exactly the byte strings of \<open>8 * N\<close> bytes, and then returns the
  \<open>N\<close>-limb integer they denote in big-endian order; it refuses all others with \<open>EINVAL\<close>.
\<close>

theorem from_be_bytes_total:
  assumes F: "vli_ffi F" and N: "N < 2 ^ 29"
  shows "if length bytes = 8 * N
     then (\<exists>v. Vli_from_be_bytes F N bytes = Ok v \<and> vli_ok N v \<and> vli_val v = be_val bytes)
     else Vli_from_be_bytes F N bytes = Err EINVAL"
proof (cases "length bytes = 8 * N")
  case True
  obtain v where "Vli_from_be_bytes F N bytes = Ok v" "vli_ok N v" "vli_val v = be_val bytes"
    using vli_ffi.from_be_bytes_ok [OF F N True] .
  then show ?thesis using True by auto
next
  case False
  then show ?thesis using N by (simp add: Vli_from_be_bytes_def checked_mul_def rust_simps mult.commute)
qed

theorem from_be_bytes_total_witness:
  "(\<exists>v. Vli_from_be_bytes ref_ffi 1 [0, 0, 0, 0, 0, 0, 1, 2] = Ok v \<and> vli_val v = 258) \<and>
   Vli_from_be_bytes ref_ffi 4 [1, 2, 3] = Err EINVAL"
  using from_be_bytes_total [OF ref_vli.vli_ffi_axioms, of 1 "[0, 0, 0, 0, 0, 0, 1, 2]"]
    from_be_bytes_total [OF ref_vli.vli_ffi_axioms, of 4 "[1, 2, 3]"]
  by (auto simp: be_val_def)

end
