(* ===== verification/Ecc.thy ===== *)
theory Ecc
  imports Vli Reference_Kernel
begin

text \<open>
  \<open>src/driver/src/ecc.rs\<close>: the safe wrappers around the kernel's elliptic curve, hash and IMA
  functions. A \<open>Point\<close> owns an allocation of the kernel; reading through a null pointer, a freed
  point or past the end of a buffer is undefined behaviour, a \<open>Fault\<close> of the model. The lemmas
  give the effect of every wrapper on every path: no path faults, an error leaves no
  allocation behind, and a successful \<open>make_public_key\<close> leaves exactly one, which
  \<open>Point_drop\<close> removes.
\<close>

section \<open>Definitions\<close>

subsection \<open>Points\<close>

datatype point = Point (inner: ptr)

definition Point_inner :: "point \<Rightarrow> ('s world, ffi_point) prog" where
  "Point_inner self w =
     (case w_points w (inner self) of
        Some pt \<Rightarrow> (Ok pt, w)
      | None \<Rightarrow> (Fault UndefinedBehaviour, w))"

text \<open>\<open>core::ptr::read\<close> of an array of \<open>n\<close> limbs.\<close>

definition ptr_read :: "usize \<Rightarrow> u64 list option \<Rightarrow> u64 list outcome" where
  "ptr_read n p =
     (case p of
        Some ls \<Rightarrow> if n \<le> length ls then Ok (take n ls) else Fault UndefinedBehaviour
      | None \<Rightarrow> Fault UndefinedBehaviour)"

definition Point_x_scalar :: "point \<Rightarrow> ('s world, scalar) prog" where
  "Point_x_scalar self =
     bind (Point_inner self) (\<lambda>pt.
     bind (lift_outcome (ptr_read P256_DIGITS (pt_x pt))) (\<lambda>ls.
     ret (Vli_from_limbs ls)))"

definition Point_x_as_bytes :: "point \<Rightarrow> ('s world, u8 list) prog" where
  "Point_x_as_bytes self =
     bind (Point_inner self) (\<lambda>pt.
     bind (lift_outcome (ptr_read P256_DIGITS (pt_x pt))) (\<lambda>ls.
     ret (limbs_to_le_bytes ls)))"

definition Point_y_as_bytes :: "point \<Rightarrow> ('s world, u8 list) prog" where
  "Point_y_as_bytes self =
     bind (Point_inner self) (\<lambda>pt.
     bind (lift_outcome (ptr_read P256_DIGITS (pt_y pt))) (\<lambda>ls.
     ret (limbs_to_le_bytes ls)))"

definition Point_drop :: "'s ffi \<Rightarrow> point \<Rightarrow> 's world \<Rightarrow> 's world" where
  "Point_drop F self w = ecc_free_point F (inner self) w"

subsection \<open>Curve order and keys\<close>

definition get_curve_n :: "'s ffi \<Rightarrow> scalar option outcome" where
  "get_curve_n F =
     (case ecc_get_curve F P256 of
        None \<Rightarrow> Ok None
      | Some curve \<Rightarrow>
          (case cu_n curve of
             None \<Rightarrow> Ok None
           | Some n \<Rightarrow>
               bind_outcome (ptr_read P256_DIGITS (Some n)) (\<lambda>n. Ok (Some (Vli_from_limbs n)))))"

definition generate_private_key :: "'s ffi \<Rightarrow> 's krate \<Rightarrow> ('s world, scalar) prog" where
  "generate_private_key F K w =
     (let ((r, written), w') = ecc_gen_privkey F P256 (word_of_nat P256_DIGITS) w;
          key = Vli (write_out (limbs (Vli_zero P256_DIGITS)) written)
      in if r < 0 then (Err (from_errno K r), w') else (Ok key, w'))"

text \<open>\<open>core::ptr::copy_nonoverlapping\<close> of \<open>n\<close> limbs to the start of a buffer.\<close>

definition copy_nonoverlapping :: "u64 list \<Rightarrow> u64 list option \<Rightarrow> usize \<Rightarrow> u64 list outcome" where
  "copy_nonoverlapping src dst n =
     (case dst of
        Some ls \<Rightarrow> if n \<le> length src \<and> n \<le> length ls then Ok (take n src @ drop n ls)
                    else Fault UndefinedBehaviour
      | None \<Rightarrow> Fault UndefinedBehaviour)"

definition make_public_key :: "'s ffi \<Rightarrow> 's krate \<Rightarrow> scalar \<Rightarrow> ('s world, point) prog" where
  "make_public_key F K privkey w =
     (case ecc_alloc_point F (word_of_nat P256_DIGITS) w of
        (None, w1) \<Rightarrow> (Err ENOMEM, w1)
      | (Some p, w1) \<Rightarrow>
          bind (Point_inner (Point p)) (\<lambda>point w1.
            if pt_x point = None \<or> pt_y point = None
            then (Err EFAULT, ecc_free_point F p w1)
            else
              let ((r, written), w2) =
                    ecc_make_pub_key F P256 (word_of_nat P256_DIGITS) (limbs privkey) w1;
                  raw = write_out (replicate (2 * P256_DIGITS) 0) written
              in if r < 0 then (Err (from_errno K r), ecc_free_point F p w2)
                 else
                   bind (lift_outcome (copy_nonoverlapping raw (pt_x point) P256_DIGITS)) (\<lambda>x.
                   bind (lift_outcome
                     (copy_nonoverlapping (drop P256_DIGITS raw) (pt_y point) P256_DIGITS)) (\<lambda>y.
                   \<lambda>w2. (Ok (Point p),
                     w2\<lparr>w_points := (w_points w2)(p \<mapsto> point\<lparr>pt_x := Some x, pt_y := Some y\<rparr>)\<rparr>)))
                   w2) w1)"

subsection \<open>Hash and measurement\<close>

definition sha256_hash :: "'s ffi \<Rightarrow> u8 list \<Rightarrow> u8 list" where
  "sha256_hash F data =
     write_out (replicate P256_BYTES 0) (sha256 F data (word_of_nat (length data)))"

definition ima_measure_pubkey :: "'s ffi \<Rightarrow> 's krate \<Rightarrow> u8 list \<Rightarrow> ('s world, unit) prog" where
  "ima_measure_pubkey F K bytes w =
     (let (result, w') =
            ima_measure_critical_data F ''tarako_pubkey'' ''public-key-generate''
              bytes (word_of_nat (length bytes)) False None 0 w
      in if result < 0 then (Err (from_errno K result), w') else (Ok (), w'))"

section \<open>Keys\<close>

text \<open>A private key of the group: four limbs, between 1 and the order less one.\<close>

definition valid_private :: "'p curve_group \<Rightarrow> scalar \<Rightarrow> bool" where
  "valid_private C k \<longleftrightarrow> vli_ok P256_DIGITS k \<and> 0 < vli_val k \<and> vli_val k < cg_order C"

text \<open>The point of a private key, stored at address \<open>p\<close> in the swapped format.\<close>

definition holds_point :: "'p curve_group \<Rightarrow> nat \<Rightarrow> 's world \<Rightarrow> point \<Rightarrow> bool" where
  "holds_point C k w pt \<longleftrightarrow>
     (\<exists>q. w_points w (inner pt) = Some q \<and>
        pt_x q = Some (ecc_swap_digits (to_digits 4 (cg_x C (smul C k (cg_base C))))) \<and>
        pt_y q = Some (ecc_swap_digits (to_digits 4 (cg_y C (smul C k (cg_base C))))))"

text \<open>The world after a successful \<open>make_public_key\<close>: one more point, all else as before.\<close>

definition owns_point :: "'s world \<Rightarrow> 's world \<Rightarrow> point \<Rightarrow> bool" where
  "owns_point w w' pt \<longleftrightarrow>
     w_points w (inner pt) = None \<and>
     (\<exists>q. same_kernel (w\<lparr>w_points := (w_points w)(inner pt \<mapsto> q)\<rparr>) w')"

lemma owns_point_kernel:
  "owns_point w w1 pt \<Longrightarrow> same_kernel w1 w2 \<Longrightarrow> owns_point w w2 pt"
  unfolding owns_point_def by (meson same_kernel_trans)

lemma kernel_owns_point:
  "same_kernel w w1 \<Longrightarrow> owns_point w1 w2 pt \<Longrightarrow> owns_point w w2 pt"
  by (auto simp: owns_point_def same_kernel_def)

lemma holds_point_kernel: "holds_point C k w pt \<Longrightarrow> same_kernel w w' \<Longrightarrow> holds_point C k w' pt"
  by (simp add: holds_point_def same_kernel_def)

lemma word_4 [simp]: "word_of_nat P256_DIGITS = (4 :: c_uint)"
  by simp

context ecc_ffi
begin

lemma generate_private_key_post:
  assumes "generate_private_key F K w = (r, w')"
  shows "same_kernel w w'" "\<not> is_fault r" "r = Ok k \<Longrightarrow> valid_private C k"
proof -
  obtain s key where g: "ecc_gen_privkey F 2 4 w = ((s, key), w')"
    and r: "r = (if s < 0 then Err (from_errno K s) else Ok (Vli (write_out (replicate 4 0) key)))"
    using assms
    by (auto simp: generate_private_key_def P256_def Vli_zero_def Let_def split: prod.splits if_splits)
  note p = ffi_gen_privkey [OF g]
  show "same_kernel w w'" using p by simp
  show "\<not> is_fault r" using r by simp
  show "valid_private C k" if "r = Ok k"
    using that r p by (auto simp: valid_private_def vli_ok_def vli_val_def split: if_splits)
qed

lemma free_owned:
  assumes "owns_point w w1 pt"
  shows "same_kernel w (Point_drop F pt w1)"
proof -
  obtain q where n: "w_points w (inner pt) = None"
    and s: "same_kernel (w\<lparr>w_points := (w_points w)(inner pt \<mapsto> q)\<rparr>) w1"
    using assms by (auto simp: owns_point_def)
  have "w_points w1 (inner pt) \<noteq> None" using s by (simp add: same_kernel_def)
  from ffi_free [OF this] show ?thesis
    using n s by (auto simp: same_kernel_def Point_drop_def fun_upd_idem)
qed

text \<open>The allocation of a fresh point, and the two coordinates written into it.\<close>

lemma alloc_point_post:
  assumes "ecc_alloc_point F 4 w = (Some p, w1)"
  obtains q where "w_points w1 p = Some q" "owns_point w w1 (Point p)"
    "pt_x q = None \<or> (\<exists>b. pt_x q = Some b \<and> length b = 4)"
    "pt_y q = None \<or> (\<exists>b. pt_y q = Some b \<and> length b = 4)"
proof -
  obtain q where q: "w_points w p = None"
      "same_kernel (w\<lparr>w_points := (w_points w)(p \<mapsto> q)\<rparr>) w1"
      "\<forall>b. pt_x q = Some b \<longrightarrow> length b = 4" "\<forall>b. pt_y q = Some b \<longrightarrow> length b = 4"
    using ffi_alloc_some [OF assms] by auto
  then show ?thesis
    by (intro that [of q]) (auto simp: owns_point_def same_kernel_def)
qed

lemma make_public_key_filled:
  assumes own: "owns_point w w2 (Point p)" and pub: "length pub = 8" "pub = point_limbs C k"
    and b: "length bx = 4" "length b_y = 4"
  shows "\<exists>x y. copy_nonoverlapping pub (Some bx) 4 = Ok x \<and>
      copy_nonoverlapping (drop 4 pub) (Some b_y) 4 = Ok y \<and>
      (let w' = w2\<lparr>w_points := (w_points w2)(p \<mapsto> q\<lparr>pt_x := Some x, pt_y := Some y\<rparr>)\<rparr>
       in owns_point w w' (Point p) \<and> holds_point C k w' (Point p))"
  using assms
  by (auto simp: copy_nonoverlapping_def point_limbs_def ecc_swap_digits_def owns_point_def
      holds_point_def same_kernel_def Let_def)

lemma make_public_key_post:
  assumes m: "make_public_key F K k w = (r, w')" and k: "valid_private C k"
  shows "(\<exists>e. r = Err e \<and> same_kernel w w') \<or>
    (\<exists>pt. r = Ok pt \<and> owns_point w w' pt \<and> holds_point C (vli_val k) w' pt)"
proof (cases "ecc_alloc_point F 4 w")
  case (Pair po w1)
  show ?thesis
  proof (cases po)
    case None
    then show ?thesis using m Pair ffi_alloc_none [of w w1] by (auto simp: make_public_key_def)
  next
    case (Some p)
    note a = Pair [unfolded Some]
    note eq = m [unfolded make_public_key_def word_4 a, simplified, unfolded bind_def Point_inner_def]
    obtain q where q: "w_points w1 p = Some q" and own: "owns_point w w1 (Point p)"
      and bx: "pt_x q = None \<or> (\<exists>b. pt_x q = Some b \<and> length b = 4)"
      and b_y: "pt_y q = None \<or> (\<exists>b. pt_y q = Some b \<and> length b = 4)"
      using alloc_point_post [OF a] .
    obtain s pub w2 where mk: "ecc_make_pub_key F 2 4 (limbs k) w1 = ((s, pub), w2)"
      by (metis prod.collapse)
    have mp: "same_kernel w1 w2" "0 \<le> s \<Longrightarrow> pub = point_limbs C (vli_val k) \<and> length pub = 8"
      using ffi_make_pub_key [OF _ _ _ mk] k
      by (auto simp: valid_private_def vli_ok_def vli_val_def point_limbs_def ecc_swap_digits_def)
    have own2: "owns_point w w2 (Point p)" using own mp(1) by (rule owns_point_kernel)
    consider "pt_x q = None \<or> pt_y q = None"
      | cx cy where "pt_x q = Some cx" "pt_y q = Some cy" "length cx = 4" "length cy = 4"
      using bx b_y by auto
    then show ?thesis
    proof cases
      case 1
      then show ?thesis using eq q free_owned [OF own] by (auto simp: Point_drop_def)
    next
      case 2
      then show ?thesis
        using eq q mk free_owned [OF own2] mp(2)
          make_public_key_filled [OF own2 _ _ 2(3,4), of pub "vli_val k" q]
        by (auto simp: P256_def Point_drop_def lift_outcome_def Let_def split: if_splits)
    qed
  qed
qed

text \<open>What a stored point reads as: a native scalar after \<open>unswap\<close>, big-endian bytes as is.\<close>

lemma point_reads:
  assumes h: "holds_point C k w pt" and k: "0 < k" "k < cg_order C"
  shows "Point_x_as_bytes pt w = (Ok (to_be_bytes 32 (cg_x C (smul C k (cg_base C)))), w)"
    "Point_y_as_bytes pt w = (Ok (to_be_bytes 32 (cg_y C (smul C k (cg_base C)))), w)"
    "\<exists>v. Point_x_scalar pt w = (Ok v, w) \<and> vli_ok 4 v \<and>
       vli_ok 4 (Vli_unswap 4 v) \<and> vli_val (Vli_unswap 4 v) = cg_x C (smul C k (cg_base C))"
proof -
  let ?P = "smul C k (cg_base C)"
  let ?X = "to_digits 4 (cg_x C ?P) :: u64 list" and ?Y = "to_digits 4 (cg_y C ?P) :: u64 list"
  have v: "digits_val ?X = cg_x C ?P" "digits_val ?Y = cg_y C ?P"
    using base_coords [OF k] by (simp_all add: digits_val_to_digits)
  obtain q where q: "w_points w (inner pt) = Some q"
    "pt_x q = Some (ecc_swap_digits ?X)" "pt_y q = Some (ecc_swap_digits ?Y)"
    using h by (auto simp: holds_point_def)
  have l: "length (ecc_swap_digits ?X) = 4" "length (ecc_swap_digits ?Y) = 4"
    by (simp_all add: ecc_swap_digits_def)
  show "Point_x_as_bytes pt w = (Ok (to_be_bytes 32 (cg_x C ?P)), w)"
    using q l v swap_digits_bytes [of ?X]
    by (simp add: Point_x_as_bytes_def Point_inner_def bind_def ptr_read_def rust_simps)
  show "Point_y_as_bytes pt w = (Ok (to_be_bytes 32 (cg_y C ?P)), w)"
    using q l v swap_digits_bytes [of ?Y]
    by (simp add: Point_y_as_bytes_def Point_inner_def bind_def ptr_read_def rust_simps)
  show "\<exists>u. Point_x_scalar pt w = (Ok u, w) \<and> vli_ok 4 u \<and>
       vli_ok 4 (Vli_unswap 4 u) \<and> vli_val (Vli_unswap 4 u) = cg_x C ?P"
    using q l v unswap_swap_digits [of ?X 4]
    by (intro exI [of _ "Vli_from_limbs (ecc_swap_digits ?X)"])
      (simp add: Point_x_scalar_def Point_inner_def bind_def ptr_read_def rust_simps
        vli_ok_def vli_val_def Vli_from_limbs_def)
qed

lemma get_curve_n_post:
  "\<not> is_fault (get_curve_n F)"
  "get_curve_n F = Ok (Some n) \<Longrightarrow> vli_ok 4 n \<and> vli_val n = cg_order C"
  using ffi_get_curve
  by (auto simp: get_curve_n_def ptr_read_def P256_def Vli_from_limbs_def vli_ok_def vli_val_def
      split: option.splits)

end

context sha256_ffi
begin

lemma length_sha256_hash [simp]: "length (sha256_hash F data) = 32"
  by (simp add: sha256_hash_def ffi_sha256_length)

end

definition pubkey_event :: "u8 list \<Rightarrow> ima_event" where
  "pubkey_event bytes = \<lparr>ev_label = ''tarako_pubkey'', ev_name = ''public-key-generate'',
     ev_buf = bytes, ev_hash = False\<rparr>"

context ima_ffi
begin

text \<open>
  The driver takes any non-negative status as success. That is right because it passes no
  digest buffer, so that the status 1 cannot occur.
\<close>

lemma ima_measure_pubkey_post:
  assumes m: "ima_measure_pubkey F K bytes w = (r, w')" and l: "length bytes < 2 ^ 64"
  shows "\<not> is_fault r"
    "r = Ok () \<Longrightarrow> same_kernel (w\<lparr>w_ima := w_ima w @ [pubkey_event bytes]\<rparr>) w'"
    "r = Err e \<Longrightarrow> same_kernel w w'"
proof -
  obtain s where s: "ima_measure_critical_data F ''tarako_pubkey'' ''public-key-generate''
      bytes (word_of_nat (length bytes)) False None 0 w = (s, w')"
    and r: "r = (if s < 0 then Err (from_errno K s) else Ok ())"
    using m by (auto simp: ima_measure_pubkey_def Let_def split: prod.splits if_splits)
  have u: "unat (word_of_nat (length bytes) :: c_ulong) = length bytes"
    using l by (intro unat_word_of_nat_small) simp
  have "\<not> 0 < s" using ffi_ima_positive [OF s] by auto
  then have s0: "0 \<le> s \<Longrightarrow> s = 0" by simp
  show "\<not> is_fault r" using r by simp
  show "r = Ok () \<Longrightarrow> same_kernel (w\<lparr>w_ima := w_ima w @ [pubkey_event bytes]\<rparr>) w'"
    using r s s0 ffi_ima_measured [of "''tarako_pubkey''" "''public-key-generate''" bytes
        "word_of_nat (length bytes)" False None 0 w w'] u
    by (auto simp: pubkey_event_def split: if_splits)
  show "r = Err e \<Longrightarrow> same_kernel w w'"
    using r ffi_ima_failed [OF s] by (auto split: if_splits)
qed

end

section \<open>The wrappers on the reference kernel\<close>

lemma ref_smul_base: "k < p256_order \<Longrightarrow> smul ref_curve k (cg_base ref_curve) = k"
  using ref_smul [of k] by (simp add: ref_curve_def)

lemma p256_order_big: "k < 2 ^ 255 \<Longrightarrow> k < p256_order"
  using p256_order_bounds(1) by simp

lemma ref_valid_private: "0 < x \<Longrightarrow> valid_private ref_curve (Vli [x, 0, 0, 0])"
proof -
  assume x: "0 < x"
  have "unat x < 2 ^ 64" using unsigned_less [of x, where ?'a = nat] by simp
  then have "unat x < 2 ^ 255" by (rule less_trans) simp
  then have "unat x < p256_order" by (rule p256_order_big)
  then show ?thesis using x
    by (simp add: valid_private_def vli_ok_def vli_val_def ref_curve_def word_less_nat_alt)
qed

lemma to_digits_limb: "to_digits 4 (unat x) = [x, 0, 0, 0 :: u64]"
proof -
  have "length [x, 0, 0, 0] = 4" "digits_val [x, 0, 0, 0] = unat x" by simp_all
  then show ?thesis using to_digits_digits_val [of "[x, 0, 0, 0]"] by metis
qed

lemma ref_generate:
  assumes k: "k < 2 ^ 64 - 1"
  shows "generate_private_key ref_ffi K (ref_memory m l (k # ks)) =
    (Ok (Vli [word_of_nat (Suc k), 0, 0, 0]), ref_memory m l ks)"
proof -
  have "2 ^ 64 < (2 ^ 255 :: nat)" by simp
  then have "k < p256_order - 1" using k p256_order_bounds(1) by linarith
  then have m: "k mod (p256_order - 1) = k" by (rule mod_less)
  have "unat (word_of_nat (Suc k) :: u64) = Suc k"
    using k by (intro unat_word_of_nat_small) simp
  then have d: "(to_digits 4 (Suc k) :: u64 list) = [word_of_nat (Suc k), 0, 0, 0]"
    using to_digits_limb [of "word_of_nat (Suc k)"] by simp
  have "ecc_gen_privkey ref_ffi P256 4 (ref_memory m l (k # ks)) =
      ((0, [word_of_nat (Suc k), 0, 0, 0]), ref_memory m l ks)"
    using m d by (simp add: ref_ffi_def ref_gen_privkey_def ref_memory_def)
  then show ?thesis by (simp add: generate_private_key_def Vli_zero_def)
qed

definition ref_point_memory ::
    "(usize \<Rightarrow> u8) \<Rightarrow> ima_event list \<Rightarrow> nat list \<Rightarrow> u64 \<Rightarrow> ref_world" where
  "ref_point_memory m l ks x = (ref_memory m l ks)\<lparr>w_points := (\<lambda>_. None)(1 \<mapsto>
     \<lparr>pt_x = Some (ecc_swap_digits [x, 0, 0, 0]),
      pt_y = Some (ecc_swap_digits (to_digits 4 (2 * unat x mod p256_order))), pt_ndigits = 4\<rparr>)\<rparr>"

abbreviation ref_point_world :: "ima_event list \<Rightarrow> nat list \<Rightarrow> u64 \<Rightarrow> ref_world" where
  "ref_point_world \<equiv> ref_point_memory (\<lambda>_. 0x41)"

lemma ref_make_public_key:
  "make_public_key ref_ffi K (Vli [x, 0, 0, 0]) (ref_memory m l ks) = (Ok (Point 1), ref_point_memory m l ks x)"
proof -
  show ?thesis
    by (simp add: to_digits_limb Let_def make_public_key_def ref_ffi_def ref_alloc_point_def ref_memory_def Point_inner_def
        bind_def ref_make_pub_key_def write_out_def copy_nonoverlapping_def lift_outcome_def
        ref_point_memory_def ecc_swap_digits_def)
qed

section \<open>Properties\<close>

text \<open>
  C34. \<open>make_public_key\<close> has no memory error on any path and leaks nothing: an error leaves the
  kernel as it was, a success leaves exactly one new allocation, whose removal by the destructor
  of \<open>Point\<close> restores the kernel.
\<close>

theorem make_public_key_safe:
  assumes F: "ecc_ffi F C" and k: "valid_private C k"
  shows "case make_public_key F K k w of
      (Ok pt, w') \<Rightarrow> w_points w (inner pt) = None \<and> w_points w' (inner pt) \<noteq> None \<and>
        (\<forall>p. p \<noteq> inner pt \<longrightarrow> w_points w' p = w_points w p) \<and> same_kernel w (Point_drop F pt w')
    | (Err e, w') \<Rightarrow> same_kernel w w'
    | (Fault b, w') \<Rightarrow> False"
proof -
  obtain r w' where m: "make_public_key F K k w = (r, w')" by fastforce
  show ?thesis
    using ecc_ffi.make_public_key_post [OF F m k]
  proof
    assume "\<exists>pt. r = Ok pt \<and> owns_point w w' pt \<and> holds_point C (vli_val k) w' pt"
    then obtain pt where pt: "r = Ok pt" "owns_point w w' pt" by blast
    show ?thesis
      using m pt ecc_ffi.free_owned [OF F pt(2)] by (auto simp: owns_point_def same_kernel_fields)
  qed (use m in auto)
qed

theorem make_public_key_safe_witness:
  "same_kernel (ref_world [] []) (Point_drop ref_ffi (Point 1) (ref_point_world [] [] 6))"
  using make_public_key_safe [OF ref_ecc.ecc_ffi_axioms ref_valid_private, of 6 "ref_world [] []" ref_krate]
  by (simp add: ref_make_public_key)

text \<open>
  C35. What a point reads as: after a successful \<open>make_public_key\<close> for the private key \<open>k\<close>,
  \<open>x_as_bytes\<close> and \<open>y_as_bytes\<close> are the coordinates of \<open>k\<close> times the base point, big-endian, and
  \<open>x_scalar\<close> followed by \<open>unswap\<close> is the X coordinate as a number.
\<close>

theorem point_coordinates:
  assumes F: "ecc_ffi F C" and k: "valid_private C k" and m: "make_public_key F K k w = (Ok pt, w')"
  shows "let P = smul C (vli_val k) (cg_base C)
     in Point_x_as_bytes pt w' = (Ok (to_be_bytes 32 (cg_x C P)), w') \<and>
        Point_y_as_bytes pt w' = (Ok (to_be_bytes 32 (cg_y C P)), w') \<and>
        (\<exists>v. Point_x_scalar pt w' = (Ok v, w') \<and> vli_val (Vli_unswap P256_DIGITS v) = cg_x C P)"
proof -
  have "holds_point C (vli_val k) w' pt" using ecc_ffi.make_public_key_post [OF F m k] by simp
  from ecc_ffi.point_reads [OF F this] k show ?thesis
    by (auto simp: valid_private_def Let_def)
qed

theorem point_coordinates_witness:
  "Point_x_as_bytes (Point 1) (ref_point_world [] [] 6) =
     (Ok (to_be_bytes 32 6), ref_point_world [] [] 6)"
  using point_coordinates [OF ref_ecc.ecc_ffi_axioms ref_valid_private ref_make_public_key,
      of 6] ref_smul_base [of 6] p256_order_big [of 6]
  by (simp add: vli_val_def) (simp add: ref_curve_def)

text \<open>
  Measurement is recorded in clear: when \<open>ima_measure_pubkey\<close> returns \<open>Ok\<close>, the IMA log has
  exactly one new entry, the unhashed key under the driver's label and event name; when it fails
  the log is unchanged. There is no third outcome.
\<close>

lemma ima_measure_recorded:
  assumes F: "ima_ffi F" and l: "length bytes < 2 ^ 64"
  shows "case ima_measure_pubkey F K bytes w of
      (Ok _, w') \<Rightarrow> w_ima w' = w_ima w @ [\<lparr>ev_label = ''tarako_pubkey'',
        ev_name = ''public-key-generate'', ev_buf = bytes, ev_hash = False\<rparr>]
    | (Err e, w') \<Rightarrow> w_ima w' = w_ima w
    | (Fault b, w') \<Rightarrow> False"
proof -
  obtain r w' where m: "ima_measure_pubkey F K bytes w = (r, w')" by fastforce
  show ?thesis
    using ima_ffi.ima_measure_pubkey_post [OF F m l] m
    by (cases r) (auto simp: same_kernel_def pubkey_event_def)
qed

lemma ima_measure_recorded_witness:
  "map ev_buf (w_ima (snd (ima_measure_pubkey ref_ffi ref_krate [2, 7] (ref_world [] [])))) = [[2, 7]]"
proof -
  have run: "fst (ima_measure_pubkey ref_ffi ref_krate [2, 7] (ref_world [] [])) = Ok ()"
    by (simp add: ima_measure_pubkey_def ref_ffi_def ref_ima_def ref_memory_def Let_def)
  have "ima_ffi ref_ffi" by unfold_locales
  from ima_measure_recorded [OF this, of "[2, 7]" "ref_world [] []" ref_krate] run show ?thesis
    by (simp add: split_beta) (simp add: ref_memory_def)
qed

end
