(* ===== verification/Ecdsa.thy ===== *)
theory Ecdsa
  imports Ecc
begin

text \<open>
  \<open>ecdsa_sign\<close> of \<open>src/driver/src/ioctl.rs\<close>: up to 100 attempts, each with a fresh nonce, and
  every attempt frees the point it allocated.

  The specification is that of FIPS 186 and SEC 1: \<open>ecdsa_signature\<close> is the signing equation
  for a nonce, \<open>ecdsa_valid\<close> the verification of a signature against a public key. The driver's
  limb arithmetic is shown to compute a signature in this sense, and every such signature is
  shown to pass verification under the public key of the signing key.
\<close>

section \<open>Definitions\<close>

text \<open>\<open>if v >= curve_n { v - curve_n } else { v }\<close>, applied to \<open>r\<close> and to \<open>z\<close>.\<close>

definition reduce_mod_n :: "'s ffi \<Rightarrow> scalar \<Rightarrow> scalar \<Rightarrow> scalar" where
  "reduce_mod_n F v curve_n =
     (if Vli_ge_ref F P256_DIGITS v curve_n then Vli_sub_ref F P256_DIGITS v curve_n else v)"

text \<open>The computation of \<open>s\<close> from the reduced hash \<open>z\<close>, the nonce \<open>k\<close> and \<open>r\<close>.\<close>

definition sign_s :: "'s ffi \<Rightarrow> scalar \<Rightarrow> scalar \<Rightarrow> scalar \<Rightarrow> scalar \<Rightarrow> scalar \<Rightarrow> scalar" where
  "sign_s F z r k privkey curve_n =
     (let s = Vli_mod_mult F P256_DIGITS r privkey curve_n;
          (z_plus_rs, carry) = Vli_carrying_add z s 0;
          z_plus_rs =
            (if carry \<noteq> 0 \<or> Vli_ge_ref F P256_DIGITS z_plus_rs curve_n
             then Vli_sub_ref F P256_DIGITS z_plus_rs curve_n else z_plus_rs);
          k_inv = Vli_mod_inv F P256_DIGITS k curve_n
      in Vli_mod_mult F P256_DIGITS z_plus_rs k_inv curve_n)"

text \<open>
  One turn of the loop: \<open>None\<close> is \<open>continue\<close>. \<open>sign_with_point\<close> is the part of the turn in
  which the point of the nonce is alive; the point is dropped when the turn ends.
\<close>

definition sign_with_point ::
    "'s ffi \<Rightarrow> u8 list \<Rightarrow> scalar \<Rightarrow> scalar \<Rightarrow> scalar \<Rightarrow> point \<Rightarrow>
     ('s world, (scalar \<times> scalar) option) prog" where
  "sign_with_point F data_hash privkey curve_n k pubk =
     bind (Point_x_scalar pubk) (\<lambda>r_swapped.
       let r = reduce_mod_n F (Vli_unswap P256_DIGITS r_swapped) curve_n
       in if Vli_is_zero F P256_DIGITS r then ret None
          else
            bind (lift_outcome (Vli_from_be_bytes F P256_DIGITS data_hash)) (\<lambda>z.
              let z = reduce_mod_n F z curve_n;
                  s = sign_s F z r k privkey curve_n
              in if Vli_is_zero F P256_DIGITS s then ret None else ret (Some (r, s))))"

definition sign_attempt ::
    "'s ffi \<Rightarrow> 's krate \<Rightarrow> u8 list \<Rightarrow> scalar \<Rightarrow> scalar \<Rightarrow> ('s world, (scalar \<times> scalar) option) prog"
  where
  "sign_attempt F K data_hash privkey curve_n =
     bind (generate_private_key F K) (\<lambda>k.
     bind (make_public_key F K k) (\<lambda>pubk.
     drop_after (Point_drop F pubk) (sign_with_point F data_hash privkey curve_n k pubk)))"

fun sign_loop ::
    "nat \<Rightarrow> 's ffi \<Rightarrow> 's krate \<Rightarrow> u8 list \<Rightarrow> scalar \<Rightarrow> scalar \<Rightarrow> ('s world, scalar \<times> scalar) prog"
  where
  "sign_loop 0 F K data_hash privkey curve_n = fail EINVAL"
| "sign_loop (Suc n) F K data_hash privkey curve_n =
     bind (sign_attempt F K data_hash privkey curve_n) (\<lambda>res.
       case res of
         Some sig \<Rightarrow> ret sig
       | None \<Rightarrow> sign_loop n F K data_hash privkey curve_n)"

definition ecdsa_sign ::
    "'s ffi \<Rightarrow> 's krate \<Rightarrow> u8 list \<Rightarrow> scalar \<Rightarrow> scalar \<Rightarrow> ('s world, scalar \<times> scalar) prog" where
  "ecdsa_sign F K data privkey curve_n =
     (let data_hash = sha256_hash F data in sign_loop 100 F K data_hash privkey curve_n)"

section \<open>Specification\<close>

text \<open>\<open>(r, s)\<close> is the signature of the hash value \<open>z\<close> under private key \<open>d\<close> with nonce \<open>k\<close>.\<close>

definition ecdsa_signature :: "'p curve_group \<Rightarrow> nat \<Rightarrow> nat \<Rightarrow> nat \<Rightarrow> nat \<times> nat \<Rightarrow> bool" where
  "ecdsa_signature C d z k = (\<lambda>(r, s).
     0 < k \<and> k < cg_order C \<and> 0 < r \<and> r < cg_order C \<and> 0 < s \<and> s < cg_order C \<and>
     r = cg_x C (smul C k (cg_base C)) mod cg_order C \<and>
     s * k mod cg_order C = (z + r * d) mod cg_order C)"

text \<open>Verification of \<open>(r, s)\<close> for the hash value \<open>z\<close> under the public key \<open>Q\<close>.\<close>

definition ecdsa_valid :: "'p curve_group \<Rightarrow> 'p \<Rightarrow> nat \<Rightarrow> nat \<times> nat \<Rightarrow> bool" where
  "ecdsa_valid C Q z = (\<lambda>(r, s).
     0 < r \<and> r < cg_order C \<and> 0 < s \<and> s < cg_order C \<and>
     (\<exists>w < cg_order C. s * w mod cg_order C = 1 \<and>
        (let P = cg_add C (smul C (z * w mod cg_order C) (cg_base C))
                   (smul C (r * w mod cg_order C) Q)
         in P \<noteq> cg_zero C \<and> cg_x C P mod cg_order C = r)))"

text \<open>A nonce that yields no signature: \<open>r\<close> or \<open>s\<close> would be zero.\<close>

definition degenerate_nonce :: "'p curve_group \<Rightarrow> nat \<Rightarrow> nat \<Rightarrow> nat \<Rightarrow> bool" where
  "degenerate_nonce C d z k \<longleftrightarrow>
     (let r = cg_x C (smul C k (cg_base C)) mod cg_order C
      in r = 0 \<or> (z + r * d) mod cg_order C = 0)"

definition curve_n_ok :: "'p curve_group \<Rightarrow> scalar \<Rightarrow> bool" where
  "curve_n_ok C n \<longleftrightarrow> vli_ok P256_DIGITS n \<and> vli_val n = cg_order C"

section \<open>A signature verifies\<close>

lemma inverse_exists:
  assumes "coprime s n" "1 < (n::nat)"
  obtains w where "w < n" "s * w mod n = 1"
proof
  show "nat (fst (bezw s n) mod int n) < n" "s * nat (fst (bezw s n) mod int n) mod n = 1"
    using ref_inverse [OF assms(2,1)] by (simp_all add: mult.commute)
qed

context p256_group
begin

lemma ecdsa_signature_valid:
  assumes sig: "ecdsa_signature C d z k (r, s)"
  shows "ecdsa_valid C (smul C d (cg_base C)) z (r, s)"
proof -
  let ?n = "cg_order C" and ?G = "cg_base C"
  have b: "0 < k" "k < ?n" "0 < r" "r < ?n" "0 < s" "s < ?n"
    and r: "r = cg_x C (smul C k ?G) mod ?n" and s: "s * k mod ?n = (z + r * d) mod ?n"
    using sig by (auto simp: ecdsa_signature_def)
  obtain w where w: "w < ?n" "s * w mod ?n = 1"
    using order_invertible [OF b(5,6)] order_pos(1) by (rule inverse_exists)
  let ?P = "cg_add C (smul C (z * w mod ?n) ?G) (smul C (r * w mod ?n) (smul C d ?G))"
  have "?P = smul C (z * w mod ?n + (r * w mod ?n) * d) ?G"
    by (simp add: smul_add smul_mult on_base)
  also have "\<dots> = smul C ((z * w mod ?n + (r * w mod ?n) * d) mod ?n) ?G"
    by (simp add: smul_mod)
  also have "(z * w mod ?n + (r * w mod ?n) * d) mod ?n = (z + r * d) * w mod ?n"
    by (metis (no_types, opaque_lifting) add_mult_distrib mod_add_eq mod_mod_trivial
        mod_mult_left_eq mult.assoc mult.commute)
  also have "\<dots> = (s * k) * w mod ?n" using s by (metis mod_mult_left_eq)
  also have "\<dots> = (s * w) * k mod ?n" by (simp add: ac_simps)
  also have "\<dots> = k" using w b by (metis mod_less mod_mult_left_eq mult_1)
  finally have "?P = smul C k ?G" .
  then show ?thesis
    using b w r order_least [OF b(1,2)] by (auto simp: ecdsa_valid_def Let_def intro!: exI [of _ w])
qed

end

section \<open>The driver's arithmetic\<close>

lemma mod_cancel_inverse:
  fixes n :: nat
  assumes "ki * k mod n = 1"
  shows "(a * ki mod n) * k mod n = a mod n"
proof -
  have "(a * ki mod n) * k mod n = a * (ki * k mod n) mod n"
    by (metis mod_mult_left_eq mod_mult_right_eq mult.assoc)
  then show ?thesis using assms by simp
qed

context ecc_ffi
begin

lemma curve_n_facts:
  assumes "curve_n_ok C n"
  shows "vli_ok 4 n" "vli_val n = cg_order C" "2 ^ 255 < vli_val n" "vli_val n < 2 ^ 256"
    "1 < vli_val n"
  using assms order_bounds order_pos by (simp_all add: curve_n_ok_def)

lemma reduce_mod_n_val:
  assumes "curve_n_ok C n" "vli_ok 4 v"
  shows "vli_ok 4 (reduce_mod_n F v n)" "vli_val (reduce_mod_n F v n) = vli_val v mod cg_order C"
proof -
  have "vli_val v < 2 * vli_val n"
    using vli_val_bound [OF assms(2)] curve_n_facts(3) [OF assms(1)] by simp
  then show "vli_ok 4 (reduce_mod_n F v n)"
    "vli_val (reduce_mod_n F v n) = vli_val v mod cg_order C"
    using reduce_once [of 4 v n] assms curve_n_facts [OF assms(1)]
    by (simp_all add: reduce_mod_n_def split: if_splits)
qed

text \<open>Adding two residues with a carry, then subtracting the order at most once.\<close>

lemma add_residues:
  assumes n: "curve_n_ok C n" and a: "vli_ok 4 a" "vli_val a < cg_order C"
    and b: "vli_ok 4 b" "vli_val b < cg_order C" and add: "Vli_carrying_add a b 0 = (t, c)"
  shows "vli_ok 4 (if c \<noteq> 0 \<or> Vli_ge_ref F 4 t n then Vli_sub_ref F 4 t n else t)"
    "vli_val (if c \<noteq> 0 \<or> Vli_ge_ref F 4 t n then Vli_sub_ref F 4 t n else t) =
       (vli_val a + vli_val b) mod cg_order C"
proof -
  note nf = curve_n_facts [OF n]
  note sum = carrying_add_val [OF a(1) b(1) add]
  have t: "vli_ok 4 t" "vli_val t < 2 ^ 256" using sum(1) vli_val_bound [OF sum(1)] by simp_all
  have c: "unat c = 0 \<or> unat c = 1" using sum(3) by auto
  have ge: "c \<noteq> 0 \<or> Vli_ge_ref F 4 t n \<longleftrightarrow> cg_order C \<le> vli_val a + vli_val b"
    using c sum(2) t nf ge_ref_val [of 4 t n] by (auto simp: unat_eq_0)
  have ok: "vli_ok 4 (Vli_sub_ref F 4 t n)"
    and val: "vli_val (Vli_sub_ref F 4 t n) = (vli_val t + 2 ^ 256 - cg_order C) mod 2 ^ 256"
    using sub_ref_val [of 4 t n] t nf by simp_all
  show "vli_ok 4 (if c \<noteq> 0 \<or> Vli_ge_ref F 4 t n then Vli_sub_ref F 4 t n else t)"
    using t ok by simp
  have m: "(vli_val a + vli_val b) mod cg_order C =
      (if vli_val a + vli_val b < cg_order C then vli_val a + vli_val b
       else vli_val a + vli_val b - cg_order C)"
    using a(2) b(2) by (intro mod_once) simp
  have "vli_val (Vli_sub_ref F 4 t n) = vli_val a + vli_val b - cg_order C"
    if big: "cg_order C \<le> vli_val a + vli_val b"
  proof (cases "c = 0")
    case True
    then show ?thesis using big sum(2) t nf val by (simp add: mod_once)
  next
    case False
    then have "vli_val t + 2 ^ 256 = vli_val a + vli_val b" using c sum(2) by (simp add: unat_eq_0)
    then show ?thesis using a(2) b(2) nf val by simp
  qed
  moreover have "vli_val t = vli_val a + vli_val b" if "\<not> cg_order C \<le> vli_val a + vli_val b"
    using that ge sum(2) by simp
  ultimately show "vli_val (if c \<noteq> 0 \<or> Vli_ge_ref F 4 t n then Vli_sub_ref F 4 t n else t) =
       (vli_val a + vli_val b) mod cg_order C"
    using m ge by auto
qed

lemma sign_s_val:
  assumes n: "curve_n_ok C n" and k: "valid_private C k" and d: "valid_private C d"
    and z: "vli_ok 4 z" "vli_val z < cg_order C" and r: "vli_ok 4 r"
  shows "vli_ok 4 (sign_s F z r k d n)" "vli_val (sign_s F z r k d n) < cg_order C"
    "vli_val (sign_s F z r k d n) * vli_val k mod cg_order C =
       (vli_val z + vli_val r * vli_val d) mod cg_order C"
proof -
  note nf = curve_n_facts [OF n]
  have kd: "vli_ok 4 k" "0 < vli_val k" "vli_val k < cg_order C" "vli_ok 4 d"
    using k d by (simp_all add: valid_private_def)
  let ?rd = "Vli_mod_mult F 4 r d n"
  have rd: "vli_ok 4 ?rd" "vli_val ?rd = vli_val r * vli_val d mod cg_order C"
    using mod_mult_val [of 4 r d n] r kd nf by simp_all
  then have rd_lt: "vli_val ?rd < cg_order C" using order_pos by simp
  obtain t c where add: "Vli_carrying_add z ?rd 0 = (t, c)" by fastforce
  let ?a = "if c \<noteq> 0 \<or> Vli_ge_ref F 4 t n then Vli_sub_ref F 4 t n else t"
  note a = add_residues [OF n z rd(1) rd_lt add]
  let ?ki = "Vli_mod_inv F 4 k n"
  have ki: "vli_ok 4 ?ki" "vli_val ?ki * vli_val k mod cg_order C = 1"
    using mod_inv_val [of 4 k n] kd nf order_invertible [of "vli_val k"] by simp_all
  have s: "sign_s F z r k d n = Vli_mod_mult F 4 ?a ?ki n" by (simp add: sign_s_def add Let_def)
  have sv: "vli_ok 4 (sign_s F z r k d n)"
    "vli_val (sign_s F z r k d n) = vli_val ?a * vli_val ?ki mod cg_order C"
    using mod_mult_val [of 4 ?a ?ki n] a(1) ki(1) nf by (simp_all add: s)
  then show "vli_ok 4 (sign_s F z r k d n)" "vli_val (sign_s F z r k d n) < cg_order C"
    using order_pos by simp_all
  have "vli_val (sign_s F z r k d n) * vli_val k mod cg_order C = vli_val ?a mod cg_order C"
    using mod_cancel_inverse [OF ki(2)] by (simp only: sv)
  then show "vli_val (sign_s F z r k d n) * vli_val k mod cg_order C =
       (vli_val z + vli_val r * vli_val d) mod cg_order C"
    by (simp only: a(2) rd(2)) (simp add: mod_add_right_eq)
qed

section \<open>One attempt\<close>

text \<open>With the point of the nonce at hand, the attempt is decided by the nonce alone.\<close>

lemma s_zero_iff:
  assumes "s * k mod n = t mod n" "s < n" "coprime k (n::nat)"
  shows "s = 0 \<longleftrightarrow> t mod n = 0"
proof
  assume "t mod n = 0"
  then have "n dvd s * k" using assms(1) by (simp add: mod_eq_0_iff_dvd)
  then have "n dvd s" using assms(3) by (simp add: coprime_commute coprime_dvd_mult_left_iff)
  then show "s = 0" using assms(2) by (meson dvd_imp_le leD neq0_conv)
qed (use assms(1) in simp)

lemma sign_with_point_post:
  assumes n: "curve_n_ok C n" and d: "valid_private C d" and k: "valid_private C k"
    and h: "length h = 32" and pt: "holds_point C (vli_val k) w pt"
  shows "(degenerate_nonce C (vli_val d) (be_val h) (vli_val k) \<and>
      sign_with_point F h d n k pt w = (Ok None, w)) \<or>
    (\<exists>r s. sign_with_point F h d n k pt w = (Ok (Some (r, s)), w) \<and> vli_ok 4 r \<and> vli_ok 4 s \<and>
      ecdsa_signature C (vli_val d) (be_val h) (vli_val k) (vli_val r, vli_val s))"
proof -
  let ?x = "cg_x C (smul C (vli_val k) (cg_base C))"
  have kb: "0 < vli_val k" "vli_val k < cg_order C" using k by (simp_all add: valid_private_def)
  obtain u where u: "Point_x_scalar pt w = (Ok u, w)" "vli_ok 4 (Vli_unswap 4 u)"
    "vli_val (Vli_unswap 4 u) = ?x"
    using point_reads(3) [OF pt kb] by auto
  define r where "r = reduce_mod_n F (Vli_unswap 4 u) n"
  have r: "vli_ok 4 r" "vli_val r = ?x mod cg_order C"
    using reduce_mod_n_val [OF n u(2)] u(3) by (simp_all add: r_def)
  obtain z0 where z0: "Vli_from_be_bytes F 4 h = Ok z0" "vli_ok 4 z0" "vli_val z0 = be_val h"
    using from_be_bytes_ok [of 4 h] h by auto
  define z where "z = reduce_mod_n F z0 n"
  have z: "vli_ok 4 z" "vli_val z = be_val h mod cg_order C"
    using reduce_mod_n_val [OF n z0(2)] z0(3) by (simp_all add: z_def)
  have zlt: "vli_val z < cg_order C" using z order_pos by simp
  define s where "s = sign_s F z r k d n"
  note sv = sign_s_val [OF n k d z(1) zlt r(1), folded s_def]
  have eq: "vli_val s * vli_val k mod cg_order C = (be_val h + vli_val r * vli_val d) mod cg_order C"
    using sv(3) z(2) by (simp add: mod_add_left_eq)
  have s0: "vli_val s = 0 \<longleftrightarrow> (be_val h + vli_val r * vli_val d) mod cg_order C = 0"
    by (rule s_zero_iff [OF eq sv(2) order_invertible [OF kb]])
  have run: "sign_with_point F h d n k pt w =
      (if vli_val r = 0 \<or> vli_val s = 0 then (Ok None, w) else (Ok (Some (r, s)), w))"
    using u z0 r(1) sv(1) is_zero_val [of 4 r] is_zero_val [of 4 s]
    by (simp add: sign_with_point_def bind_def Let_def rust_simps
        flip: r_def z_def s_def)
  show ?thesis
    using run s0 r sv eq kb order_pos
    by (auto simp: degenerate_nonce_def ecdsa_signature_def Let_def)
qed

lemma sign_attempt_post:
  assumes a: "sign_attempt F K h d n w = (res, w')"
    and n: "curve_n_ok C n" and d: "valid_private C d" and h: "length h = 32"
  shows "same_kernel w w'" "\<not> is_fault res"
    "res = Ok None \<Longrightarrow> \<exists>k. 0 < k \<and> k < cg_order C \<and> degenerate_nonce C (vli_val d) (be_val h) k"
    "res = Ok (Some (r, s)) \<Longrightarrow> vli_ok 4 r \<and> vli_ok 4 s \<and>
       (\<exists>k. ecdsa_signature C (vli_val d) (be_val h) k (vli_val r, vli_val s))"
proof -
  have "same_kernel w w' \<and> ((\<exists>e. res = Err e) \<or>
    (res = Ok None \<and> (\<exists>k. 0 < k \<and> k < cg_order C \<and> degenerate_nonce C (vli_val d) (be_val h) k)) \<or>
    (\<exists>r s. res = Ok (Some (r, s)) \<and> vli_ok 4 r \<and> vli_ok 4 s \<and>
       (\<exists>k. ecdsa_signature C (vli_val d) (be_val h) k (vli_val r, vli_val s))))"
    using a [unfolded sign_attempt_def]
  proof (cases rule: bind_cases)
    case (Ok k w1)
    note g = generate_private_key_post [OF Ok(1)]
    have k: "valid_private C k" using g by simp
    show ?thesis using Ok(2)
    proof (cases rule: bind_cases)
      case (Ok pt w2)
      have p: "owns_point w w2 pt" "holds_point C (vli_val k) w2 pt"
        using make_public_key_post [OF Ok(1) k] g(1) kernel_owns_point by blast+
      have "same_kernel w (Point_drop F pt w2)" using p(1) by (rule free_owned)
      moreover have "0 < vli_val k" "vli_val k < cg_order C"
        using k by (simp_all add: valid_private_def)
      ultimately show ?thesis
        using sign_with_point_post [OF n d k h p(2)] Ok(2)
        by (auto simp: rust_simps)
    next
      case (Err e)
      then show ?thesis
        using make_public_key_post [OF Err(1) k] g(1) same_kernel_trans by blast
    next
      case (Fault b)
      then show ?thesis using make_public_key_post [OF Fault(1) k] by simp
    qed
  next
    case (Err e)
    then show ?thesis using generate_private_key_post [OF Err(1)] by simp
  next
    case (Fault b)
    then show ?thesis using generate_private_key_post [OF Fault(1)] by simp
  qed
  then show "same_kernel w w'" "\<not> is_fault res"
    "res = Ok None \<Longrightarrow> \<exists>k. 0 < k \<and> k < cg_order C \<and> degenerate_nonce C (vli_val d) (be_val h) k"
    "res = Ok (Some (r, s)) \<Longrightarrow> vli_ok 4 r \<and> vli_ok 4 s \<and>
       (\<exists>k. ecdsa_signature C (vli_val d) (be_val h) k (vli_val r, vli_val s))"
    by auto
qed

section \<open>The loop\<close>

lemma sign_loop_post:
  assumes "sign_loop m F K h d n w = (res, w')"
    and n: "curve_n_ok C n" and d: "valid_private C d" and h: "length h = 32"
  shows "same_kernel w w' \<and> \<not> is_fault res \<and>
    (\<forall>r s. res = Ok (r, s) \<longrightarrow> vli_ok 4 r \<and> vli_ok 4 s \<and>
       (\<exists>k. ecdsa_signature C (vli_val d) (be_val h) k (vli_val r, vli_val s)))"
  using assms(1)
proof (induction m arbitrary: w)
  case 0
  then show ?case by (auto simp: rust_simps)
next
  case (Suc m)
  show ?case using Suc.prems [unfolded sign_loop.simps]
  proof (cases rule: bind_cases)
    case (Ok o1 w1)
    note a = sign_attempt_post [OF Ok(1) n d h]
    show ?thesis
    proof (cases o1)
      case None
      then have "sign_loop m F K h d n w1 = (res, w')" using Ok(2) by simp
      from Suc.IH [OF this] show ?thesis using a(1) same_kernel_trans by blast
    next
      case (Some sig)
      then show ?thesis using Ok(2) a(1,4) by (cases sig) (auto simp: rust_simps)
    qed
  next
    case (Err e)
    then show ?thesis using sign_attempt_post [OF Err(1) n d h] by simp
  next
    case (Fault b)
    then show ?thesis using sign_attempt_post [OF Fault(1) n d h] by simp
  qed
qed

end

section \<open>Progress\<close>

text \<open>
  The world after \<open>m\<close> turns of the loop that all ended in \<open>continue\<close>; \<open>None\<close> if one of them
  ended otherwise.
\<close>

fun after_continues ::
    "nat \<Rightarrow> 's ffi \<Rightarrow> 's krate \<Rightarrow> u8 list \<Rightarrow> scalar \<Rightarrow> scalar \<Rightarrow> 's world \<Rightarrow> 's world option" where
  "after_continues 0 F K h d n w = Some w"
| "after_continues (Suc m) F K h d n w =
     (case sign_attempt F K h d n w of
        (Ok None, w') \<Rightarrow> after_continues m F K h d n w'
      | _ \<Rightarrow> None)"

lemma sign_loop_continues:
  "after_continues j F K h d n w = Some w1 \<Longrightarrow>
   sign_loop (j + m) F K h d n w = sign_loop m F K h d n w1"
  by (induction j arbitrary: w) (auto simp: bind_def split: prod.splits outcome.splits option.splits)

text \<open>
  How the loop can end: the turn after some continues decided the outcome, or the turns ran out.
\<close>

lemma sign_loop_ends:
  "(\<exists>j < m. \<exists>w1. after_continues j F K h d n w = Some w1 \<and>
      (\<exists>w'. (\<exists>sig. sign_attempt F K h d n w1 = (Ok (Some sig), w') \<and> sign_loop m F K h d n w = (Ok sig, w')) \<or>
        (\<exists>e. sign_attempt F K h d n w1 = (Err e, w') \<and> sign_loop m F K h d n w = (Err e, w')) \<or>
        (\<exists>b. sign_attempt F K h d n w1 = (Fault b, w') \<and> sign_loop m F K h d n w = (Fault b, w')))) \<or>
   (\<exists>w'. after_continues m F K h d n w = Some w' \<and> sign_loop m F K h d n w = (Err EINVAL, w'))"
  (is "?ends m w \<or> ?out m w")
proof (induction m arbitrary: w)
  case 0
  then show ?case by (simp add: rust_simps)
next
  case (Suc m)
  obtain r w1 where a: "sign_attempt F K h d n w = (r, w1)" by fastforce
  show ?case
  proof (cases "r = Ok None")
    case True
    have step: "sign_loop (Suc m) F K h d n w = sign_loop m F K h d n w1"
      "after_continues (Suc j) F K h d n w = after_continues j F K h d n w1" for j
      using a True by (simp_all add: bind_def)
    from Suc [of w1] show ?thesis
    proof
      assume "?ends m w1"
      then obtain j where "j < m" and "\<exists>w2. after_continues j F K h d n w1 = Some w2 \<and>
        (\<exists>w'. (\<exists>sig. sign_attempt F K h d n w2 = (Ok (Some sig), w') \<and> sign_loop m F K h d n w1 = (Ok sig, w')) \<or>
        (\<exists>e. sign_attempt F K h d n w2 = (Err e, w') \<and> sign_loop m F K h d n w1 = (Err e, w')) \<or>
        (\<exists>b. sign_attempt F K h d n w2 = (Fault b, w') \<and> sign_loop m F K h d n w1 = (Fault b, w')))"
        by blast
      then have "?ends (Suc m) w" unfolding step(1)
        by (intro exI [of _ "Suc j"] conjI) (simp_all only: step(2) Suc_less_eq)
      then show ?thesis ..
    next
      assume "?out m w1"
      then show ?thesis unfolding step by blast
    qed
  next
    case False
    then have "?ends (Suc m) w"
      using a by (intro exI [of _ 0] conjI) (auto simp: bind_def rust_simps split: outcome.splits option.splits)
    then show ?thesis ..
  qed
qed

context ecc_ffi
begin

text \<open>A turn whose two kernel calls succeed ends in a signature unless the nonce is degenerate.\<close>

lemma sign_attempt_ok:
  assumes g: "generate_private_key F K w = (Ok k, w1)" and m: "make_public_key F K k w1 = (Ok pt, w2)"
    and n: "curve_n_ok C n" and d: "valid_private C d" and h: "length h = 32"
    and k: "\<not> degenerate_nonce C (vli_val d) (be_val h) (vli_val k)"
  shows "\<exists>r s. sign_attempt F K h d n w = (Ok (Some (r, s)), Point_drop F pt w2) \<and>
    vli_ok 4 r \<and> vli_ok 4 s \<and>
    ecdsa_signature C (vli_val d) (be_val h) (vli_val k) (vli_val r, vli_val s)"
proof -
  have kv: "valid_private C k" using generate_private_key_post [OF g] by simp
  have "holds_point C (vli_val k) w2 pt" using make_public_key_post [OF m kv] by simp
  from sign_with_point_post [OF n d kv h this] k
  obtain r s where "sign_with_point F h d n k pt w2 = (Ok (Some (r, s)), w2)" "vli_ok 4 r" "vli_ok 4 s"
    "ecdsa_signature C (vli_val d) (be_val h) (vli_val k) (vli_val r, vli_val s)" by blast
  then show ?thesis using g m by (auto simp: sign_attempt_def rust_simps)
qed

lemma sign_attempt_continue:
  assumes a: "sign_attempt F K h d n w = (Ok None, w')"
    and n: "curve_n_ok C n" and d: "valid_private C d" and h: "length h = 32"
  shows "\<exists>k w1. generate_private_key F K w = (Ok k, w1) \<and>
    degenerate_nonce C (vli_val d) (be_val h) (vli_val k)"
proof -
  obtain k w1 where g: "generate_private_key F K w = (Ok k, w1)"
    and rest: "bind (make_public_key F K k) (\<lambda>pubk.
      drop_after (Point_drop F pubk) (sign_with_point F h d n k pubk)) w1 = (Ok None, w')"
    using a unfolding sign_attempt_def by (rule bind_OkE)
  obtain pt w2 where m: "make_public_key F K k w1 = (Ok pt, w2)"
    using rest by (rule bind_OkE)
  show ?thesis using sign_attempt_ok [OF g m n d h] g a by (intro exI conjI) auto
qed

text \<open>An error of a turn is an error of one of its two kernel calls.\<close>

lemma sign_attempt_error:
  assumes a: "sign_attempt F K h d n w = (Err e, w')"
    and n: "curve_n_ok C n" and d: "valid_private C d" and h: "length h = 32"
  shows "generate_private_key F K w = (Err e, w') \<or>
    (\<exists>k w1. generate_private_key F K w = (Ok k, w1) \<and> make_public_key F K k w1 = (Err e, w'))"
  using a [unfolded sign_attempt_def]
proof (cases rule: bind_cases)
  case (Ok k w1)
  have k: "valid_private C k" using generate_private_key_post [OF Ok(1)] by simp
  note g = Ok(1)
  show ?thesis using Ok(2)
  proof (cases rule: bind_cases)
    case (Ok pt w2)
    have "holds_point C (vli_val k) w2 pt" using make_public_key_post [OF Ok(1) k] by simp
    from sign_with_point_post [OF n d k h this] Ok(2) show ?thesis by (auto simp: rust_simps)
  qed (use g in auto)
qed simp_all

end

lemma continues_prefix:
  "after_continues m F K h d n w = Some w' \<Longrightarrow> j < m \<Longrightarrow>
   \<exists>wj w1. after_continues j F K h d n w = Some wj \<and> sign_attempt F K h d n wj = (Ok None, w1)"
proof (induction m arbitrary: w j)
  case (Suc m)
  obtain w1 where a: "sign_attempt F K h d n w = (Ok None, w1)"
    and rest: "after_continues m F K h d n w1 = Some w'"
    using Suc.prems(1) by (auto split: prod.splits outcome.splits option.splits)
  show ?case
  proof (cases j)
    case 0
    then show ?thesis using a by simp
  next
    case (Suc i)
    then show ?thesis using Suc.IH [OF rest, of i] Suc.prems a by simp
  qed
qed simp

section \<open>A signature on the reference kernel\<close>

definition ref_n :: scalar where
  "ref_n = Vli (to_digits 4 p256_order)"

lemma ref_n_ok: "curve_n_ok ref_curve ref_n"
  using ref_digits_val_order by (simp add: curve_n_ok_def vli_ok_def vli_val_def ref_n_def ref_curve_def)

lemma ref_not_degenerate:
  assumes "0 < z + k * d" "z + k * d < p256_order" "0 < k" "k < p256_order"
  shows "\<not> degenerate_nonce ref_curve d z k"
proof -
  have "cg_x ref_curve (smul ref_curve k (cg_base ref_curve)) = k"
    using ref_smul_base [OF assms(4)] by (simp add: ref_curve_def)
  moreover have "cg_order ref_curve = p256_order" by (simp add: ref_curve_def)
  ultimately show ?thesis using assms by (simp add: degenerate_nonce_def Let_def)
qed

lemma ref_hash: "be_val (sha256_hash ref_ffi [1, 2]) = 513"
proof -
  have "sha256_hash ref_ffi [1, 2] = to_be_bytes 32 513"
    by (simp add: sha256_hash_def ref_ffi_def ref_sha256_def)
  then show ?thesis by (simp add: be_val_def to_be_bytes_def digits_val_to_digits)
qed

lemma ref_nonce:
  "generate_private_key ref_ffi ref_krate (ref_memory m l [5]) = (Ok (Vli [6, 0, 0, 0]), ref_memory m l [])"
  using ref_generate [of 5] by simp

lemma ref_key: "valid_private ref_curve (Vli [7, 0, 0, 0])"
  by (rule ref_valid_private) simp

lemma ref_nonce_ok:
  "\<not> degenerate_nonce ref_curve (vli_val (Vli [7, 0, 0, 0]))
     (be_val (sha256_hash ref_ffi [1, 2])) (vli_val (Vli [6, 0, 0, 0]))"
  unfolding ref_hash by (rule ref_not_degenerate) (simp_all add: vli_val_def p256_order_big)

lemma ref_sign:
  "\<exists>r s w'. ecdsa_sign ref_ffi ref_krate [1, 2] (Vli [7, 0, 0, 0]) ref_n (ref_world l [5]) = (Ok (r, s), w')"
proof -
  have l: "length (sha256_hash ref_ffi [1, 2]) = 32" by (rule ref.length_sha256_hash)
  from ref_ecc.sign_attempt_ok [OF ref_nonce ref_make_public_key ref_n_ok ref_key l ref_nonce_ok]
  obtain r s w' where
    a: "sign_attempt ref_ffi ref_krate (sha256_hash ref_ffi [1, 2]) (Vli [7, 0, 0, 0]) ref_n (ref_world l [5])
        = (Ok (Some (r, s)), w')" by blast
  have "sign_loop (Suc 99) ref_ffi ref_krate (sha256_hash ref_ffi [1, 2]) (Vli [7, 0, 0, 0]) ref_n (ref_world l [5]) =
      (Ok (r, s), w')"
    using a by (simp only: sign_loop.simps) (simp add: rust_simps)
  then show ?thesis by (auto simp: ecdsa_sign_def Let_def)
qed

section \<open>Properties\<close>

text \<open>
  C7. Signatures verify: a pair \<open>(r, s)\<close> that \<open>ecdsa_sign\<close> returns passes ECDSA verification of the
  SHA-256 hash of the data under the public key of the private key; both numbers are between 1
  and the group order less one.
\<close>

theorem ecdsa_sign_valid:
  assumes F: "ecc_ffi F C" "sha256_ffi F" and n: "curve_n_ok C n" and d: "valid_private C d"
    and run: "ecdsa_sign F K data d n w = (Ok (r, s), w')"
  shows "ecdsa_valid C (smul C (vli_val d) (cg_base C)) (be_val (sha256_hash F data)) (vli_val r, vli_val s)"
proof -
  have "sign_loop 100 F K (sha256_hash F data) d n w = (Ok (r, s), w')"
    using run by (simp add: ecdsa_sign_def Let_def)
  from ecc_ffi.sign_loop_post [OF F(1) this n d sha256_ffi.length_sha256_hash [OF F(2)]]
  obtain k where "ecdsa_signature C (vli_val d) (be_val (sha256_hash F data)) k (vli_val r, vli_val s)" by blast
  with ecc_ffi.axioms(2) [OF F(1)] show ?thesis by (rule p256_group.ecdsa_signature_valid)
qed

lemma ref_sha: "sha256_ffi ref_ffi"
  by unfold_locales

theorem ecdsa_sign_valid_witness:
  "\<exists>r s. fst (ecdsa_sign ref_ffi ref_krate [1, 2] (Vli [7, 0, 0, 0]) ref_n (ref_world [] [5])) = Ok (r, s) \<and>
     ecdsa_valid ref_curve 7 513 (vli_val r, vli_val s)"
proof -
  obtain r s w' where run:
    "ecdsa_sign ref_ffi ref_krate [1, 2] (Vli [7, 0, 0, 0]) ref_n (ref_world [] [5]) = (Ok (r, s), w')"
    using ref_sign by blast
  have "smul ref_curve 7 (cg_base ref_curve) = 7" by (intro ref_smul_base p256_order_big) simp
  then show ?thesis
    using ecdsa_sign_valid [OF ref_ecc.ecc_ffi_axioms ref_sha ref_n_ok ref_key run] run
    by (auto simp: ref_hash vli_val_def)
qed

text \<open>
  C16. Signing returns a signature: if fewer than 100 turns of the loop drew a degenerate nonce, and
  in the next turn the two kernel calls succeed with a nonce \<open>k\<close> that is not degenerate, then
  \<open>ecdsa_sign\<close> returns \<open>Ok\<close> with the ECDSA signature for exactly that nonce, and the kernel is as
  it was.
\<close>

theorem ecdsa_sign_returns:
  assumes F: "ecc_ffi F C" "sha256_ffi F" and n: "curve_n_ok C n" and d: "valid_private C d"
    and j: "j < 100" "after_continues j F K (sha256_hash F data) d n w = Some w1"
    and g: "generate_private_key F K w1 = (Ok k, w2)" and m: "make_public_key F K k w2 = (Ok pt, w3)"
    and k: "\<not> degenerate_nonce C (vli_val d) (be_val (sha256_hash F data)) (vli_val k)"
  shows "\<exists>r s w'. ecdsa_sign F K data d n w = (Ok (r, s), w') \<and> same_kernel w w' \<and>
    ecdsa_signature C (vli_val d) (be_val (sha256_hash F data)) (vli_val k) (vli_val r, vli_val s)"
proof -
  let ?h = "sha256_hash F data"
  have l: "length ?h = 32" by (rule sha256_ffi.length_sha256_hash [OF F(2)])
  obtain r s where a: "sign_attempt F K ?h d n w1 = (Ok (Some (r, s)), Point_drop F pt w3)"
    and sig: "ecdsa_signature C (vli_val d) (be_val ?h) (vli_val k) (vli_val r, vli_val s)"
    using ecc_ffi.sign_attempt_ok [OF F(1) g m n d l k] by blast
  have "sign_loop (j + Suc (99 - j)) F K ?h d n w = sign_loop (Suc (99 - j)) F K ?h d n w1"
    by (rule sign_loop_continues [OF j(2)])
  moreover have "j + Suc (99 - j) = 100" using j(1) by simp
  moreover have "sign_loop (Suc (99 - j)) F K ?h d n w1 = (Ok (r, s), Point_drop F pt w3)"
    using a by (simp add: rust_simps)
  ultimately have run: "sign_loop 100 F K ?h d n w = (Ok (r, s), Point_drop F pt w3)" by simp
  then have "ecdsa_sign F K data d n w = (Ok (r, s), Point_drop F pt w3)" by (simp add: ecdsa_sign_def)
  then show ?thesis using ecc_ffi.sign_loop_post [OF F(1) run n d l] sig by blast
qed

theorem ecdsa_sign_returns_witness:
  "\<exists>r s w'. ecdsa_sign ref_ffi ref_krate [1, 2] (Vli [7, 0, 0, 0]) ref_n (ref_world [] [5]) = (Ok (r, s), w') \<and>
     same_kernel (ref_world [] [5]) w' \<and> ecdsa_signature ref_curve 7 513 6 (vli_val r, vli_val s)"
proof -
  have "after_continues 0 ref_ffi ref_krate (sha256_hash ref_ffi [1, 2]) (Vli [7, 0, 0, 0]) ref_n
      (ref_world [] [5]) = Some (ref_world [] [5])" by simp
  from ecdsa_sign_returns [OF ref_ecc.ecc_ffi_axioms ref_sha ref_n_ok ref_key _ this ref_nonce
      ref_make_public_key ref_nonce_ok]
  show ?thesis by (simp add: ref_hash vli_val_def)
qed

text \<open>A turn of the loop in the state \<open>w\<close> made a kernel call that failed with \<open>e\<close>.\<close>

definition turn_call_failed :: "'s ffi \<Rightarrow> 's krate \<Rightarrow> 's world \<Rightarrow> error \<Rightarrow> bool" where
  "turn_call_failed F K w e \<longleftrightarrow>
     fst (generate_private_key F K w) = Err e \<or>
     (\<exists>k w1. generate_private_key F K w = (Ok k, w1) \<and> fst (make_public_key F K k w1) = Err e)"

text \<open>A turn of the loop in the state \<open>w\<close> drew a degenerate nonce.\<close>

definition turn_degenerate ::
    "'s ffi \<Rightarrow> 'p curve_group \<Rightarrow> 's krate \<Rightarrow> nat \<Rightarrow> nat \<Rightarrow> 's world \<Rightarrow> bool" where
  "turn_degenerate F C K d z w \<longleftrightarrow>
     (\<exists>k. fst (generate_private_key F K w) = Ok k \<and> degenerate_nonce C d z (vli_val k))"

text \<open>
  C19. Signing fails only for a reason: \<open>ecdsa_sign\<close> never faults and leaves the kernel as it was on
  every path; an error is either the error of a kernel call that a turn of the loop made, or
  \<open>EINVAL\<close> after 100 turns that each drew a degenerate nonce.
\<close>

theorem ecdsa_sign_errors:
  assumes F: "ecc_ffi F C" "sha256_ffi F" and n: "curve_n_ok C n" and d: "valid_private C d"
    and run: "ecdsa_sign F K data d n w = (res, w')"
  shows "same_kernel w w' \<and> \<not> is_fault res \<and>
    (\<forall>e. res = Err e \<longrightarrow>
      (\<exists>j < 100. \<exists>wj. after_continues j F K (sha256_hash F data) d n w = Some wj \<and>
         turn_call_failed F K wj e) \<or>
      (e = EINVAL \<and> (\<forall>j < 100. \<exists>wj. after_continues j F K (sha256_hash F data) d n w = Some wj \<and>
         turn_degenerate F C K (vli_val d) (be_val (sha256_hash F data)) wj)))"
    (is "_ \<and> _ \<and> (\<forall>e. _ \<longrightarrow> ?called e \<or> ?exhausted e)")
proof -
  let ?h = "sha256_hash F data"
  have l: "length ?h = 32" by (rule sha256_ffi.length_sha256_hash [OF F(2)])
  have loop: "sign_loop 100 F K ?h d n w = (res, w')" using run by (simp add: ecdsa_sign_def)
  have "?called e \<or> ?exhausted e" if e: "res = Err e" for e
  proof -
    consider (turn) j wj where "j < 100" "after_continues j F K ?h d n w = Some wj"
        "sign_attempt F K ?h d n wj = (Err e, w')"
      | (out) "e = EINVAL" "after_continues 100 F K ?h d n w = Some w'"
      using sign_loop_ends [of 100 F K ?h d n w] loop e by auto
    then show ?thesis
    proof cases
      case turn
      then have "turn_call_failed F K wj e"
        using ecc_ffi.sign_attempt_error [OF F(1) turn(3) n d l] by (auto simp: turn_call_failed_def)
      then show ?thesis using turn by blast
    next
      case out
      have "\<exists>wj. after_continues j F K ?h d n w = Some wj \<and>
          turn_degenerate F C K (vli_val d) (be_val ?h) wj" if "j < 100" for j
        using continues_prefix [OF out(2) that] ecc_ffi.sign_attempt_continue [OF F(1) _ n d l]
        by (fastforce simp: turn_degenerate_def)
      then show ?thesis using out(1) by blast
    qed
  qed
  then show ?thesis using ecc_ffi.sign_loop_post [OF F(1) loop n d l] by blast
qed

theorem ecdsa_sign_errors_witness:
  "\<exists>w'. ecdsa_sign ref_ffi ref_krate [1, 2] (Vli [7, 0, 0, 0]) ref_n (ref_world [] []) = (Err (Errno (- 11)), w') \<and>
     same_kernel (ref_world [] []) w' \<and> turn_call_failed ref_ffi ref_krate (ref_world [] []) (Errno (- 11))"
proof -
  have g: "generate_private_key ref_ffi ref_krate (ref_world [] []) = (Err (Errno (- 11)), ref_world [] [])"
    by (simp add: generate_private_key_def ref_ffi_def ref_gen_privkey_def ref_memory_def
        ref_krate_def ref_from_errno_def Let_def)
  then have "sign_loop (Suc 99) ref_ffi ref_krate (sha256_hash ref_ffi [1, 2]) (Vli [7, 0, 0, 0]) ref_n (ref_world [] []) =
      (Err (Errno (- 11)), ref_world [] [])"
    by (simp only: sign_loop.simps sign_attempt_def) (simp add: rust_simps)
  then have run: "ecdsa_sign ref_ffi ref_krate [1, 2] (Vli [7, 0, 0, 0]) ref_n (ref_world [] []) =
      (Err (Errno (- 11)), ref_world [] [])" by (simp add: ecdsa_sign_def)
  then show ?thesis
    using ecdsa_sign_errors [OF ref_ecc.ecc_ffi_axioms ref_sha ref_n_ok ref_key run] g
    by (simp add: turn_call_failed_def)
qed

text \<open>
  C33. The limb arithmetic of the signing equation: from the reduced hash \<open>z\<close>, the reduced X
  coordinate \<open>r\<close>, the nonce \<open>k\<close> and the private key \<open>d\<close>, the driver's sequence of a modular
  product, an addition with carry, one conditional subtraction, an inverse and another product
  gives the one number \<open>s\<close> below the order with \<open>s * k = z + r * d\<close> modulo the order. In
  particular the carry out of the 256-bit addition is not lost.
\<close>

theorem sign_s_equation:
  assumes F: "ecc_ffi F C" and n: "curve_n_ok C n" and k: "valid_private C k" and d: "valid_private C d"
    and z: "vli_ok P256_DIGITS z" "vli_val z < cg_order C" and r: "vli_ok P256_DIGITS r"
  shows "vli_val (sign_s F z r k d n) < cg_order C \<and>
    vli_val (sign_s F z r k d n) * vli_val k mod cg_order C =
      (vli_val z + vli_val r * vli_val d) mod cg_order C"
  using ecc_ffi.sign_s_val [OF F n k d] z r by simp

theorem sign_s_equation_witness:
  "vli_val (sign_s ref_ffi (Vli [9, 0, 0, 0]) (Vli [6, 0, 0, 0]) (Vli [1, 0, 0, 0]) (Vli [7, 0, 0, 0]) ref_n)
     mod p256_order = 51"
proof -
  have p: "valid_private ref_curve (Vli [1, 0, 0, 0])" "valid_private ref_curve (Vli [7, 0, 0, 0])"
    by (rule ref_valid_private, simp)+
  have v: "vli_val (Vli [x, 0, 0, 0]) = unat x" for x by (simp add: vli_val_def)
  have c: "cg_order ref_curve = p256_order" by (simp add: ref_curve_def)
  have "9 < p256_order" "(51 :: nat) < p256_order" by (simp_all add: p256_order_big)
  then show ?thesis
    using sign_s_equation [OF ref_ecc.ecc_ffi_axioms ref_n_ok p, of "Vli [9, 0, 0, 0]" "Vli [6, 0, 0, 0]"]
    by (simp add: vli_ok_def v c)
qed

end
