(* ===== verification/Set_Once.thy ===== *)
theory Set_Once
  imports Rust_Prelude
begin

text \<open>
  \<open>src/driver/src/set_once.rs\<close>: the cell that holds the key pair, run by one caller at a time
  (\<open>Set_Once_Steps\<close> has the interleavings). The state word is 0 (empty), 1 (being written or
  cleared) or 2 (set). The storage is a \<open>MaybeUninit\<close>: never written, holding a value, or
  holding the bytes that the destructor of a value left behind.

  What the driver relies on is the locale \<open>once_cell\<close>, an optional value that is set at most
  once until it is cleared; the cell is shown to be one, for any destructor of the value.
\<close>

section \<open>Definitions\<close>

datatype 'a storage = Uninit | Live 'a | Dropped 'a

record 'a set_once =
  so_init :: u32
  so_value :: "'a storage"

definition SetOnce_new :: "'a set_once" where
  "SetOnce_new = \<lparr>so_init = 0, so_value = Uninit\<rparr>"

definition SetOnce_default :: "'a set_once" where
  "SetOnce_default = SetOnce_new"

text \<open>\<open>cmpxchg\<close> on the state word: \<open>Inr\<close> the old value on success, \<open>Inl\<close> the value found.\<close>

definition init_cmpxchg :: "u32 \<Rightarrow> u32 \<Rightarrow> 'a set_once \<Rightarrow> (u32 + u32) \<times> 'a set_once" where
  "init_cmpxchg old new self =
     (if so_init self = old then (Inr old, self\<lparr>so_init := new\<rparr>) else (Inl (so_init self), self))"

definition SetOnce_as_ref :: "'a set_once \<Rightarrow> 'a option outcome" where
  "SetOnce_as_ref self =
     (if so_init self = 2
      then (case so_value self of Live v \<Rightarrow> Ok (Some v) | _ \<Rightarrow> Fault UndefinedBehaviour)
      else Ok None)"

definition SetOnce_populate :: "'a set_once \<Rightarrow> 'a \<Rightarrow> bool \<times> 'a set_once" where
  "SetOnce_populate self v =
     (case init_cmpxchg 0 1 self of
        (Inr found, self1) \<Rightarrow>
          if found = 0
          then let self2 = self1\<lparr>so_value := Live v\<rparr>; self3 = self2\<lparr>so_init := 2\<rparr> in (True, self3)
          else (False, self1)
      | (Inl _, self1) \<Rightarrow> (False, self1))"

text \<open>
  \<open>drp\<close> is the destructor of the stored type: what the storage holds after it ran.
\<close>

definition drop_in_place :: "('a \<Rightarrow> 'a) \<Rightarrow> 'a set_once \<Rightarrow> unit outcome \<times> 'a set_once" where
  "drop_in_place drp self =
     (case so_value self of
        Live v \<Rightarrow> (Ok (), self\<lparr>so_value := Dropped (drp v)\<rparr>)
      | _ \<Rightarrow> (Fault UndefinedBehaviour, self))"

definition SetOnce_clear :: "('a \<Rightarrow> 'a) \<Rightarrow> 'a set_once \<Rightarrow> unit outcome \<times> 'a set_once" where
  "SetOnce_clear drp self =
     (case init_cmpxchg 2 1 self of
        (Inr found, self1) \<Rightarrow>
          if found = 2
          then bind (drop_in_place drp) (\<lambda>_ self2. (Ok (), self2\<lparr>so_init := 0\<rparr>)) self1
          else (Ok (), self1)
      | (Inl _, self1) \<Rightarrow> (Ok (), self1))"

definition SetOnce_drop :: "('a \<Rightarrow> 'a) \<Rightarrow> 'a set_once \<Rightarrow> unit outcome \<times> 'a set_once" where
  "SetOnce_drop drp self = (if so_init self = 2 then drop_in_place drp self else (Ok (), self))"

text \<open>Between calls the cell is empty or set, and set means that the storage holds a value.\<close>

definition so_inv :: "'a set_once \<Rightarrow> bool" where
  "so_inv self \<longleftrightarrow>
     (so_init self = 0 \<and> (\<forall>v. so_value self \<noteq> Live v)) \<or>
     (so_init self = 2 \<and> (\<exists>v. so_value self = Live v))"

section \<open>The interface\<close>

datatype 'a cell_op = Populate 'a | Clear

fun cell_spec :: "'a cell_op \<Rightarrow> 'a option \<Rightarrow> 'a option" where
  "cell_spec (Populate v) None = Some v"
| "cell_spec (Populate v) (Some u) = Some u"
| "cell_spec Clear s = None"

fun cell_step :: "('c \<Rightarrow> 'a \<Rightarrow> bool \<times> 'c) \<Rightarrow> ('c \<Rightarrow> unit outcome \<times> 'c) \<Rightarrow> 'a cell_op \<Rightarrow> 'c \<Rightarrow> 'c" where
  "cell_step populate clear (Populate v) c = snd (populate c v)"
| "cell_step populate clear Clear c = snd (clear c)"

locale once_cell =
  fixes new :: 'c
    and as_ref :: "'c \<Rightarrow> 'a option outcome"
    and populate :: "'c \<Rightarrow> 'a \<Rightarrow> bool \<times> 'c"
    and clear :: "'c \<Rightarrow> unit outcome \<times> 'c"
    and inv :: "'c \<Rightarrow> bool"
  assumes inv_new: "inv new" and as_ref_new: "as_ref new = Ok None"
    and as_ref_total: "inv c \<Longrightarrow> \<exists>s. as_ref c = Ok s"
    and inv_populate: "inv c \<Longrightarrow> inv (snd (populate c v))"
    and populate_empty: "inv c \<Longrightarrow> as_ref c = Ok None \<Longrightarrow>
      fst (populate c v) \<and> as_ref (snd (populate c v)) = Ok (Some v)"
    and populate_set: "inv c \<Longrightarrow> as_ref c = Ok (Some u) \<Longrightarrow> populate c v = (False, c)"
    and clear_ok: "inv c \<Longrightarrow> fst (clear c) = Ok () \<and> inv (snd (clear c)) \<and> as_ref (snd (clear c)) = Ok None"
begin

lemma step_refines:
  assumes "inv c" "as_ref c = Ok s"
  shows "inv (cell_step populate clear p c) \<and> as_ref (cell_step populate clear p c) = Ok (cell_spec p s)"
  using assms populate_empty [of c] populate_set [of c] inv_populate [of c] clear_ok [of c]
  by (cases p; cases s) simp_all

lemma run_refines:
  "inv c \<Longrightarrow> as_ref c = Ok s \<Longrightarrow>
   inv (fold (cell_step populate clear) ops c) \<and> as_ref (fold (cell_step populate clear) ops c) = Ok (fold cell_spec ops s)"
  by (induction ops arbitrary: c s) (auto dest: step_refines)

text \<open>A value, once set, is what every later reader sees until the cell is cleared.\<close>

lemma set_once:
  "inv c \<Longrightarrow> as_ref c = Ok (Some v) \<Longrightarrow> Clear \<notin> set ops \<Longrightarrow> as_ref (fold (cell_step populate clear) ops c) = Ok (Some v)"
proof -
  assume h: "inv c" "as_ref c = Ok (Some v)" "Clear \<notin> set ops"
  have "fold cell_spec ops (Some v) = Some v"
    using h(3)
  proof (induction ops)
    case (Cons p ops)
    then show ?case by (cases p) simp_all
  qed simp
  then show ?thesis using run_refines [OF h(1,2), of ops] by simp
qed

end

section \<open>The cell of the driver\<close>

lemmas set_once_defs = SetOnce_new_def SetOnce_as_ref_def SetOnce_populate_def SetOnce_clear_def
  init_cmpxchg_def drop_in_place_def so_inv_def

interpretation so: once_cell SetOnce_new SetOnce_as_ref SetOnce_populate "SetOnce_clear drp" so_inv
  for drp :: "'a \<Rightarrow> 'a"
  by unfold_locales
    (auto simp: set_once_defs bind_def split: storage.splits)

lemma populate_empty_eq:
  "so_inv c \<Longrightarrow> SetOnce_as_ref c = Ok None \<Longrightarrow>
   SetOnce_populate c v = (True, \<lparr>so_init = 2, so_value = Live v\<rparr>)"
  by (auto simp: set_once_defs)

text \<open>After \<open>clear\<close>, the storage of a cell that was set holds what the destructor left.\<close>

lemma clear_set_eq:
  "so_inv c \<Longrightarrow> SetOnce_as_ref c = Ok (Some v) \<Longrightarrow>
   SetOnce_clear drp c = (Ok (), \<lparr>so_init = 0, so_value = Dropped (drp v)\<rparr>)"
  by (auto simp: set_once_defs bind_def split: storage.splits if_splits)

lemma clear_empty_eq: "so_inv c \<Longrightarrow> SetOnce_as_ref c = Ok None \<Longrightarrow> SetOnce_clear drp c = (Ok (), c)"
  by (auto simp: set_once_defs split: storage.splits)

text \<open>Dropping the cell itself runs the destructor exactly when it is set.\<close>

lemma drop_cell_ok:
  "so_inv c \<Longrightarrow> fst (SetOnce_drop drp c) = Ok () \<and> (\<forall>v. so_value (snd (SetOnce_drop drp c)) \<noteq> Live v)"
  by (auto simp: SetOnce_drop_def drop_in_place_def so_inv_def)

section \<open>Properties\<close>

text \<open>
  C20. The cell implements a write-once optional value: after any sequence of calls of
  \<open>populate\<close> and \<open>clear\<close> on a new cell, whatever the destructor does, \<open>as_ref\<close> returns what the
  specification says, never reading a missing value, and the next \<open>populate\<close> succeeds exactly
  when the cell is empty.
\<close>

theorem set_once_refines:
  "let c = fold (cell_step SetOnce_populate (SetOnce_clear drp)) ops SetOnce_new;
       s = fold cell_spec ops None
   in so_inv c \<and> SetOnce_as_ref c = Ok s \<and> (fst (SetOnce_populate c v) \<longleftrightarrow> s = None)"
proof -
  let ?c = "fold (cell_step SetOnce_populate (SetOnce_clear drp)) ops SetOnce_new"
  let ?s = "fold cell_spec ops None"
  have c: "so_inv ?c" "SetOnce_as_ref ?c = Ok ?s"
    using so.run_refines [OF so.inv_new so.as_ref_new] by blast+
  have "fst (SetOnce_populate ?c v) \<longleftrightarrow> ?s = None"
    using so.populate_empty [OF c(1)] so.populate_set [OF c(1)] c(2) by (cases ?s) simp_all
  then show ?thesis using c by (simp add: Let_def)
qed

end
