(* ===== verification/Ioctl.thy ===== *)
theory Ioctl
  imports Ecdsa Set_Once
begin

text \<open>
  \<open>src/driver/src/ioctl.rs\<close>: the ioctl numbers, the request structure, key generation, the
  fs-verity digest of the calling executable, and the two ioctl handlers. The global
  \<open>KEY_PAIR\<close> is an argument of the handlers; they only read it.

  The lemmas describe each operation on every path. A signing request either fails and leaves
  the driver-visible kernel state as it was, or it returns the caller's data, the hash of digest
  and data, a signature that verifies under the key pair's public key, and that key.
\<close>

unbundle bit_operations_syntax

section \<open>Definitions\<close>

subsection \<open>Commands and the request structure\<close>

definition USER_DATA_BYTES :: usize where
  "USER_DATA_BYTES = 1024 div 8"

definition ioctl_type :: u32 where
  "ioctl_type = word_of_nat (of_char CHR ''S'')"

record sign_data_req =
  req_user_data :: "u8 list"
  req_hash :: "u8 list"
  req_sig_r :: "u8 list"
  req_sig_s :: "u8 list"
  req_pubkey :: "u8 list"

text \<open>\<open>size_of::<SignDataReq>()\<close>: byte arrays in \<open>repr(C)\<close> order, so no padding.\<close>

definition sign_data_req_size :: usize where
  "sign_data_req_size =
     USER_DATA_BYTES + P256_BYTES + P256_BYTES + P256_BYTES + P256_PUBKEY_BYTES"

definition TARAKO_HELLO :: "'s krate \<Rightarrow> u32" where
  "TARAKO_HELLO K = k_IO K ioctl_type 0x00"

definition TARAKO_GET_PUBKEY :: "'s krate \<Rightarrow> u32" where
  "TARAKO_GET_PUBKEY K = k_IOR K P256_PUBKEY_BYTES ioctl_type 0x01"

definition TARAKO_SIGN_DATA :: "'s krate \<Rightarrow> u32" where
  "TARAKO_SIGN_DATA K = k_IOWR K sign_data_req_size ioctl_type 0x02"

subsection \<open>Key pairs\<close>

record key_pair =
  kp_private :: scalar
  kp_pubkey :: "u8 list"
  kp_curve_n :: scalar
  kp_ima_measured :: bool

definition KeyPair_sign ::
    "'s ffi \<Rightarrow> 's krate \<Rightarrow> key_pair \<Rightarrow> u8 list \<Rightarrow> ('s world, scalar \<times> scalar) prog" where
  "KeyPair_sign F K self data = ecdsa_sign F K data (kp_private self) (kp_curve_n self)"

text \<open>The destructor of a key pair drops its two scalars, which zeroes them.\<close>

definition KeyPair_drop :: "key_pair \<Rightarrow> key_pair" where
  "KeyPair_drop self =
     self\<lparr>kp_private := Vli_drop (kp_private self), kp_curve_n := Vli_drop (kp_curve_n self)\<rparr>"

text \<open>\<open>pubkey[0] = 0x02 | (public_y[P256_BYTES - 1] & 1); pubkey[1..].copy_from_slice(&public_x)\<close>\<close>

definition compress_pubkey :: "u8 list \<Rightarrow> u8 list \<Rightarrow> u8 list outcome" where
  "compress_pubkey public_x public_y =
     (let pubkey = replicate P256_PUBKEY_BYTES (0 :: u8)
      in if P256_BYTES - 1 < length public_y
         then copy_into (pubkey[0 := 0x02 OR (public_y ! (P256_BYTES - 1) AND 1)])
                1 (length pubkey) public_x
         else Fault Panic)"

definition generate_key_pair :: "'s ffi \<Rightarrow> 's krate \<Rightarrow> ('s world, key_pair) prog" where
  "generate_key_pair F K =
     bind (generate_private_key F K) (\<lambda>private.
     bind (make_public_key F K private) (\<lambda>public.
     drop_after (Point_drop F public) (
       bind (Point_x_as_bytes public) (\<lambda>public_x.
       bind (Point_y_as_bytes public) (\<lambda>public_y.
       bind (lift_outcome (compress_pubkey public_x public_y)) (\<lambda>pubkey.
       bind (lift_outcome (bind_outcome (get_curve_n F) (\<lambda>n. ok_or n EINVAL))) (\<lambda>curve_n.
       bind (\<lambda>w. case ima_measure_pubkey F K pubkey w of
                   (Ok _, w') \<Rightarrow> (Ok True, w')
                 | (Err _, w') \<Rightarrow> (Ok False, w')
                 | (Fault b, w') \<Rightarrow> (Fault b, w')) (\<lambda>ima_measured.
       ret \<lparr>kp_private = private, kp_pubkey = pubkey, kp_curve_n = curve_n,
             kp_ima_measured = ima_measured\<rparr>))))))))"

subsection \<open>The digest of the calling executable\<close>

definition FS_VERITY_MAX_DIGEST_SIZE :: usize where
  "FS_VERITY_MAX_DIGEST_SIZE = 64"

record fsverity_digest =
  fd_size :: usize
  fd_buffer :: "u8 list"

definition FsverityDigest_digest :: "fsverity_digest \<Rightarrow> u8 list outcome" where
  "FsverityDigest_digest self = slice_to (fd_buffer self) (fd_size self)"

definition current_exe_fsverity_digest ::
    "'s ffi \<Rightarrow> 's krate \<Rightarrow> ('s world, fsverity_digest) prog" where
  "current_exe_fsverity_digest F K w =
     (case w_mm w of
        None \<Rightarrow> (Err EPERM, w)
      | Some None \<Rightarrow> (Err EPERM, w)
      | Some (Some mm) \<Rightarrow>
          (case exe_file mm of
             None \<Rightarrow> (Err EPERM, w)
           | Some exe \<Rightarrow>
               (case f_inode exe of
                  None \<Rightarrow> (Err EPERM, w)
                | Some inode \<Rightarrow>
                    let ((r, written), w') = fsverity_get_digest F inode w;
                        buffer = write_out (replicate FS_VERITY_MAX_DIGEST_SIZE 0) written
                    in if r < 0 then (Err (from_errno K r), w')
                       else
                         let size = nat r
                         in if size = 0 then (Err ENOENT, w')
                            else if length buffer < size then (Err EOVERFLOW, w')
                            else (Ok \<lparr>fd_size = size, fd_buffer = buffer\<rparr>, w'))))"

subsection \<open>Reading and writing requests\<close>

definition sign_data_req_bytes :: "sign_data_req \<Rightarrow> u8 list" where
  "sign_data_req_bytes req =
     req_user_data req @ req_hash req @ req_sig_r req @ req_sig_s req @ req_pubkey req"

text \<open>
  The request whose object representation has been overwritten with \<open>bs\<close> through
  \<open>sign_data_req_bytes_mut\<close>.
\<close>

definition sign_data_req_store :: "u8 list \<Rightarrow> sign_data_req" where
  "sign_data_req_store bs =
     (let u = USER_DATA_BYTES; h = u + P256_BYTES; r = h + P256_BYTES; s = r + P256_BYTES
      in \<lparr>req_user_data = take u bs,
          req_hash = take P256_BYTES (drop u bs),
          req_sig_r = take P256_BYTES (drop h bs),
          req_sig_s = take P256_BYTES (drop r bs),
          req_pubkey = take P256_PUBKEY_BYTES (drop s bs)\<rparr>)"

definition read_sign_data_req ::
    "'s krate \<Rightarrow> usize \<Rightarrow> usize \<Rightarrow> ('s world, sign_data_req) prog" where
  "read_sign_data_req K arg buf_size =
     bind (read_slice K arg buf_size sign_data_req_size) (\<lambda>bs. ret (sign_data_req_store bs))"

definition write_sign_data_req ::
    "'s krate \<Rightarrow> usize \<Rightarrow> usize \<Rightarrow> sign_data_req \<Rightarrow> ('s world, unit) prog" where
  "write_sign_data_req K arg buf_size req =
     bind (write_slice K arg buf_size (sign_data_req_bytes req)) (\<lambda>_. ret ())"

subsection \<open>Handlers\<close>

definition handle_get_pubkey ::
    "'s krate \<Rightarrow> key_pair set_once \<Rightarrow> usize \<Rightarrow> u32 \<Rightarrow> ('s world, isize) prog" where
  "handle_get_pubkey K KEY_PAIR arg cmd =
     bind (lift_outcome (SetOnce_as_ref KEY_PAIR)) (\<lambda>kp.
     bind (lift_outcome (ok_or kp ENXIO)) (\<lambda>kp.
     let buf_size = k_IOC_SIZE K cmd
     in if buf_size < P256_PUBKEY_BYTES then fail E2BIG
        else
          bind (write_slice K arg buf_size (kp_pubkey kp)) (\<lambda>_.
          ret (int P256_PUBKEY_BYTES))))"

text \<open>
  The loop \<open>for (i, limb) in limbs.iter().rev().enumerate()\<close> that writes a scalar big-endian;
  the list argument is the reversed limbs, \<open>i\<close> the index of its head.
\<close>

fun write_limbs_be :: "u8 list \<Rightarrow> usize \<Rightarrow> u64 list \<Rightarrow> u8 list outcome" where
  "write_limbs_be buf i [] = Ok buf"
| "write_limbs_be buf i (limb # rest) =
     bind_outcome (copy_into buf (i * size_of_u64) ((i + 1) * size_of_u64) (u64_to_be_bytes limb))
       (\<lambda>buf. write_limbs_be buf (i + 1) rest)"

text \<open>The buffer \<open>to_sign\<close>, cut to its length: digest first, then the user data.\<close>

definition build_to_sign :: "u8 list \<Rightarrow> u8 list \<Rightarrow> u8 list outcome" where
  "build_to_sign digest user_data =
     bind_outcome (ok_or (checked_add (length digest) USER_DATA_BYTES) EINVAL) (\<lambda>to_sign_len.
     let to_sign = replicate (FS_VERITY_MAX_DIGEST_SIZE + USER_DATA_BYTES) 0
     in bind_outcome (copy_into to_sign 0 (length digest) digest) (\<lambda>to_sign.
        bind_outcome (copy_into to_sign (length digest) to_sign_len user_data) (\<lambda>to_sign.
        slice_to to_sign to_sign_len)))"

text \<open>The request filled in with hash, signature and public key.\<close>

definition fill_response ::
    "sign_data_req \<Rightarrow> scalar \<times> scalar \<Rightarrow> u8 list \<Rightarrow> sign_data_req outcome" where
  "fill_response req sig pubkey =
     bind_outcome (write_limbs_be (req_sig_r req) 0 (rev (Vli_deref (fst sig)))) (\<lambda>sig_r.
     bind_outcome (write_limbs_be (req_sig_s req) 0 (rev (Vli_deref (snd sig)))) (\<lambda>sig_s.
     bind_outcome (copy_into (req_pubkey req) 0 (length (req_pubkey req)) pubkey) (\<lambda>pk.
     Ok (req\<lparr>req_sig_r := sig_r, req_sig_s := sig_s, req_pubkey := pk\<rparr>))))"

definition handle_sign_data ::
    "'s ffi \<Rightarrow> 's krate \<Rightarrow> key_pair set_once \<Rightarrow> usize \<Rightarrow> u32 \<Rightarrow> ('s world, isize) prog" where
  "handle_sign_data F K KEY_PAIR arg cmd =
     (let buf_size = k_IOC_SIZE K cmd in
      bind (lift_outcome (SetOnce_as_ref KEY_PAIR)) (\<lambda>kp.
      bind (lift_outcome (ok_or kp ENXIO)) (\<lambda>kp.
      if \<not> kp_ima_measured kp then fail EPERM
      else
        bind (current_exe_fsverity_digest F K) (\<lambda>digest.
        bind (lift_outcome (FsverityDigest_digest digest)) (\<lambda>digest.
        bind (read_sign_data_req K arg buf_size) (\<lambda>req.
        bind (lift_outcome (build_to_sign digest (req_user_data req))) (\<lambda>to_sign.
        bind (KeyPair_sign F K kp to_sign) (\<lambda>sig.
        bind (lift_outcome
          (fill_response (req\<lparr>req_hash := sha256_hash F to_sign\<rparr>) sig (kp_pubkey kp))) (\<lambda>req.
        bind (write_sign_data_req K arg buf_size req) (\<lambda>_.
        ret 0))))))))))"

section \<open>Sizes and commands\<close>

lemma ioctl_sizes [simp]:
  "USER_DATA_BYTES = 128" "FS_VERITY_MAX_DIGEST_SIZE = 64" "sign_data_req_size = 257"
  by (simp_all add: USER_DATA_BYTES_def FS_VERITY_MAX_DIGEST_SIZE_def sign_data_req_size_def)

lemma ioctl_type_val: "ioctl_type = 0x53"
  by (simp add: ioctl_type_def)

context ioctl_abi
begin

lemma command_numbers:
  "TARAKO_HELLO K = 0x00005300"
  "TARAKO_GET_PUBKEY K = 0x80215301"
  "TARAKO_SIGN_DATA K = 0xC1015302"
  using abi_IO [of ioctl_type 0] abi_IOR [of ioctl_type 1 33] abi_IOWR [of ioctl_type 2 257]
  by (simp_all add: TARAKO_HELLO_def TARAKO_GET_PUBKEY_def TARAKO_SIGN_DATA_def ioctl_type_val
      word_unat_eq_iff)

lemma command_sizes:
  "k_IOC_SIZE K (TARAKO_GET_PUBKEY K) = 33"
  "k_IOC_SIZE K (TARAKO_SIGN_DATA K) = 257"
  by (simp_all add: abi_SIZE command_numbers)

end

section \<open>Fixed-size encodings\<close>

text \<open>
  A type with a fixed-size byte representation, as the driver and its callers exchange it
  through user memory.
\<close>

locale fixed_codec =
  fixes ok :: "'a \<Rightarrow> bool" and enc :: "'a \<Rightarrow> u8 list" and dec :: "u8 list \<Rightarrow> 'a" and size :: nat
  assumes enc_length: "ok x \<Longrightarrow> length (enc x) = size"
    and dec_enc: "ok x \<Longrightarrow> dec (enc x) = x"
    and dec_ok: "length bs = size \<Longrightarrow> ok (dec bs)"
    and enc_dec: "length bs = size \<Longrightarrow> enc (dec bs) = bs"
begin

lemma enc_inj: "ok x \<Longrightarrow> ok y \<Longrightarrow> enc x = enc y \<Longrightarrow> x = y"
  by (metis dec_enc)

lemma memory_roundtrip: "ok x \<Longrightarrow> dec (read_umem (write_umem m a (enc x)) a size) = x"
  using read_write_umem [of m a "enc x"] by (simp add: enc_length dec_enc)

end

definition sign_data_req_ok :: "sign_data_req \<Rightarrow> bool" where
  "sign_data_req_ok req \<longleftrightarrow>
     length (req_user_data req) = USER_DATA_BYTES \<and> length (req_hash req) = P256_BYTES \<and>
     length (req_sig_r req) = P256_BYTES \<and> length (req_sig_s req) = P256_BYTES \<and>
     length (req_pubkey req) = P256_PUBKEY_BYTES"

lemma append_take_drops:
  "length bs = a + b + c + d + e \<Longrightarrow>
   take a bs @ take b (drop a bs) @ take c (drop (a + b) bs) @ take d (drop (a + b + c) bs) @
     take e (drop (a + b + c + d) bs) = bs"
  by (metis add_diff_cancel_left' append_take_drop_id drop_drop add.commute length_drop take_all
      order_refl)

interpretation req_codec: fixed_codec sign_data_req_ok sign_data_req_bytes sign_data_req_store
    sign_data_req_size
proof unfold_locales
  fix bs :: "u8 list" assume "length bs = sign_data_req_size"
  then show "sign_data_req_bytes (sign_data_req_store bs) = bs"
    using append_take_drops [of bs 128 32 32 32 33]
    by (simp add: sign_data_req_bytes_def sign_data_req_store_def)
qed (simp_all add: sign_data_req_ok_def sign_data_req_bytes_def sign_data_req_store_def)

section \<open>Scalars in the response\<close>

lemma write_limbs_be_append:
  "length pre = 8 * i \<Longrightarrow> length rest = 8 * length ls \<Longrightarrow>
   write_limbs_be (pre @ rest) i ls = Ok (pre @ concat (map u64_to_be_bytes ls))"
proof (induction ls arbitrary: pre rest i)
  case (Cons l ls)
  have c: "copy_into (pre @ rest) (i * 8) ((i + 1) * 8) (u64_to_be_bytes l) =
      Ok ((pre @ u64_to_be_bytes l) @ drop 8 rest)"
    using Cons.prems by (simp add: copy_into_ok)
  show ?case
    using Cons.IH [of "pre @ u64_to_be_bytes l" "i + 1" "drop 8 rest"] Cons.prems c by simp
qed simp

lemma be_bytes_of_limbs:
  "concat (map u64_to_be_bytes (rev ls)) = to_be_bytes (8 * length ls) (digits_val ls)"
proof -
  have "concat (map u64_to_be_bytes (rev ls)) = rev (limbs_to_le_bytes ls)"
    by (induction ls) (simp_all add: limbs_to_le_bytes_def u64_to_be_bytes_def)
  then show ?thesis by (simp add: to_be_bytes_digits_val)
qed

lemma write_scalar_be:
  "vli_ok 4 v \<Longrightarrow> length buf = 32 \<Longrightarrow>
   write_limbs_be buf 0 (rev (Vli_deref v)) = Ok (to_be_bytes 32 (vli_val v))"
  using write_limbs_be_append [of "[]" 0 buf "rev (limbs v)"] be_bytes_of_limbs [of "limbs v"]
  by (simp add: Vli_deref_def vli_ok_def vli_val_def)

section \<open>The message\<close>

lemma build_to_sign_ok:
  "length digest \<le> 64 \<Longrightarrow> length u = 128 \<Longrightarrow> build_to_sign digest u = Ok (digest @ u)"
  by (simp add: build_to_sign_def checked_add_def rust_simps copy_into_ok slice_to_def Let_def)

lemma fill_response_ok:
  assumes "sign_data_req_ok req" "vli_ok 4 r" "vli_ok 4 s" "length pk = 33"
  shows "fill_response req (r, s) pk =
    Ok (req\<lparr>req_sig_r := to_be_bytes 32 (vli_val r), req_sig_s := to_be_bytes 32 (vli_val s),
            req_pubkey := pk\<rparr>)"
  using assms
  by (simp add: fill_response_def write_scalar_be sign_data_req_ok_def copy_into_ok)

section \<open>Key generation\<close>

text \<open>The compressed point of SEC 1: the parity of Y, then X.\<close>

definition sec1_compressed :: "nat \<Rightarrow> nat \<Rightarrow> u8 list" where
  "sec1_compressed X Y = (if even Y then 0x02 else 0x03) # to_be_bytes 32 X"

definition public_key_bytes :: "'p curve_group \<Rightarrow> nat \<Rightarrow> u8 list" where
  "public_key_bytes C d =
     sec1_compressed (cg_x C (smul C d (cg_base C))) (cg_y C (smul C d (cg_base C)))"

definition key_pair_ok :: "'p curve_group \<Rightarrow> key_pair \<Rightarrow> bool" where
  "key_pair_ok C kp \<longleftrightarrow>
     valid_private C (kp_private kp) \<and> curve_n_ok C (kp_curve_n kp) \<and>
     kp_pubkey kp = public_key_bytes C (vli_val (kp_private kp))"

lemma length_sec1 [simp]: "length (sec1_compressed X Y) = 33" "length (public_key_bytes C d) = 33"
  by (simp_all add: sec1_compressed_def public_key_bytes_def)

lemma to_be_bytes_last: "to_be_bytes (Suc n) v ! n = word_of_nat v"
  by (simp add: to_be_bytes_def nth_append)

lemma parity_byte: "(0x02 OR (word_of_nat v AND 1) :: u8) = (if even v then 0x02 else 0x03)"
proof -
  have "(word_of_nat v AND 1 :: u8) = of_bool (odd v)"
    by (simp add: and_one_eq mod_2_eq_odd)
  then show ?thesis by simp
qed

lemma compress_pubkey_ok:
  "compress_pubkey (to_be_bytes 32 X) (to_be_bytes 32 Y) = Ok (sec1_compressed X Y)"
  using to_be_bytes_last [of 31 Y] parity_byte [of Y] replicate_Suc [of 32 "0 :: u8"]
  by (simp add: compress_pubkey_def copy_into_ok sec1_compressed_def Let_def)

text \<open>The driver-visible state after a key pair was generated: a measured key is in the IMA log.\<close>

definition key_measured :: "'s world \<Rightarrow> key_pair \<Rightarrow> 's world \<Rightarrow> bool" where
  "key_measured w kp w' \<longleftrightarrow>
     (if kp_ima_measured kp
      then same_kernel (w\<lparr>w_ima := w_ima w @ [pubkey_event (kp_pubkey kp)]\<rparr>) w'
      else same_kernel w w')"

lemma owns_point_ima:
  "owns_point w w1 pt \<Longrightarrow> same_kernel (w1\<lparr>w_ima := l\<rparr>) w2 \<Longrightarrow> owns_point (w\<lparr>w_ima := l\<rparr>) w2 pt"
  by (auto simp: owns_point_def same_kernel_def)

context tarako_kernel
begin

lemma measure_step:
  assumes own: "owns_point w w2 pt" and l: "length pk = 33"
    and m: "(case ima_measure_pubkey F K pk w2 of
               (Ok _, w') \<Rightarrow> (Ok True, w')
             | (Err _, w') \<Rightarrow> (Ok False, w')
             | (Fault b, w') \<Rightarrow> (Fault b, w')) = (r, w3)"
  shows "\<exists>b. r = Ok b \<and>
    key_measured w \<lparr>kp_private = d, kp_pubkey = pk, kp_curve_n = n, kp_ima_measured = b\<rparr> (Point_drop F pt w3)"
proof -
  obtain s w4 where s: "ima_measure_pubkey F K pk w2 = (s, w4)" by fastforce
  note p = ima_measure_pubkey_post [OF s]
  have l64: "length pk < 2 ^ 64" using l by simp
  show ?thesis
  proof (cases s)
    case (Ok u)
    have "w_ima w2 = w_ima w" using own by (auto simp: owns_point_def same_kernel_def)
    then have "owns_point (w\<lparr>w_ima := w_ima w @ [pubkey_event pk]\<rparr>) w4 pt"
      using p(2) [OF l64] Ok own owns_point_ima [OF own] by simp
    then show ?thesis using m s Ok free_owned by (auto simp: key_measured_def)
  next
    case (Err e)
    then have "owns_point w w4 pt" using p(3) [OF l64] own owns_point_kernel by blast
    then show ?thesis using m s Err free_owned by (auto simp: key_measured_def)
  next
    case (Fault b)
    then show ?thesis using p(1) [OF l64] by simp
  qed
qed

lemma generate_key_pair_post:
  assumes g: "generate_key_pair F K w = (r, w')"
  shows "(\<exists>e. r = Err e \<and> same_kernel w w') \<or>
    (\<exists>kp. r = Ok kp \<and> key_pair_ok C kp \<and> key_measured w kp w')"
  using g [unfolded generate_key_pair_def]
proof (cases rule: bind_cases)
  case (Ok d w1)
  note gd = generate_private_key_post [OF Ok(1)]
  have d: "valid_private C d" "0 < vli_val d" "vli_val d < cg_order C"
    using gd by (simp_all add: valid_private_def)
  show ?thesis using Ok(2)
  proof (cases rule: bind_cases)
    case (Ok pt w2)
    have own: "owns_point w w2 pt" and pt: "holds_point C (vli_val d) w2 pt"
      using make_public_key_post [OF Ok(1) d(1)] gd(1) kernel_owns_point by blast+
    let ?pk = "public_key_bytes C (vli_val d)"
    note reads = point_reads(1,2) [OF pt d(2,3)]
    show ?thesis
    proof (cases "get_curve_n F")
      case ok: (Ok no)
      show ?thesis
      proof (cases no)
        case None
        then have "r = Err EINVAL" "w' = Point_drop F pt w2"
          using Ok(2) reads ok
          by (auto simp: bind_def rust_simps compress_pubkey_ok)
        then show ?thesis using free_owned [OF own] by simp
      next
        case (Some n)
        have n: "curve_n_ok C n" using get_curve_n_post(2) ok Some by (simp add: curve_n_ok_def)
        obtain s w3 where m: "(case ima_measure_pubkey F K ?pk w2 of
               (Ok _, w') \<Rightarrow> (Ok True, w')
             | (Err _, w') \<Rightarrow> (Ok False, w')
             | (Fault b, w') \<Rightarrow> (Fault b, w')) = (s, w3)" by fastforce
        obtain b where b: "s = Ok b" and meas: "key_measured w
            \<lparr>kp_private = d, kp_pubkey = ?pk, kp_curve_n = n, kp_ima_measured = b\<rparr> (Point_drop F pt w3)"
          using measure_step [OF own _ m] by auto
        have "r = Ok \<lparr>kp_private = d, kp_pubkey = ?pk, kp_curve_n = n, kp_ima_measured = b\<rparr>"
          "w' = Point_drop F pt w3"
          using Ok(2) reads ok Some m b
          by (auto simp: bind_def rust_simps compress_pubkey_ok public_key_bytes_def)
        then show ?thesis using meas n d(1) by (simp add: key_pair_ok_def)
      qed
    qed (use get_curve_n_post(1) Ok(2) reads free_owned [OF own] in
        \<open>auto simp: bind_def rust_simps compress_pubkey_ok\<close>)
  next
    case (Err e)
    then show ?thesis using make_public_key_post [OF Err(1) d(1)] gd(1) same_kernel_trans by blast
  next
    case (Fault b)
    then show ?thesis using make_public_key_post [OF Fault(1) d(1)] by simp
  qed
next
  case (Err e)
  then show ?thesis using generate_private_key_post [OF Err(1)] by simp
next
  case (Fault b)
  then show ?thesis using generate_private_key_post [OF Fault(1)] by simp
qed

end

section \<open>The digest of the caller\<close>

text \<open>The inode of the calling executable, and its fs-verity digest if it is protected.\<close>

definition caller_inode :: "'s world \<Rightarrow> inode option" where
  "caller_inode w =
     (case w_mm w of
        Some (Some mm) \<Rightarrow> (case exe_file mm of Some exe \<Rightarrow> f_inode exe | None \<Rightarrow> None)
      | _ \<Rightarrow> None)"

definition caller_digest :: "'s ffi \<Rightarrow> 's world \<Rightarrow> u8 list option" where
  "caller_digest F w =
     (case caller_inode w of
        None \<Rightarrow> None
      | Some i \<Rightarrow>
          (let ((r, bs), w') = fsverity_get_digest F i w in if 0 < r then Some bs else None))"

definition digest_error :: "'s ffi \<Rightarrow> 's krate \<Rightarrow> 's world \<Rightarrow> error" where
  "digest_error F K w =
     (case caller_inode w of
        None \<Rightarrow> EPERM
      | Some i \<Rightarrow>
          (let ((r, bs), w') = fsverity_get_digest F i w
           in if r < 0 then from_errno K r else ENOENT))"

context fsverity_ffi
begin

lemma caller_digest_length: "caller_digest F w = Some d \<Longrightarrow> 0 < length d \<and> length d \<le> 64"
  using ffi_digest
  by (fastforce simp: caller_digest_def split: option.splits prod.splits if_splits)

lemma digest_post:
  "prog_post (current_exe_fsverity_digest F K) w (\<lambda>r w'. same_kernel w w' \<and>
     (case r of
        Ok fd \<Rightarrow> (\<exists>d. caller_digest F w = Some d \<and> FsverityDigest_digest fd = Ok d)
      | Err e \<Rightarrow> caller_digest F w = None \<and> e = digest_error F K w
      | Fault b \<Rightarrow> False))"
proof (cases "caller_inode w")
  case None
  then show ?thesis
    by (auto simp: prog_post_def current_exe_fsverity_digest_def caller_inode_def caller_digest_def
        digest_error_def split: option.splits)
next
  case (Some i)
  obtain r bs w' where g: "fsverity_get_digest F i w = ((r, bs), w')" by (metis prod.collapse)
  note p = ffi_digest [OF g]
  have run: "current_exe_fsverity_digest F K w =
      (if r < 0 then (Err (from_errno K r), w')
       else if nat r = 0 then (Err ENOENT, w')
       else if length (write_out (replicate 64 0) bs) < nat r then (Err EOVERFLOW, w')
       else (Ok \<lparr>fd_size = nat r, fd_buffer = write_out (replicate 64 0) bs\<rparr>, w'))"
    using Some g
    by (auto simp: current_exe_fsverity_digest_def caller_inode_def Let_def split: option.splits)
  have "length (write_out (replicate 64 0) bs) = 64" "take (length bs) (write_out (replicate 64 0) bs) = bs"
    using p by (simp_all add: length_write_out) (simp add: write_out_def)
  then show ?thesis
    using p by (auto simp: prog_post_def run caller_digest_def digest_error_def Some g
        FsverityDigest_digest_def slice_to_def)
qed

end

section \<open>The handlers\<close>

text \<open>
  What a signing request that succeeded did, for the key pair \<open>kp\<close>: 257 bytes at \<open>arg\<close> were
  written, all else is as before. The first 128 bytes are the caller's data, unchanged; then come
  the hash of digest and data, a valid signature of that hash, and the public key.
\<close>

definition signed_response ::
    "'s ffi \<Rightarrow> 'p curve_group \<Rightarrow> key_pair \<Rightarrow> usize \<Rightarrow> 's world \<Rightarrow> 's world \<Rightarrow> bool" where
  "signed_response F C kp arg w w' \<longleftrightarrow>
     (\<exists>digest u r s.
        kp_ima_measured kp \<and> caller_digest F w = Some digest \<and>
        u = read_umem (w_umem w) arg 128 \<and>
        ecdsa_valid C (smul C (vli_val (kp_private kp)) (cg_base C))
          (be_val (sha256_hash F (digest @ u))) (r, s) \<and>
        same_kernel (w\<lparr>w_umem := write_umem (w_umem w) arg
          (u @ sha256_hash F (digest @ u) @ to_be_bytes 32 r @ to_be_bytes 32 s @ kp_pubkey kp)\<rparr>) w')"

text \<open>An error changed nothing, unless it is the final copy to user memory that failed.\<close>

definition failed_request :: "usize \<Rightarrow> usize \<Rightarrow> 's world \<Rightarrow> error \<Rightarrow> 's world \<Rightarrow> bool" where
  "failed_request arg n w e w' \<longleftrightarrow>
     same_kernel w w' \<or>
     (e = EFAULT \<and> same_kernel (w\<lparr>w_umem := w_umem w'\<rparr>) w' \<and>
      (\<forall>i. i < arg \<or> arg + n \<le> i \<longrightarrow> w_umem w' i = w_umem w i))"

lemma failed_request_kernel: "same_kernel w w1 \<Longrightarrow> failed_request a n w1 e w' \<Longrightarrow> failed_request a n w e w'"
  by (auto simp: failed_request_def same_kernel_def)

context user_access
begin

lemma read_req_post:
  "prog_post (read_sign_data_req K arg len) w (\<lambda>r w'. same_kernel w w' \<and>
     (case r of
        Ok req \<Rightarrow> 257 \<le> len \<and> sign_data_req_ok req \<and> req_user_data req = read_umem (w_umem w) arg 128
      | Err e \<Rightarrow> e = EFAULT
      | Fault b \<Rightarrow> False))"
  unfolding read_sign_data_req_def
proof (rule bind_post [where Q = "\<lambda>r w'. read_slice K arg len 257 w = (r, w')"])
  fix bs w1 assume r: "read_slice K arg len 257 w = (Ok bs, w1)"
  note p = user_read_ok [OF r]
  have "take 128 (read_umem (w_umem w) arg 257) = read_umem (w_umem w) arg 128"
    by (simp add: read_umem_def take_map take_upt)
  then show "prog_post (ret (sign_data_req_store bs)) w1 (\<lambda>r w'. same_kernel w w' \<and>
     (case r of
        Ok req \<Rightarrow> 257 \<le> len \<and> sign_data_req_ok req \<and> req_user_data req = read_umem (w_umem w) arg 128
      | Err e \<Rightarrow> e = EFAULT
      | Fault b \<Rightarrow> False))"
    using p req_codec.dec_ok [of bs] by (simp add: ret_post sign_data_req_store_def)
qed (use user_read_err user_read_no_fault [of arg len 257 w] in \<open>auto simp: prog_post_def\<close>)

lemma write_bytes_post:
  "prog_post (write_slice K arg len bs) w (\<lambda>r w'.
     case r of
       Ok _ \<Rightarrow> length bs \<le> len \<and> same_kernel (w\<lparr>w_umem := write_umem (w_umem w) arg bs\<rparr>) w'
     | Err e \<Rightarrow> failed_request arg (length bs) w e w'
     | Fault b \<Rightarrow> False)"
  using user_write_ok user_write_err user_write_no_fault [of arg len bs w]
  by (cases "write_slice K arg len bs w"; cases "fst (write_slice K arg len bs w)")
    (auto simp: prog_post_def failed_request_def)

lemma write_req_post:
  "prog_post (write_sign_data_req K arg len req) w (\<lambda>r w'.
     case r of
       Ok _ \<Rightarrow> same_kernel (w\<lparr>w_umem := write_umem (w_umem w) arg (sign_data_req_bytes req)\<rparr>) w'
     | Err e \<Rightarrow> failed_request arg (length (sign_data_req_bytes req)) w e w'
     | Fault b \<Rightarrow> False)"
  unfolding write_sign_data_req_def
  by (rule bind_post [OF write_bytes_post]) (auto simp: ret_post)

end

context tarako_kernel
begin

lemma sign_post:
  assumes kp: "key_pair_ok C kp"
  shows "prog_post (KeyPair_sign F K kp msg) w (\<lambda>r w'. same_kernel w w' \<and>
     (case r of
        Ok (r, s) \<Rightarrow> vli_ok 4 r \<and> vli_ok 4 s \<and>
          ecdsa_valid C (smul C (vli_val (kp_private kp)) (cg_base C))
            (be_val (sha256_hash F msg)) (vli_val r, vli_val s)
      | Err e \<Rightarrow> True
      | Fault b \<Rightarrow> False))"
proof (rule prog_postI)
  fix res w' assume "KeyPair_sign F K kp msg w = (res, w')"
  then have run: "sign_loop 100 F K (sha256_hash F msg) (kp_private kp) (kp_curve_n kp) w = (res, w')"
    by (simp add: KeyPair_sign_def ecdsa_sign_def Let_def)
  have "curve_n_ok C (kp_curve_n kp)" "valid_private C (kp_private kp)"
    using kp by (simp_all add: key_pair_ok_def)
  from sign_loop_post [OF run this] show "same_kernel w w' \<and>
     (case res of
        Ok (r, s) \<Rightarrow> vli_ok 4 r \<and> vli_ok 4 s \<and>
          ecdsa_valid C (smul C (vli_val (kp_private kp)) (cg_base C))
            (be_val (sha256_hash F msg)) (vli_val r, vli_val s)
      | Err e \<Rightarrow> True
      | Fault b \<Rightarrow> False)"
    by (cases res) (auto intro: ecdsa_signature_valid)
qed

end

text \<open>What a signing request may end in, with a measured key pair.\<close>

definition sign_data_result ::
    "'s ffi \<Rightarrow> 'p curve_group \<Rightarrow> 's krate \<Rightarrow> key_pair \<Rightarrow> usize \<Rightarrow> 's world \<Rightarrow> isize outcome \<Rightarrow>
     's world \<Rightarrow> bool" where
  "sign_data_result F C K kp arg w r w' \<longleftrightarrow>
     (case r of
        Ok v \<Rightarrow> v = 0 \<and> signed_response F C kp arg w w'
      | Err e \<Rightarrow> failed_request arg 257 w e w' \<and>
          (caller_digest F w = None \<longrightarrow> e = digest_error F K w \<and> same_kernel w w')
      | Fault b \<Rightarrow> False)"

lemma sign_data_result_Err:
  "same_kernel w w' \<Longrightarrow> (caller_digest F w = None \<Longrightarrow> e = digest_error F K w) \<Longrightarrow>
   sign_data_result F C K kp arg w (Err e) w'"
  by (simp add: sign_data_result_def failed_request_def)

context tarako_kernel
begin

lemma respond_post:
  assumes w3: "same_kernel w w3" and req: "sign_data_req_ok req" and pk: "length (kp_pubkey kp) = 33"
    and u: "req_user_data req = read_umem (w_umem w) arg 128"
    and d: "caller_digest F w = Some d" and im: "kp_ima_measured kp"
    and m: "m = d @ req_user_data req"
    and rs: "vli_ok 4 r" "vli_ok 4 s"
    and v: "ecdsa_valid C (smul C (vli_val (kp_private kp)) (cg_base C))
              (be_val (sha256_hash F m)) (vli_val r, vli_val s)"
  shows "prog_post (bind (lift_outcome
            (fill_response (req\<lparr>req_hash := sha256_hash F m\<rparr>) (r, s) (kp_pubkey kp))) (\<lambda>req.
          bind (write_sign_data_req K arg len req) (\<lambda>_. ret 0))) w3 (sign_data_result F C K kp arg w)"
proof -
  let ?req = "req\<lparr>req_hash := sha256_hash F m, req_sig_r := to_be_bytes 32 (vli_val r),
    req_sig_s := to_be_bytes 32 (vli_val s), req_pubkey := kp_pubkey kp\<rparr>"
  have f: "fill_response (req\<lparr>req_hash := sha256_hash F m\<rparr>) (r, s) (kp_pubkey kp) = Ok ?req"
    using fill_response_ok [of "req\<lparr>req_hash := sha256_hash F m\<rparr>" r s "kp_pubkey kp"] req rs pk
    by (simp add: sign_data_req_ok_def)
  have bytes: "sign_data_req_bytes ?req = req_user_data req @ sha256_hash F m @
      to_be_bytes 32 (vli_val r) @ to_be_bytes 32 (vli_val s) @ kp_pubkey kp"
    by (simp add: sign_data_req_bytes_def)
  have len: "length (sign_data_req_bytes ?req) = 257" unfolding bytes using pk u by simp
  show ?thesis
    unfolding f lift_post
  proof (rule bind_post [OF write_req_post])
    fix x w4 assume "case Ok x of
        Ok _ \<Rightarrow> same_kernel (w3\<lparr>w_umem := write_umem (w_umem w3) arg (sign_data_req_bytes ?req)\<rparr>) w4
      | Err e \<Rightarrow> failed_request arg (length (sign_data_req_bytes ?req)) w3 e w4
      | Fault b \<Rightarrow> False"
    then have "same_kernel (w\<lparr>w_umem := write_umem (w_umem w) arg (sign_data_req_bytes ?req)\<rparr>) w4"
      using w3 by (simp add: same_kernel_def)
    then show "prog_post (ret 0) w4 (sign_data_result F C K kp arg w)"
      using d u v im m unfolding bytes by (auto simp: ret_post sign_data_result_def signed_response_def)
  qed (use d len failed_request_kernel [OF w3] in \<open>auto simp: sign_data_result_def\<close>)
qed

lemma sign_and_respond_post:
  assumes w2: "same_kernel w w2" and req: "sign_data_req_ok req" and kp: "key_pair_ok C kp"
    and u: "req_user_data req = read_umem (w_umem w) arg 128"
    and d: "caller_digest F w = Some d" and im: "kp_ima_measured kp"
  shows "prog_post (bind (lift_outcome (build_to_sign d (req_user_data req))) (\<lambda>to_sign.
          bind (KeyPair_sign F K kp to_sign) (\<lambda>sig.
          bind (lift_outcome
            (fill_response (req\<lparr>req_hash := sha256_hash F to_sign\<rparr>) sig (kp_pubkey kp))) (\<lambda>req.
          bind (write_sign_data_req K arg len req) (\<lambda>_. ret 0))))) w2 (sign_data_result F C K kp arg w)"
proof -
  let ?m = "d @ req_user_data req"
  have pk: "length (kp_pubkey kp) = 33" using kp by (simp add: key_pair_ok_def)
  have b: "build_to_sign d (req_user_data req) = Ok ?m"
    using caller_digest_length [OF d] u by (intro build_to_sign_ok) simp_all
  show ?thesis
    unfolding b lift_post
  proof (rule bind_post [OF sign_post [OF kp]])
    fix sig w3 assume "same_kernel w2 w3 \<and> (case Ok sig of
        Ok (r, s) \<Rightarrow> vli_ok 4 r \<and> vli_ok 4 s \<and>
          ecdsa_valid C (smul C (vli_val (kp_private kp)) (cg_base C))
            (be_val (sha256_hash F ?m)) (vli_val r, vli_val s)
      | Err e \<Rightarrow> True | Fault b \<Rightarrow> False)"
    then show "prog_post (bind (lift_outcome
        (fill_response (req\<lparr>req_hash := sha256_hash F ?m\<rparr>) sig (kp_pubkey kp))) (\<lambda>req.
      bind (write_sign_data_req K arg len req) (\<lambda>_. ret 0))) w3 (sign_data_result F C K kp arg w)"
      using respond_post [OF same_kernel_trans [OF w2] req pk u d im refl] by (cases sig) auto
  qed (use w2 d same_kernel_trans in \<open>auto intro!: sign_data_result_Err\<close>)
qed

lemma sign_data_post:
  assumes cell: "SetOnce_as_ref cell = Ok (Some kp)" and kp: "key_pair_ok C kp"
    and im: "kp_ima_measured kp"
  shows "prog_post (handle_sign_data F K cell arg cmd) w (sign_data_result F C K kp arg w)"
  unfolding handle_sign_data_def Let_def cell ok_or_simps lift_post
proof (simp only: im not_True_eq_False if_False, rule bind_post [OF digest_post])
  fix fd w1 assume "same_kernel w w1 \<and> (case Ok fd of
      Ok fd \<Rightarrow> \<exists>d. caller_digest F w = Some d \<and> FsverityDigest_digest fd = Ok d
    | Err e \<Rightarrow> caller_digest F w = None \<and> e = digest_error F K w | Fault b \<Rightarrow> False)"
  then obtain d where w1: "same_kernel w w1" and d: "caller_digest F w = Some d"
    and fd: "FsverityDigest_digest fd = Ok d" by auto
  show "prog_post (bind (lift_outcome (FsverityDigest_digest fd)) (\<lambda>digest.
      bind (read_sign_data_req K arg (k_IOC_SIZE K cmd)) (\<lambda>req.
      bind (lift_outcome (build_to_sign digest (req_user_data req))) (\<lambda>to_sign.
      bind (KeyPair_sign F K kp to_sign) (\<lambda>sig.
      bind (lift_outcome
        (fill_response (req\<lparr>req_hash := sha256_hash F to_sign\<rparr>) sig (kp_pubkey kp))) (\<lambda>req.
      bind (write_sign_data_req K arg (k_IOC_SIZE K cmd) req) (\<lambda>_. ret 0))))))) w1
      (sign_data_result F C K kp arg w)"
    unfolding fd lift_post
  proof (rule bind_post [OF read_req_post])
    fix req w2 assume "same_kernel w1 w2 \<and> (case Ok req of
        Ok req \<Rightarrow> 257 \<le> k_IOC_SIZE K cmd \<and> sign_data_req_ok req \<and>
          req_user_data req = read_umem (w_umem w1) arg 128
      | Err e \<Rightarrow> e = EFAULT | Fault b \<Rightarrow> False)"
    then have w2: "same_kernel w w2" and req: "sign_data_req_ok req"
      and u: "req_user_data req = read_umem (w_umem w) arg 128"
      using w1 by (auto intro: same_kernel_trans simp: same_kernel_fields)
    show "prog_post (bind (lift_outcome (build_to_sign d (req_user_data req))) (\<lambda>to_sign.
        bind (KeyPair_sign F K kp to_sign) (\<lambda>sig.
        bind (lift_outcome
          (fill_response (req\<lparr>req_hash := sha256_hash F to_sign\<rparr>) sig (kp_pubkey kp))) (\<lambda>req.
        bind (write_sign_data_req K arg (k_IOC_SIZE K cmd) req) (\<lambda>_. ret 0))))) w2
        (sign_data_result F C K kp arg w)"
      by (rule sign_and_respond_post [OF w2 req kp u d im])
  qed (use w1 d same_kernel_trans in \<open>auto intro!: sign_data_result_Err\<close>)
qed (auto intro!: sign_data_result_Err)

end

text \<open>The refusals that come before any effect.\<close>

lemma sign_data_no_key: "SetOnce_as_ref cell = Ok None \<Longrightarrow> handle_sign_data F K cell arg cmd w = (Err ENXIO, w)"
  by (simp add: handle_sign_data_def Let_def rust_simps)

lemma sign_data_unmeasured:
  "SetOnce_as_ref cell = Ok (Some kp) \<Longrightarrow> \<not> kp_ima_measured kp \<Longrightarrow>
   handle_sign_data F K cell arg cmd w = (Err EPERM, w)"
  by (simp add: handle_sign_data_def Let_def rust_simps)

lemma get_pubkey_no_key: "SetOnce_as_ref cell = Ok None \<Longrightarrow> handle_get_pubkey K cell arg cmd w = (Err ENXIO, w)"
  by (simp add: handle_get_pubkey_def rust_simps)

lemma get_pubkey_short:
  "SetOnce_as_ref cell = Ok (Some kp) \<Longrightarrow> k_IOC_SIZE K cmd < 33 \<Longrightarrow>
   handle_get_pubkey K cell arg cmd w = (Err E2BIG, w)"
  by (simp add: handle_get_pubkey_def rust_simps)

text \<open>What a request for the public key may end in.\<close>

definition get_pubkey_result ::
    "key_pair \<Rightarrow> usize \<Rightarrow> 's world \<Rightarrow> isize outcome \<Rightarrow> 's world \<Rightarrow> bool" where
  "get_pubkey_result kp arg w r w' \<longleftrightarrow>
     (case r of
        Ok v \<Rightarrow> v = 33 \<and> same_kernel (w\<lparr>w_umem := write_umem (w_umem w) arg (kp_pubkey kp)\<rparr>) w'
      | Err e \<Rightarrow> failed_request arg 33 w e w'
      | Fault b \<Rightarrow> False)"

context user_access
begin

lemma get_pubkey_post:
  assumes cell: "SetOnce_as_ref cell = Ok (Some kp)" and pk: "length (kp_pubkey kp) = 33"
  shows "prog_post (handle_get_pubkey K cell arg cmd) w (get_pubkey_result kp arg w)"
proof (cases "k_IOC_SIZE K cmd < 33")
  case True
  then show ?thesis
    using get_pubkey_short [OF cell True] by (simp add: prog_post_def get_pubkey_result_def failed_request_def)
next
  case False
  have "prog_post (bind (write_slice K arg (k_IOC_SIZE K cmd) (kp_pubkey kp)) (\<lambda>_. ret 33)) w
      (get_pubkey_result kp arg w)"
    by (rule bind_post [OF write_bytes_post]) (auto simp: ret_post get_pubkey_result_def pk)
  then show ?thesis
    unfolding handle_get_pubkey_def cell ok_or_simps lift_post Let_def using False by simp
qed

end

end
