(* ===== verification/Tarako_Module.thy ===== *)
theory Tarako_Module
  imports Ioctl
begin

text \<open>
  \<open>src/driver/src/lib.rs\<close>: the misc device, module initialisation and removal.

  The state of the driver is the global cell \<open>KEY_PAIR\<close>, the kernel, and whether \<open>/dev/tarako\<close>
  is registered. The life of the module is a step relation: the three parts of \<open>init\<close> (key
  generation, registration, publication of the key) are steps of their own, so that an ioctl can
  come between registration and publication; other steps are an open or an ioctl while the device
  is registered, any change the rest of the system makes, and the two destructors of removal.
  The invariant ties the key that signs to the IMA log.
\<close>

section \<open>Definitions\<close>

record 's driver =
  d_key :: "key_pair set_once"
  d_registered :: bool
  d_world :: "'s world"

text \<open>A call into the kernel.\<close>

definition in_world :: "('s world, 'a) prog \<Rightarrow> ('s driver, 'a) prog" where
  "in_world m d = (case m (d_world d) of (r, w') \<Rightarrow> (r, d\<lparr>d_world := w'\<rparr>))"

subsection \<open>The device\<close>

type_synonym device = nat

record tarako_device =
  td_dev :: device

definition TarakoDevice_open :: "'s krate \<Rightarrow> device \<Rightarrow> ('s world, tarako_device) prog" where
  "TarakoDevice_open K misc =
     (let dev = misc
      in bind (kbox_alloc K) (\<lambda>_. ret \<lparr>td_dev = dev\<rparr>))"

definition TarakoDevice_ioctl ::
    "'s ffi \<Rightarrow> 's krate \<Rightarrow> key_pair set_once \<Rightarrow> u32 \<Rightarrow> usize \<Rightarrow> ('s world, isize) prog" where
  "TarakoDevice_ioctl F K KEY_PAIR cmd arg =
     (if cmd = TARAKO_HELLO K then ret 0
      else if cmd = TARAKO_GET_PUBKEY K then handle_get_pubkey K KEY_PAIR arg cmd
      else if cmd = TARAKO_SIGN_DATA K then handle_sign_data F K KEY_PAIR arg cmd
      else fail ENOTTY)"

subsection \<open>Initialisation and removal\<close>

definition KEY_PAIR_init :: "key_pair set_once" where
  "KEY_PAIR_init = SetOnce_new"

definition register_device :: "'s krate \<Rightarrow> ('s driver, unit) prog" where
  "register_device K =
     bind (in_world (misc_register K ''tarako'')) (\<lambda>_ d. (Ok (), d\<lparr>d_registered := True\<rparr>))"

text \<open>The destructor of \<open>MiscDeviceRegistration\<close>.\<close>

definition deregister_device :: "'s krate \<Rightarrow> 's driver \<Rightarrow> 's driver" where
  "deregister_device K d =
     d\<lparr>d_world := misc_deregister K (d_world d), d_registered := False\<rparr>"

text \<open>
  The closure given to \<open>pin_chain\<close>. When it fails, \<open>pin_chain\<close> drops the registration that
  preceded it.
\<close>

definition publish_key :: "'s krate \<Rightarrow> key_pair \<Rightarrow> ('s driver, unit) prog" where
  "publish_key K kp d =
     (let (populated, cell) = SetOnce_populate (d_key d) kp; d1 = d\<lparr>d_key := cell\<rparr>
      in if \<not> populated then (Err EBUSY, deregister_device K d1) else (Ok (), d1))"

definition TarakoModule_init :: "'s ffi \<Rightarrow> 's krate \<Rightarrow> ('s driver, unit) prog" where
  "TarakoModule_init F K =
     bind (in_world (generate_key_pair F K)) (\<lambda>kp.
     bind (register_device K) (\<lambda>_.
     publish_key K kp))"

definition KeyCleanup_drop :: "('s driver, unit) prog" where
  "KeyCleanup_drop d =
     (let (r, cell) = SetOnce_clear KeyPair_drop (d_key d) in (r, d\<lparr>d_key := cell\<rparr>))"

text \<open>Fields are dropped in the order of their declaration: the registration, then the key.\<close>

definition TarakoModule_drop :: "'s krate \<Rightarrow> ('s driver, unit) prog" where
  "TarakoModule_drop K d = KeyCleanup_drop (deregister_device K d)"

subsection \<open>The life of the module\<close>

datatype mod_phase =
    Unloaded
  | Generated key_pair
  | Registered key_pair
  | Running
  | Removing
  | InitFailed error

record 's module =
  m_phase :: mod_phase
  m_driver :: "'s driver"

definition m_start :: "'s world \<Rightarrow> 's module" where
  "m_start w = \<lparr>m_phase = Unloaded,
     m_driver = \<lparr>d_key = KEY_PAIR_init, d_registered = False, d_world = w\<rparr>\<rparr>"

text \<open>
  What the rest of the system may do between two steps of the driver: anything, except that the
  IMA measurement list only grows.
\<close>

definition system_step :: "'s world \<Rightarrow> 's world \<Rightarrow> bool" where
  "system_step w w' \<longleftrightarrow> (\<exists>l. w_ima w' = w_ima w @ l)"

inductive mod_step :: "'s ffi \<Rightarrow> 's krate \<Rightarrow> 's module \<Rightarrow> 's module \<Rightarrow> bool"
  for F :: "'s ffi" and K :: "'s krate" where
  generate:
    "m_phase m = Unloaded \<Longrightarrow> in_world (generate_key_pair F K) (m_driver m) = (Ok kp, d') \<Longrightarrow>
     mod_step F K m \<lparr>m_phase = Generated kp, m_driver = d'\<rparr>"
| generate_fails:
    "m_phase m = Unloaded \<Longrightarrow> in_world (generate_key_pair F K) (m_driver m) = (Err e, d') \<Longrightarrow>
     mod_step F K m \<lparr>m_phase = InitFailed e, m_driver = d'\<rparr>"
| register:
    "m_phase m = Generated kp \<Longrightarrow> register_device K (m_driver m) = (Ok (), d') \<Longrightarrow>
     mod_step F K m \<lparr>m_phase = Registered kp, m_driver = d'\<rparr>"
| register_fails:
    "m_phase m = Generated kp \<Longrightarrow> register_device K (m_driver m) = (Err e, d') \<Longrightarrow>
     mod_step F K m \<lparr>m_phase = InitFailed e, m_driver = d'\<rparr>"
| publish:
    "m_phase m = Registered kp \<Longrightarrow> publish_key K kp (m_driver m) = (Ok (), d') \<Longrightarrow>
     mod_step F K m \<lparr>m_phase = Running, m_driver = d'\<rparr>"
| publish_fails:
    "m_phase m = Registered kp \<Longrightarrow> publish_key K kp (m_driver m) = (Err e, d') \<Longrightarrow>
     mod_step F K m \<lparr>m_phase = InitFailed e, m_driver = d'\<rparr>"
| device_open:
    "d_registered (m_driver m) \<Longrightarrow> in_world (TarakoDevice_open K dev) (m_driver m) = (r, d') \<Longrightarrow>
     mod_step F K m (m\<lparr>m_driver := d'\<rparr>)"
| device_ioctl:
    "d_registered (m_driver m) \<Longrightarrow>
     in_world (TarakoDevice_ioctl F K (d_key (m_driver m)) cmd arg) (m_driver m) = (r, d') \<Longrightarrow>
     mod_step F K m (m\<lparr>m_driver := d'\<rparr>)"
| system:
    "system_step (d_world (m_driver m)) w' \<Longrightarrow>
     mod_step F K m (m\<lparr>m_driver := (m_driver m)\<lparr>d_world := w'\<rparr>\<rparr>)"
| remove:
    "m_phase m = Running \<Longrightarrow>
     mod_step F K m \<lparr>m_phase = Removing, m_driver = deregister_device K (m_driver m)\<rparr>"
| cleanup:
    "m_phase m = Removing \<Longrightarrow> KeyCleanup_drop (m_driver m) = (Ok (), d') \<Longrightarrow>
     mod_step F K m \<lparr>m_phase = Unloaded, m_driver = d'\<rparr>"

definition mod_reachable :: "'s ffi \<Rightarrow> 's krate \<Rightarrow> 's module \<Rightarrow> bool" where
  "mod_reachable F K m \<longleftrightarrow> (\<exists>w. (mod_step F K)\<^sup>*\<^sup>* (m_start w) m)"

section \<open>The device\<close>

lemma dispatch_hello: "TarakoDevice_ioctl F K cell (TARAKO_HELLO K) arg w = (Ok 0, w)"
  by (simp add: TarakoDevice_ioctl_def rust_simps)

lemma dispatch_unknown:
  "cmd \<notin> {TARAKO_HELLO K, TARAKO_GET_PUBKEY K, TARAKO_SIGN_DATA K} \<Longrightarrow>
   TarakoDevice_ioctl F K cell cmd arg w = (Err ENOTTY, w)"
  by (simp add: TarakoDevice_ioctl_def rust_simps)

context ioctl_abi
begin

lemma dispatch:
  "TarakoDevice_ioctl F K cell (TARAKO_GET_PUBKEY K) arg = handle_get_pubkey K cell arg (TARAKO_GET_PUBKEY K)"
  "TarakoDevice_ioctl F K cell (TARAKO_SIGN_DATA K) arg = handle_sign_data F K cell arg (TARAKO_SIGN_DATA K)"
  by (simp_all add: TarakoDevice_ioctl_def command_numbers)

end

section \<open>The invariant of the module\<close>

text \<open>The key is in good order, and its public half is in the IMA log if the driver says so.\<close>

definition key_logged :: "'p curve_group \<Rightarrow> 's world \<Rightarrow> key_pair \<Rightarrow> bool" where
  "key_logged C w kp \<longleftrightarrow>
     key_pair_ok C kp \<and> (kp_ima_measured kp \<longrightarrow> pubkey_event (kp_pubkey kp) \<in> set (w_ima w))"

fun phase_inv :: "'p curve_group \<Rightarrow> mod_phase \<Rightarrow> 's driver \<Rightarrow> bool" where
  "phase_inv C (Generated kp) d \<longleftrightarrow>
     \<not> d_registered d \<and> SetOnce_as_ref (d_key d) = Ok None \<and> key_logged C (d_world d) kp"
| "phase_inv C (Registered kp) d \<longleftrightarrow>
     d_registered d \<and> SetOnce_as_ref (d_key d) = Ok None \<and> key_logged C (d_world d) kp"
| "phase_inv C Running d \<longleftrightarrow>
     d_registered d \<and> (\<exists>kp. SetOnce_as_ref (d_key d) = Ok (Some kp) \<and> key_logged C (d_world d) kp)"
| "phase_inv C Removing d \<longleftrightarrow>
     \<not> d_registered d \<and> (\<exists>kp. SetOnce_as_ref (d_key d) = Ok (Some kp) \<and> key_logged C (d_world d) kp)"
| "phase_inv C Unloaded d \<longleftrightarrow> \<not> d_registered d \<and> SetOnce_as_ref (d_key d) = Ok None"
| "phase_inv C (InitFailed e) d \<longleftrightarrow> \<not> d_registered d \<and> SetOnce_as_ref (d_key d) = Ok None"

definition mod_inv :: "'p curve_group \<Rightarrow> 's module \<Rightarrow> bool" where
  "mod_inv C m \<longleftrightarrow> so_inv (d_key (m_driver m)) \<and> phase_inv C (m_phase m) (m_driver m)"

lemma in_world_cases:
  assumes "in_world m d = (r, d')"
  obtains w' where "m (d_world d) = (r, w')" "d' = d\<lparr>d_world := w'\<rparr>"
  using assms by (auto simp: in_world_def split: prod.splits)

lemma key_logged_grows: "key_logged C w kp \<Longrightarrow> w_ima w' = w_ima w @ l \<Longrightarrow> key_logged C w' kp"
  by (auto simp: key_logged_def)

text \<open>A driver that differs only in its kernel, whose IMA log has grown.\<close>

lemma phase_inv_grows:
  "phase_inv C ph d \<Longrightarrow> w_ima w' = w_ima (d_world d) @ l \<Longrightarrow> phase_inv C ph (d\<lparr>d_world := w'\<rparr>)"
  by (cases ph) (auto intro: key_logged_grows)

lemma phase_inv_kernel:
  "phase_inv C ph d \<Longrightarrow> same_kernel (d_world d) w' \<Longrightarrow> phase_inv C ph (d\<lparr>d_world := w'\<rparr>)"
  by (rule phase_inv_grows [where l = "[]"]) (simp_all add: same_kernel_def)

lemma key_measured_logged: "key_pair_ok C kp \<Longrightarrow> key_measured w kp w' \<Longrightarrow> key_logged C w' kp"
  by (auto simp: key_logged_def key_measured_def same_kernel_def split: if_splits)

lemma start_inv: "mod_inv C (m_start w)"
  by (simp add: mod_inv_def m_start_def KEY_PAIR_init_def so.inv_new so.as_ref_new)

text \<open>What a handler does to the IMA log and whether it faults, for any key that is in place.\<close>

definition keeps_log :: "'s world \<Rightarrow> 'a outcome \<Rightarrow> 's world \<Rightarrow> bool" where
  "keeps_log w r w' \<longleftrightarrow> w_ima w' = w_ima w \<and> w_points w' = w_points w \<and> \<not> is_fault r"

lemma failed_keeps_log: "failed_request a n w e w' \<Longrightarrow> keeps_log w (Err e) w'"
  by (auto simp: failed_request_def keeps_log_def same_kernel_def)

lemma results_keep_log:
  "sign_data_result F C K kp arg w r w' \<Longrightarrow> keeps_log w r w'"
  "get_pubkey_result kp arg w r w' \<Longrightarrow> keeps_log w r w'"
  by (cases r; auto simp: sign_data_result_def signed_response_def keeps_log_def same_kernel_def
      dest: failed_keeps_log)
    (cases r; auto simp: get_pubkey_result_def keeps_log_def same_kernel_def dest: failed_keeps_log)

context tarako_kernel
begin

lemma ioctl_keeps_log:
  assumes inv: "so_inv cell" and key: "\<And>kp. SetOnce_as_ref cell = Ok (Some kp) \<Longrightarrow> key_pair_ok C kp"
    and run: "TarakoDevice_ioctl F K cell cmd arg w = (r, w')"
  shows "keeps_log w r w'"
proof -
  obtain s where s: "SetOnce_as_ref cell = Ok s" using so.as_ref_total [OF inv] by blast
  have get: "keeps_log w r w'" if "handle_get_pubkey K cell arg cmd w = (r, w')"
  proof (cases s)
    case None
    then show ?thesis using s that by (auto simp: get_pubkey_no_key keeps_log_def)
  next
    case (Some kp)
    then have "length (kp_pubkey kp) = 33" using key s by (simp add: key_pair_ok_def)
    then show ?thesis
      using prog_postD [OF get_pubkey_post that] s Some results_keep_log(2) by blast
  qed
  have sign: "keeps_log w r w'" if "handle_sign_data F K cell arg cmd w = (r, w')"
  proof (cases s)
    case None
    then show ?thesis using s that by (auto simp: sign_data_no_key keeps_log_def)
  next
    case (Some kp)
    show ?thesis
    proof (cases "kp_ima_measured kp")
      case True
      then show ?thesis
        using prog_postD [OF sign_data_post that] key s Some results_keep_log(1) by blast
    next
      case False
      then show ?thesis using s Some that by (auto simp: sign_data_unmeasured keeps_log_def)
    qed
  qed
  show ?thesis
    using run get sign
    by (auto simp: TarakoDevice_ioctl_def rust_simps keeps_log_def split: if_splits)
qed

lemma phase_inv_key:
  "phase_inv C ph d \<Longrightarrow> SetOnce_as_ref (d_key d) = Ok (Some kp) \<Longrightarrow> key_logged C (d_world d) kp"
  by (cases ph) auto

lemma open_kernel: "TarakoDevice_open K dev w = (r, w') \<Longrightarrow> same_kernel w w' \<and> \<not> is_fault r"
  using kbox_alloc_effect by (force simp: TarakoDevice_open_def bind_def ret_def split: prod.splits outcome.splits)

lemma register_post:
  assumes "register_device K d = (r, d')"
  shows "\<not> is_fault r" "d_key d' = d_key d" "same_kernel (d_world d) (d_world d')"
    "d_registered d' = (r = Ok () \<or> d_registered d)"
  using assms misc_register_effect [of "''tarako''" "d_world d"]
  by (auto simp: register_device_def bind_def in_world_def split: prod.splits outcome.splits)

lemma publish_post:
  assumes "so_inv (d_key d)" "SetOnce_as_ref (d_key d) = Ok None"
  shows "publish_key K kp d = (Ok (), d\<lparr>d_key := \<lparr>so_init = 2, so_value = Live kp\<rparr>\<rparr>)"
  using populate_empty_eq [OF assms, of kp] by (simp add: publish_key_def)

lemma cleanup_post:
  assumes "so_inv (d_key d)" "SetOnce_as_ref (d_key d) = Ok (Some kp)"
  shows "KeyCleanup_drop d = (Ok (), d\<lparr>d_key := \<lparr>so_init = 0, so_value = Dropped (KeyPair_drop kp)\<rparr>\<rparr>)"
  using clear_set_eq [OF assms, of KeyPair_drop] by (simp add: KeyCleanup_drop_def)

lemma generate_driver_post:
  assumes "in_world (generate_key_pair F K) d = (r, d')"
  shows "(\<exists>e w'. r = Err e \<and> d' = d\<lparr>d_world := w'\<rparr> \<and> same_kernel (d_world d) w') \<or>
    (\<exists>kp w'. r = Ok kp \<and> d' = d\<lparr>d_world := w'\<rparr> \<and> key_logged C w' kp)"
proof -
  obtain w' where g: "generate_key_pair F K (d_world d) = (r, w')" and d': "d' = d\<lparr>d_world := w'\<rparr>"
    using assms by (rule in_world_cases)
  show ?thesis using generate_key_pair_post [OF g] d' key_measured_logged by blast
qed

lemma mod_inv_step: "mod_step F K m m' \<Longrightarrow> mod_inv C m \<Longrightarrow> mod_inv C m'"
proof (induction rule: mod_step.induct)
  case (generate m kp d')
  then show ?case using generate_driver_post [OF generate.hyps(2)] by (auto simp: mod_inv_def)
next
  case (generate_fails m e d')
  then show ?case using generate_driver_post [OF generate_fails.hyps(2)] by (auto simp: mod_inv_def)
next
  case (register m kp d')
  then show ?case
    using register_post [OF register.hyps(2)] by (auto simp: mod_inv_def key_logged_def same_kernel_def)
next
  case (register_fails m kp e d')
  then show ?case using register_post [OF register_fails.hyps(2)] by (auto simp: mod_inv_def)
next
  case (publish m kp d')
  then show ?case
    using publish_post [of "m_driver m" kp] by (auto simp: mod_inv_def so_inv_def SetOnce_as_ref_def)
next
  case (publish_fails m kp e d')
  then show ?case using publish_post [of "m_driver m" kp] by (auto simp: mod_inv_def)
next
  case (device_open m dev r d')
  then show ?case
    using open_kernel phase_inv_kernel by (force simp: mod_inv_def elim!: in_world_cases)
next
  case (device_ioctl m cmd arg r d')
  obtain w' where run: "TarakoDevice_ioctl F K (d_key (m_driver m)) cmd arg (d_world (m_driver m)) = (r, w')"
    and d': "d' = (m_driver m)\<lparr>d_world := w'\<rparr>"
    using device_ioctl.hyps(2) by (rule in_world_cases)
  have "w_ima w' = w_ima (d_world (m_driver m)) @ []"
    using ioctl_keeps_log [OF _ _ run] device_ioctl.prems phase_inv_key
    by (auto simp: mod_inv_def keeps_log_def key_logged_def)
  then show ?case
    using device_ioctl.prems phase_inv_grows [of C "m_phase m" "m_driver m" w' "[]"] by (simp add: mod_inv_def d')
next
  case (system m w')
  then show ?case using phase_inv_grows by (auto simp: mod_inv_def system_step_def)
next
  case (remove m)
  then show ?case
    using misc_deregister_effect [of "d_world (m_driver m)"]
    by (auto simp: mod_inv_def deregister_device_def key_logged_def same_kernel_def)
next
  case (cleanup m d')
  then show ?case
    using cleanup_post [of "m_driver m"] by (auto simp: mod_inv_def so_inv_def SetOnce_as_ref_def)
qed

lemma mod_inv_reachable: "mod_reachable F K m \<Longrightarrow> mod_inv C m"
proof -
  have "(mod_step F K)\<^sup>*\<^sup>* (m_start w) m \<Longrightarrow> mod_inv C m" for w
    by (induction rule: rtranclp_induct) (auto intro: start_inv mod_inv_step)
  then show "mod_reachable F K m \<Longrightarrow> mod_inv C m" by (auto simp: mod_reachable_def)
qed

end

end
