(* ===== verification/Ioctl_Properties.thy ===== *)
theory Ioctl_Properties
  imports Ioctl
begin

text \<open>
  The properties of \<open>src/driver/src/ioctl.rs\<close>: key generation, the digest of the caller, the
  message, the scalars of the response and the two handlers. The first section
  runs the handlers on the reference kernel, for the witnesses.
\<close>


section \<open>The handlers on the reference kernel\<close>

text \<open>The key pair with private key 7, and a cell that holds it.\<close>

definition ref_key_pair :: "bool \<Rightarrow> key_pair" where
  "ref_key_pair measured = \<lparr>kp_private = Vli [7, 0, 0, 0], kp_pubkey = public_key_bytes ref_curve 7,
     kp_curve_n = ref_n, kp_ima_measured = measured\<rparr>"

definition ref_cell :: "bool \<Rightarrow> key_pair set_once" where
  "ref_cell measured = \<lparr>so_init = 2, so_value = Live (ref_key_pair measured)\<rparr>"

lemma ref_key_pair_ok: "key_pair_ok ref_curve (ref_key_pair b)"
  using ref_key ref_n_ok by (simp add: key_pair_ok_def ref_key_pair_def) (simp add: vli_val_def)

lemma ref_cell_ref: "SetOnce_as_ref (ref_cell b) = Ok (Some (ref_key_pair b))"
  by (simp add: SetOnce_as_ref_def ref_cell_def)

lemma ref_generate_key_pair:
  "generate_key_pair ref_ffi ref_krate (ref_world l [6]) =
   (Ok (ref_key_pair True), ref_world (l @ [pubkey_event (public_key_bytes ref_curve 7)]) [])"
proof -
  have g: "generate_private_key ref_ffi ref_krate (ref_world l [6]) = (Ok (Vli [7, 0, 0, 0]), ref_world l [])"
    using ref_generate [of 6] by simp
  have v: "vli_val (Vli [7, 0, 0, 0]) = 7" by (simp add: vli_val_def)
  have "holds_point ref_curve 7 (ref_point_world l [] 7) (Point 1)"
    using ref_ecc.make_public_key_post [OF ref_make_public_key ref_key] by (simp add: v)
  then have reads:
    "Point_x_as_bytes (Point 1) (ref_point_world l [] 7) =
      (Ok (to_be_bytes 32 (cg_x ref_curve (smul ref_curve 7 (cg_base ref_curve)))), ref_point_world l [] 7)"
    "Point_y_as_bytes (Point 1) (ref_point_world l [] 7) =
      (Ok (to_be_bytes 32 (cg_y ref_curve (smul ref_curve 7 (cg_base ref_curve)))), ref_point_world l [] 7)"
    using ref_ecc.point_reads(1,2) [of 7 "ref_point_world l [] 7" "Point 1"] ref_key
    by (simp_all add: valid_private_def v)
  have n: "get_curve_n ref_ffi = Ok (Some ref_n)"
    by (simp add: get_curve_n_def ref_ffi_def ref_get_curve_def P256_def ptr_read_def
        Vli_from_limbs_def ref_n_def)
  have i: "ima_measure_pubkey ref_ffi ref_krate (public_key_bytes ref_curve 7) (ref_point_world l [] 7) =
      (Ok (), ref_point_world (l @ [pubkey_event (public_key_bytes ref_curve 7)]) [] 7)"
    by (simp add: ima_measure_pubkey_def ref_ffi_def ref_ima_def ref_point_memory_def ref_memory_def
        pubkey_event_def)
  have "generate_key_pair ref_ffi ref_krate (ref_world l [6]) = (Ok (ref_key_pair True),
      Point_drop ref_ffi (Point 1) (ref_point_world (l @ [pubkey_event (public_key_bytes ref_curve 7)]) [] 7))"
    using g reads n i ref_make_public_key [of ref_krate 7 _ l "[]"]
    by (simp add: generate_key_pair_def bind_def drop_after_def lift_outcome_def compress_pubkey_ok ok_or_def
        ret_def ref_key_pair_def flip: public_key_bytes_def)
  then show ?thesis
    by (simp add: Point_drop_def ref_ffi_def ref_free_point_def ref_point_memory_def ref_memory_def)
qed

text \<open>A signing request that succeeds.\<close>

lemma ref_digest_val:
  "digits_val (replicate 32 (0xAB :: u8)) =
   0xABABABABABABABABABABABABABABABABABABABABABABABABABABABABABABABAB"
proof -
  have "replicate 32 (0xAB :: u8) = [0xAB, 0xAB, 0xAB, 0xAB, 0xAB, 0xAB, 0xAB, 0xAB, 0xAB, 0xAB, 0xAB, 0xAB, 0xAB, 0xAB, 0xAB, 0xAB,
      0xAB, 0xAB, 0xAB, 0xAB, 0xAB, 0xAB, 0xAB, 0xAB, 0xAB, 0xAB, 0xAB, 0xAB, 0xAB, 0xAB, 0xAB, 0xAB]"
    by (simp add: numeral_eq_Suc)
  then show ?thesis by simp
qed

lemma ref_message_hash:
  "be_val (sha256_hash ref_ffi (replicate 32 0xAB @ u)) =
   0xABABABABABABABABABABABABABABABABABABABABABABABABABABABABABABABAB"
proof -
  have "sha256_hash ref_ffi (replicate 32 0xAB @ u) = to_be_bytes 32 (digits_val (replicate 32 (0xAB :: u8) @ u))"
    by (simp add: sha256_hash_def ref_ffi_def ref_sha256_def)
  also have "digits_val (replicate 32 (0xAB :: u8) @ u) =
      digits_val (replicate 32 (0xAB :: u8)) + 2 ^ 256 * digits_val u"
    using digits_val_append [of "replicate 32 (0xAB :: u8)" u] by simp
  finally show ?thesis
    by (simp add: be_val_def to_be_bytes_def digits_val_to_digits ref_digest_val)
qed

text \<open>The nonce 6 signs any message that starts with the caller's digest.\<close>

lemma ref_key_pair_signs:
  "\<exists>r s w'. KeyPair_sign ref_ffi ref_krate (ref_key_pair b) (replicate 32 0xAB @ u) (ref_memory m l [5]) =
     (Ok (r, s), w') \<and> vli_ok 4 r \<and> vli_ok 4 s \<and> w_env w' = w_env (ref_memory m l [])"
proof -
  let ?h = "sha256_hash ref_ffi (replicate 32 0xAB @ u)"
  have l: "length ?h = 32" by (rule ref.length_sha256_hash)
  have "\<not> degenerate_nonce ref_curve (vli_val (Vli [7, 0, 0, 0])) (be_val ?h) (vli_val (Vli [6, 0, 0, 0]))"
    unfolding ref_message_hash by (rule ref_not_degenerate) (simp_all add: vli_val_def p256_order_def)
  from ref_ecc.sign_attempt_ok [OF ref_nonce ref_make_public_key ref_n_ok ref_key l this]
  obtain r s where a: "sign_attempt ref_ffi ref_krate ?h (Vli [7, 0, 0, 0]) ref_n (ref_memory m l [5])
        = (Ok (Some (r, s)), Point_drop ref_ffi (Point 1) (ref_point_memory m l [] 6))"
      and rs: "vli_ok 4 r" "vli_ok 4 s" by blast
  have "sign_loop (Suc 99) ref_ffi ref_krate ?h (Vli [7, 0, 0, 0]) ref_n (ref_memory m l [5]) =
      (Ok (r, s), Point_drop ref_ffi (Point 1) (ref_point_memory m l [] 6))"
    using a by (simp only: sign_loop.simps) (simp add: rust_simps)
  then show ?thesis
    using rs by (simp add: KeyPair_sign_def ecdsa_sign_def ref_key_pair_def Let_def)
      (simp add: Point_drop_def ref_ffi_def ref_free_point_def ref_point_memory_def ref_memory_def)
qed

lemma ref_caller_digest: "caller_digest ref_ffi (ref_memory m l ks) = Some (replicate 32 0xAB)"
  by (simp add: caller_digest_def caller_inode_def ref_memory_def ref_ffi_def ref_get_digest_def Let_def)

lemma ref_exe_digest:
  "current_exe_fsverity_digest ref_ffi ref_krate (ref_memory m l ks) =
   (Ok \<lparr>fd_size = 32, fd_buffer = write_out (replicate 64 0) (replicate 32 0xAB)\<rparr>, ref_memory m l ks)"
  by (simp add: current_exe_fsverity_digest_def ref_memory_def ref_ffi_def ref_get_digest_def Let_def
      length_write_out)

lemma ref_read_req:
  obtains req where "read_sign_data_req ref_krate a 257 (ref_memory m l ks) = (Ok req, ref_memory m l ks)"
    "sign_data_req_ok req" "req_user_data req = take 128 (read_umem m a 257)"
proof
  let ?req = "sign_data_req_store (read_umem m a 257)"
  show "read_sign_data_req ref_krate a 257 (ref_memory m l ks) = (Ok ?req, ref_memory m l ks)"
    by (simp add: read_sign_data_req_def ref_krate_def ref_read_slice_def ref_mapped_def ref_memory_def
        list_all_iff bind_def ret_def)
  show "sign_data_req_ok ?req" "req_user_data ?req = take 128 (read_umem m a 257)"
    using req_codec.dec_ok [of "read_umem m a 257"] by (simp_all add: sign_data_req_store_def)
qed

lemma ref_sign_data:
  "\<exists>w'. handle_sign_data ref_ffi ref_krate (ref_cell True) a (TARAKO_SIGN_DATA ref_krate) (ref_memory m l [5]) =
     (Ok 0, w')"
proof -
  let ?d = "replicate 32 (0xAB :: u8)" and ?u = "take 128 (read_umem m a 257)"
  obtain req where rd: "read_sign_data_req ref_krate a 257 (ref_memory m l [5]) = (Ok req, ref_memory m l [5])"
    and req: "sign_data_req_ok req" "req_user_data req = ?u"
    using ref_read_req .
  have fd: "FsverityDigest_digest \<lparr>fd_size = 32, fd_buffer = write_out (replicate 64 0) ?d\<rparr> = Ok ?d"
    by (simp add: FsverityDigest_digest_def slice_to_def write_out_def)
  have b: "build_to_sign ?d (req_user_data req) = Ok (?d @ ?u)"
    using build_to_sign_ok [of ?d ?u] req by simp
  obtain r s w' where sg:
    "KeyPair_sign ref_ffi ref_krate (ref_key_pair True) (?d @ ?u) (ref_memory m l [5]) = (Ok (r, s), w')"
    and rs: "vli_ok 4 r" "vli_ok 4 s" and e: "w_env w' = w_env (ref_memory m l [])"
    using ref_key_pair_signs by blast
  have pk: "length (kp_pubkey (ref_key_pair True)) = 33" by (simp add: ref_key_pair_def)
  obtain req' where f: "fill_response (req\<lparr>req_hash := sha256_hash ref_ffi (?d @ ?u)\<rparr>) (r, s)
      (kp_pubkey (ref_key_pair True)) = Ok req'" and l: "length (sign_data_req_bytes req') = 257"
    using fill_response_ok [of "req\<lparr>req_hash := sha256_hash ref_ffi (?d @ ?u)\<rparr>" r s] req rs pk
      ref.length_sha256_hash by (auto simp: sign_data_req_ok_def sign_data_req_bytes_def)
  have "write_sign_data_req ref_krate a 257 req' w' =
      (Ok (), w'\<lparr>w_umem := write_umem (w_umem w') a (sign_data_req_bytes req')\<rparr>)"
    using l e by (simp add: write_sign_data_req_def ref_krate_def ref_write_slice_def ref_mapped_def
        list_all_iff bind_def ret_def ref_memory_def)
  then show ?thesis
    using rd fd b sg f ref_exe_digest [of m l "[5]"] ref_cell_ref [of True] ref.command_sizes(2)
    by (simp add: handle_sign_data_def bind_def lift_outcome_def ok_or_def ret_def)
      (simp add: ref_key_pair_def)
qed

section \<open>Properties\<close>

text \<open>
  C6. A signing request with a measured key pair in place ends in one of two ways. If it returns,
  the result is 0 and the 257 bytes at the argument are the caller's 128 bytes unchanged, the
  SHA-256 hash of the caller's fs-verity digest followed by these bytes, a signature of that hash
  that verifies under the public key, and the compressed public key; nothing else changed. If it
  fails, nothing changed, unless the final copy to user memory failed, which may have written a
  part of the 257 bytes. It never faults.
\<close>

theorem sign_data_outcome:
  assumes kernel: "tarako_kernel F C K" and cell: "SetOnce_as_ref cell = Ok (Some kp)"
    and kp: "key_pair_ok C kp" "kp_ima_measured kp"
    and run: "handle_sign_data F K cell arg cmd w = (r, w')"
  shows "case r of
      Ok v \<Rightarrow> v = 0 \<and> signed_response F C kp arg w w'
    | Err e \<Rightarrow> failed_request arg 257 w e w'
    | Fault b \<Rightarrow> False"
  using prog_postD [OF tarako_kernel.sign_data_post [OF kernel cell kp] run]
  by (cases r) (auto simp: sign_data_result_def)

theorem sign_data_outcome_witness:
  "\<exists>w'. handle_sign_data ref_ffi ref_krate (ref_cell True) 4096 (TARAKO_SIGN_DATA ref_krate) (ref_world [] [5]) =
     (Ok 0, w') \<and> signed_response ref_ffi ref_curve (ref_key_pair True) 4096 (ref_world [] [5]) w'"
proof -
  obtain w' where run: "handle_sign_data ref_ffi ref_krate (ref_cell True) 4096 (TARAKO_SIGN_DATA ref_krate)
      (ref_world [] [5]) = (Ok 0, w')" using ref_sign_data by blast
  have "kp_ima_measured (ref_key_pair True)" by (simp add: ref_key_pair_def)
  from sign_data_outcome [OF ref.tarako_kernel_axioms ref_cell_ref ref_key_pair_ok this run] run
  show ?thesis by simp
qed

text \<open>
  The reasons to refuse a signing request, in the order of the code, for the content \<open>s\<close> of the
  key cell.
\<close>

definition sign_refusal :: "'s ffi \<Rightarrow> 's krate \<Rightarrow> key_pair option \<Rightarrow> 's world \<Rightarrow> error option" where
  "sign_refusal F K s w =
     (case s of
        None \<Rightarrow> Some ENXIO
      | Some kp \<Rightarrow>
          if \<not> kp_ima_measured kp then Some EPERM
          else if caller_digest F w = None then Some (digest_error F K w)
          else None)"

text \<open>
  C12. A signing request is refused, with no effect, when no key pair is in place (\<open>ENXIO\<close>), when
  the key was not measured by IMA (\<open>EPERM\<close>), and when the calling executable has no fs-verity
  digest (\<open>EPERM\<close> without an executable, \<open>ENOENT\<close> without fs-verity, else the kernel's error).
\<close>

theorem sign_data_refused:
  assumes kernel: "tarako_kernel F C K" and cell: "SetOnce_as_ref cell = Ok s"
    and kp: "\<And>kp. s = Some kp \<Longrightarrow> key_pair_ok C kp"
    and why: "sign_refusal F K s w = Some e"
    and run: "handle_sign_data F K cell arg cmd w = (r, w')"
  shows "r = Err e \<and> same_kernel w w'"
proof (cases s)
  case None
  then show ?thesis using why run sign_data_no_key [of cell F K arg cmd w] cell by (simp add: sign_refusal_def)
next
  case (Some kp)
  show ?thesis
  proof (cases "kp_ima_measured kp")
    case True
    then have "caller_digest F w = None" "e = digest_error F K w"
      using why Some by (auto simp: sign_refusal_def split: if_splits)
    then show ?thesis
      using prog_postD [OF tarako_kernel.sign_data_post [OF kernel _ assms(3) True] run] cell Some
      by (cases r) (auto simp: sign_data_result_def signed_response_def)
  next
    case False
    then show ?thesis
      using why run sign_data_unmeasured [of cell kp F K arg cmd w] cell Some by (simp add: sign_refusal_def)
  qed
qed

theorem sign_data_refused_witness:
  "fst (handle_sign_data ref_ffi ref_krate (ref_cell False) 4096 (TARAKO_SIGN_DATA ref_krate) (ref_world [] [5])) =
     Err EPERM \<and>
   fst (handle_sign_data ref_ffi ref_krate (ref_cell True) 4096 (TARAKO_SIGN_DATA ref_krate)
     ((ref_world [] [5])\<lparr>w_mm := None\<rparr>)) = Err EPERM"
proof -
  have 1: "sign_refusal ref_ffi ref_krate (Some (ref_key_pair False)) (ref_world [] [5]) = Some EPERM"
    by (simp add: sign_refusal_def ref_key_pair_def)
  have 2: "sign_refusal ref_ffi ref_krate (Some (ref_key_pair True)) ((ref_world [] [5])\<lparr>w_mm := None\<rparr>) = Some EPERM"
    by (simp add: sign_refusal_def ref_key_pair_def caller_digest_def caller_inode_def digest_error_def)
  show ?thesis
    using sign_data_refused [OF ref.tarako_kernel_axioms ref_cell_ref _ 1, of 4096 "TARAKO_SIGN_DATA ref_krate"]
      sign_data_refused [OF ref.tarako_kernel_axioms ref_cell_ref _ 2, of 4096 "TARAKO_SIGN_DATA ref_krate"]
      ref_key_pair_ok by (metis option.inject prod.collapse)
qed

text \<open>
  C17. Key generation returns an error and changes nothing, or returns a key pair whose private
  key is between 1 and the group order less one, whose public key is the compressed point of that
  private key (33 bytes, the parity of Y and then X), and whose order is that of the curve. The
  key pair says that it was measured exactly when the IMA log has got the public key in clear as
  its only new entry. No allocation is left behind.
\<close>

theorem generate_key_pair_outcome:
  assumes kernel: "tarako_kernel F C K" and run: "generate_key_pair F K w = (r, w')"
  shows "case r of
      Ok kp \<Rightarrow> 0 < vli_val (kp_private kp) \<and> vli_val (kp_private kp) < cg_order C \<and>
        vli_val (kp_curve_n kp) = cg_order C \<and>
        kp_pubkey kp = public_key_bytes C (vli_val (kp_private kp)) \<and> length (kp_pubkey kp) = 33 \<and>
        w_points w' = w_points w \<and> w_umem w' = w_umem w \<and>
        w_ima w' = w_ima w @ (if kp_ima_measured kp then [pubkey_event (kp_pubkey kp)] else [])
    | Err e \<Rightarrow> same_kernel w w'
    | Fault b \<Rightarrow> False"
  using tarako_kernel.generate_key_pair_post [OF kernel run]
  by (auto simp: key_pair_ok_def valid_private_def curve_n_ok_def key_measured_def same_kernel_def
      split: if_splits)

theorem generate_key_pair_outcome_witness:
  "\<exists>kp w'. generate_key_pair ref_ffi ref_krate (ref_world [] [6]) = (Ok kp, w') \<and>
     kp_pubkey kp = public_key_bytes ref_curve 7 \<and> w_ima w' = [pubkey_event (kp_pubkey kp)]"
  using generate_key_pair_outcome [OF ref.tarako_kernel_axioms ref_generate_key_pair] ref_generate_key_pair
  by (simp add: ref_key_pair_def ref_memory_def)

text \<open>
  C24. \<open>current_exe_fsverity_digest\<close> leaves the kernel as it was. It returns the fs-verity digest of
  the calling executable, at most 64 bytes and not empty, exactly when there is one, and its
  \<open>digest\<close> slice does not panic; otherwise it returns the error for the reason. The branches for
  a digest that is too large and for a fault are never taken.
\<close>

theorem exe_digest_outcome:
  assumes kernel: "fsverity_ffi F" and run: "current_exe_fsverity_digest F K w = (r, w')"
  shows "same_kernel w w' \<and>
    (case r of
       Ok fd \<Rightarrow> \<exists>d. caller_digest F w = Some d \<and> FsverityDigest_digest fd = Ok d \<and> 0 < length d \<and> length d \<le> 64
     | Err e \<Rightarrow> caller_digest F w = None \<and> e = digest_error F K w
     | Fault b \<Rightarrow> False)"
  using prog_postD [OF fsverity_ffi.digest_post [OF kernel] run]
    fsverity_ffi.caller_digest_length [OF kernel, of w] by (cases r) auto

theorem exe_digest_outcome_witness:
  "caller_digest ref_ffi (ref_world [] []) = Some (replicate 32 0xAB) \<and>
   same_kernel (ref_world [] []) (snd (current_exe_fsverity_digest ref_ffi ref_krate (ref_world [] [])))"
proof -
  have "fsverity_ffi ref_ffi" by unfold_locales
  from exe_digest_outcome [OF this ref_exe_digest] show ?thesis
    by (simp add: ref_exe_digest ref_caller_digest)
qed

text \<open>
  C25. The signed message determines the evidence: two messages built from a digest and 128 bytes of
  user data are equal only if the digests are equal and the user data are equal, although the
  length of the digest is not fixed.
\<close>

theorem message_injective:
  assumes "length u = USER_DATA_BYTES" "length u' = USER_DATA_BYTES"
    and "build_to_sign d u = Ok m" "build_to_sign d' u' = Ok m"
  shows "d = d' \<and> u = u'"
proof -
  have msg: "m = d @ u" if "build_to_sign d u = Ok m" "length u = USER_DATA_BYTES" for d u
  proof -
    have "length d \<le> 64"
      using that by (auto simp: build_to_sign_def copy_into_def ok_or_def Let_def split: if_splits option.splits)
    then show ?thesis using that build_to_sign_ok [of d u] by simp
  qed
  show ?thesis using msg [OF assms(3,1)] msg [OF assms(4,2)] assms(1,2) by simp
qed

theorem message_injective_witness:
  "build_to_sign (replicate 32 1) (replicate 128 0) \<noteq> build_to_sign (replicate 64 1) (replicate 128 0)"
proof
  assume eq: "build_to_sign (replicate 32 1) (replicate 128 0) = build_to_sign (replicate 64 1) (replicate 128 0)"
  have ok: "build_to_sign (replicate 32 1) (replicate 128 0) = Ok (replicate 32 1 @ replicate 128 0)"
    by (rule build_to_sign_ok) simp_all
  have "replicate 32 (1 :: u8) = replicate 64 1"
    using message_injective [OF _ _ ok, of "replicate 128 0" "replicate 64 1"] eq ok by simp
  then have "length (replicate 32 (1 :: u8)) = length (replicate 64 (1 :: u8))" by (rule arg_cong)
  then show False by simp
qed

text \<open>
  C26. A request for the public key with the driver's own command number, when a key pair is in
  place: it returns 33 and has written exactly the 33 bytes of the public key to the argument, or
  fails with \<open>EFAULT\<close> having written at most a part of these bytes. \<open>E2BIG\<close> is not possible with
  this command number; a command number with a smaller size is refused with \<open>E2BIG\<close>, with no effect.
\<close>

theorem get_pubkey_outcome:
  assumes kernel: "tarako_kernel F C K" and cell: "SetOnce_as_ref cell = Ok (Some kp)"
    and kp: "key_pair_ok C kp"
    and run: "handle_get_pubkey K cell arg (TARAKO_GET_PUBKEY K) w = (r, w')"
    and small: "k_IOC_SIZE K cmd < P256_PUBKEY_BYTES"
  shows "(case r of
       Ok v \<Rightarrow> v = 33 \<and> same_kernel (w\<lparr>w_umem := write_umem (w_umem w) arg (kp_pubkey kp)\<rparr>) w'
     | Err e \<Rightarrow> e = EFAULT \<and> failed_request arg 33 w e w'
     | Fault b \<Rightarrow> False) \<and>
    handle_get_pubkey K cell arg cmd w = (Err E2BIG, w)"
proof -
  have K: "user_access K" "ioctl_abi K" using kernel by (simp_all add: tarako_kernel_def)
  have pk: "length (kp_pubkey kp) = 33" using kp by (simp add: key_pair_ok_def)
  note res = prog_postD [OF user_access.get_pubkey_post [OF K(1) cell pk] run]
  have "e = EFAULT" if "r = Err e" for e
    using run that cell ioctl_abi.command_sizes [OF K(2)] user_access.user_write_err [OF K(1)]
    by (auto simp: handle_get_pubkey_def rust_simps elim!: bind_cases)
  then show ?thesis using res get_pubkey_short [OF cell] small by (cases r) (auto simp: get_pubkey_result_def)
qed

theorem get_pubkey_outcome_witness:
  "\<exists>w'. handle_get_pubkey ref_krate (ref_cell True) 64 (TARAKO_GET_PUBKEY ref_krate) (ref_world [] []) = (Ok 33, w') \<and>
     read_umem (w_umem w') 64 33 = public_key_bytes ref_curve 7"
proof -
  let ?w = "(ref_world [] [])\<lparr>w_umem := write_umem (w_umem (ref_world [] [])) 64 (public_key_bytes ref_curve 7)\<rparr>"
  have "write_slice ref_krate 64 33 (public_key_bytes ref_curve 7) (ref_world [] []) = (Ok (), ?w)"
    by (simp add: ref_krate_def ref_write_slice_def ref_mapped_def list_all_iff ref_memory_def)
  then have run: "handle_get_pubkey ref_krate (ref_cell True) 64 (TARAKO_GET_PUBKEY ref_krate) (ref_world [] []) =
      (Ok 33, ?w)"
    using ref.command_sizes(1) ref_cell_ref [of True]
    by (simp add: handle_get_pubkey_def bind_def lift_outcome_def ok_or_def ret_def ref_key_pair_def)
  have "k_IOC_SIZE ref_krate 0 < P256_PUBKEY_BYTES" by (simp add: ref_krate_def)
  from get_pubkey_outcome [OF ref.tarako_kernel_axioms ref_cell_ref ref_key_pair_ok run this]
  have "w_umem ?w = write_umem (w_umem (ref_world [] [])) 64 (public_key_bytes ref_curve 7)"
    by (simp add: same_kernel_def ref_key_pair_def)
  then show ?thesis
    using run read_write_umem [of "w_umem (ref_world [] [])" 64 "public_key_bytes ref_curve 7"] by simp
qed

text \<open>
  C36. Scalars survive the response: the loop that writes a scalar into \<open>sig_r\<close> or \<open>sig_s\<close> fills the
  32 bytes without a panic, and \<open>from_be_bytes\<close> reads the same scalar from them.
\<close>

theorem response_scalar_roundtrip:
  assumes F: "vli_ffi F" and v: "vli_ok P256_DIGITS v" and buf: "length buf = P256_BYTES"
  shows "\<exists>bs. write_limbs_be buf 0 (rev (Vli_deref v)) = Ok bs \<and> length bs = P256_BYTES \<and>
    Vli_from_be_bytes F P256_DIGITS bs = Ok v"
proof -
  let ?bs = "to_be_bytes 32 (vli_val v)"
  have w: "write_limbs_be buf 0 (rev (Vli_deref v)) = Ok ?bs"
    using v buf by (intro write_scalar_be) simp_all
  have "vli_val v < 2 ^ 256" using vli_val_bound [of 4 v] v by simp
  then have "be_val ?bs = vli_val v" by (simp add: be_val_to_be_bytes)
  moreover obtain u where "Vli_from_be_bytes F 4 ?bs = Ok u" "vli_ok 4 u" "vli_val u = be_val ?bs"
    using vli_ffi.from_be_bytes_ok [OF F, of 4 ?bs] by auto
  ultimately show ?thesis using w v vli_val_inj [of 4 u v] by auto
qed

theorem response_scalar_roundtrip_witness:
  "\<exists>bs. write_limbs_be (replicate 32 0) 0 (rev (Vli_deref (Vli [1, 2, 3, 4]))) = Ok bs \<and>
     Vli_from_be_bytes ref_ffi P256_DIGITS bs = Ok (Vli [1, 2, 3, 4])"
  using response_scalar_roundtrip [OF ref_vli.vli_ffi_axioms, of "Vli [1, 2, 3, 4]" "replicate 32 0"]
  by (auto simp: vli_ok_def)

text \<open>
  Compression follows SEC 1 and loses only what it should: from the big-endian bytes of the
  coordinates it makes 33 bytes, 2 or 3 for an even or odd Y followed by X, without a panic; X is
  read back from the last 32 bytes.
\<close>

lemma compress_pubkey_sec1:
  assumes "X < 2 ^ 256"
  shows "\<exists>pk. compress_pubkey (to_be_bytes P256_BYTES X) (to_be_bytes P256_BYTES Y) = Ok pk \<and>
    length pk = P256_PUBKEY_BYTES \<and> hd pk = (if even Y then 2 else 3) \<and> be_val (tl pk) = X"
  using compress_pubkey_ok [of X Y] assms by (simp add: sec1_compressed_def be_val_to_be_bytes)

lemma compress_pubkey_sec1_witness:
  "\<exists>pk. compress_pubkey (to_be_bytes P256_BYTES 5) (to_be_bytes P256_BYTES 9) = Ok pk \<and> hd pk = 3 \<and> be_val (tl pk) = 5"
  using compress_pubkey_sec1 [of 5 9] by auto

end
