(* ===== verification/Module_Properties.thy ===== *)
theory Module_Properties
  imports Tarako_Module Ioctl_Properties
begin

text \<open>
  The properties of \<open>src/driver/src/lib.rs\<close> and of the module as a whole: what a signature says in
  a module that has gone through any history, that no file operation faults, what initialisation
  and removal leave behind.
\<close>

section \<open>A history on the reference kernel\<close>

definition ref_event :: ima_event where
  "ref_event = pubkey_event (public_key_bytes ref_curve 7)"

definition ref_driver :: "bool \<Rightarrow> key_pair set_once \<Rightarrow> ref_world \<Rightarrow> ref_env driver" where
  "ref_driver reg cell w = \<lparr>d_key = cell, d_registered = reg, d_world = w\<rparr>"

definition ref_registered :: "ref_env module" where
  "ref_registered = \<lparr>m_phase = Registered (ref_key_pair True),
     m_driver = ref_driver True KEY_PAIR_init (ref_world [ref_event] [])\<rparr>"

definition ref_running :: "ref_env module" where
  "ref_running = \<lparr>m_phase = Running, m_driver = ref_driver True (ref_cell True) (ref_world [ref_event] [5])\<rparr>"

definition ref_generated :: "ref_env module" where
  "ref_generated = \<lparr>m_phase = Generated (ref_key_pair True),
     m_driver = ref_driver False KEY_PAIR_init (ref_world [ref_event] [])\<rparr>"

definition ref_published :: "ref_env module" where
  "ref_published = \<lparr>m_phase = Running, m_driver = ref_driver True (ref_cell True) (ref_world [ref_event] [])\<rparr>"

lemma ref_publish:
  "publish_key ref_krate (ref_key_pair True) (ref_driver True KEY_PAIR_init w) = (Ok (), ref_driver True (ref_cell True) w)"
  by (simp add: publish_key_def ref_driver_def KEY_PAIR_init_def SetOnce_new_def SetOnce_populate_def
      init_cmpxchg_def ref_cell_def)

lemma ref_life:
  "mod_step ref_ffi ref_krate (m_start (ref_world [] [6])) ref_generated"
  "mod_step ref_ffi ref_krate ref_generated ref_registered"
  "mod_step ref_ffi ref_krate ref_registered ref_published"
  "mod_step ref_ffi ref_krate ref_published ref_running"
proof -
  show "mod_step ref_ffi ref_krate (m_start (ref_world [] [6])) ref_generated"
    unfolding ref_generated_def
    by (rule mod_step.generate)
      (simp_all add: m_start_def ref_driver_def in_world_def ref_generate_key_pair ref_event_def)
  show "mod_step ref_ffi ref_krate ref_generated ref_registered"
    unfolding ref_registered_def
    by (rule mod_step.register)
      (simp_all add: ref_generated_def register_device_def in_world_def bind_def ref_krate_def ref_driver_def)
  show "mod_step ref_ffi ref_krate ref_registered ref_published"
    unfolding ref_published_def
    by (rule mod_step.publish [of _ "ref_key_pair True"]) (simp_all only: ref_registered_def module.simps ref_publish)
  show "mod_step ref_ffi ref_krate ref_published ref_running"
    using mod_step.system [of ref_published "ref_world [ref_event] [5]" ref_ffi ref_krate]
    by (simp add: ref_published_def ref_running_def ref_driver_def system_step_def ref_memory_def)
qed

lemma ref_registered_reachable: "mod_reachable ref_ffi ref_krate ref_registered"
  using ref_life(1,2) unfolding mod_reachable_def by (meson converse_rtranclp_into_rtranclp r_into_rtranclp)

lemma ref_running_reachable: "mod_reachable ref_ffi ref_krate ref_running"
  using ref_registered_reachable ref_life(3,4) unfolding mod_reachable_def
  by (meson rtranclp.rtrancl_into_rtrancl)

section \<open>Properties\<close>

text \<open>
  C1. Evidence is bound to a measured key: in a module with any history, if the signing ioctl
  returns, it returns 0, the key pair in place is in good order, its public key is in the IMA log in
  clear, and the response is the one \<open>signed_response\<close> describes for that key pair.
\<close>

theorem sign_ioctl_evidence:
  assumes kernel: "tarako_kernel F C K" and m: "mod_reachable F K m"
    and run: "TarakoDevice_ioctl F K (d_key (m_driver m)) (TARAKO_SIGN_DATA K) arg (d_world (m_driver m)) = (Ok v, w')"
  shows "v = 0 \<and> (\<exists>kp. SetOnce_as_ref (d_key (m_driver m)) = Ok (Some kp) \<and> key_pair_ok C kp \<and>
    pubkey_event (kp_pubkey kp) \<in> set (w_ima (d_world (m_driver m))) \<and>
    signed_response F C kp arg (d_world (m_driver m)) w')"
proof -
  have inv: "mod_inv C m" using tarako_kernel.mod_inv_reachable [OF kernel m] .
  have K: "ioctl_abi K" using kernel by (simp add: tarako_kernel_def)
  have run: "handle_sign_data F K (d_key (m_driver m)) arg (TARAKO_SIGN_DATA K) (d_world (m_driver m)) = (Ok v, w')"
    using run ioctl_abi.dispatch(2) [OF K] by simp
  obtain s where s: "SetOnce_as_ref (d_key (m_driver m)) = Ok s"
    using so.as_ref_total inv by (auto simp: mod_inv_def)
  obtain kp where kp: "s = Some kp" using s run by (cases s) (auto simp: sign_data_no_key)
  have im: "kp_ima_measured kp" using s kp run by (cases "kp_ima_measured kp") (simp_all add: sign_data_unmeasured)
  have log: "key_logged C (d_world (m_driver m)) kp"
    using inv tarako_kernel.phase_inv_key [OF kernel] s kp by (auto simp: mod_inv_def)
  then have ok: "key_pair_ok C kp" by (simp add: key_logged_def)
  from prog_postD [OF tarako_kernel.sign_data_post [OF kernel s [unfolded kp] ok im] run]
  show ?thesis using s kp ok log im by (auto simp: sign_data_result_def key_logged_def)
qed

theorem sign_ioctl_evidence_witness:
  "\<exists>w'. TarakoDevice_ioctl ref_ffi ref_krate (ref_cell True) (TARAKO_SIGN_DATA ref_krate) 4096
      (ref_world [ref_event] [5]) = (Ok 0, w') \<and>
    signed_response ref_ffi ref_curve (ref_key_pair True) 4096 (ref_world [ref_event] [5]) w'"
proof -
  obtain w' where "handle_sign_data ref_ffi ref_krate (ref_cell True) 4096 (TARAKO_SIGN_DATA ref_krate)
      (ref_world [ref_event] [5]) = (Ok 0, w')" using ref_sign_data by blast
  then have run: "TarakoDevice_ioctl ref_ffi ref_krate (d_key (m_driver ref_running)) (TARAKO_SIGN_DATA ref_krate)
      4096 (d_world (m_driver ref_running)) = (Ok 0, w')"
    using ref.dispatch(2) by (simp add: ref_running_def ref_driver_def)
  from sign_ioctl_evidence [OF ref.tarako_kernel_axioms ref_running_reachable run] run show ?thesis
    by (auto simp: ref_running_def ref_driver_def ref_cell_ref)
qed

text \<open>
  C15. File operations are safe at any time: in a module with any history, no ioctl, whatever its
  command number and argument, panics or has undefined behaviour; none leaks a curve point or
  touches the IMA log; and an open changes nothing the driver can see.
\<close>

theorem file_operations_safe:
  assumes kernel: "tarako_kernel F C K" and m: "mod_reachable F K m"
    and run: "TarakoDevice_ioctl F K (d_key (m_driver m)) cmd arg (d_world (m_driver m)) = (r, w')"
    and opn: "TarakoDevice_open K dev (d_world (m_driver m)) = (q, w'')"
  shows "\<not> is_fault r \<and> w_points w' = w_points (d_world (m_driver m)) \<and>
    w_ima w' = w_ima (d_world (m_driver m)) \<and> \<not> is_fault q \<and> same_kernel (d_world (m_driver m)) w''"
proof -
  have inv: "mod_inv C m" using tarako_kernel.mod_inv_reachable [OF kernel m] .
  have "keeps_log (d_world (m_driver m)) r w'"
    using tarako_kernel.ioctl_keeps_log [OF kernel _ _ run] inv tarako_kernel.phase_inv_key [OF kernel]
    by (auto simp: mod_inv_def key_logged_def)
  then show ?thesis using tarako_kernel.open_kernel [OF kernel opn] by (simp add: keeps_log_def)
qed

theorem file_operations_safe_witness:
  "\<not> is_fault (fst (TarakoDevice_ioctl ref_ffi ref_krate (ref_cell True) 0 0 (ref_world [ref_event] [5])))"
  using file_operations_safe [OF ref.tarako_kernel_axioms ref_running_reachable, of 0 0
      "fst (TarakoDevice_ioctl ref_ffi ref_krate (ref_cell True) 0 0 (ref_world [ref_event] [5]))"
      "snd (TarakoDevice_ioctl ref_ffi ref_krate (ref_cell True) 0 0 (ref_world [ref_event] [5]))"
      0 "fst (TarakoDevice_open ref_krate 0 (ref_world [ref_event] [5]))"
      "snd (TarakoDevice_open ref_krate 0 (ref_world [ref_event] [5]))"]
  by (simp add: ref_running_def ref_driver_def)

text \<open>
  C13. Removal destroys the key: from a running module with any history, the destructors first
  deregister the device and then clear the cell; they do not fault, the cell is empty, and what is
  left in its storage are the public key and two scalars whose limbs are all zero.
\<close>

theorem removal_zeroes_key:
  assumes kernel: "tarako_kernel F C K" and m: "mod_reachable F K m" and ph: "m_phase m = Running"
  shows "\<exists>d' kp. TarakoModule_drop K (m_driver m) = (Ok (), d') \<and> \<not> d_registered d' \<and>
    SetOnce_as_ref (d_key d') = Ok None \<and> so_value (d_key d') = Dropped kp \<and>
    kp_private kp = Vli_zero P256_DIGITS \<and> kp_curve_n kp = Vli_zero P256_DIGITS"
proof -
  have inv: "mod_inv C m" using tarako_kernel.mod_inv_reachable [OF kernel m] .
  then obtain kp where kp: "SetOnce_as_ref (d_key (m_driver m)) = Ok (Some kp)" "key_pair_ok C kp"
    and so: "so_inv (d_key (m_driver m))"
    using ph by (auto simp: mod_inv_def key_logged_def)
  let ?d = "deregister_device K (m_driver m)"
  let ?d' = "?d\<lparr>d_key := \<lparr>so_init = 0, so_value = Dropped (KeyPair_drop kp)\<rparr>\<rparr>"
  have "KeyCleanup_drop ?d = (Ok (), ?d')"
    by (rule tarako_kernel.cleanup_post [OF kernel]) (use kp so in \<open>simp_all add: deregister_device_def\<close>)
  moreover have "vli_ok P256_DIGITS (kp_private kp)" "vli_ok P256_DIGITS (kp_curve_n kp)"
    using kp(2) by (simp_all add: key_pair_ok_def valid_private_def curve_n_ok_def)
  ultimately show ?thesis
    by (intro exI [of _ ?d'] exI [of _ "KeyPair_drop kp"])
      (simp add: TarakoModule_drop_def deregister_device_def SetOnce_as_ref_def KeyPair_drop_def drop_zero)
qed

theorem removal_zeroes_key_witness:
  "\<exists>d' kp. TarakoModule_drop ref_krate (m_driver ref_running) = (Ok (), d') \<and>
     so_value (d_key d') = Dropped kp \<and> kp_private kp = Vli_zero P256_DIGITS"
  using removal_zeroes_key [OF ref.tarako_kernel_axioms ref_running_reachable]
  by (auto simp: ref_running_def)

text \<open>
  C18. Initialisation is all or nothing: from a driver whose cell is empty, \<open>init\<close> either succeeds
  with the device registered and the cell holding a sound key pair, in the IMA log in clear if it
  says that it was measured, or fails with the device not registered and the cell untouched. It
  does not fault, and the failure of publication, \<open>EBUSY\<close>, does not occur.
\<close>

theorem init_outcome:
  assumes kernel: "tarako_kernel F C K" and d: "so_inv (d_key d)" "SetOnce_as_ref (d_key d) = Ok None"
    "\<not> d_registered d" and run: "TarakoModule_init F K d = (r, d')"
  shows "case r of
      Ok _ \<Rightarrow> d_registered d' \<and> (\<exists>kp. SetOnce_as_ref (d_key d') = Ok (Some kp) \<and> key_logged C (d_world d') kp)
    | Err e \<Rightarrow> \<not> d_registered d' \<and> d_key d' = d_key d \<and>
        (fst (generate_key_pair F K (d_world d)) = Err e \<or>
         (\<exists>kp w1. generate_key_pair F K (d_world d) = (Ok kp, w1) \<and> fst (misc_register K ''tarako'' w1) = Err e))
    | Fault b \<Rightarrow> False"
  using run [unfolded TarakoModule_init_def]
proof (cases rule: bind_cases)
  case (Ok kp d1)
  obtain w1 where g: "generate_key_pair F K (d_world d) = (Ok kp, w1)" and d1: "d1 = d\<lparr>d_world := w1\<rparr>"
    using Ok(1) by (rule in_world_cases)
  have log: "key_logged C w1 kp"
    using tarako_kernel.generate_key_pair_post [OF kernel g] key_measured_logged by auto
  show ?thesis using Ok(2)
  proof (cases rule: bind_cases)
    case (Ok u d2)
    note reg = tarako_kernel.register_post [OF kernel Ok(1)]
    have "(r, d') = (Ok (), d2\<lparr>d_key := \<lparr>so_init = 2, so_value = Live kp\<rparr>\<rparr>)"
      using Ok(2) tarako_kernel.publish_post [OF kernel, of d2 kp] reg(2) d d1 by simp
    moreover have "key_logged C (d_world d2) kp"
      using log reg(3) d1 by (auto simp: key_logged_def same_kernel_def)
    ultimately show ?thesis using reg(4) by (auto simp: SetOnce_as_ref_def)
  next
    case (Err e)
    have "fst (misc_register K ''tarako'' w1) = Err e"
      using Err(1) d1
      by (auto simp: register_device_def in_world_def bind_def split: prod.splits outcome.splits)
    then show ?thesis
      using Err g d d1 tarako_kernel.register_post [OF kernel Err(1)] by auto
  next
    case (Fault b)
    then show ?thesis using tarako_kernel.register_post(1) [OF kernel Fault(1)] by simp
  qed
next
  case (Err e)
  then show ?thesis using d by (auto elim!: in_world_cases)
next
  case (Fault b)
  then show ?thesis using tarako_kernel.generate_driver_post [OF kernel Fault(1)] by auto
qed

theorem init_outcome_witness:
  "\<exists>d'. TarakoModule_init ref_ffi ref_krate (ref_driver False KEY_PAIR_init (ref_world [] [6])) = (Ok (), d') \<and>
     d_registered d' \<and> (\<exists>kp. SetOnce_as_ref (d_key d') = Ok (Some kp) \<and> key_logged ref_curve (d_world d') kp)"
proof -
  let ?d = "ref_driver False KEY_PAIR_init (ref_world [] [6])"
  have run: "TarakoModule_init ref_ffi ref_krate ?d =
      (Ok (), ref_driver True (ref_cell True) (ref_world [ref_event] []))"
    using ref_generate_key_pair [of "[]"] ref_publish [of "ref_world [ref_event] []"]
    by (simp add: TarakoModule_init_def bind_def in_world_def register_device_def ref_driver_def ref_event_def
        ref_krate_def)
  have "so_inv (d_key ?d)" "SetOnce_as_ref (d_key ?d) = Ok None" "\<not> d_registered ?d"
    by (simp_all add: ref_driver_def KEY_PAIR_init_def so.inv_new so.as_ref_new)
  from init_outcome [OF ref.tarako_kernel_axioms this run] show ?thesis using run by simp
qed

text \<open>
  C23. Between registration and publication the device answers, but not with a key: in that phase,
  whatever the history, both key ioctls return \<open>ENXIO\<close> and change nothing; and the publication
  that follows succeeds, after which the cell holds the generated key pair.
\<close>

theorem unpublished_window:
  assumes kernel: "tarako_kernel F C K" and m: "mod_reachable F K m" and ph: "m_phase m = Registered kp"
  shows "TarakoDevice_ioctl F K (d_key (m_driver m)) (TARAKO_GET_PUBKEY K) arg w = (Err ENXIO, w) \<and>
    TarakoDevice_ioctl F K (d_key (m_driver m)) (TARAKO_SIGN_DATA K) arg w = (Err ENXIO, w) \<and>
    (\<exists>d'. publish_key K kp (m_driver m) = (Ok (), d') \<and> SetOnce_as_ref (d_key d') = Ok (Some kp))"
proof -
  have inv: "so_inv (d_key (m_driver m))" "SetOnce_as_ref (d_key (m_driver m)) = Ok None"
    using tarako_kernel.mod_inv_reachable [OF kernel m] ph by (auto simp: mod_inv_def)
  have K: "ioctl_abi K" using kernel by (simp add: tarako_kernel_def)
  show ?thesis
    using tarako_kernel.publish_post [OF kernel inv, of kp] inv(2) ioctl_abi.dispatch [OF K]
    by (simp add: get_pubkey_no_key sign_data_no_key SetOnce_as_ref_def)
qed

theorem unpublished_window_witness:
  "TarakoDevice_ioctl ref_ffi ref_krate KEY_PAIR_init (TARAKO_SIGN_DATA ref_krate) 4096 (ref_world [] [5]) =
     (Err ENXIO, ref_world [] [5])"
  using unpublished_window [OF ref.tarako_kernel_axioms ref_registered_reachable, of "ref_key_pair True" 4096 "ref_world [] [5]"]
  by (simp add: ref_registered_def ref_driver_def)

text \<open>
  The dispatcher is total over command numbers: the hello command returns 0, every number that
  is none of the three documented ones is refused with \<open>ENOTTY\<close>, and neither touches the kernel
  or reads the key.
\<close>

lemma dispatch_other_commands:
  assumes "ioctl_abi K" "cmd \<notin> {0x00005300, 0x80215301, 0xC1015302}"
  shows "TarakoDevice_ioctl F K cell cmd arg w = (Err ENOTTY, w) \<and>
    TarakoDevice_ioctl F K cell 0x00005300 arg w = (Ok 0, w)"
  using dispatch_unknown [of cmd K F cell arg w] dispatch_hello [of F K cell arg w] assms(2)
    ioctl_abi.command_numbers [OF assms(1)] by simp

lemma dispatch_other_commands_witness:
  "TarakoDevice_ioctl ref_ffi ref_krate KEY_PAIR_init 0x5303 0 (ref_world [] []) = (Err ENOTTY, ref_world [] [])"
proof -
  have "ioctl_abi ref_krate" by unfold_locales
  from dispatch_other_commands [OF this, where cmd = "0x5303"] show ?thesis by simp
qed

end
