(* ===== verification/Text_Encoding.thy ===== *)
theory Text_Encoding
  imports Rust_Prelude
begin

text \<open>
  The encodings of the Go and Python standard libraries that the attester
  (\<open>src/attester/main.go\<close>) and the verifier (\<open>src/test/attestation/verifier.py\<close>) use: UTF-8,
  hexadecimal, JSON strings as Go's \<open>json.Marshal\<close> and as Python's \<open>json.dumps\<close> write them, and
  the DER form of an ECDSA signature. A \<open>ustring\<close> is a list of Unicode code points.
\<close>

section \<open>Definitions\<close>

type_synonym ustring = "nat list"

definition ascii :: "string \<Rightarrow> ustring" where
  "ascii s = map of_char s"

subsection \<open>UTF-8\<close>

definition utf8_char :: "nat \<Rightarrow> u8 list" where
  "utf8_char c =
     (if c < 0x80 then [word_of_nat c]
      else if c < 0x800 then [word_of_nat (0xC0 + c div 64), word_of_nat (0x80 + c mod 64)]
      else if c < 0x10000 then
        [word_of_nat (0xE0 + c div 4096), word_of_nat (0x80 + c div 64 mod 64),
         word_of_nat (0x80 + c mod 64)]
      else
        [word_of_nat (0xF0 + c div 262144), word_of_nat (0x80 + c div 4096 mod 64),
         word_of_nat (0x80 + c div 64 mod 64), word_of_nat (0x80 + c mod 64)])"

definition utf8 :: "ustring \<Rightarrow> u8 list" where
  "utf8 t = concat (map utf8_char t)"

subsection \<open>Hexadecimal\<close>

definition hex_digit :: "nat \<Rightarrow> nat" where
  "hex_digit n = (if n < 10 then 48 + n else 87 + n)"

definition hex_value :: "nat \<Rightarrow> nat option" where
  "hex_value c =
     (if 48 \<le> c \<and> c \<le> 57 then Some (c - 48)
      else if 97 \<le> c \<and> c \<le> 102 then Some (c - 87)
      else if 65 \<le> c \<and> c \<le> 70 then Some (c - 55)
      else None)"

definition hex_byte :: "u8 \<Rightarrow> ustring" where
  "hex_byte b = [hex_digit (unat b div 16), hex_digit (unat b mod 16)]"

text \<open>\<open>hex.EncodeToString\<close> and \<open>bytes.hex\<close>.\<close>

definition hex_encode :: "u8 list \<Rightarrow> ustring" where
  "hex_encode bs = concat (map hex_byte bs)"

text \<open>\<open>hex.DecodeString\<close>: an odd length or a character that is no digit is an error.\<close>

fun hex_decode :: "ustring \<Rightarrow> u8 list option" where
  "hex_decode [] = Some []"
| "hex_decode [c] = None"
| "hex_decode (c # d # t) =
     (case (hex_value c, hex_value d, hex_decode t) of
        (Some h, Some l, Some bs) \<Rightarrow> Some (word_of_nat (16 * h + l) # bs)
      | _ \<Rightarrow> None)"

text \<open>\<open>bytes.fromhex\<close> also skips ASCII white space in front of each byte.\<close>

definition py_space :: "nat \<Rightarrow> bool" where
  "py_space c \<longleftrightarrow> c = 32 \<or> (9 \<le> c \<and> c \<le> 13)"

fun py_fromhex :: "ustring \<Rightarrow> u8 list option" where
  "py_fromhex [] = Some []"
| "py_fromhex [c] = (if py_space c then Some [] else None)"
| "py_fromhex (c # d # t) =
     (if py_space c then py_fromhex (d # t)
      else
        (case (hex_value c, hex_value d, py_fromhex t) of
           (Some h, Some l, Some bs) \<Rightarrow> Some (word_of_nat (16 * h + l) # bs)
         | _ \<Rightarrow> None))"

subsection \<open>JSON strings\<close>

text \<open>\<open>\u\<close> and four hexadecimal digits.\<close>

definition json_u :: "nat \<Rightarrow> ustring" where
  "json_u n = ascii [CHR 0x5C, CHR ''u''] @
     [hex_digit (n div 4096 mod 16), hex_digit (n div 256 mod 16), hex_digit (n div 16 mod 16),
      hex_digit (n mod 16)]"

text \<open>The two-character escapes that both libraries know.\<close>

definition json_short :: "nat \<Rightarrow> ustring option" where
  "json_short c =
     (if c = 0x22 \<or> c = 0x5C then Some [0x5C, c]
      else if c = 8 then Some [0x5C, 0x62]
      else if c = 12 then Some [0x5C, 0x66]
      else if c = 10 then Some [0x5C, 0x6E]
      else if c = 13 then Some [0x5C, 0x72]
      else if c = 9 then Some [0x5C, 0x74]
      else None)"

text \<open>
  Go: characters that are safe in HTML are written as they are, the line separators are escaped,
  everything else beyond ASCII is written as it is.
\<close>

definition go_html_safe :: "nat \<Rightarrow> bool" where
  "go_html_safe c \<longleftrightarrow> 0x20 \<le> c \<and> c < 0x80 \<and> c \<notin> {0x22, 0x26, 0x3C, 0x3E, 0x5C}"

definition go_json_char :: "nat \<Rightarrow> ustring" where
  "go_json_char c =
     (if go_html_safe c then [c]
      else if c < 0x80 then (case json_short c of Some e \<Rightarrow> e | None \<Rightarrow> json_u c)
      else if c = 0x2028 \<or> c = 0x2029 then json_u c
      else [c])"

text \<open>Python: everything but printable ASCII is escaped, beyond the basic plane as two surrogates.\<close>

definition high_surrogate :: "nat \<Rightarrow> nat" where
  "high_surrogate c = 0xD800 + (c - 0x10000) div 1024"

definition low_surrogate :: "nat \<Rightarrow> nat" where
  "low_surrogate c = 0xDC00 + (c - 0x10000) mod 1024"

definition py_json_char :: "nat \<Rightarrow> ustring" where
  "py_json_char c =
     (case json_short c of
        Some e \<Rightarrow> e
      | None \<Rightarrow>
          if 0x20 \<le> c \<and> c \<le> 0x7E then [c]
          else if c < 0x10000 then json_u c
          else json_u (high_surrogate c) @ json_u (low_surrogate c))"

text \<open>A scalar value of Unicode: a code point that is no surrogate.\<close>

definition scalar_value :: "nat \<Rightarrow> bool" where
  "scalar_value c \<longleftrightarrow> c < 0xD800 \<or> (0xE000 \<le> c \<and> c < 0x110000)"

definition json_string :: "(nat \<Rightarrow> ustring) \<Rightarrow> ustring \<Rightarrow> ustring" where
  "json_string esc t = [0x22] @ concat (map esc t) @ [0x22]"

subsection \<open>DER\<close>

text \<open>\<open>big.Int.Bytes\<close>: big-endian without leading zeros.\<close>

fun nat_bytes :: "nat \<Rightarrow> u8 list" where
  "nat_bytes v = (if v = 0 then [] else nat_bytes (v div 256) @ [word_of_nat v])"

declare nat_bytes.simps [simp del]

text \<open>The content of an INTEGER: not empty, and a zero byte in front of a set top bit.\<close>

definition der_int_content :: "nat \<Rightarrow> u8 list" where
  "der_int_content v =
     (let bs = nat_bytes v
      in if bs = [] then [0] else if 0x80 \<le> hd bs then 0 # bs else bs)"

definition der_length :: "nat \<Rightarrow> u8 list" where
  "der_length n =
     (if n < 128 then [word_of_nat n]
      else let bs = nat_bytes n in (word_of_nat (128 + length bs)) # bs)"

definition der_tlv :: "u8 \<Rightarrow> u8 list \<Rightarrow> u8 list" where
  "der_tlv tag content = tag # der_length (length content) @ content"

text \<open>\<open>asn1.Marshal\<close> of a structure of two integers.\<close>

definition der_signature :: "nat \<Rightarrow> nat \<Rightarrow> u8 list" where
  "der_signature r s =
     der_tlv 0x30 (der_tlv 0x02 (der_int_content r) @ der_tlv 0x02 (der_int_content s))"

text \<open>A reader for the short forms: tag, one length byte, content, rest.\<close>

fun der_read :: "u8 \<Rightarrow> u8 list \<Rightarrow> (u8 list \<times> u8 list) option" where
  "der_read tag (t # l # rest) =
     (if t = tag \<and> l < 0x80 \<and> unat l \<le> length rest
      then Some (take (unat l) rest, drop (unat l) rest) else None)"
| "der_read tag _ = None"

definition der_parse :: "u8 list \<Rightarrow> (nat \<times> nat) option" where
  "der_parse bs =
     (case der_read 0x30 bs of
        Some (body, []) \<Rightarrow>
          (case der_read 0x02 body of
             Some (r, rest) \<Rightarrow>
               (case der_read 0x02 rest of
                  Some (s, []) \<Rightarrow> Some (be_val r, be_val s)
                | _ \<Rightarrow> None)
           | None \<Rightarrow> None)
      | _ \<Rightarrow> None)"

section \<open>Hexadecimal\<close>

lemma hex_value_digit: "n < 16 \<Longrightarrow> hex_value (hex_digit n) = Some n"
  by (auto simp: hex_value_def hex_digit_def)

lemma not_space_digit: "n < 16 \<Longrightarrow> \<not> py_space (hex_digit n)"
  by (auto simp: py_space_def hex_digit_def)

lemma byte_nibbles: "unat (b :: u8) div 16 < 16" "word_of_nat (16 * (unat b div 16) + unat b mod 16) = b"
  using unsigned_less [of b, where ?'a = nat] by simp_all

lemma hex_decode_encode: "hex_decode (hex_encode bs) = Some bs"
  by (induction bs)
    (simp_all add: hex_encode_def hex_byte_def hex_value_digit byte_nibbles del: mult_div_mod_eq)

lemma py_fromhex_encode: "py_fromhex (hex_encode bs) = Some bs"
  by (induction bs)
    (simp_all add: hex_encode_def hex_byte_def hex_value_digit not_space_digit byte_nibbles
      del: mult_div_mod_eq)

lemma length_hex_encode [simp]: "length (hex_encode bs) = 2 * length bs"
  by (induction bs) (simp_all add: hex_encode_def hex_byte_def)

lemma hex_encode_inj: "hex_encode bs = hex_encode cs \<Longrightarrow> bs = cs"
  using hex_decode_encode by (metis option.inject)

section \<open>UTF-8\<close>

lemma utf8_append [simp]: "utf8 (s @ t) = utf8 s @ utf8 t"
  by (simp add: utf8_def)

section \<open>JSON strings\<close>

text \<open>The characters that the two libraries write alike.\<close>

definition json_agrees :: "nat \<Rightarrow> bool" where
  "json_agrees c \<longleftrightarrow> c \<le> 0x7E \<and> c \<notin> {0x26, 0x3C, 0x3E} \<or> c = 0x2028 \<or> c = 0x2029"

lemma json_char_agrees: "json_agrees c \<Longrightarrow> go_json_char c = py_json_char c"
  by (auto simp: json_agrees_def go_json_char_def py_json_char_def go_html_safe_def json_short_def)

subsection \<open>Python strings can be read back\<close>

lemma hex_digit_inj: "m < 16 \<Longrightarrow> n < 16 \<Longrightarrow> hex_digit m = hex_digit n \<longleftrightarrow> m = n"
  by (metis hex_value_digit option.inject)

lemma four_digits:
  fixes n :: nat
  assumes "n < 0x10000"
  shows "n = 4096 * (n div 4096 mod 16) + 256 * (n div 256 mod 16) + 16 * (n div 16 mod 16) + n mod 16"
proof -
  have "n = 16 * (n div 16) + n mod 16" by simp
  moreover have "n div 16 = 16 * (n div 256) + n div 16 mod 16"
    using mult_div_mod_eq [of 16 "n div 16"] by (simp flip: div_mult2_eq)
  moreover have "n div 256 = 16 * (n div 4096) + n div 256 mod 16"
    using mult_div_mod_eq [of 16 "n div 256"] by (simp flip: div_mult2_eq)
  moreover have "n div 4096 = n div 4096 mod 16" using assms by simp
  ultimately show ?thesis by linarith
qed

lemma json_u_injD:
  assumes "m < 0x10000" "n < 0x10000" and eq: "json_u m @ s = json_u n @ t"
  shows "m = n \<and> s = t"
proof -
  have d: "m div 4096 mod 16 = n div 4096 mod 16" "m div 256 mod 16 = n div 256 mod 16"
    "m div 16 mod 16 = n div 16 mod 16" "m mod 16 = n mod 16" and "s = t"
    using eq by (simp_all add: json_u_def ascii_def hex_digit_inj)
  then show ?thesis using four_digits [OF assms(1)] four_digits [OF assms(2)] by simp
qed

lemma json_short_form: "json_short c = Some e \<Longrightarrow> e = [0x5C, e ! 1] \<and> e ! 1 \<noteq> 0x75"
  unfolding json_short_def by (simp split: if_split_asm) (erule disjE | clarsimp)+

text \<open>The three forms of a code unit in a string that Python writes.\<close>

lemma py_json_char_cases:
  assumes "c < 0x10000"
  obtains (short) x where "json_short c = Some [0x5C, x]" "py_json_char c = [0x5C, x]" "x \<noteq> 0x75"
  | (plain) "py_json_char c = [c]" "c \<noteq> 0x5C" "c \<noteq> 0x22"
  | (basic) "py_json_char c = json_u c"
proof (cases "json_short c")
  case (Some e)
  then have "json_short c = Some [0x5C, e ! 1]" "e ! 1 \<noteq> 0x75" using json_short_form by auto
  then show ?thesis using short by (simp add: py_json_char_def)
next
  case None
  then have q: "c \<noteq> 0x5C" "c \<noteq> 0x22" by (auto simp: json_short_def)
  show ?thesis
    using None q assms plain basic
    by (cases "0x20 \<le> c \<and> c \<le> 0x7E") (auto simp: py_json_char_def)
qed

lemma json_short_inj: "json_short c = Some e \<Longrightarrow> json_short d = Some e \<Longrightarrow> c = d"
  by (auto simp: json_short_def split: if_splits)

lemma json_u_Cons: "\<exists>us. json_u n = 0x5C # 0x75 # us"
  by (simp add: json_u_def ascii_def)

text \<open>No code unit is written as a prefix of another.\<close>

lemma py_json_char_prefix_free:
  assumes "c < 0x10000" "d < 0x10000" "py_json_char c @ s = py_json_char d @ t"
  shows "c = d \<and> s = t"
proof -
  obtain us vs where u: "json_u c = 0x5C # 0x75 # us" "json_u d = 0x5C # 0x75 # vs" using json_u_Cons by blast
  show ?thesis using assms(1)
  proof (cases rule: py_json_char_cases)
    case (short x)
    note c = this
    show ?thesis using assms(2)
    proof (cases rule: py_json_char_cases)
      case (short y)
      then have "x = y" "s = t" using c(2) assms(3) by simp_all
      then show ?thesis using json_short_inj [OF c(1)] short(1) by blast
    qed (use c u assms(3) in simp_all)
  next
    case plain
    note c = this
    show ?thesis using assms(2) by (cases rule: py_json_char_cases) (use c u assms(3) in simp_all)
  next
    case basic
    note c = this
    show ?thesis using assms(2)
    proof (cases rule: py_json_char_cases)
      case basic
      then show ?thesis using c assms(3) json_u_injD [OF assms(1,2)] by simp
    qed (use c u assms(3) in simp_all)
  qed
qed

lemma py_json_char_quote: "c < 0x10000 \<Longrightarrow> py_json_char c @ s \<noteq> 0x22 # t"
  using json_u_Cons [of c] by (elim py_json_char_cases exE) simp_all

lemma py_json_units_inj:
  assumes "list_all (\<lambda>c. c < 0x10000) s" "list_all (\<lambda>c. c < 0x10000) t"
    "concat (map py_json_char s) @ 0x22 # x = concat (map py_json_char t) @ 0x22 # y"
  shows "s = t \<and> x = y"
  using assms
proof (induction s arbitrary: t)
  case Nil
  then show ?case using py_json_char_quote by (cases t) (auto dest: sym)
next
  case (Cons c s)
  then obtain d t' where t: "t = d # t'" using py_json_char_quote [of c] by (cases t) auto
  then have "c = d \<and> concat (map py_json_char s) @ 0x22 # x = concat (map py_json_char t') @ 0x22 # y"
    using Cons.prems by (intro py_json_char_prefix_free) simp_all
  then show ?case using Cons.IH [of t'] Cons.prems t by simp
qed

text \<open>
  The code units of UTF-16. A JSON parser joins an escaped high surrogate and the escaped low
  surrogate after it, and UTF-8 has no surrogates; so the strings it returns, \<open>json_decoded\<close>, have
  at most lone ones.
\<close>

definition code_units :: "ustring \<Rightarrow> nat list" where
  "code_units t = concat (map (\<lambda>c. if c < 0x10000 then [c] else [high_surrogate c, low_surrogate c]) t)"

definition is_high :: "nat \<Rightarrow> bool" where
  "is_high c \<longleftrightarrow> 0xD800 \<le> c \<and> c < 0xDC00"

definition is_low :: "nat \<Rightarrow> bool" where
  "is_low c \<longleftrightarrow> 0xDC00 \<le> c \<and> c < 0xE000"

fun json_decoded :: "ustring \<Rightarrow> bool" where
  "json_decoded [] \<longleftrightarrow> True"
| "json_decoded [c] \<longleftrightarrow> c < 0x110000"
| "json_decoded (c # d # t) \<longleftrightarrow> c < 0x110000 \<and> \<not> (is_high c \<and> is_low d) \<and> json_decoded (d # t)"

lemma json_decoded_Cons:
  "json_decoded (c # t) \<Longrightarrow> c < 0x110000 \<and> json_decoded t \<and> (is_high c \<longrightarrow> (\<forall>d t'. t = d # t' \<longrightarrow> \<not> is_low d))"
  by (cases t) auto

lemma scalar_decoded: "list_all scalar_value t \<Longrightarrow> json_decoded t"
  by (induction t rule: json_decoded.induct) (auto simp: scalar_value_def is_high_def is_low_def)

lemma surrogate_bounds:
  assumes "0x10000 \<le> c" "c < 0x110000"
  shows "is_high (high_surrogate c)" "is_low (low_surrogate c)"
  using assms by (simp_all add: high_surrogate_def low_surrogate_def is_high_def is_low_def)

lemma surrogates_inj:
  assumes "0x10000 \<le> c" "0x10000 \<le> d" "high_surrogate c = high_surrogate d" "low_surrogate c = low_surrogate d"
  shows "c = d"
proof -
  have "(c - 0x10000) div 1024 = (d - 0x10000) div 1024" "(c - 0x10000) mod 1024 = (d - 0x10000) mod 1024"
    using assms(3,4) unfolding high_surrogate_def low_surrogate_def by linarith+
  then have "c - 0x10000 = d - 0x10000" by (metis mult_div_mod_eq)
  then show ?thesis using assms(1,2) by simp
qed

lemma code_units_bound: "json_decoded t \<Longrightarrow> list_all (\<lambda>c. c < 0x10000) (code_units t)"
proof (induction t)
  case (Cons c t)
  then show ?case
    using json_decoded_Cons [OF Cons.prems] surrogate_bounds [of c] by (auto simp: code_units_def is_high_def is_low_def)
qed (simp add: code_units_def)

text \<open>Two units at the front of a string that are the surrogates of a character come from it.\<close>

lemma code_units_pair:
  assumes "json_decoded (d # t)" "0x10000 \<le> c" "c < 0x110000"
    "high_surrogate c # low_surrogate c # us = code_units (d # t)"
  shows "c = d \<and> us = code_units t"
proof (cases "d < 0x10000")
  case True
  then have d: "d = high_surrogate c" "low_surrogate c # us = code_units t"
    using assms(4) by (simp_all add: code_units_def)
  obtain e t' where t: "t = e # t'" using d(2) by (cases t) (simp_all add: code_units_def)
  have e: "\<not> is_low e" "e < 0x110000"
    using json_decoded_Cons [OF assms(1)] json_decoded_Cons [of e t'] surrogate_bounds(1) [OF assms(2,3)] d(1) t by auto
  have "low_surrogate c = (if e < 0x10000 then e else high_surrogate e)"
    using d(2) t by (simp add: code_units_def split: if_splits)
  then show ?thesis
    using e surrogate_bounds(2) [OF assms(2,3)] surrogate_bounds(1) [of e]
    by (auto simp: is_high_def is_low_def split: if_splits)
next
  case False
  then show ?thesis using assms surrogates_inj [of c d] by (simp add: code_units_def)
qed

lemma code_units_inj: "json_decoded s \<Longrightarrow> json_decoded t \<Longrightarrow> code_units s = code_units t \<Longrightarrow> s = t"
proof (induction s arbitrary: t)
  case Nil
  then show ?case by (cases t) (auto simp: code_units_def split: if_splits)
next
  case (Cons c s)
  obtain d t' where t: "t = d # t'" using Cons.prems(3) by (cases t) (auto simp: code_units_def split: if_splits)
  note dec = json_decoded_Cons [OF Cons.prems(1)] json_decoded_Cons [OF Cons.prems(2) [unfolded t]]
  have "c = d \<and> code_units s = code_units t'"
  proof (cases "c < 0x10000")
    case True
    show ?thesis
    proof (cases "d < 0x10000")
      case False
      then show ?thesis
        using code_units_pair [OF Cons.prems(1), of d "code_units t'"] Cons.prems(3) dec(2) t by (auto simp: code_units_def)
    qed (use True Cons.prems(3) t in \<open>simp add: code_units_def\<close>)
  next
    case False
    then show ?thesis
      using code_units_pair [OF Cons.prems(2) [unfolded t], of c "code_units s"] Cons.prems(3) dec(1) t
      by (auto simp: code_units_def)
  qed
  then show ?case using Cons.IH [of t'] dec t by simp
qed

lemma py_json_char_units: "json_decoded t \<Longrightarrow> concat (map py_json_char t) = concat (map py_json_char (code_units t))"
proof (induction t)
  case (Cons c t)
  have "py_json_char u = json_u u" if "is_high u \<or> is_low u" for u
    using that by (auto simp: py_json_char_def json_short_def is_high_def is_low_def)
  moreover have "py_json_char c = json_u (high_surrogate c) @ json_u (low_surrogate c)" if "\<not> c < 0x10000"
    using that by (simp add: py_json_char_def json_short_def)
  ultimately show ?case
    using Cons json_decoded_Cons [OF Cons.prems] surrogate_bounds [of c] by (simp add: code_units_def)
qed (simp add: code_units_def)

lemma py_json_string_inj:
  assumes "json_decoded s" "json_decoded t"
    "json_string py_json_char s @ x = json_string py_json_char t @ y"
  shows "s = t \<and> x = y"
proof -
  have "concat (map py_json_char (code_units s)) @ 0x22 # x = concat (map py_json_char (code_units t)) @ 0x22 # y"
    using assms(3) py_json_char_units [OF assms(1)] py_json_char_units [OF assms(2)] by (simp add: json_string_def)
  from py_json_units_inj [OF code_units_bound [OF assms(1)] code_units_bound [OF assms(2)] this]
  show ?thesis using code_units_inj [OF assms(1,2)] by simp
qed

text \<open>What Python writes is ASCII, so encoding it loses nothing.\<close>

lemma json_u_ascii: "list_all (\<lambda>x. x < 0x80) (json_u n)"
proof -
  have "hex_digit (m mod 16) < 0x80" for m
    unfolding hex_digit_def using mod_less_divisor [of 16 m] by (simp del: mod_less_divisor)
  then show ?thesis by (simp add: json_u_def ascii_def)
qed

lemma json_short_ascii: "json_short c = Some e \<Longrightarrow> list_all (\<lambda>x. x < 0x80) e"
  unfolding json_short_def by (simp split: if_split_asm) (erule disjE | clarsimp)+

lemma py_json_char_ascii: "list_all (\<lambda>x. x < 0x80) (py_json_char c)"
  using json_short_ascii [of c] by (simp add: py_json_char_def json_u_ascii split: option.split)

lemma utf8_ascii_inj:
  "list_all (\<lambda>x. x < 0x80) s \<Longrightarrow> list_all (\<lambda>x. x < 0x80) t \<Longrightarrow> utf8 s = utf8 t \<Longrightarrow> s = t"
proof (induction s arbitrary: t)
  case Nil
  then show ?case by (cases t) (auto simp: utf8_def utf8_char_def)
next
  case (Cons c s)
  then obtain d t' where t: "t = d # t'" by (cases t) (auto simp: utf8_def utf8_char_def)
  have cd: "c < 0x80" "d < 0x80" using Cons.prems t by simp_all
  have "unat (word_of_nat c :: u8) = c" "unat (word_of_nat d :: u8) = d"
    by (rule unat_word_of_nat_small; use cd in simp)+
  moreover have eq: "(word_of_nat c :: u8) = word_of_nat d" "utf8 s = utf8 t'"
    using Cons.prems(3) cd t by (simp_all add: utf8_def utf8_char_def)
  ultimately have "c = d" by metis
  moreover have "s = t'" using Cons.IH [OF _ _ eq(2)] Cons.prems(1,2) t by simp
  ultimately show ?case using t by simp
qed

subsection \<open>Where Go and Python differ\<close>

lemma utf8_json_u: "\<exists>us. utf8 (json_u n) = 0x5C # us"
  by (simp add: utf8_def json_u_def ascii_def utf8_char_def)

lemma utf8_nonascii:
  assumes "0x80 \<le> c" "c < 0x110000"
  shows "\<exists>b us. utf8 [c] = b # us \<and> b \<noteq> 0x5C"
proof -
  have big: "0xC0 \<le> k \<Longrightarrow> k < 256 \<Longrightarrow> (word_of_nat k :: u8) \<noteq> 0x5C" for k
    using unat_word_of_nat_small [of k, where ?'a = 8] by auto
  consider "c < 0x800" | "0x800 \<le> c" "c < 0x10000" | "0x10000 \<le> c" by linarith
  then show ?thesis
    using assms big [of "0xC0 + c div 64"] big [of "0xE0 + c div 4096"] big [of "0xF0 + c div 262144"]
    by cases (simp_all add: utf8_def utf8_char_def less_mult_imp_div_less)
qed

lemma json_bytes_differ:
  assumes "\<not> json_agrees c" "c < 0x110000"
  obtains a as b bs where "utf8 (go_json_char c) = a # as" "utf8 (py_json_char c) = b # bs" "a \<noteq> b"
proof -
  consider "c \<in> {0x26, 0x3C, 0x3E}" | "0x7F = c" | "0x80 \<le> c" "c \<noteq> 0x2028" "c \<noteq> 0x2029"
    using assms(1) unfolding json_agrees_def by (cases "c \<in> {0x26, 0x3C, 0x3E}") linarith+
  then show ?thesis
  proof cases
    case 1
    then have "go_json_char c = json_u c" "py_json_char c = [c]" "c < 0x80"
      by (auto simp: go_json_char_def py_json_char_def go_html_safe_def json_short_def)
    moreover have "(word_of_nat c :: u8) \<noteq> 0x5C" using 1 by auto
    ultimately show ?thesis using utf8_json_u [of c] that by (auto simp: utf8_def utf8_char_def)
  next
    case 2
    then have "go_json_char c = [c]" "py_json_char c = json_u c" "utf8 [c] = [0x7F]"
      by (auto simp: go_json_char_def py_json_char_def go_html_safe_def json_short_def utf8_def utf8_char_def)
    then show ?thesis using utf8_json_u [of c] that by fastforce
  next
    case 3
    have "go_json_char c = [c]" using 3 by (simp add: go_json_char_def go_html_safe_def)
    moreover obtain n us where "py_json_char c = json_u n @ us"
    proof (cases "c < 0x10000")
      case True
      then show ?thesis using 3(1) that [of c "[]"] by (simp add: py_json_char_def json_short_def)
    next
      case False
      then show ?thesis using that [of "high_surrogate c" "json_u (low_surrogate c)"]
        by (simp add: py_json_char_def json_short_def)
    qed
    moreover obtain b us' where "utf8 [c] = b # us'" "b \<noteq> 0x5C" using utf8_nonascii [OF 3(1) assms(2)] by blast
    moreover obtain vs where "utf8 (json_u n) = 0x5C # vs" using utf8_json_u by blast
    ultimately show ?thesis by (intro that) simp_all
  qed
qed

lemma json_bytes_agree_iff:
  "list_all (\<lambda>c. c < 0x110000) t \<Longrightarrow>
   utf8 (concat (map go_json_char t)) @ x = utf8 (concat (map py_json_char t)) @ x \<longleftrightarrow> list_all json_agrees t"
proof (induction t)
  case (Cons c t)
  show ?case
  proof (cases "json_agrees c")
    case True
    then show ?thesis using Cons by (simp add: json_char_agrees)
  next
    case False
    then show ?thesis using Cons.prems by (auto elim!: json_bytes_differ [of c])
  qed
qed simp

section \<open>DER\<close>

lemma nat_bytes_val: "be_val (nat_bytes v) = v"
proof (induction v rule: nat_bytes.induct)
  case (1 v)
  show ?case
  proof (cases "v = 0")
    case True
    then show ?thesis by (simp add: nat_bytes.simps be_val_def)
  next
    case False
    then have "nat_bytes v = nat_bytes (v div 256) @ [word_of_nat v]" by (subst nat_bytes.simps) simp
    moreover have "be_val (nat_bytes (v div 256)) = v div 256" using 1 False by blast
    ultimately show ?thesis by (simp add: be_val_def unat_of_nat)
  qed
qed

lemma nat_bytes_length: "v < 256 ^ n \<Longrightarrow> length (nat_bytes v) \<le> n"
proof (induction n arbitrary: v)
  case 0
  then show ?case by (simp add: nat_bytes.simps)
next
  case (Suc n)
  then have "v div 256 < 256 ^ n" by (simp add: less_mult_imp_div_less mult.commute)
  from Suc.IH [OF this] show ?case by (subst nat_bytes.simps) simp
qed

lemma be_val_zero: "be_val (0 # bs) = be_val bs"
  by (simp add: be_val_def digits_val_append)

lemma der_int_val: "be_val (der_int_content v) = v"
  using nat_bytes_val [of v] by (auto simp: der_int_content_def Let_def be_val_zero)

lemma der_int_length: "v < 2 ^ 256 \<Longrightarrow> length (der_int_content v) \<le> 33 \<and> 0 < length (der_int_content v)"
  using nat_bytes_length [of v 32] by (simp add: der_int_content_def Let_def)

text \<open>A short element followed by anything reads back as its content.\<close>

lemma der_read_tlv: "length c < 128 \<Longrightarrow> der_read tag (der_tlv tag c @ rest) = Some (c, rest)"
proof -
  assume l: "length c < 128"
  have "unat (word_of_nat (length c) :: u8) = length c" using l by (intro unat_word_of_nat_small) simp
  then show ?thesis using l by (simp add: der_tlv_def der_length_def word_less_nat_alt)
qed

lemma der_tlv_length: "length c < 128 \<Longrightarrow> length (der_tlv tag c) = 2 + length c"
  by (simp add: der_tlv_def der_length_def)

lemma der_parse_signature:
  assumes "r < 2 ^ 256" "s < 2 ^ 256"
  shows "der_parse (der_signature r s) = Some (r, s)"
proof -
  let ?r = "der_int_content r" and ?s = "der_int_content s"
  have l: "length ?r < 128" "length ?s < 128" "length (der_tlv 2 ?r @ der_tlv 2 ?s) < 128"
    using der_int_length [OF assms(1)] der_int_length [OF assms(2)] by (simp_all add: der_tlv_length)
  have "der_read 0x30 (der_signature r s) = Some (der_tlv 2 ?r @ der_tlv 2 ?s, [])"
    using der_read_tlv [OF l(3), of "0x30" "[]"] by (simp add: der_signature_def)
  moreover have "der_read 2 (der_tlv 2 ?r @ der_tlv 2 ?s) = Some (?r, der_tlv 2 ?s)"
    by (rule der_read_tlv [OF l(1)])
  moreover have "der_read 2 (der_tlv 2 ?s) = Some (?s, [])"
    using der_read_tlv [OF l(2), of 2 "[]"] by simp
  ultimately show ?thesis by (simp add: der_parse_def der_int_val)
qed

end
