(* ===== verification/Attester.thy ===== *)
theory Attester
  imports Module_Properties Text_Encoding
begin

text \<open>
  \<open>src/attester/main.go\<close>: the user-space program that asks the driver for a quote. The request
  binding and the command line's user data are pure; \<open>tarakoQuote\<close> is a client of the driver: its
  ioctls run the dispatcher of \<open>Tarako_Module\<close> on the memory of the process, in which the two Go
  variables that the driver writes live at addresses that are parameters. SHA-256 of the Go library
  is a parameter. The lemmas describe a quote in terms of what the driver did, and show that the
  attester neither makes the driver fault nor changes its state.
\<close>

section \<open>Definitions\<close>

definition tarakoHello :: u32 where
  "tarakoHello = 0x00005300"

definition tarakoGetPubkey :: u32 where
  "tarakoGetPubkey = 0x80215301"

definition tarakoSignData :: u32 where
  "tarakoSignData = 0xC1015302"

definition userDataBytes :: nat where
  "userDataBytes = 128"

definition bindingDomain :: "u8 list" where
  "bindingDomain = utf8 (ascii ''TARAKO-TQ-REQUEST-V1'') @ [0]"

record quote_request =
  qr_request :: ustring
  qr_nonce :: ustring

record quote_response =
  q_hash :: ustring
  q_public_key :: ustring
  q_signature_der :: ustring
  q_user_data :: ustring

text \<open>One constructor per error message of the program.\<close>

datatype attester_error =
    DecodeNonce
  | NonceLength
  | RequestEmpty
  | OpenDevice error
  | HelloFailed error
  | HelloReturned isize
  | GetPubkeyFailed error
  | GetPubkeyReturned isize
  | SignFailed error
  | SignReturned isize
  | KeyChanged
  | DecodeUserData
  | UserDataLength
  | Usage

subsection \<open>Request binding and user data\<close>

text \<open>\<open>json.Marshal\<close> of \<open>bindingContext\<close>: the two fields in the order of the structure.\<close>

definition go_binding_context :: "ustring \<Rightarrow> ustring \<Rightarrow> ustring" where
  "go_binding_context nonce request =
     ascii ''{'' @ json_string go_json_char (ascii ''nonce'') @ ascii '':'' @ json_string go_json_char nonce @
     ascii '','' @ json_string go_json_char (ascii ''request'') @ ascii '':'' @ json_string go_json_char request @
     ascii ''}''"

definition requestBinding :: "(u8 list \<Rightarrow> u8 list) \<Rightarrow> quote_request \<Rightarrow> attester_error + u8 list" where
  "requestBinding H req =
     (case hex_decode (qr_nonce req) of
        None \<Rightarrow> Inl DecodeNonce
      | Some nonce \<Rightarrow>
          if length nonce \<noteq> 32 then Inl NonceLength
          else if qr_request req = [] then Inl RequestEmpty
          else Inr (H (bindingDomain @ utf8 (go_binding_context (qr_nonce req) (qr_request req)))))"

definition parseUserData :: "ustring \<Rightarrow> attester_error + u8 list" where
  "parseUserData value =
     (case hex_decode value of
        None \<Rightarrow> Inl DecodeUserData
      | Some data \<Rightarrow>
          if length data = 0 \<or> userDataBytes < length data then Inl UserDataLength else Inr data)"

subsection \<open>The quote\<close>

text \<open>The built-in \<open>copy\<close>: as many elements as both slices have.\<close>

definition go_copy :: "'a list \<Rightarrow> 'a list \<Rightarrow> 'a list" where
  "go_copy dst src = take (length dst) src @ drop (length src) dst"

text \<open>A system call: the result or the error number; a fault of the driver takes the machine down.\<close>

definition syscall :: "('s world, 'a) prog \<Rightarrow> ('s driver, error + 'a) prog" where
  "syscall m d =
     (case in_world m d of
        (Ok v, d') \<Rightarrow> (Ok (Inr v), d')
      | (Err e, d') \<Rightarrow> (Ok (Inl e), d')
      | (Fault b, d') \<Rightarrow> (Fault b, d'))"

text \<open>\<open>os.OpenFile\<close> on the device node, which is there while the device is registered.\<close>

definition go_open :: "'s krate \<Rightarrow> device \<Rightarrow> ('s driver, error + tarako_device) prog" where
  "go_open K dev d =
     (if d_registered d then syscall (TarakoDevice_open K dev) d else (Ok (Inl ENOENT), d))"

definition go_ioctl :: "'s ffi \<Rightarrow> 's krate \<Rightarrow> u32 \<Rightarrow> usize \<Rightarrow> ('s driver, error + isize) prog" where
  "go_ioctl F K request argument d =
     syscall (TarakoDevice_ioctl F K (d_key d) request argument) d"

definition store_var :: "usize \<Rightarrow> u8 list \<Rightarrow> ('s driver, unit) prog" where
  "store_var a bs d =
     (Ok (), d\<lparr>d_world := (d_world d)\<lparr>w_umem := write_umem (w_umem (d_world d)) a bs\<rparr>\<rparr>)"

definition load_var :: "usize \<Rightarrow> nat \<Rightarrow> ('s driver, u8 list) prog" where
  "load_var a n d = (Ok (read_umem (w_umem (d_world d)) a n), d)"

text \<open>The next call if the last one succeeded; its error, or an unexpected result, ends the program.\<close>

definition expect ::
    "('s driver, error + isize) prog \<Rightarrow> isize \<Rightarrow> (error \<Rightarrow> attester_error) \<Rightarrow> (isize \<Rightarrow> attester_error) \<Rightarrow>
     ('s driver, attester_error + 'a) prog \<Rightarrow> ('s driver, attester_error + 'a) prog" where
  "expect call want failed returned next =
     bind call (\<lambda>r.
       case r of
         Inl e \<Rightarrow> ret (Inl (failed e))
       | Inr v \<Rightarrow> if v \<noteq> want then ret (Inl (returned v)) else next)"

definition signing_request :: "u8 list \<Rightarrow> sign_data_req" where
  "signing_request userData =
     \<lparr>req_user_data = go_copy (replicate userDataBytes 0) userData, req_hash = replicate 32 0,
      req_sig_r = replicate 32 0, req_sig_s = replicate 32 0, req_pubkey = replicate 33 0\<rparr>"

text \<open>The last part of \<open>tarakoQuote\<close>, after the signing ioctl.\<close>

definition quote_of :: "u8 list \<Rightarrow> sign_data_req \<Rightarrow> attester_error + quote_response" where
  "quote_of publicKey signingRequest =
     (if req_pubkey signingRequest \<noteq> publicKey then Inl KeyChanged
      else
        let signatureDER = der_signature (be_val (req_sig_r signingRequest)) (be_val (req_sig_s signingRequest))
        in Inr \<lparr>q_hash = hex_encode (req_hash signingRequest), q_public_key = hex_encode publicKey,
                q_signature_der = hex_encode signatureDER,
                q_user_data = hex_encode (req_user_data signingRequest)\<rparr>)"

text \<open>
  \<open>tarakoQuote\<close>. The deferred \<open>Close\<close> is left out: the driver registers no handler for it, and the
  box of the open file, which it frees, is no part of the state. The duration of the signing
  call is not modelled.
\<close>

definition tarakoQuote ::
    "'s ffi \<Rightarrow> 's krate \<Rightarrow> device \<Rightarrow> usize \<Rightarrow> usize \<Rightarrow> u8 list \<Rightarrow>
     ('s driver, attester_error + quote_response) prog" where
  "tarakoQuote F K dev pk_addr req_addr userData =
     bind (go_open K dev) (\<lambda>device.
     case device of
       Inl e \<Rightarrow> ret (Inl (OpenDevice e))
     | Inr _ \<Rightarrow>
         expect (go_ioctl F K tarakoHello 0) 0 HelloFailed HelloReturned (
         bind (store_var pk_addr (replicate 33 0)) (\<lambda>_.
         expect (go_ioctl F K tarakoGetPubkey pk_addr) 33 GetPubkeyFailed GetPubkeyReturned (
         bind (load_var pk_addr 33) (\<lambda>publicKey.
         bind (store_var req_addr (sign_data_req_bytes (signing_request userData))) (\<lambda>_.
         expect (go_ioctl F K tarakoSignData req_addr) 0 SignFailed SignReturned (
         bind (load_var req_addr sign_data_req_size) (\<lambda>bs.
         ret (quote_of publicKey (sign_data_req_store bs))))))))))"

text \<open>
  The command line: without an argument, 32 random bytes (a parameter, as is the failure of the
  random generator, which is not modelled).
\<close>

definition runQuote ::
    "'s ffi \<Rightarrow> 's krate \<Rightarrow> device \<Rightarrow> usize \<Rightarrow> usize \<Rightarrow> u8 list \<Rightarrow> ustring list \<Rightarrow>
     ('s driver, attester_error + quote_response) prog" where
  "runQuote F K dev pk_addr req_addr random args =
     (if 1 < length args then ret (Inl Usage)
      else
        case args of
          [] \<Rightarrow> tarakoQuote F K dev pk_addr req_addr random
        | arg # _ \<Rightarrow>
            (case parseUserData arg of
               Inl e \<Rightarrow> ret (Inl e)
             | Inr data \<Rightarrow> tarakoQuote F K dev pk_addr req_addr data))"

text \<open>The HTTP handler; \<open>input\<close> is the decoded body, \<open>None\<close> if the decoder refused it.\<close>

datatype http_response = MethodNotAllowed | BadRequest | InternalServerError attester_error | OK quote_response

definition quoteHandler ::
    "'s ffi \<Rightarrow> 's krate \<Rightarrow> (u8 list \<Rightarrow> u8 list) \<Rightarrow> device \<Rightarrow> usize \<Rightarrow> usize \<Rightarrow> bool \<Rightarrow>
     quote_request option \<Rightarrow> ('s driver, http_response) prog" where
  "quoteHandler F K H dev pk_addr req_addr post input =
     (if \<not> post then ret MethodNotAllowed
      else
        case input of
          None \<Rightarrow> ret BadRequest
        | Some req \<Rightarrow>
            (case requestBinding H req of
               Inl e \<Rightarrow> ret BadRequest
             | Inr binding \<Rightarrow>
                 bind (tarakoQuote F K dev pk_addr req_addr binding) (\<lambda>quote.
                 case quote of
                   Inl e \<Rightarrow> ret (InternalServerError e)
                 | Inr q \<Rightarrow> ret (OK q))))"

section \<open>System calls and variables\<close>

lemma syscall_InrE:
  assumes "syscall m d = (Ok (Inr v), d')"
  obtains w' where "m (d_world d) = (Ok v, w')" "d' = d\<lparr>d_world := w'\<rparr>"
  using assms by (auto simp: syscall_def in_world_def split: prod.splits outcome.splits)

lemma expect_InrE:
  assumes "expect call want failed returned next d = (Ok (Inr q), d')"
  obtains d1 where "call d = (Ok (Inr want), d1)" "next d1 = (Ok (Inr q), d')"
  using assms unfolding expect_def
  by (auto elim!: bind_OkE simp: rust_simps split: sum.splits if_splits)

lemma read_write_prefix: "n \<le> length bs \<Longrightarrow> read_umem (write_umem m a bs) a n = take n bs"
  by (rule nth_equalityI) (simp_all add: read_umem_def write_umem_def)

lemma go_copy_length [simp]: "length (go_copy dst src) = length dst"
  by (simp add: go_copy_def)

lemma signing_request_ok: "sign_data_req_ok (signing_request u)"
  by (simp add: sign_data_req_ok_def signing_request_def userDataBytes_def)

text \<open>The memory of the process after an assignment to a variable.\<close>

definition assign_var :: "usize \<Rightarrow> u8 list \<Rightarrow> 's driver \<Rightarrow> 's driver" where
  "assign_var a bs d = d\<lparr>d_world := (d_world d)\<lparr>w_umem := write_umem (w_umem (d_world d)) a bs\<rparr>\<rparr>"

lemma store_var_apply: "store_var a bs d = (Ok (), assign_var a bs d)"
  by (simp add: store_var_def assign_var_def)

lemma assign_var_fields [simp]:
  "d_key (assign_var a bs d) = d_key d"
  "w_umem (d_world (assign_var a bs d)) = write_umem (w_umem (d_world d)) a bs"
  "w_mm (d_world (assign_var a bs d)) = w_mm (d_world d)"
  by (simp_all add: assign_var_def)

text \<open>What a run of \<open>tarakoQuote\<close> that returns a quote consists of.\<close>

lemma tarakoQuote_InrE:
  assumes "tarakoQuote F K dev pa ra userData d = (Ok (Inr q), d')"
  obtains x d1 d2 d4 d6 where "go_open K dev d = (Ok (Inr x), d1)"
    "go_ioctl F K tarakoHello 0 d1 = (Ok (Inr 0), d2)"
    "go_ioctl F K tarakoGetPubkey pa (assign_var pa (replicate 33 0) d2) = (Ok (Inr 33), d4)"
    "go_ioctl F K tarakoSignData ra (assign_var ra (sign_data_req_bytes (signing_request userData)) d4) =
       (Ok (Inr 0), d6)"
    "quote_of (read_umem (w_umem (d_world d4)) pa 33)
       (sign_data_req_store (read_umem (w_umem (d_world d6)) ra 257)) = Inr q"
  using assms unfolding tarakoQuote_def
  by (auto elim!: bind_OkE expect_InrE simp: store_var_apply load_var_def rust_simps split: sum.splits)

section \<open>A quote\<close>

text \<open>The quote for a key pair, a digest, a padded user data and a signature.\<close>

definition quote_for ::
    "'s ffi \<Rightarrow> key_pair \<Rightarrow> u8 list \<Rightarrow> u8 list \<Rightarrow> nat \<Rightarrow> nat \<Rightarrow> quote_response" where
  "quote_for F kp digest u r s =
     \<lparr>q_hash = hex_encode (sha256_hash F (digest @ u)), q_public_key = hex_encode (kp_pubkey kp),
      q_signature_der = hex_encode (der_signature r s), q_user_data = hex_encode u\<rparr>"

lemma quote_of_response:
  assumes "length u = 128" "length h = 32" "length pk = 33" "r < 2 ^ 256" "s < 2 ^ 256"
  shows "quote_of pk (sign_data_req_store (u @ h @ to_be_bytes 32 r @ to_be_bytes 32 s @ pk)) =
    Inr \<lparr>q_hash = hex_encode h, q_public_key = hex_encode pk,
         q_signature_der = hex_encode (der_signature r s), q_user_data = hex_encode u\<rparr>"
  using assms by (simp add: quote_of_def sign_data_req_store_def Let_def be_val_to_be_bytes)

context tarako_kernel
begin

text \<open>The two ioctls of the attester, on a cell that is in good order.\<close>

lemma client_get_pubkey:
  assumes "go_ioctl F K tarakoGetPubkey a d = (Ok (Inr v), d')" and inv: "so_inv (d_key d)"
    and key: "\<And>kp. SetOnce_as_ref (d_key d) = Ok (Some kp) \<Longrightarrow> key_pair_ok C kp"
  obtains kp where "SetOnce_as_ref (d_key d) = Ok (Some kp)" "key_pair_ok C kp" "d_key d' = d_key d"
    "w_umem (d_world d') = write_umem (w_umem (d_world d)) a (kp_pubkey kp)" "w_mm (d_world d') = w_mm (d_world d)"
proof -
  obtain w' where run: "TarakoDevice_ioctl F K (d_key d) tarakoGetPubkey a (d_world d) = (Ok v, w')"
    and d': "d' = d\<lparr>d_world := w'\<rparr>"
    using assms(1) unfolding go_ioctl_def by (rule syscall_InrE)
  have cmd: "tarakoGetPubkey = TARAKO_GET_PUBKEY K" by (simp add: tarakoGetPubkey_def command_numbers)
  have get: "handle_get_pubkey K (d_key d) a (TARAKO_GET_PUBKEY K) (d_world d) = (Ok v, w')"
    using run unfolding cmd dispatch(1) .
  obtain st where st: "SetOnce_as_ref (d_key d) = Ok st" using so.as_ref_total [OF inv] by blast
  then obtain kp where kp: "SetOnce_as_ref (d_key d) = Ok (Some kp)"
    using get by (cases st) (auto simp: get_pubkey_no_key)
  then have ok: "key_pair_ok C kp" by (rule key)
  then have "length (kp_pubkey kp) = 33" by (simp add: key_pair_ok_def)
  from prog_postD [OF get_pubkey_post [OF kp this] get] show ?thesis
    by (intro that [OF kp ok]) (simp_all add: d' get_pubkey_result_def same_kernel_def)
qed

lemma client_hello:
  assumes "go_open K dev d = (Ok (Inr x), d1)" "go_ioctl F K tarakoHello a d1 = (Ok (Inr v), d2)"
  shows "d_key d2 = d_key d \<and> w_mm (d_world d2) = w_mm (d_world d)"
proof -
  obtain w1 where w1: "TarakoDevice_open K dev (d_world d) = (Ok x, w1)" "d1 = d\<lparr>d_world := w1\<rparr>"
    using assms(1) by (auto simp: go_open_def elim!: syscall_InrE split: if_splits)
  obtain w2 where w2: "TarakoDevice_ioctl F K (d_key d1) tarakoHello a (d_world d1) = (Ok v, w2)"
      "d2 = d1\<lparr>d_world := w2\<rparr>" using assms(2) unfolding go_ioctl_def by (rule syscall_InrE)
  have "tarakoHello = TARAKO_HELLO K" by (simp add: tarakoHello_def command_numbers)
  then have "w2 = d_world d1" using w2(1) dispatch_hello [of F K "d_key d1" a "d_world d1"] by (simp only: prod.inject)
  then show ?thesis using w1 w2(2) open_kernel [OF w1(1)] by (simp add: same_kernel_def)
qed

lemma client_sign:
  assumes "go_ioctl F K tarakoSignData a d = (Ok (Inr v), d')"
    and kp: "SetOnce_as_ref (d_key d) = Ok (Some kp)" "key_pair_ok C kp"
  obtains w' where "d' = d\<lparr>d_world := w'\<rparr>" "signed_response F C kp a (d_world d) w'"
proof -
  obtain w' where run: "TarakoDevice_ioctl F K (d_key d) tarakoSignData a (d_world d) = (Ok v, w')"
    and d': "d' = d\<lparr>d_world := w'\<rparr>"
    using assms(1) unfolding go_ioctl_def by (rule syscall_InrE)
  have cmd: "tarakoSignData = TARAKO_SIGN_DATA K" by (simp add: tarakoSignData_def command_numbers)
  have sign: "handle_sign_data F K (d_key d) a (TARAKO_SIGN_DATA K) (d_world d) = (Ok v, w')"
    using run unfolding cmd dispatch(2) .
  have im: "kp_ima_measured kp"
    using sign kp(1) by (cases "kp_ima_measured kp") (simp_all add: sign_data_unmeasured)
  from prog_postD [OF sign_data_post [OF kp im] sign] show ?thesis
    by (intro that [OF d']) (simp add: sign_data_result_def)
qed

text \<open>The response of the signing ioctl makes a quote.\<close>

lemma quote_of_signed:
  assumes resp: "signed_response F C kp a w w'" and kp: "key_pair_ok C kp" and u: "read_umem (w_umem w) a 128 = u"
  shows "\<exists>digest r s. kp_ima_measured kp \<and> caller_digest F w = Some digest \<and>
    ecdsa_valid C (smul C (vli_val (kp_private kp)) (cg_base C)) (be_val (sha256_hash F (digest @ u))) (r, s) \<and>
    quote_of (kp_pubkey kp) (sign_data_req_store (read_umem (w_umem w') a 257)) = Inr (quote_for F kp digest u r s)"
proof -
  let ?bytes = "\<lambda>digest r s. u @ sha256_hash F (digest @ u) @ to_be_bytes 32 r @ to_be_bytes 32 s @ kp_pubkey kp"
  obtain digest r s where sg: "kp_ima_measured kp" "caller_digest F w = Some digest"
      "ecdsa_valid C (smul C (vli_val (kp_private kp)) (cg_base C)) (be_val (sha256_hash F (digest @ u))) (r, s)"
    and m: "w_umem w' = write_umem (w_umem w) a (?bytes digest r s)"
    using resp unfolding signed_response_def u by (auto simp: same_kernel_def)
  have rs: "r < 2 ^ 256" "s < 2 ^ 256" using sg(3) order_bounds(2) by (auto simp: ecdsa_valid_def)
  have l: "length u = 128" "length (kp_pubkey kp) = 33"
    using u length_read_umem [of "w_umem w" a 128] kp by (auto simp: key_pair_ok_def)
  have "read_umem (w_umem w') a 257 = ?bytes digest r s"
    using read_write_prefix [of 257 "?bytes digest r s" "w_umem w" a] l m by simp
  then show ?thesis
    using sg quote_of_response [OF l(1) _ l(2) rs, of "sha256_hash F (digest @ u)"] by (auto simp: quote_for_def)
qed

lemma quote_describes_signature:
  assumes run: "tarakoQuote F K dev pa ra userData d = (Ok (Inr q), d')" and inv: "so_inv (d_key d)"
    and key: "\<And>kp. SetOnce_as_ref (d_key d) = Ok (Some kp) \<Longrightarrow> key_pair_ok C kp"
  shows "\<exists>kp w digest r s. SetOnce_as_ref (d_key d) = Ok (Some kp) \<and> key_pair_ok C kp \<and> kp_ima_measured kp \<and>
    w_mm w = w_mm (d_world d) \<and> caller_digest F w = Some digest \<and>
    ecdsa_valid C (smul C (vli_val (kp_private kp)) (cg_base C))
      (be_val (sha256_hash F (digest @ go_copy (replicate 128 0) userData))) (r, s) \<and>
    q = quote_for F kp digest (go_copy (replicate 128 0) userData) r s"
proof -
  let ?u = "go_copy (replicate 128 0) userData"
  from run obtain x d1 d2 d4 d6 where opn: "go_open K dev d = (Ok (Inr x), d1)"
    and hello: "go_ioctl F K tarakoHello 0 d1 = (Ok (Inr 0), d2)"
    and get: "go_ioctl F K tarakoGetPubkey pa (assign_var pa (replicate 33 0) d2) = (Ok (Inr 33), d4)"
    and sign: "go_ioctl F K tarakoSignData ra (assign_var ra (sign_data_req_bytes (signing_request userData)) d4)
      = (Ok (Inr 0), d6)"
    and q: "quote_of (read_umem (w_umem (d_world d4)) pa 33)
      (sign_data_req_store (read_umem (w_umem (d_world d6)) ra 257)) = Inr q"
    by (rule tarakoQuote_InrE)
  let ?d3 = "assign_var pa (replicate 33 0) d2"
  have k: "d_key ?d3 = d_key d" and mm: "w_mm (d_world ?d3) = w_mm (d_world d)"
    using client_hello [OF opn hello] by simp_all
  have inv3: "so_inv (d_key ?d3)" using inv k by simp
  have key3: "\<And>kp. SetOnce_as_ref (d_key ?d3) = Ok (Some kp) \<Longrightarrow> key_pair_ok C kp"
    using key k by simp
  from get inv3 key3 obtain kp where "SetOnce_as_ref (d_key ?d3) = Ok (Some kp)" and ok: "key_pair_ok C kp"
    and d4: "d_key d4 = d_key ?d3" "w_umem (d_world d4) = write_umem (w_umem (d_world ?d3)) pa (kp_pubkey kp)"
      "w_mm (d_world d4) = w_mm (d_world ?d3)"
    by (rule client_get_pubkey)
  then have kp: "SetOnce_as_ref (d_key d) = Ok (Some kp)" "key_pair_ok C kp" using k by simp_all
  have pk: "length (kp_pubkey kp) = 33" using kp(2) by (simp add: key_pair_ok_def)
  then have load: "read_umem (w_umem (d_world d4)) pa 33 = kp_pubkey kp"
    using d4(2) read_write_prefix [of 33 "kp_pubkey kp"] by simp
  let ?d5 = "assign_var ra (sign_data_req_bytes (signing_request userData)) d4"
  have "SetOnce_as_ref (d_key ?d5) = Ok (Some kp)" using kp d4(1) k by simp
  with sign obtain w6 where "d6 = ?d5\<lparr>d_world := w6\<rparr>" and resp: "signed_response F C kp ra (d_world ?d5) w6"
    using kp(2) by (rule client_sign)
  then have d6: "d_world d6 = w6" by simp
  have u: "read_umem (w_umem (d_world ?d5)) ra 128 = ?u"
    using read_write_prefix [of 128 "sign_data_req_bytes (signing_request userData)" "w_umem (d_world d4)" ra]
    by (simp add: sign_data_req_bytes_def signing_request_def userDataBytes_def)
  obtain digest r s where sg: "kp_ima_measured kp" "caller_digest F (d_world ?d5) = Some digest"
      "ecdsa_valid C (smul C (vli_val (kp_private kp)) (cg_base C)) (be_val (sha256_hash F (digest @ ?u))) (r, s)"
      "quote_of (kp_pubkey kp) (sign_data_req_store (read_umem (w_umem w6) ra 257)) = Inr (quote_for F kp digest ?u r s)"
    using quote_of_signed [OF resp kp(2) u] by auto
  have "q = quote_for F kp digest ?u r s" using q load d6 sg(4) by simp
  moreover have "w_mm (d_world ?d5) = w_mm (d_world d)" using d4(3) mm by simp
  ultimately show ?thesis using kp sg(1-3) by blast
qed

end

section \<open>The attester and the state of the driver\<close>

text \<open>What a program in user space leaves alone.\<close>

definition kept :: "'s driver \<Rightarrow> 's driver \<Rightarrow> bool" where
  "kept d d' \<longleftrightarrow> d_key d' = d_key d \<and> d_registered d' = d_registered d \<and>
     w_ima (d_world d') = w_ima (d_world d) \<and> w_points (d_world d') = w_points (d_world d)"

definition safe_run :: "'s driver \<Rightarrow> 'a outcome \<Rightarrow> 's driver \<Rightarrow> bool" where
  "safe_run d r d' \<longleftrightarrow> (\<exists>v. r = Ok v) \<and> kept d d'"

lemma safe_run_Ok [simp]: "safe_run d (Ok v) d' \<longleftrightarrow> kept d d'"
  by (simp add: safe_run_def)

lemma safe_bind:
  "prog_post m d1 (safe_run d) \<Longrightarrow> (\<And>x d2. kept d d2 \<Longrightarrow> prog_post (f x) d2 (safe_run d)) \<Longrightarrow>
   prog_post (bind m f) d1 (safe_run d)"
  by (rule bind_post [where Q = "safe_run d"]) (simp_all add: safe_run_def)

lemma safe_ret: "kept d d1 \<Longrightarrow> prog_post (ret x) d1 (safe_run d)"
  by (simp add: ret_post)

lemma safe_expect:
  "prog_post call d1 (safe_run d) \<Longrightarrow> (\<And>d2. kept d d2 \<Longrightarrow> prog_post next d2 (safe_run d)) \<Longrightarrow>
   prog_post (expect call want failed returned next) d1 (safe_run d)"
  unfolding expect_def by (rule safe_bind) (auto intro: safe_ret split: sum.splits)

lemma safe_store: "kept d d1 \<Longrightarrow> prog_post (store_var a bs) d1 (safe_run d)"
  by (simp add: prog_post_def store_var_def kept_def)

lemma safe_load: "kept d d1 \<Longrightarrow> prog_post (load_var a n) d1 (safe_run d)"
  by (simp add: prog_post_def load_var_def)

lemma safe_syscall:
  assumes "kept d d1" and call: "\<And>r w'. m (d_world d1) = (r, w') \<Longrightarrow>
      \<not> is_fault r \<and> w_ima w' = w_ima (d_world d1) \<and> w_points w' = w_points (d_world d1)"
  shows "prog_post (syscall m) d1 (safe_run d)"
proof (cases "m (d_world d1)")
  case (Pair r w')
  then show ?thesis using call [OF Pair] assms(1)
    by (cases r) (simp_all add: prog_post_def syscall_def in_world_def kept_def)
qed

context tarako_kernel
begin

lemma reachable_key:
  assumes "mod_reachable F K m"
  shows "so_inv (d_key (m_driver m))"
    "SetOnce_as_ref (d_key (m_driver m)) = Ok (Some kp) \<Longrightarrow> key_logged C (d_world (m_driver m)) kp"
    "SetOnce_as_ref (d_key (m_driver m)) = Ok (Some kp) \<Longrightarrow> key_pair_ok C kp"
  using mod_inv_reachable [OF assms] phase_inv_key [of "m_phase m" "m_driver m" kp]
  by (auto simp: mod_inv_def key_logged_def)

lemma tarakoQuote_safe:
  assumes inv: "so_inv (d_key d)" and key: "\<And>kp. SetOnce_as_ref (d_key d) = Ok (Some kp) \<Longrightarrow> key_pair_ok C kp"
    and "kept d d1"
  shows "prog_post (tarakoQuote F K dev pa ra userData) d1 (safe_run d)"
proof -
  have io: "prog_post (go_ioctl F K cmd a) d2 (safe_run d)" if "kept d d2" for cmd a d2
  proof -
    have "d_key d2 = d_key d" using that by (simp add: kept_def)
    then have "keeps_log (d_world d2) r w'"
      if "TarakoDevice_ioctl F K (d_key d2) cmd a (d_world d2) = (r, w')" for r w'
      using ioctl_keeps_log [OF inv key] that by simp
    then have "prog_post (syscall (TarakoDevice_ioctl F K (d_key d2) cmd a)) d2 (safe_run d)"
      using safe_syscall [OF \<open>kept d d2\<close>] unfolding keeps_log_def by blast
    then show ?thesis by (simp add: prog_post_def go_ioctl_def)
  qed
  have "prog_post (syscall (TarakoDevice_open K dev)) d2 (safe_run d)" if "kept d d2" for d2
    using that open_kernel by (intro safe_syscall) (auto simp: same_kernel_def)
  then have op: "prog_post (go_open K dev) d2 (safe_run d)" if "kept d d2" for d2
    using that by (auto simp: go_open_def prog_post_def)
  show ?thesis
    unfolding tarakoQuote_def
    by (intro safe_bind op \<open>kept d d1\<close>)
      (auto split: sum.splits intro!: safe_expect io safe_bind safe_store safe_load safe_ret)
qed

end

section \<open>Properties\<close>

text \<open>
  The HTTP handler always answers, and only with the driver's help when it has to: in a module
  with any history it ends without a fault of the driver and leaves the key, the registration, the
  IMA log and the point allocations as they were; a method other than POST and a body or nonce that
  is not acceptable are answered without any system call; and a server error or a quote is what
  \<open>tarakoQuote\<close> returned for the binding of the request.
\<close>

lemma quote_handler_outcome:
  assumes kernel: "tarako_kernel F C K" and m: "mod_reachable F K m"
  shows "case quoteHandler F K H dev pa ra post input (m_driver m) of
      (Ok reply, d') \<Rightarrow> kept (m_driver m) d' \<and>
        (case reply of
           MethodNotAllowed \<Rightarrow> \<not> post \<and> d' = m_driver m
         | BadRequest \<Rightarrow> post \<and> d' = m_driver m \<and>
             (case input of None \<Rightarrow> True | Some req \<Rightarrow> \<exists>e. requestBinding H req = Inl e)
         | InternalServerError e \<Rightarrow> post \<and> (\<exists>req b. input = Some req \<and> requestBinding H req = Inr b \<and>
             tarakoQuote F K dev pa ra b (m_driver m) = (Ok (Inl e), d'))
         | OK q \<Rightarrow> post \<and> (\<exists>req b. input = Some req \<and> requestBinding H req = Inr b \<and>
             tarakoQuote F K dev pa ra b (m_driver m) = (Ok (Inr q), d')))
    | (_, d') \<Rightarrow> False"
proof (cases "post \<and> (\<exists>req b. input = Some req \<and> requestBinding H req = Inr b)")
  case True
  then obtain req b where req: "post" "input = Some req" "requestBinding H req = Inr b" by blast
  have "prog_post (tarakoQuote F K dev pa ra b) (m_driver m) (safe_run (m_driver m))"
    by (rule tarako_kernel.tarakoQuote_safe [OF kernel tarako_kernel.reachable_key(1,3) [OF kernel m]])
      (simp_all add: kept_def)
  then obtain q d' where q: "tarakoQuote F K dev pa ra b (m_driver m) = (Ok q, d')" "kept (m_driver m) d'"
    by (auto simp: prog_post_def safe_run_def prod_eq_iff)
  show ?thesis using req q by (cases q) (simp_all add: quoteHandler_def rust_simps)
next
  case False
  then show ?thesis
    by (auto simp: quoteHandler_def rust_simps kept_def split: option.splits sum.splits)
qed

lemma quote_handler_outcome_witness:
  "quoteHandler ref_ffi ref_krate (\<lambda>m. m) 0 64 4096 True (Some \<lparr>qr_request = ascii ''x'', qr_nonce = ascii ''0''\<rparr>)
     (m_driver ref_running) = (Ok BadRequest, m_driver ref_running)"
proof -
  have "fst (quoteHandler ref_ffi ref_krate (\<lambda>m. m) 0 64 4096 True (Some \<lparr>qr_request = ascii ''x'', qr_nonce = ascii ''0''\<rparr>)
     (m_driver ref_running)) = Ok BadRequest"
    by (simp add: quoteHandler_def requestBinding_def ascii_def rust_simps)
  then show ?thesis
    using quote_handler_outcome [OF ref.tarako_kernel_axioms ref_running_reachable, where H = "\<lambda>m. m" and dev = 0
        and pa = 64 and ra = 4096 and post = True
        and input = "Some \<lparr>qr_request = ascii ''x'', qr_nonce = ascii ''0''\<rparr>"]
    by (simp add: split_beta prod_eq_iff)
qed

end
