(* ===== verification/Json.thy ===== *)
theory Json
  imports Text_Encoding "HOL-Library.List_Lexorder" "HOL-Library.Multiset"
begin

text \<open>
  JSON values as the Python and Go programs exchange them, and the canonical text of a value that the
  verifier signs and the client checks. The text is ASCII, and an object whose members are strings
  and \<open>true\<close> can be read back from it.
\<close>

section \<open>Definitions\<close>

text \<open>A parsed JSON value; a number is kept as the text that Python writes for it.\<close>

datatype json =
    JNull
  | JBool bool
  | JNumber ustring
  | JString ustring
  | JArray "json list"
  | JObject "(ustring \<times> json) list"

type_synonym dict = "(ustring \<times> json) list"

text \<open>\<open>json.dumps\<close> with sorted keys and without spaces; keys are ordered by code points.\<close>

fun comma_join :: "ustring list \<Rightarrow> ustring" where
  "comma_join [] = []"
| "comma_join [t] = t"
| "comma_join (t # u # ts) = t @ ascii '','' @ comma_join (u # ts)"

definition member_text :: "ustring \<times> ustring \<Rightarrow> ustring" where
  "member_text m = json_string py_json_char (fst m) @ ascii '':'' @ snd m"

primrec json_dumps :: "json \<Rightarrow> ustring" where
  "json_dumps JNull = ascii ''null''"
| "json_dumps (JBool b) = (if b then ascii ''true'' else ascii ''false'')"
| "json_dumps (JNumber n) = n"
| "json_dumps (JString t) = json_string py_json_char t"
| "json_dumps (JArray vs) = ascii ''['' @ comma_join (map json_dumps vs) @ ascii '']''"
| "json_dumps (JObject d) =
     ascii ''{'' @ comma_join (map member_text (sort_key fst (map (map_prod id json_dumps) d))) @ ascii ''}''"

text \<open>
  What Python's JSON parser returns: strings whose surrogates are at most lone ones, and numbers,
  kept as the text that \<open>json.dumps\<close> writes for them, which is ASCII and starts with a digit, a
  minus sign or one of \<open>Infinity\<close> and \<open>NaN\<close>.
\<close>

definition number_ok :: "ustring \<Rightarrow> bool" where
  "number_ok n \<longleftrightarrow> n \<noteq> [] \<and> list_all (\<lambda>c. c < 0x80) n \<and> (hd n \<in> {0x2D, 0x49, 0x4E} \<or> (48 \<le> hd n \<and> hd n \<le> 57))"

primrec json_ok :: "json \<Rightarrow> bool" where
  "json_ok JNull \<longleftrightarrow> True"
| "json_ok (JBool b) \<longleftrightarrow> True"
| "json_ok (JNumber n) \<longleftrightarrow> number_ok n"
| "json_ok (JString t) \<longleftrightarrow> json_decoded t"
| "json_ok (JArray vs) \<longleftrightarrow> list_all id (map json_ok vs)"
| "json_ok (JObject d) \<longleftrightarrow> list_all (\<lambda>(k, ok). json_decoded k \<and> ok) (map (map_prod id json_ok) d)"

section \<open>The text is ASCII\<close>

lemma hex_digit_ascii: "n < 16 \<Longrightarrow> hex_digit n < 0x80"
  by (simp add: hex_digit_def)

lemma hex_encode_ascii: "list_all (\<lambda>c. c < 0x80) (hex_encode bs)"
proof (induction bs)
  case (Cons b bs)
  then show ?case using hex_digit_ascii [OF byte_nibbles(1) [of b]] hex_digit_ascii [of "unat b mod 16"]
    by (simp add: hex_encode_def hex_byte_def)
qed (simp add: hex_encode_def)

lemma ascii_decoded: "list_all (\<lambda>c. c < 0x80) t \<Longrightarrow> json_decoded t"
  by (rule scalar_decoded) (auto simp: list_all_iff scalar_value_def)

lemma json_string_ascii: "list_all (\<lambda>c. c < 0x80) (json_string py_json_char t)"
  using py_json_char_ascii by (auto simp: json_string_def list_all_iff)

lemma sort_dumps:
  "sort_key fst (map (map_prod id f) d) = map (\<lambda>m. (fst m, f (snd m))) (sort_key fst d)"
proof (induction d)
  case (Cons m d)
  have "insort_key fst (fst m, f (snd m)) (map (\<lambda>m. (fst m, f (snd m))) ms) =
      map (\<lambda>m. (fst m, f (snd m))) (insort_key fst m ms)" for ms
    by (induction ms) simp_all
  then show ?case using Cons by (simp add: map_prod_def split_beta)
qed simp

lemma comma_join_ascii:
  "list_all (list_all (\<lambda>c. c < 0x80)) ts \<Longrightarrow> list_all (\<lambda>c. c < 0x80) (comma_join ts)"
  by (induction ts rule: comma_join.induct) (simp_all add: ascii_def)

lemma dumps_ascii: "json_ok v \<Longrightarrow> list_all (\<lambda>c. c < 0x80) (json_dumps v)"
proof (induction v)
  case (JArray vs)
  then have "list_all (list_all (\<lambda>c. c < 0x80)) (map json_dumps vs)" by (auto simp: list_all_iff)
  from comma_join_ascii [OF this] show ?case by (simp add: ascii_def)
next
  case (JObject d)
  have "list_all (\<lambda>c. c < 0x80) (member_text (fst m, json_dumps (snd m)))" if m: "m \<in> set d" for m
  proof -
    have "json_ok (snd m)" using m JObject.prems by (auto simp: list_all_iff split_beta)
    then have "list_all (\<lambda>c. c < 0x80) (json_dumps (snd m))" using JObject.IH [OF m] by (cases m) simp
    then show ?thesis by (simp add: member_text_def json_string_ascii) (simp add: ascii_def)
  qed
  then have "list_all (list_all (\<lambda>c. c < 0x80)) (map member_text (sort_key fst (map (map_prod id json_dumps) d)))"
    by (auto simp: sort_dumps list_all_iff)
  from comma_join_ascii [OF this] show ?case by (simp add: ascii_def)
qed (simp_all add: json_string_ascii ascii_def number_ok_def)

section \<open>The text can be read back\<close>

fun plain_value :: "json \<Rightarrow> bool" where
  "plain_value (JString t) \<longleftrightarrow> json_decoded t"
| "plain_value (JBool b) \<longleftrightarrow> b"
| "plain_value _ \<longleftrightarrow> False"

lemma dumps_plain:
  assumes "json_ok v" "plain_value w" "json_dumps v @ x = json_dumps w @ y"
  shows "v = w \<and> x = y"
proof (cases w)
  case (JString t)
  then show ?thesis
    using assms py_json_string_inj [of _ t x y]
    by (cases v) (auto simp: json_string_def ascii_def number_ok_def neq_Nil_conv split: if_splits)
next
  case (JBool b)
  then show ?thesis
    using assms by (cases v) (auto simp: json_string_def ascii_def number_ok_def neq_Nil_conv split: if_splits)
qed (use assms in simp_all)

abbreviation tail_text :: "dict \<Rightarrow> ustring" where
  "tail_text ms \<equiv> concat (map (\<lambda>m. ascii '','' @ member_text (fst m, json_dumps (snd m))) ms)"

lemma comma_join_Cons: "comma_join (t # ts) = t @ concat (map (\<lambda>u. ascii '','' @ u) ts)"
  by (induction ts arbitrary: t) simp_all

lemma member_plain:
  assumes "json_decoded k" "json_ok v" "json_decoded k'" "plain_value v'"
    "member_text (k, json_dumps v) @ x = member_text (k', json_dumps v') @ y"
  shows "k = k' \<and> v = v' \<and> x = y"
proof -
  have "json_string py_json_char k @ ascii '':'' @ json_dumps v @ x =
      json_string py_json_char k' @ ascii '':'' @ json_dumps v' @ y"
    using assms(5) by (simp add: member_text_def)
  from py_json_string_inj [OF assms(1,3) this] have "k = k'" "json_dumps v @ x = json_dumps v' @ y" by simp_all
  then show ?thesis using dumps_plain [OF assms(2,4)] by simp
qed

lemma tail_plain:
  assumes "list_all (\<lambda>(k, v). json_decoded k \<and> json_ok v) ms" "list_all (\<lambda>(k, v). json_decoded k \<and> plain_value v) ms'"
    "tail_text ms @ ascii ''}'' = tail_text ms' @ ascii ''}''"
  shows "ms = ms'"
  using assms
proof (induction ms arbitrary: ms')
  case Nil
  then show ?case by (cases ms') (auto simp: ascii_def)
next
  case (Cons m ms)
  obtain m' t where ms': "ms' = m' # t" using Cons.prems(3) by (cases ms') (auto simp: ascii_def)
  have "member_text (fst m, json_dumps (snd m)) @ tail_text ms @ ascii ''}'' =
      member_text (fst m', json_dumps (snd m')) @ tail_text t @ ascii ''}''" using Cons.prems(3) ms' by simp
  from member_plain [OF _ _ _ _ this]
  show ?case using Cons.prems(1,2) Cons.IH [of t] ms' by (auto simp: split_beta prod_eq_iff)
qed

text \<open>An object with the text of one that has different keys and plain values has its members.\<close>

lemma dumps_object:
  assumes ok: "json_ok (JObject d)" and plain: "list_all (\<lambda>(k, v). json_decoded k \<and> plain_value v) d'"
    and "d' \<noteq> []" "distinct (map fst d')" and eq: "json_dumps (JObject d) = json_dumps (JObject d')"
  shows "map_of d = map_of d'"
proof -
  let ?s = "sort_key fst d" and ?s' = "sort_key fst d'"
  have all: "list_all (\<lambda>(k, v). json_decoded k \<and> json_ok v) ?s" "list_all (\<lambda>(k, v). json_decoded k \<and> plain_value v) ?s'"
    using ok plain by (auto simp: list_all_iff)
  have txts: "comma_join (map member_text (map (\<lambda>m. (fst m, json_dumps (snd m))) ?s)) @ ascii ''}'' =
      comma_join (map member_text (map (\<lambda>m. (fst m, json_dumps (snd m))) ?s')) @ ascii ''}''"
    using eq by (simp add: sort_dumps)
  obtain m' t' where s': "?s' = m' # t'" using assms(3) by (metis length_0_conv length_sort neq_Nil_conv)
  have "?s \<noteq> []" using txts s' by (auto simp: comma_join_Cons member_text_def json_string_def ascii_def)
  then obtain m t where s: "?s = m # t" by (cases ?s) simp_all
  have "tail_text ?s @ ascii ''}'' = tail_text ?s' @ ascii ''}''"
    using txts s s' by (simp add: comma_join_Cons comp_def)
  from tail_plain [OF all this] have "mset d = mset d'" by (metis mset_sort)
  then have "distinct (map fst d)" "set d = set d'"
    using assms(4) by (metis mset_map mset_eq_imp_distinct_iff, metis set_mset_mset)
  then show ?thesis using assms(4) by (intro ext) (metis map_of_eq_Some_iff not_Some_eq)
qed

end
