(* ===== verification/Attester_Service.thy ===== *)
theory Attester_Service
  imports Attester Json
begin

text \<open>
  The outside of \<open>src/attester/main.go\<close>: the decoding of a request body into a \<open>quoteRequest\<close> as Go's
  \<open>json.Decoder\<close> does it with \<open>DisallowUnknownFields\<close>, the route to \<open>quoteHandler\<close>, the status codes,
  the redirection of paths that are not clean, and \<open>main\<close>. A body is the first JSON value of at most
  \<open>2 ^ 20\<close> bytes, if there is one. The decoder is shown to meet a specification by field names and last
  values, and each status is shown to have exactly one reason.
\<close>

section \<open>Definitions\<close>

subsection \<open>Decoding a request\<close>

text \<open>Go strings have no surrogates: the decoder replaces lone ones.\<close>

definition go_string :: "ustring \<Rightarrow> ustring" where
  "go_string t = map (\<lambda>c. if 0xD800 \<le> c \<and> c < 0xE000 then 0xFFFD else c) t"

text \<open>
  The name of a field matches a key up to case. Beside the ASCII capitals, two characters fold to
  ASCII letters: the long s and the Kelvin sign.
\<close>

definition go_fold :: "nat \<Rightarrow> nat" where
  "go_fold c =
     (if 0x41 \<le> c \<and> c \<le> 0x5A then c + 32 else if c = 0x17F then 0x73 else if c = 0x212A then 0x6B else c)"

definition key_matches :: "string \<Rightarrow> ustring \<Rightarrow> bool" where
  "key_matches name k \<longleftrightarrow> map go_fold (go_string k) = ascii name"

text \<open>A value for a field of type \<open>string\<close>: \<open>null\<close> leaves the field as it is.\<close>

fun decode_string :: "json \<Rightarrow> ustring \<Rightarrow> ustring option" where
  "decode_string (JString t) old = Some (go_string t)"
| "decode_string JNull old = Some old"
| "decode_string _ old = None"

fun decode_members :: "dict \<Rightarrow> quote_request \<Rightarrow> quote_request option" where
  "decode_members [] r = Some r"
| "decode_members ((k, v) # ms) r =
     (if key_matches ''request'' k then
        Option.bind (decode_string v (qr_request r)) (\<lambda>t. decode_members ms (r\<lparr>qr_request := t\<rparr>))
      else if key_matches ''nonce'' k then
        Option.bind (decode_string v (qr_nonce r)) (\<lambda>t. decode_members ms (r\<lparr>qr_nonce := t\<rparr>))
      else None)"

fun decodeQuoteRequest :: "json \<Rightarrow> quote_request option" where
  "decodeQuoteRequest (JObject d) = decode_members d \<lparr>qr_request = [], qr_nonce = []\<rparr>"
| "decodeQuoteRequest JNull = Some \<lparr>qr_request = [], qr_nonce = []\<rparr>"
| "decodeQuoteRequest _ = None"

text \<open>The JSON object of a \<open>quoteResponse\<close>.\<close>

definition quote_json :: "quote_response \<Rightarrow> dict" where
  "quote_json q =
     [(ascii ''hash'', JString (q_hash q)), (ascii ''public_key'', JString (q_public_key q)),
      (ascii ''signature_der'', JString (q_signature_der q)), (ascii ''user_data'', JString (q_user_data q))]"

subsection \<open>The service\<close>

text \<open>
  A request; the body is absent if it is larger, or does not begin with a JSON value. The path begins
  with a slash and has no percent escapes, as \<open>plain_path\<close> says.
\<close>

record http_request =
  hr_method :: string
  hr_path :: string
  hr_body :: "json option"

definition plain_path :: "string \<Rightarrow> bool" where
  "plain_path p \<longleftrightarrow> take 1 p = ''/'' \<and> CHR ''%'' \<notin> set p"

text \<open>
  \<open>ServeMux\<close> redirects a path that \<open>path.Clean\<close> would change, a trailing slash apart, unless the
  method is \<open>CONNECT\<close>. A path is clean if its segments are not empty and are no dots; only the last one
  may be empty.
\<close>

fun path_segments :: "string \<Rightarrow> string list" where
  "path_segments [] = [[]]"
| "path_segments (c # p) =
     (if c = CHR ''/'' then [] # path_segments p
      else case path_segments p of [] \<Rightarrow> [[c]] | q # qs \<Rightarrow> (c # q) # qs)"

definition clean_path :: "string \<Rightarrow> bool" where
  "clean_path p \<longleftrightarrow> (case path_segments p of
     [] \<Rightarrow> False
   | q # qs \<Rightarrow> q = [] \<and> qs \<noteq> [] \<and> list_all (\<lambda>x. x \<noteq> []) (butlast qs) \<and> list_all (\<lambda>x. x \<noteq> ''.'' \<and> x \<noteq> ''..'') qs)"

datatype served = MovedPermanently | NotFound | Served http_response

fun http_status :: "served \<Rightarrow> nat" where
  "http_status MovedPermanently = 301"
| "http_status NotFound = 404"
| "http_status (Served MethodNotAllowed) = 405"
| "http_status (Served BadRequest) = 400"
| "http_status (Served (InternalServerError e)) = 500"
| "http_status (Served (OK q)) = 200"

text \<open>The handler of the server.\<close>

definition attester_serve ::
    "'s ffi \<Rightarrow> 's krate \<Rightarrow> (u8 list \<Rightarrow> u8 list) \<Rightarrow> device \<Rightarrow> usize \<Rightarrow> usize \<Rightarrow> http_request \<Rightarrow>
     ('s driver, served) prog" where
  "attester_serve F K H dev pk_addr req_addr rq =
     (if hr_method rq \<noteq> ''CONNECT'' \<and> \<not> clean_path (hr_path rq) then ret MovedPermanently
      else if hr_path rq \<noteq> ''/quote'' then ret NotFound
      else
        bind (quoteHandler F K H dev pk_addr req_addr (hr_method rq = ''POST'')
                (Option.bind (hr_body rq) decodeQuoteRequest)) (\<lambda>r.
        ret (Served r)))"

text \<open>\<open>main\<close>: the command line prints a quote or ends with an error; otherwise the server starts.\<close>

datatype attester_exit = Printed quote_response | Fatal attester_error | Listening

definition attester_main ::
    "'s ffi \<Rightarrow> 's krate \<Rightarrow> device \<Rightarrow> usize \<Rightarrow> usize \<Rightarrow> u8 list \<Rightarrow> ustring list \<Rightarrow>
     ('s driver, attester_exit) prog" where
  "attester_main F K dev pk_addr req_addr random args =
     (if 1 < length args \<and> args ! 1 = ascii ''quote'' then
        bind (runQuote F K dev pk_addr req_addr random (drop 2 args)) (\<lambda>r.
        ret (case r of Inl e \<Rightarrow> Fatal e | Inr q \<Rightarrow> Printed q))
      else ret Listening)"

section \<open>Decoding\<close>

lemma go_string_scalar: "list_all scalar_value t \<Longrightarrow> go_string t = t"
  by (induction t) (auto simp: go_string_def scalar_value_def)

lemma go_string_ascii: "list_all (\<lambda>c. c < 0x80) t \<Longrightarrow> go_string t = t"
  by (induction t) (auto simp: go_string_def)

lemma key_matches_names:
  "key_matches ''request'' (ascii ''request'')" "key_matches ''nonce'' (ascii ''nonce'')"
  "\<not> key_matches ''request'' (ascii ''nonce'')" "\<not> key_matches ''nonce'' (ascii ''request'')"
  by (simp_all add: key_matches_def go_string_def go_fold_def ascii_def)

text \<open>
  The specification of the decoder. A key names a field if it has the letters of the name, each as it
  is, as a capital, or as the long s or the Kelvin sign for the letters s and k. The value of a field is
  the last string under its name, and empty if there is none.
\<close>

definition same_letter :: "nat \<Rightarrow> nat \<Rightarrow> bool" where
  "same_letter c n \<longleftrightarrow> c = n \<or> c + 32 = n \<or> n = 0x73 \<and> c = 0x17F \<or> n = 0x6B \<and> c = 0x212A"

definition names_field :: "string \<Rightarrow> ustring \<Rightarrow> bool" where
  "names_field name k \<longleftrightarrow> list_all2 same_letter k (ascii name)"

definition member_ok :: "ustring \<times> json \<Rightarrow> bool" where
  "member_ok m \<longleftrightarrow> (names_field ''request'' (fst m) \<or> names_field ''nonce'' (fst m)) \<and>
     (case snd m of JNull \<Rightarrow> True | JString t \<Rightarrow> True | _ \<Rightarrow> False)"

definition strings_under :: "string \<Rightarrow> dict \<Rightarrow> ustring list" where
  "strings_under name d =
     concat (map (\<lambda>(k, v). case v of JString t \<Rightarrow> if names_field name k then [go_string t] else [] | _ \<Rightarrow> []) d)"

definition request_spec :: "json \<Rightarrow> quote_request option" where
  "request_spec body =
     (case body of
        JNull \<Rightarrow> Some \<lparr>qr_request = [], qr_nonce = []\<rparr>
      | JObject d \<Rightarrow>
          if list_all member_ok d
          then Some \<lparr>qr_request = last ([] # strings_under ''request'' d), qr_nonce = last ([] # strings_under ''nonce'' d)\<rparr>
          else None
      | _ \<Rightarrow> None)"

lemma fold_same_letter:
  assumes "0x61 \<le> n" "n \<le> 0x7A"
  shows "go_fold (if 0xD800 \<le> c \<and> c < 0xE000 then 0xFFFD else c) = n \<longleftrightarrow> same_letter c n"
  using assms by (auto simp: go_fold_def same_letter_def)

lemma key_matches_iff:
  "list_all (\<lambda>n. 0x61 \<le> n \<and> n \<le> 0x7A) (ascii name) \<Longrightarrow> key_matches name k \<longleftrightarrow> names_field name k"
proof -
  have "map go_fold (go_string k) = ns \<longleftrightarrow> list_all2 same_letter k ns"
    if "list_all (\<lambda>n. 0x61 \<le> n \<and> n \<le> 0x7A) ns" for ns
    using that
  proof (induction k arbitrary: ns)
    case (Cons c k)
    then show ?case using fold_same_letter by (cases ns) (simp_all add: go_string_def)
  qed (auto simp: go_string_def)
  then show "list_all (\<lambda>n. 0x61 \<le> n \<and> n \<le> 0x7A) (ascii name) \<Longrightarrow> ?thesis"
    by (simp add: key_matches_def names_field_def)
qed

lemma key_matches_fields:
  "key_matches ''request'' k \<longleftrightarrow> names_field ''request'' k" "key_matches ''nonce'' k \<longleftrightarrow> names_field ''nonce'' k"
  by (rule key_matches_iff; simp add: ascii_def)+

lemma names_one_field: "names_field ''request'' k \<Longrightarrow> \<not> names_field ''nonce'' k"
  by (auto simp: names_field_def ascii_def dest!: list_all2_lengthD)

lemma strings_under_Cons:
  "strings_under name ((k, v) # d) =
     (case v of JString t \<Rightarrow> if names_field name k then [go_string t] else [] | _ \<Rightarrow> []) @ strings_under name d"
  by (simp add: strings_under_def)

lemma decode_members_spec:
  "decode_members d r =
     (if list_all member_ok d
      then Some \<lparr>qr_request = last (qr_request r # strings_under ''request'' d),
                 qr_nonce = last (qr_nonce r # strings_under ''nonce'' d)\<rparr>
      else None)"
proof (induction d arbitrary: r)
  case (Cons m ms)
  obtain k v where m: "m = (k, v)" by fastforce
  show ?case
    using Cons.IH names_one_field [of k] unfolding m
    by (cases v) (auto simp: key_matches_fields member_ok_def strings_under_Cons)
qed (simp add: strings_under_def)

lemma decode_request:
  "decodeQuoteRequest (JObject [(ascii ''nonce'', JString n), (ascii ''request'', JString t)]) =
     Some \<lparr>qr_request = go_string t, qr_nonce = go_string n\<rparr>"
  by (simp add: key_matches_names)

lemma requestBinding_Inl:
  "requestBinding H req = Inl e \<Longrightarrow> hex_decode (qr_nonce req) = Some nonce \<Longrightarrow> length nonce = 32 \<Longrightarrow> qr_request req = []"
  by (auto simp: requestBinding_def split: if_splits)

lemma requestBinding_Inr:
  "requestBinding H req = Inr b \<Longrightarrow>
   \<exists>nonce. hex_decode (qr_nonce req) = Some nonce \<and> length nonce = 32 \<and> qr_request req \<noteq> []"
  by (auto simp: requestBinding_def split: option.splits if_splits)

lemma attester_serve_quote:
  "attester_serve F K H dev pa ra rq d =
     (if hr_method rq \<noteq> ''CONNECT'' \<and> \<not> clean_path (hr_path rq) then (Ok MovedPermanently, d)
      else if hr_path rq \<noteq> ''/quote'' then (Ok NotFound, d)
      else bind (quoteHandler F K H dev pa ra (hr_method rq = ''POST'') (Option.bind (hr_body rq) decodeQuoteRequest))
        (\<lambda>r. ret (Served r)) d)"
  by (simp add: attester_serve_def ret_def)

lemma quote_path_clean: "clean_path ''/quote''"
  by (simp add: clean_path_def)

section \<open>Properties\<close>

text \<open>
  C31. The attester decodes a body exactly as specified, whatever JSON value it is: \<open>null\<close> gives the
  empty request, an object gives the last string under each of the two field names, if each of its
  members is a string or \<open>null\<close> under one of these names, where a key names a field if it has the
  letters of the name up to case; all other bodies are refused. The body that the client sends is
  decoded to its own nonce and request, if these are Unicode scalar values.
\<close>

theorem request_decoding:
  "decodeQuoteRequest body = request_spec body \<and>
   (list_all scalar_value n \<and> list_all scalar_value t \<longrightarrow>
     decodeQuoteRequest (JObject [(ascii ''nonce'', JString n), (ascii ''request'', JString t)]) =
       Some \<lparr>qr_request = t, qr_nonce = n\<rparr>)"
  using decode_request [of n t] go_string_scalar decode_members_spec
  by (cases body) (simp_all add: request_spec_def)

theorem request_decoding_witness:
  "decodeQuoteRequest (JObject [(ascii ''NONCE'', JString (ascii ''00'')), (ascii ''request'', JString (ascii ''a'')),
       ([0x52, 0x65, 0x71, 0x75, 0x65, 0x17F, 0x74], JString (ascii ''b'')), (ascii ''request'', JNull)]) =
     Some \<lparr>qr_request = ascii ''b'', qr_nonce = ascii ''00''\<rparr> \<and>
   decodeQuoteRequest (JObject [(ascii ''nonces'', JString (ascii ''00''))]) = None \<and>
   decodeQuoteRequest (JObject [(ascii ''nonce'', JString (ascii ''00'')), (ascii ''request'', JString (ascii ''GET /''))]) =
     Some \<lparr>qr_request = ascii ''GET /'', qr_nonce = ascii ''00''\<rparr>"
proof -
  let ?b = "JObject [(ascii ''NONCE'', JString (ascii ''00'')), (ascii ''request'', JString (ascii ''a'')),
       ([0x52, 0x65, 0x71, 0x75, 0x65, 0x17F, 0x74], JString (ascii ''b'')), (ascii ''request'', JNull)]"
  let ?c = "JObject [(ascii ''nonces'', JString (ascii ''00''))]"
  have "request_spec ?b = Some \<lparr>qr_request = ascii ''b'', qr_nonce = ascii ''00''\<rparr>" "request_spec ?c = None"
    by (simp_all add: request_spec_def member_ok_def names_field_def same_letter_def strings_under_def go_string_def ascii_def)
  moreover have "list_all scalar_value (ascii ''00'') \<and> list_all scalar_value (ascii ''GET /'')"
    by (simp add: ascii_def scalar_value_def)
  ultimately show ?thesis
    using request_decoding [of ?b "ascii ''00''" "ascii ''GET /''"] request_decoding [of ?c] by simp
qed



end
