(* ===== verification/Verifier.thy ===== *)
theory Verifier
  imports Ioctl_Properties Json
begin

text \<open>
  \<open>src/test/attestation/verifier.py\<close>: the verifier of quotes. Its state is the dictionary of
  outstanding challenges. A request body is the JSON value that Flask parsed, every exception is a
  value, and what the program takes from outside is a parameter: SHA-256 (\<open>hashlib\<close>), the public
  keys of the \<open>cryptography\<close> package (reading a point, verifying a signature), the signing key of
  the verifier, the random bytes and the two policy files. The contract of the package is the locale
  \<open>ecdsa_library\<close>. \<open>v_history\<close> relates the state to the sequence of requests served so far; each
  handler accesses the dictionary once, under the lock, so a history of whole requests in the order
  of these accesses describes concurrent requests too.
\<close>

section \<open>Definitions\<close>

subsection \<open>Python values\<close>

datatype verifier_error =
    RequestNotString
  | RequestMissing
  | RequestMismatch
  | NonceMismatch
  | QuoteNotObject
  | NegativeCount
  | KeyError ustring
  | FromhexType
  | FromhexValue
  | UserDataMismatch
  | PublicKeyMismatch
  | HashMismatch
  | InvalidSignature
  | PolicyUnreadable
  | InvalidPoint

definition py_bind :: "'e + 'a \<Rightarrow> ('a \<Rightarrow> 'e + 'b) \<Rightarrow> 'e + 'b" where
  "py_bind m f = (case m of Inl e \<Rightarrow> Inl e | Inr v \<Rightarrow> f v)"

definition ok_or_raise :: "'e \<Rightarrow> 'a option \<Rightarrow> 'e + 'a" where
  "ok_or_raise e m = (case m of None \<Rightarrow> Inl e | Some v \<Rightarrow> Inr v)"

text \<open>\<open>d.get(k)\<close> and \<open>d[k]\<close>.\<close>

definition dict_get :: "dict \<Rightarrow> string \<Rightarrow> json" where
  "dict_get d k = (case map_of d (ascii k) of None \<Rightarrow> JNull | Some v \<Rightarrow> v)"

definition dict_item :: "dict \<Rightarrow> string \<Rightarrow> verifier_error + json" where
  "dict_item d k = ok_or_raise (KeyError (ascii k)) (map_of d (ascii k))"

text \<open>\<open>bytes.fromhex\<close> on any value.\<close>

fun bytes_fromhex :: "json \<Rightarrow> verifier_error + u8 list" where
  "bytes_fromhex (JString t) = ok_or_raise FromhexValue (py_fromhex t)"
| "bytes_fromhex _ = Inl FromhexType"

text \<open>\<open>str.strip\<close>.\<close>

definition str_space :: "nat \<Rightarrow> bool" where
  "str_space c \<longleftrightarrow> (9 \<le> c \<and> c \<le> 13) \<or> (28 \<le> c \<and> c \<le> 32) \<or> (0x2000 \<le> c \<and> c \<le> 0x200A) \<or>
     c \<in> {0x85, 0xA0, 0x1680, 0x2028, 0x2029, 0x202F, 0x205F, 0x3000}"

definition str_strip :: "ustring \<Rightarrow> ustring" where
  "str_strip t = rev (dropWhile str_space (rev (dropWhile str_space t)))"

subsection \<open>Request binding\<close>

definition DOMAIN :: "u8 list" where
  "DOMAIN = utf8 (ascii ''TARAKO-TQ-REQUEST-V1'') @ [0]"

definition QUOTE_DATA_BYTES :: nat where
  "QUOTE_DATA_BYTES = 128"

text \<open>A member of an object whose keys \<open>json.dumps\<close> writes in sorted order.\<close>

definition py_member :: "string \<Rightarrow> ustring \<Rightarrow> ustring" where
  "py_member k v = json_string py_json_char (ascii k) @ ascii '':'' @ json_string py_json_char v"

definition py_binding_context :: "ustring \<Rightarrow> ustring \<Rightarrow> ustring" where
  "py_binding_context nonce request =
     ascii ''{'' @ py_member ''nonce'' nonce @ ascii '','' @ py_member ''request'' request @ ascii ''}''"

definition binding_message :: "ustring \<Rightarrow> u8 list \<Rightarrow> u8 list" where
  "binding_message request nonce = DOMAIN @ utf8 (py_binding_context (hex_encode nonce) request)"

definition make_request_binding :: "(u8 list \<Rightarrow> u8 list) \<Rightarrow> ustring \<Rightarrow> u8 list \<Rightarrow> u8 list" where
  "make_request_binding H request nonce = H (binding_message request nonce)"

subsection \<open>Appraisal\<close>

text \<open>The two policy files; \<open>None\<close> if the file cannot be read or is not text.\<close>

record policy =
  approved_digest :: "ustring option"
  trusted_tak :: "u8 list option"

definition load_appraisal_policy ::
    "(u8 list \<Rightarrow> 'k option) \<Rightarrow> policy \<Rightarrow> verifier_error + (u8 list \<times> u8 list \<times> 'k)" where
  "load_appraisal_policy from_point P =
     py_bind (ok_or_raise PolicyUnreadable (approved_digest P)) (\<lambda>text.
     py_bind (bytes_fromhex (JString (str_strip text))) (\<lambda>digest.
     py_bind (ok_or_raise PolicyUnreadable (trusted_tak P)) (\<lambda>public_key_bytes.
     py_bind (ok_or_raise InvalidPoint (from_point public_key_bytes)) (\<lambda>public_key.
     Inr (digest, public_key_bytes, public_key)))))"

definition verify_tarako_quote ::
    "(u8 list \<Rightarrow> u8 list) \<Rightarrow> ('k \<Rightarrow> u8 list \<Rightarrow> u8 list \<Rightarrow> bool) \<Rightarrow>
     dict \<Rightarrow> u8 list \<Rightarrow> u8 list \<Rightarrow> u8 list \<Rightarrow> 'k \<Rightarrow> verifier_error + ustring" where
  "verify_tarako_quote H V quote binding digest trusted_key_bytes trusted_key =
     (if QUOTE_DATA_BYTES < length binding then Inl NegativeCount
      else
        let expected_user_data = binding @ replicate (QUOTE_DATA_BYTES - length binding) 0 in
        py_bind (dict_item quote ''user_data'') (\<lambda>user_data.
        py_bind (bytes_fromhex user_data) (\<lambda>response_user_data.
        if response_user_data \<noteq> expected_user_data then Inl UserDataMismatch
        else
          py_bind (dict_item quote ''public_key'') (\<lambda>key.
          py_bind (bytes_fromhex key) (\<lambda>quoted_key.
          if quoted_key \<noteq> trusted_key_bytes then Inl PublicKeyMismatch
          else
            let message = digest @ expected_user_data; expected_hash = hex_encode (H message) in
            py_bind (dict_item quote ''hash'') (\<lambda>hash.
            if hash \<noteq> JString expected_hash then Inl HashMismatch
            else
              py_bind (dict_item quote ''signature_der'') (\<lambda>sig.
              py_bind (bytes_fromhex sig) (\<lambda>signature_der.
              if \<not> V trusted_key signature_der message then Inl InvalidSignature
              else Inr expected_hash))))))))"

subsection \<open>The service\<close>

record pending =
  ch_nonce :: ustring
  ch_request :: ustring

type_synonym outstanding = "ustring \<rightharpoonup> pending"

definition json_request_value :: "json \<Rightarrow> verifier_error + ustring" where
  "json_request_value body =
     (case body of
        JObject d \<Rightarrow>
          (case dict_get d ''request'' of
             JString t \<Rightarrow> if t = [] then Inl RequestMissing else Inr t
           | _ \<Rightarrow> Inl RequestNotString)
      | _ \<Rightarrow> Inl RequestNotString)"

datatype challenge_reply =
    ChallengeRefused verifier_error
  | ChallengeIssued ustring ustring ustring

text \<open>\<open>nonce\<close> and \<open>cid\<close> are the bytes that the two calls of \<open>os.urandom\<close> return.\<close>

definition challenge ::
    "u8 list \<Rightarrow> u8 list \<Rightarrow> json \<Rightarrow> outstanding \<Rightarrow> challenge_reply \<times> outstanding" where
  "challenge nonce cid body out =
     (case json_request_value body of
        Inl e \<Rightarrow> (ChallengeRefused e, out)
      | Inr request \<Rightarrow>
          (ChallengeIssued (hex_encode cid) (hex_encode nonce) request,
           out(hex_encode cid \<mapsto> \<lparr>ch_nonce = hex_encode nonce, ch_request = request\<rparr>)))"

record attestation_result =
  ar_challenge_id :: ustring
  ar_digest :: ustring
  ar_kernel_hash :: ustring
  ar_nonce :: ustring
  ar_request :: ustring
  ar_request_binding :: ustring

definition result_text :: "attestation_result \<Rightarrow> ustring" where
  "result_text r =
     ascii ''{'' @ json_string py_json_char (ascii ''accepted'') @ ascii '':true,'' @
     py_member ''challenge_id'' (ar_challenge_id r) @ ascii '','' @
     py_member ''digest'' (ar_digest r) @ ascii '','' @
     py_member ''kernel_hash'' (ar_kernel_hash r) @ ascii '','' @
     py_member ''nonce'' (ar_nonce r) @ ascii '','' @
     py_member ''request'' (ar_request r) @ ascii '','' @
     py_member ''request_binding'' (ar_request_binding r) @ ascii ''}''"

text \<open>The replies with status 400 for a bad body, 409, 400 for refused evidence, and 200.\<close>

datatype verify_reply =
    BodyNotObject
  | ChallengeIdRequired
  | ChallengeUnknown
  | EvidenceRefused verifier_error
  | Accepted attestation_result ustring

text \<open>The body of the \<open>try\<close> block: binding, digest and hash, or the exception.\<close>

definition appraise ::
    "(u8 list \<Rightarrow> u8 list) \<Rightarrow> (u8 list \<Rightarrow> 'k option) \<Rightarrow> ('k \<Rightarrow> u8 list \<Rightarrow> u8 list \<Rightarrow> bool) \<Rightarrow>
     policy \<Rightarrow> dict \<Rightarrow> pending \<Rightarrow> verifier_error + (u8 list \<times> u8 list \<times> ustring)" where
  "appraise H from_point V P body expected =
     (if dict_get body ''request'' \<noteq> JString (ch_request expected) then Inl RequestMismatch
      else if dict_get body ''nonce'' \<noteq> JString (ch_nonce expected) then Inl NonceMismatch
      else
        case dict_get body ''tq'' of
          JObject quote \<Rightarrow>
            py_bind (bytes_fromhex (JString (ch_nonce expected))) (\<lambda>nonce.
            let binding = make_request_binding H (ch_request expected) nonce in
            py_bind (load_appraisal_policy from_point P) (\<lambda>(digest, public_key_bytes, public_key).
            py_bind (verify_tarako_quote H V quote binding digest public_key_bytes public_key) (\<lambda>kernel_hash.
            Inr (binding, digest, kernel_hash))))
        | _ \<Rightarrow> Inl QuoteNotObject)"

definition verify ::
    "(u8 list \<Rightarrow> u8 list) \<Rightarrow> (u8 list \<Rightarrow> 'k option) \<Rightarrow> ('k \<Rightarrow> u8 list \<Rightarrow> u8 list \<Rightarrow> bool) \<Rightarrow>
     (u8 list \<Rightarrow> u8 list) \<Rightarrow> policy \<Rightarrow> json \<Rightarrow> outstanding \<Rightarrow> verify_reply \<times> outstanding" where
  "verify H from_point V sign P body out =
     (case body of
        JObject d \<Rightarrow>
          (case dict_get d ''challenge_id'' of
             JString challenge_id \<Rightarrow>
               (case out challenge_id of
                  None \<Rightarrow> (ChallengeUnknown, out)
                | Some expected \<Rightarrow>
                    (case appraise H from_point V P d expected of
                       Inl e \<Rightarrow> EvidenceRefused e
                     | Inr (binding, digest, kernel_hash) \<Rightarrow>
                         let result = \<lparr>ar_challenge_id = challenge_id, ar_digest = hex_encode digest,
                               ar_kernel_hash = kernel_hash, ar_nonce = ch_nonce expected,
                               ar_request = ch_request expected, ar_request_binding = hex_encode binding\<rparr>
                         in Accepted result (hex_encode (sign (utf8 (result_text result)))),
                     out(challenge_id := None)))
           | _ \<Rightarrow> (ChallengeIdRequired, out))
      | _ \<Rightarrow> (BodyNotObject, out))"

subsection \<open>Start\<close>

text \<open>
  \<open>main\<close>: the certificate and the signing key are read once. A key of an elliptic curve is its signing
  function; \<open>load_key\<close> is \<open>load_pem_private_key\<close>, and a file is absent if it cannot be read.
\<close>

datatype signing_key = ECKey "u8 list \<Rightarrow> u8 list" | OtherKey

datatype startup_error = CertificateMissing | KeyUnreadable | KeyNotElliptic

record verifier_config =
  vc_certificate :: ustring
  vc_sign :: "u8 list \<Rightarrow> u8 list"

definition verifier_main ::
    "(u8 list \<Rightarrow> signing_key option) \<Rightarrow> ustring option \<Rightarrow> u8 list option \<Rightarrow> startup_error + verifier_config" where
  "verifier_main load_key certificate key_file =
     py_bind (ok_or_raise CertificateMissing certificate) (\<lambda>text.
     py_bind (ok_or_raise KeyUnreadable key_file) (\<lambda>pem.
     py_bind (ok_or_raise KeyUnreadable (load_key pem)) (\<lambda>key.
     case key of
       ECKey sign \<Rightarrow> Inr \<lparr>vc_certificate = text, vc_sign = sign\<rparr>
     | OtherKey \<Rightarrow> Inl KeyNotElliptic)))"

section \<open>Request binding\<close>

lemma binding_context_ascii: "list_all (\<lambda>c. c < 0x80) (py_binding_context nonce request)"
  by (simp add: py_binding_context_def py_member_def json_string_ascii) (simp add: ascii_def)

lemma binding_context_inj:
  assumes "json_decoded n" "json_decoded n'" "json_decoded t" "json_decoded t'"
    and eq: "py_binding_context n t = py_binding_context n' t'"
  shows "n = n' \<and> t = t'"
proof -
  let ?rest = "\<lambda>t. ascii '','' @ json_string py_json_char (ascii ''request'') @ ascii '':'' @ json_string py_json_char t @ ascii ''}''"
  have "json_string py_json_char n @ ?rest t = json_string py_json_char n' @ ?rest t'"
    using eq by (simp add: py_binding_context_def py_member_def)
  from py_json_string_inj [OF assms(1,2) this] have n: "n = n'" and r: "?rest t = ?rest t'" by simp_all
  from r have "json_string py_json_char t @ ascii ''}'' = json_string py_json_char t' @ ascii ''}''" by simp
  from py_json_string_inj [OF assms(3,4) this] n show ?thesis by simp
qed

section \<open>Appraisal\<close>

text \<open>The contract of the \<open>cryptography\<close> package: it reads the point of a public key and accepts a
  signature exactly if it is the DER form of a pair that is valid for the SHA-256 hash.\<close>

locale ecdsa_library =
  fixes C :: "'p curve_group" and H :: "u8 list \<Rightarrow> u8 list"
    and from_point :: "u8 list \<Rightarrow> 'k option" and V :: "'k \<Rightarrow> u8 list \<Rightarrow> u8 list \<Rightarrow> bool"
  assumes lib_point:
      "0 < d \<Longrightarrow> d < cg_order C \<Longrightarrow> from_point (public_key_bytes C d) \<noteq> None"
    and lib_verify:
      "0 < d \<Longrightarrow> d < cg_order C \<Longrightarrow> from_point (public_key_bytes C d) = Some k \<Longrightarrow>
       V k sig m \<longleftrightarrow>
         (\<exists>r s. sig = der_signature r s \<and> ecdsa_valid C (smul C d (cg_base C)) (be_val (H m)) (r, s))"

text \<open>On the reference group, with the inverse of \<open>s\<close> computed.\<close>

definition ref_from_point :: "u8 list \<Rightarrow> nat option" where
  "ref_from_point bs = (if length bs = 33 then Some (be_val (tl bs)) else None)"

definition ref_inv :: "nat \<Rightarrow> nat" where
  "ref_inv s = nat (fst (bezw s p256_order) mod int p256_order)"

definition ref_verify :: "(u8 list \<Rightarrow> u8 list) \<Rightarrow> nat \<Rightarrow> u8 list \<Rightarrow> u8 list \<Rightarrow> bool" where
  "ref_verify H Q sig m =
     (case der_parse sig of
        None \<Rightarrow> False
      | Some (r, s) \<Rightarrow>
          der_signature r s = sig \<and> 0 < r \<and> r < p256_order \<and> 0 < s \<and> s < p256_order \<and>
          (let w = ref_inv s; P = (be_val (H m) * w + r * w * Q) mod p256_order in P \<noteq> 0 \<and> P = r))"

lemma inverse_unique:
  fixes n :: nat
  assumes "w < n" "w' < n" "s * w mod n = 1" "s * w' mod n = 1"
  shows "w = w'"
proof -
  have "w * (s * w' mod n) mod n = w' * (s * w mod n) mod n"
    by (metis mod_mult_right_eq mult.assoc mult.commute)
  then show ?thesis using assms by simp
qed

lemma ref_inv_inverse:
  assumes "0 < s" "s < p256_order"
  shows "ref_inv s < p256_order" "s * ref_inv s mod p256_order = 1"
proof -
  have n: "1 < p256_order" using p256_order_bounds(1) by simp
  have "coprime s p256_order" using assms is_prime_coprime [OF p256_order_prime] by blast
  from ref_inverse [OF n this] show "ref_inv s < p256_order" "s * ref_inv s mod p256_order = 1"
    by (simp_all add: ref_inv_def mult.commute)
qed

lemma ref_ecdsa_valid:
  assumes Q: "Q < p256_order"
  shows "ecdsa_valid ref_curve Q z (r, s) \<longleftrightarrow>
    0 < r \<and> r < p256_order \<and> 0 < s \<and> s < p256_order \<and>
    (let w = ref_inv s; P = (z * w + r * w * Q) mod p256_order in P \<noteq> 0 \<and> P = r)"
proof (cases "0 < s \<and> s < p256_order")
  case True
  let ?n = p256_order
  note i = ref_inv_inverse [of s]
  have w: "(\<exists>w < ?n. s * w mod ?n = 1 \<and> R w) \<longleftrightarrow> R (ref_inv s)" for R
    using True i inverse_unique [of _ ?n "ref_inv s" s] by metis
  have sm: "smul ref_curve k Q = k * Q mod ?n" for k
    by (induction k) (use Q in \<open>simp_all add: ref_curve_def mod_add_right_eq\<close>)
  have P: "cg_add ref_curve (smul ref_curve (z * w mod ?n) (cg_base ref_curve)) (smul ref_curve (r * w mod ?n) Q) =
      (z * w + r * w * Q) mod ?n" for w
    using sm ref_smul by (simp add: ref_curve_def mod_add_eq mod_mult_left_eq)
  show ?thesis
    using True P w by (simp add: ecdsa_valid_def Let_def) (simp add: ref_curve_def)
qed (auto simp: ecdsa_valid_def ref_curve_def)

lemma ref_from_point_key:
  "d < p256_order \<Longrightarrow> ref_from_point (public_key_bytes ref_curve d) = Some d"
  using ref_smul_base [of d] less_trans [OF _ p256_order_bounds(2), of d]
  by (simp add: ref_from_point_def public_key_bytes_def sec1_compressed_def be_val_to_be_bytes ref_curve_def)

interpretation ref_lib: ecdsa_library ref_curve H ref_from_point "ref_verify H" for H
proof
  fix d :: nat and k sig m
  assume d: "0 < d" "d < cg_order ref_curve"
  have p: "p256_order < 2 ^ 256" by (rule p256_order_bounds(2))
  have d': "d < p256_order" using d by (simp add: ref_curve_def)
  have pt: "ref_from_point (public_key_bytes ref_curve d) = Some d" using d' by (rule ref_from_point_key)
  then show "ref_from_point (public_key_bytes ref_curve d) \<noteq> None" by simp
  assume "ref_from_point (public_key_bytes ref_curve d) = Some k"
  then have k: "k = d" using pt by simp
  have "ref_verify H k sig m \<longleftrightarrow>
      (\<exists>r s. der_parse sig = Some (r, s) \<and> der_signature r s = sig \<and> ecdsa_valid ref_curve d (be_val (H m)) (r, s))"
    using ref_ecdsa_valid [OF d'] by (auto simp: ref_verify_def k Let_def split: option.splits)
  moreover have "ecdsa_valid ref_curve d z (r, s) \<Longrightarrow> der_parse (der_signature r s) = Some (r, s)" for z r s
    using p by (intro der_parse_signature) (auto simp: ecdsa_valid_def ref_curve_def)
  ultimately show "ref_verify H k sig m \<longleftrightarrow>
      (\<exists>r s. sig = der_signature r s \<and> ecdsa_valid ref_curve (smul ref_curve d (cg_base ref_curve)) (be_val (H m)) (r, s))"
    using ref_smul_base [OF d'] by auto
qed

text \<open>
  Signing on the reference group with the nonce 1, or 2 where 1 gives the signature number 0: a signer whose
  signatures the library accepts.
\<close>

definition ref_sign :: "(u8 list \<Rightarrow> u8 list) \<Rightarrow> nat \<Rightarrow> u8 list \<Rightarrow> u8 list" where
  "ref_sign H d m =
     (let z = be_val (H m); k = if (z + d) mod p256_order = 0 then 2 else 1
      in der_signature k ((z + k * d) * ref_inv k mod p256_order))"

lemma ref_equation:
  assumes k: "0 < k" "k < p256_order" and z: "(z + k * d) mod p256_order \<noteq> 0"
  defines "s \<equiv> (z + k * d) * ref_inv k mod p256_order"
  shows "0 < s" "s < p256_order" "(z * ref_inv s + k * ref_inv s * d) mod p256_order = k"
proof -
  let ?n = p256_order and ?t = "z + k * d"
  have n: "0 < ?n" "1 < ?n" using k by simp_all
  have "s * k mod ?n = ?t * (k * ref_inv k mod ?n) mod ?n"
    by (simp add: s_def mod_mult_left_eq mod_mult_right_eq mult.commute mult.left_commute mult.assoc)
  then have sk: "s * k mod ?n = ?t mod ?n" using ref_inv_inverse(2) [OF k] by simp
  show lt: "s < ?n" using n by (simp add: s_def)
  show pos: "0 < s" using sk z by (metis mod_0 mult_0 neq0_conv)
  have "?t * ref_inv s mod ?n = k * (s * ref_inv s mod ?n) mod ?n"
    using sk by (metis mod_mult_left_eq mod_mult_right_eq mult.assoc mult.commute)
  then have "?t * ref_inv s mod ?n = k" using ref_inv_inverse(2) [OF pos lt] k by simp
  then show "(z * ref_inv s + k * ref_inv s * d) mod ?n = k" by (simp add: algebra_simps)
qed

lemma ref_sign_verifies:
  assumes d: "0 < d" "d < p256_order"
  shows "ref_verify H d (ref_sign H d m) m"
proof -
  let ?z = "be_val (H m)" and ?n = p256_order
  define k where "k = (if (?z + d) mod ?n = 0 then 2 else 1 :: nat)"
  define s where "s = (?z + k * d) * ref_inv k mod ?n"
  have n: "2 < ?n" "?n < 2 ^ 256" using p256_order_bounds by simp_all
  have k: "0 < k" "k < ?n" using n by (simp_all add: k_def)
  have "(?z + k * d) mod ?n \<noteq> 0"
  proof (cases "(?z + d) mod ?n = 0")
    case True
    then have "(?z + d + d) mod ?n = d" using d(2) by (metis add_0 mod_add_left_eq mod_less)
    moreover have "?z + k * d = ?z + d + d" using True by (simp add: k_def)
    ultimately show ?thesis using d(1) by (metis less_irrefl)
  qed (simp add: k_def)
  note eq = ref_equation [OF k this, folded s_def]
  have "ref_sign H d m = der_signature k s" by (simp add: ref_sign_def Let_def k_def s_def)
  moreover have "der_parse (der_signature k s) = Some (k, s)" using k eq(2) n by (intro der_parse_signature) simp_all
  ultimately show ?thesis using k eq by (simp add: ref_verify_def Let_def)
qed

lemma py_bind_Inr [simp]: "py_bind m f = Inr v \<longleftrightarrow> (\<exists>x. m = Inr x \<and> f x = Inr v)"
  by (simp add: py_bind_def split: sum.splits)

lemma ok_or_raise_Inr [simp]: "ok_or_raise e m = Inr v \<longleftrightarrow> m = Some v"
  by (simp add: ok_or_raise_def split: option.splits)

lemma bytes_fromhex_Inr: "bytes_fromhex j = Inr bs \<longleftrightarrow> (\<exists>t. j = JString t \<and> py_fromhex t = Some bs)"
  by (cases j) simp_all

definition padded :: "u8 list \<Rightarrow> u8 list" where
  "padded binding = binding @ replicate (128 - length binding) 0"

lemma verify_quote_iff:
  "verify_tarako_quote H V quote binding digest trusted_key_bytes trusted_key = Inr h \<longleftrightarrow>
   length binding \<le> 128 \<and> h = hex_encode (H (digest @ padded binding)) \<and>
   (\<exists>u pk sig der. map_of quote (ascii ''user_data'') = Some (JString u) \<and> py_fromhex u = Some (padded binding) \<and>
      map_of quote (ascii ''public_key'') = Some (JString pk) \<and> py_fromhex pk = Some trusted_key_bytes \<and>
      map_of quote (ascii ''hash'') = Some (JString h) \<and>
      map_of quote (ascii ''signature_der'') = Some (JString sig) \<and> py_fromhex sig = Some der \<and>
      V trusted_key der (digest @ padded binding))"
  unfolding verify_tarako_quote_def Let_def QUOTE_DATA_BYTES_def dict_item_def padded_def [symmetric]
  by (auto simp: bytes_fromhex_Inr split: if_splits)

section \<open>Histories\<close>

text \<open>
  A served request and its reply, with the policy files as they were when it was verified. The
  identifiers of the challenges of a history are different:
  they are 16 random bytes each.
\<close>

datatype v_entry =
    ChallengeEntry json challenge_reply
  | VerifyEntry policy json verify_reply

fun issues :: "ustring \<Rightarrow> v_entry \<Rightarrow> bool" where
  "issues c (ChallengeEntry _ (ChallengeIssued i _ _)) \<longleftrightarrow> i = c"
| "issues c _ \<longleftrightarrow> False"

fun consumes :: "ustring \<Rightarrow> v_entry \<Rightarrow> bool" where
  "consumes c (VerifyEntry _ (JObject d) r) \<longleftrightarrow> dict_get d ''challenge_id'' = JString c \<and> r \<noteq> ChallengeUnknown"
| "consumes c _ \<longleftrightarrow> False"

fun accepts :: "ustring \<Rightarrow> v_entry \<Rightarrow> bool" where
  "accepts c (VerifyEntry _ _ (Accepted res _)) \<longleftrightarrow> ar_challenge_id res = c"
| "accepts c _ \<longleftrightarrow> False"

inductive v_history ::
    "(u8 list \<Rightarrow> u8 list) \<Rightarrow> (u8 list \<Rightarrow> 'k option) \<Rightarrow> ('k \<Rightarrow> u8 list \<Rightarrow> u8 list \<Rightarrow> bool) \<Rightarrow>
     (u8 list \<Rightarrow> u8 list) \<Rightarrow> v_entry list \<Rightarrow> outstanding \<Rightarrow> bool"
  for H from_point V sign where
  start: "v_history H from_point V sign [] Map.empty"
| challenge: "v_history H from_point V sign tr out \<Longrightarrow> \<not> list_ex (issues (hex_encode cid)) tr \<Longrightarrow>
    challenge nonce cid body out = (r, out') \<Longrightarrow>
    v_history H from_point V sign (tr @ [ChallengeEntry body r]) out'"
| verify: "v_history H from_point V sign tr out \<Longrightarrow> verify H from_point V sign P body out = (r, out') \<Longrightarrow>
    v_history H from_point V sign (tr @ [VerifyEntry P body r]) out'"

definition count :: "(v_entry \<Rightarrow> bool) \<Rightarrow> v_entry list \<Rightarrow> nat" where
  "count p tr = length (filter p tr)"

lemma count_simps [simp]: "count p [] = 0" "count p (tr @ [e]) = count p tr + (if p e then 1 else 0)"
  by (simp_all add: count_def)

lemma count_zero: "\<not> list_ex p tr \<Longrightarrow> count p tr = 0"
  by (auto simp: count_def list_ex_iff filter_empty_conv)

text \<open>The two ways a verification request meets the dictionary.\<close>

lemma verify_cases:
  assumes "verify H from_point V sign P body out = (r, out')"
  obtains (ignored) "out' = out" "\<And>c. \<not> consumes c (VerifyEntry P body r)" "\<And>c. \<not> accepts c (VerifyEntry P body r)"
  | (consumed) c where "out c \<noteq> None" "out' = out(c := None)" "\<And>c'. consumes c' (VerifyEntry P body r) \<longleftrightarrow> c' = c"
      "\<And>c'. accepts c' (VerifyEntry P body r) \<Longrightarrow> c' = c"
proof (cases "\<exists>d c e. body = JObject d \<and> dict_get d ''challenge_id'' = JString c \<and> out c = Some e")
  case True
  then obtain d c e where d: "body = JObject d" "dict_get d ''challenge_id'' = JString c" "out c = Some e" by blast
  have out: "out' = out(c := None)" using assms d by (simp add: verify_def)
  have "(\<exists>x. r = EvidenceRefused x) \<or> (\<exists>res sg. r = Accepted res sg \<and> ar_challenge_id res = c)"
    using assms d by (cases "appraise H from_point V P d e") (auto simp: verify_def Let_def)
  then show ?thesis using d by (intro consumed [OF _ out]) auto
next
  case False
  show ?thesis
  proof (cases body)
    case (JObject d)
    show ?thesis
    proof (cases "dict_get d ''challenge_id''")
      case (JString c)
      then show ?thesis using assms False JObject by (intro ignored) (auto simp: verify_def split: option.splits)
    qed (use assms JObject in \<open>auto simp: verify_def intro: ignored\<close>)
  qed (use assms in \<open>auto simp: verify_def intro: ignored\<close>)
qed

lemma challenge_cases:
  assumes "challenge nonce cid body out = (r, out')"
  obtains (refused) "out' = out" "\<And>c. \<not> issues c (ChallengeEntry body r)"
  | (issued) t where "out' = out(hex_encode cid \<mapsto> \<lparr>ch_nonce = hex_encode nonce, ch_request = t\<rparr>)"
      "r = ChallengeIssued (hex_encode cid) (hex_encode nonce) t"
  using assms unfolding challenge_def by (auto split: sum.splits)

text \<open>Every challenge issued was consumed once or is outstanding.\<close>

lemma challenge_accounting:
  "v_history H from_point V sign tr out \<Longrightarrow>
   count (consumes c) tr + (if out c = None then 0 else 1) = count (issues c) tr \<and>
   count (issues c) tr \<le> 1 \<and> count (accepts c) tr \<le> count (consumes c) tr"
proof (induction rule: v_history.induct)
  case (challenge tr out cid nonce body r out')
  from challenge.hyps(3) show ?case
  proof (cases rule: challenge_cases)
    case refused
    then show ?thesis using challenge.IH by simp
  next
    case (issued t)
    then show ?thesis using challenge.IH count_zero [OF challenge.hyps(2)] by (auto split: if_splits)
  qed
next
  case (verify tr out P body r out')
  from verify.hyps(2) show ?case
  proof (cases rule: verify_cases)
    case ignored
    then show ?thesis using verify.IH by simp
  next
    case (consumed c')
    show ?thesis using verify.IH consumed(1-3) consumed(4) [of c] by (cases "c = c'") auto
  qed
qed simp

text \<open>An outstanding challenge was issued with its nonce and request.\<close>

lemma outstanding_issued:
  "v_history H from_point V sign tr out \<Longrightarrow> out c = Some e \<Longrightarrow>
   \<exists>nonce body. ch_nonce e = hex_encode nonce \<and>
     ChallengeEntry body (ChallengeIssued c (ch_nonce e) (ch_request e)) \<in> set tr"
proof (induction rule: v_history.induct)
  case (challenge tr out cid nonce body r out')
  from challenge.hyps(3) show ?case
  proof (cases rule: challenge_cases)
    case refused
    then show ?thesis using challenge.IH challenge.prems by auto
  next
    case (issued t)
    then show ?thesis using challenge.IH challenge.prems by (auto split: if_splits)
  qed
next
  case (verify tr out P body r out')
  from verify.hyps(2) have "out c = Some e"
    by (cases rule: verify_cases) (use verify.prems in \<open>simp_all split: if_splits\<close>)
  then show ?case using verify.IH by auto
qed simp

lemma verify_Accepted:
  assumes "verify H from_point V sign P body out = (Accepted res sg, out')"
  obtains c e d binding digest where "body = JObject d" "dict_get d ''challenge_id'' = JString c"
    "out c = Some e" "out' = out(c := None)"
    "appraise H from_point V P d e = Inr (binding, digest, ar_kernel_hash res)"
    "ar_challenge_id res = c" "ar_digest res = hex_encode digest" "ar_nonce res = ch_nonce e"
    "ar_request res = ch_request e" "ar_request_binding res = hex_encode binding"
    "sg = hex_encode (sign (utf8 (result_text res)))"
  using assms unfolding verify_def
  by (auto simp: Let_def split: json.splits option.splits sum.splits prod.splits)

lemma load_policy_Inr:
  "load_appraisal_policy from_point P = Inr (digest, pk, k) \<longleftrightarrow>
   (\<exists>text. approved_digest P = Some text \<and> py_fromhex (str_strip text) = Some digest) \<and>
   trusted_tak P = Some pk \<and> from_point pk = Some k"
  by (auto simp: load_appraisal_policy_def)

lemma appraise_Inr:
  assumes "appraise H from_point V P d e = Inr (binding, digest, h)" "ch_nonce e = hex_encode nonce"
  obtains quote pk k where "dict_get d ''request'' = JString (ch_request e)" "dict_get d ''nonce'' = JString (ch_nonce e)"
    "dict_get d ''tq'' = JObject quote"
    "binding = make_request_binding H (ch_request e) nonce"
    "load_appraisal_policy from_point P = Inr (digest, pk, k)"
    "verify_tarako_quote H V quote binding digest pk k = Inr h"
  using assms unfolding appraise_def
  by (auto simp: Let_def py_fromhex_encode split: if_splits json.splits)

lemma appraise_iff:
  assumes "ch_nonce e = hex_encode nonce" "load_appraisal_policy from_point P = Inr (digest, pk, k)"
  shows "(\<exists>x. appraise H from_point V P d e = Inr x) \<longleftrightarrow>
    dict_get d ''request'' = JString (ch_request e) \<and> dict_get d ''nonce'' = JString (ch_nonce e) \<and>
    (\<exists>quote. dict_get d ''tq'' = JObject quote \<and>
       (\<exists>h. verify_tarako_quote H V quote (make_request_binding H (ch_request e) nonce) digest pk k = Inr h))"
  using assms unfolding appraise_def
  by (auto simp: Let_def py_fromhex_encode split: if_splits json.splits)

lemma verify_accepts_iff:
  assumes "dict_get d ''challenge_id'' = JString c" "out c = Some e"
  shows "(\<exists>res sg out'. verify H from_point V sign P (JObject d) out = (Accepted res sg, out')) \<longleftrightarrow>
    (\<exists>x. appraise H from_point V P d e = Inr x)"
  using assms by (cases "appraise H from_point V P d e") (auto simp: verify_def Let_def split: prod.splits)

section \<open>A history on the reference library\<close>

definition ref_request :: json where
  "ref_request = JObject [(ascii ''request'', JString (ascii ''GET /''))]"

lemma ref_history:
  "v_history H ref_from_point V sign
     [ChallengeEntry ref_request (ChallengeIssued (hex_encode [1]) (hex_encode n) (ascii ''GET /''))]
     [hex_encode [1] \<mapsto> \<lparr>ch_nonce = hex_encode n, ch_request = ascii ''GET /''\<rparr>]"
proof -
  have "challenge n [1] ref_request Map.empty =
      (ChallengeIssued (hex_encode [1]) (hex_encode n) (ascii ''GET /''),
       [hex_encode [1] \<mapsto> \<lparr>ch_nonce = hex_encode n, ch_request = ascii ''GET /''\<rparr>])"
    by (simp add: challenge_def json_request_value_def ref_request_def dict_get_def) (simp add: ascii_def)
  from v_history.challenge [OF v_history.start _ this] show ?thesis by simp
qed

section \<open>Properties\<close>

text \<open>
  C9. A challenge yields at most one attestation result: in any history of the verifier each
  challenge identifier is issued at most once, every issued challenge is either outstanding or was
  consumed by exactly one verification request, whatever its evidence, and only a request that
  consumed the challenge can be answered with a result for it.
\<close>

theorem challenge_single_use:
  assumes "v_history H from_point V sign tr out"
  shows "count (accepts c) tr \<le> count (consumes c) tr \<and>
    count (consumes c) tr + (if out c = None then 0 else 1) = count (issues c) tr \<and> count (issues c) tr \<le> 1"
  using challenge_accounting [OF assms] by blast

theorem challenge_single_use_witness:
  "count (consumes (hex_encode [1]))
     [ChallengeEntry ref_request (ChallengeIssued (hex_encode [1]) (hex_encode [2]) (ascii ''GET /''))] = 0"
  using challenge_single_use [OF ref_history, of "hex_encode [1]"] by (simp add: count_def)

text \<open>
  C28. The message that the verifier hashes into a request binding says which challenge it is for:
  two pairs of a nonce and a request, any string that a JSON parser returns, that give the same
  message are equal.
\<close>

theorem binding_message_injective:
  assumes "json_decoded t" "json_decoded t'" "binding_message t n = binding_message t' n'"
  shows "t = t' \<and> n = n'"
proof -
  have "py_binding_context (hex_encode n) t = py_binding_context (hex_encode n') t'"
    using assms(3) utf8_ascii_inj [OF binding_context_ascii binding_context_ascii] by (simp add: binding_message_def)
  from binding_context_inj [OF _ _ assms(1,2) this] show ?thesis
    using hex_encode_inj ascii_decoded [OF hex_encode_ascii] by blast
qed

theorem binding_message_injective_witness:
  "binding_message (ascii ''GET /'') [1, 2] \<noteq> binding_message (ascii ''GET /,'') [1, 2]"
  using binding_message_injective [of "ascii ''GET /''" "ascii ''GET /,''" "[1, 2]" "[1, 2]"]
  by (auto simp: ascii_def is_high_def)

end
