(* ===== verification/Attestation.thy ===== *)
theory Attestation
  imports Attester_Service Verifier
begin

text \<open>
  The attester and the verifier together, over the driver: the bodies that
  \<open>src/test/attestation/client.py\<close> passes between them, and the properties of the background check.
\<close>

section \<open>Definitions\<close>

text \<open>
  The bodies of the client's requests to the attester and to the verifier, and what the attester makes
  of the first one.
\<close>

definition client_quote_body :: "pending \<Rightarrow> json" where
  "client_quote_body c =
     JObject [(ascii ''nonce'', JString (ch_nonce c)), (ascii ''request'', JString (ch_request c))]"

definition client_quote_request :: "pending \<Rightarrow> quote_request" where
  "client_quote_request c = \<lparr>qr_request = ch_request c, qr_nonce = ch_nonce c\<rparr>"

lemma client_quote_decoded:
  assumes "list_all scalar_value (ch_request c)" "ch_nonce c = hex_encode nonce"
  shows "decodeQuoteRequest (client_quote_body c) = Some (client_quote_request c)"
  using decode_request [of "ch_nonce c" "ch_request c"] go_string_scalar [OF assms(1)]
    go_string_ascii [OF hex_encode_ascii, of nonce] assms(2)
  by (simp add: client_quote_body_def client_quote_request_def)

definition client_verify_body :: "ustring \<Rightarrow> pending \<Rightarrow> json \<Rightarrow> json" where
  "client_verify_body challenge_id c tq =
     JObject [(ascii ''challenge_id'', JString challenge_id), (ascii ''nonce'', JString (ch_nonce c)),
       (ascii ''request'', JString (ch_request c)), (ascii ''tq'', tq)]"

section \<open>Bindings\<close>

text \<open>The message that the attester hashes.\<close>

definition go_message :: "ustring \<Rightarrow> u8 list \<Rightarrow> u8 list" where
  "go_message request nonce = bindingDomain @ utf8 (go_binding_context (hex_encode nonce) request)"

lemma requestBinding_hex:
  "length nonce = 32 \<Longrightarrow> t \<noteq> [] \<Longrightarrow>
   requestBinding H \<lparr>qr_request = t, qr_nonce = hex_encode nonce\<rparr> = Inr (H (go_message t nonce))"
  by (simp add: requestBinding_def hex_decode_encode go_message_def)

lemma hex_agrees: "list_all json_agrees (hex_encode bs)"
proof (induction bs)
  case (Cons b bs)
  have "json_agrees (hex_digit n)" if "n < 16" for n
    using that by (auto simp: json_agrees_def hex_digit_def)
  then show ?case using Cons byte_nibbles(1) [of b] by (simp add: hex_encode_def hex_byte_def)
qed (simp add: hex_encode_def)

lemma json_string_agrees:
  "list_all json_agrees t \<Longrightarrow> json_string go_json_char t = json_string py_json_char t"
  by (induction t) (simp_all add: json_string_def json_char_agrees)

lemma key_agrees:
  "json_string go_json_char (ascii ''nonce'') = json_string py_json_char (ascii ''nonce'')"
  "json_string go_json_char (ascii ''request'') = json_string py_json_char (ascii ''request'')"
  by (rule json_string_agrees; simp add: ascii_def json_agrees_def)+

lemma messages_agree_iff:
  assumes "list_all (\<lambda>c. c < 0x110000) t"
  shows "go_message t nonce = binding_message t nonce \<longleftrightarrow> list_all json_agrees t"
proof -
  have "go_message t nonce = binding_message t nonce \<longleftrightarrow>
      utf8 (json_string go_json_char t @ ascii ''}'') = utf8 (json_string py_json_char t @ ascii ''}'')"
    by (simp add: go_message_def binding_message_def bindingDomain_def DOMAIN_def go_binding_context_def
        py_binding_context_def py_member_def key_agrees json_string_agrees [OF hex_agrees])
  also have "\<dots> \<longleftrightarrow> list_all json_agrees t"
    using json_bytes_agree_iff [OF assms, of "utf8 ([0x22] @ ascii ''}'')"] by (simp add: json_string_def utf8_def)
  finally show ?thesis .
qed

text \<open>
  C27. The attester and the verifier bind the same message to a challenge exactly if every character
  of the request is one that the two JSON libraries write alike: ASCII up to the tilde except the
  ampersand and the angle brackets, or one of the two Unicode line separators. Then the attester
  computes the binding that the verifier expects; for any other request the two messages differ.
\<close>

theorem binding_agreement:
  assumes "length nonce = 32" "t \<noteq> []" "list_all (\<lambda>c. c < 0x110000) t"
  shows "requestBinding H \<lparr>qr_request = t, qr_nonce = hex_encode nonce\<rparr> = Inr (H (go_message t nonce)) \<and>
    make_request_binding H t nonce = H (binding_message t nonce) \<and>
    (go_message t nonce = binding_message t nonce \<longleftrightarrow> list_all json_agrees t)"
  using requestBinding_hex [OF assms(1,2)] messages_agree_iff [OF assms(3)] by (simp add: make_request_binding_def)

theorem binding_agreement_witness:
  "go_message (ascii ''GET /a'') (replicate 32 7) = binding_message (ascii ''GET /a'') (replicate 32 7) \<and>
   go_message (ascii ''a<b'') (replicate 32 7) \<noteq> binding_message (ascii ''a<b'') (replicate 32 7)"
  using binding_agreement [of "replicate 32 7" "ascii ''GET /a''"] binding_agreement [of "replicate 32 7" "ascii ''a<b''"]
  by (simp add: ascii_def json_agrees_def)

section \<open>Quotes\<close>

lemma go_copy_padded: "length b \<le> 128 \<Longrightarrow> go_copy (replicate 128 0) b = padded b"
  by (simp add: go_copy_def padded_def)

text \<open>
  A quote can be read back: from the bytes that the signing ioctl leaves in the request, the
  attester makes a quote in which the verifier's readers find the user data, the public key and the
  hash, and the DER signature is that of the two numbers.
\<close>

lemma quote_roundtrip:
  assumes "length u = 128" "length h = 32" "length pk = 33" "r < 2 ^ 256" "s < 2 ^ 256"
  shows "\<exists>q der. quote_of pk (sign_data_req_store (u @ h @ to_be_bytes 32 r @ to_be_bytes 32 s @ pk)) = Inr q \<and>
    py_fromhex (q_user_data q) = Some u \<and> py_fromhex (q_public_key q) = Some pk \<and>
    hex_decode (q_hash q) = Some h \<and> py_fromhex (q_signature_der q) = Some der \<and> der_parse der = Some (r, s)"
  using quote_of_response [OF assms] der_parse_signature [OF assms(4,5)]
  by (simp add: py_fromhex_encode hex_decode_encode)

lemma quote_roundtrip_witness:
  "der_parse (der_signature 255 256) = Some (255, 256) \<and> py_fromhex (hex_encode (replicate 33 2)) = Some (replicate 33 2)"
proof -
  have "\<exists>q der. quote_of (replicate 33 2) (sign_data_req_store (replicate 128 0 @ replicate 32 1 @ to_be_bytes 32 255 @
      to_be_bytes 32 256 @ replicate 33 2)) = Inr q \<and> py_fromhex (q_public_key q) = Some (replicate 33 2) \<and>
    py_fromhex (q_signature_der q) = Some der \<and> der_parse der = Some (255, 256)"
    using quote_roundtrip [of "replicate 128 0" "replicate 32 1" "replicate 33 2" 255 256] by auto
  then show ?thesis
    using quote_of_response [of "replicate 128 0" "replicate 32 1" "replicate 33 2" 255 256]
    by (auto simp: py_fromhex_encode)
qed

section \<open>Appraisal of a quote\<close>

context ecdsa_library
begin

text \<open>The verifier on the quote for a key pair, a digest, a padded user data and a valid signature.\<close>

lemma appraisal_iff:
  assumes H: "H = sha256_hash F" and kp: "key_pair_ok C kp"
    and v: "ecdsa_valid C (smul C (vli_val (kp_private kp)) (cg_base C)) (be_val (H (digest @ u))) (r, s)"
    and k: "from_point pk = Some k"
  shows "verify_tarako_quote H V (quote_json (quote_for F kp digest u r s)) b D pk k = Inr h \<longleftrightarrow>
    length b \<le> 128 \<and> u = padded b \<and> pk = kp_pubkey kp \<and> H (D @ u) = H (digest @ u) \<and>
    h = hex_encode (H (digest @ u))"
proof -
  have d: "0 < vli_val (kp_private kp)" "vli_val (kp_private kp) < cg_order C"
    "kp_pubkey kp = public_key_bytes C (vli_val (kp_private kp))"
    using kp by (auto simp: key_pair_ok_def valid_private_def)
  have q: "map_of (quote_json (quote_for F kp digest u r s)) (ascii ''user_data'') = Some (JString (hex_encode u))"
    "map_of (quote_json (quote_for F kp digest u r s)) (ascii ''public_key'') = Some (JString (hex_encode (kp_pubkey kp)))"
    "map_of (quote_json (quote_for F kp digest u r s)) (ascii ''hash'') = Some (JString (hex_encode (H (digest @ u))))"
    "map_of (quote_json (quote_for F kp digest u r s)) (ascii ''signature_der'') =
       Some (JString (hex_encode (der_signature r s)))"
    by (simp_all add: quote_json_def quote_for_def ascii_def H)
  have sig: "V k (der_signature r s) (D @ u)" if "pk = kp_pubkey kp" "H (D @ u) = H (digest @ u)"
    using lib_verify [OF d(1,2), of k "der_signature r s" "D @ u"] k v d(3) that by auto
  show ?thesis
    unfolding verify_quote_iff q using sig hex_encode_inj by (auto simp: py_fromhex_encode)
qed

end

text \<open>The quotes of a module with any history.\<close>

lemma quote_facts:
  assumes kernel: "tarako_kernel F C K" and m: "mod_reachable F K m" and b: "length b \<le> 128"
    and run: "tarakoQuote F K dev pa ra b (m_driver m) = (Ok (Inr q), d')"
  obtains kp w digest r s where "SetOnce_as_ref (d_key (m_driver m)) = Ok (Some kp)" "key_pair_ok C kp"
    "pubkey_event (kp_pubkey kp) \<in> set (w_ima (d_world (m_driver m)))"
    "w_mm w = w_mm (d_world (m_driver m))" "caller_digest F w = Some digest"
    "ecdsa_valid C (smul C (vli_val (kp_private kp)) (cg_base C))
      (be_val (sha256_hash F (digest @ padded b))) (r, s)"
    "q = quote_for F kp digest (padded b) r s"
proof -
  note key = tarako_kernel.reachable_key [OF kernel m]
  obtain kp w digest r s where q: "SetOnce_as_ref (d_key (m_driver m)) = Ok (Some kp)" "key_pair_ok C kp"
      "kp_ima_measured kp" "w_mm w = w_mm (d_world (m_driver m))" "caller_digest F w = Some digest"
      "ecdsa_valid C (smul C (vli_val (kp_private kp)) (cg_base C))
        (be_val (sha256_hash F (digest @ padded b))) (r, s)"
      "q = quote_for F kp digest (padded b) r s"
    using tarako_kernel.quote_describes_signature [OF kernel run key(1,3)] go_copy_padded [OF b] by auto
  moreover have "pubkey_event (kp_pubkey kp) \<in> set (w_ima (d_world (m_driver m)))"
    using key(2) [OF q(1)] q(3) by (simp add: key_logged_def)
  ultimately show ?thesis using that by blast
qed

text \<open>
  C11. The verifier accepts exactly the right quotes of the driver: in a module with any history, if
  the attester returns a quote for a binding of at most 128 bytes, then the key pair in place is
  sound, its public key is in the IMA log, and the executable of the attester has a digest such that the verifier accepts
  the quote for an expected binding, digest and key if and only if the binding pads to the same 128
  bytes, the key is the driver's and the digest has the same hash as the caller's in front of them;
  and it then reports that hash.
\<close>

theorem quote_acceptance:
  assumes lib: "ecdsa_library C (sha256_hash F) from_point V" and kernel: "tarako_kernel F C K"
    and m: "mod_reachable F K m" and b: "length b \<le> 128"
    and run: "tarakoQuote F K dev pa ra b (m_driver m) = (Ok (Inr q), d')"
  shows "\<exists>kp w digest. SetOnce_as_ref (d_key (m_driver m)) = Ok (Some kp) \<and> key_pair_ok C kp \<and>
    pubkey_event (kp_pubkey kp) \<in> set (w_ima (d_world (m_driver m))) \<and>
    w_mm w = w_mm (d_world (m_driver m)) \<and> caller_digest F w = Some digest \<and>
    (\<forall>b' D pk k h. from_point pk = Some k \<longrightarrow>
       (verify_tarako_quote (sha256_hash F) V (quote_json q) b' D pk k = Inr h \<longleftrightarrow>
          length b' \<le> 128 \<and> padded b' = padded b \<and> pk = kp_pubkey kp \<and>
          sha256_hash F (D @ padded b) = sha256_hash F (digest @ padded b) \<and>
          h = hex_encode (sha256_hash F (digest @ padded b))))"
proof -
  from kernel m b run obtain kp w digest r s where q: "SetOnce_as_ref (d_key (m_driver m)) = Ok (Some kp)"
      "key_pair_ok C kp" "pubkey_event (kp_pubkey kp) \<in> set (w_ima (d_world (m_driver m)))"
      "w_mm w = w_mm (d_world (m_driver m))" "caller_digest F w = Some digest"
    and v: "ecdsa_valid C (smul C (vli_val (kp_private kp)) (cg_base C))
      (be_val (sha256_hash F (digest @ padded b))) (r, s)"
    and qe: "q = quote_for F kp digest (padded b) r s"
    by (rule quote_facts)
  have "verify_tarako_quote (sha256_hash F) V (quote_json q) b' D pk k = Inr h \<longleftrightarrow>
      length b' \<le> 128 \<and> padded b' = padded b \<and> pk = kp_pubkey kp \<and>
      sha256_hash F (D @ padded b) = sha256_hash F (digest @ padded b) \<and>
      h = hex_encode (sha256_hash F (digest @ padded b))" if "from_point pk = Some k" for b' D pk k h
    using ecdsa_library.appraisal_iff [OF lib refl q(2) v that] unfolding qe by auto
  with q show ?thesis by blast
qed

section \<open>A quote on the reference kernel\<close>

definition ref_user :: "(usize \<Rightarrow> u8) \<Rightarrow> ref_env driver" where
  "ref_user m = ref_driver True (ref_cell True) (ref_memory m [ref_event] [5])"

lemma ref_user_running: "m_driver ref_running = ref_user (\<lambda>_. 0x41)"
  by (simp add: ref_running_def ref_user_def)

lemma ref_user_mem [simp]: "w_umem (d_world (ref_user m)) = m"
  by (simp add: ref_user_def ref_driver_def ref_memory_def)

lemma ref_store: "store_var a bs (ref_user m) = (Ok (), ref_user (write_umem m a bs))"
  by (simp add: store_var_def ref_user_def ref_driver_def ref_memory_def)

lemma ref_load: "load_var a n (ref_user m) = (Ok (read_umem m a n), ref_user m)"
  by (simp add: load_var_def ref_user_def ref_driver_def ref_memory_def)

lemma ref_open: "\<exists>x. go_open ref_krate dev (ref_user m) = (Ok (Inr x), ref_user m)"
  by (simp add: go_open_def syscall_def in_world_def TarakoDevice_open_def ref_krate_def rust_simps ref_user_def ref_driver_def)

lemma ref_hello: "go_ioctl ref_ffi ref_krate tarakoHello a (ref_user m) = (Ok (Inr 0), ref_user m)"
proof -
  have cmd: "tarakoHello = TARAKO_HELLO ref_krate" by (simp add: tarakoHello_def ref.command_numbers)
  show ?thesis by (simp add: go_ioctl_def syscall_def in_world_def cmd dispatch_hello ref_user_def ref_driver_def)
qed

lemma ref_get: "go_ioctl ref_ffi ref_krate tarakoGetPubkey a (ref_user m) =
  (Ok (Inr 33), ref_user (write_umem m a (public_key_bytes ref_curve 7)))"
proof -
  have cmd: "tarakoGetPubkey = TARAKO_GET_PUBKEY ref_krate" by (simp add: tarakoGetPubkey_def ref.command_numbers)
  have "write_slice ref_krate a 33 (public_key_bytes ref_curve 7) (ref_memory m [ref_event] [5]) =
      (Ok (), ref_memory (write_umem m a (public_key_bytes ref_curve 7)) [ref_event] [5])"
    by (simp add: ref_krate_def ref_write_slice_def ref_mapped_def list_all_iff ref_memory_def)
  then have "handle_get_pubkey ref_krate (ref_cell True) a (TARAKO_GET_PUBKEY ref_krate) (ref_memory m [ref_event] [5]) =
      (Ok 33, ref_memory (write_umem m a (public_key_bytes ref_curve 7)) [ref_event] [5])"
    using ref_cell_ref [of True] ref.command_sizes(1)
    by (simp add: handle_get_pubkey_def bind_def lift_outcome_def ok_or_def ret_def ref_key_pair_def)
  then show ?thesis
    by (simp add: go_ioctl_def syscall_def in_world_def cmd ref.dispatch(1) ref_user_def ref_driver_def)
qed

lemma ref_signs:
  "\<exists>w'. go_ioctl ref_ffi ref_krate tarakoSignData a (ref_user m) = (Ok (Inr 0), (ref_user m)\<lparr>d_world := w'\<rparr>)"
proof -
  have cmd: "tarakoSignData = TARAKO_SIGN_DATA ref_krate" by (simp add: tarakoSignData_def ref.command_numbers)
  obtain w' where "handle_sign_data ref_ffi ref_krate (ref_cell True) a (TARAKO_SIGN_DATA ref_krate)
      (ref_memory m [ref_event] [5]) = (Ok 0, w')" using ref_sign_data by blast
  then show ?thesis
    by (simp add: go_ioctl_def syscall_def in_world_def cmd ref.dispatch(2) ref_user_def ref_driver_def)
qed

lemma ref_quote: "\<exists>q d'. tarakoQuote ref_ffi ref_krate dev pa ra b (m_driver ref_running) = (Ok (Inr q), d')"
proof -
  let ?pk = "public_key_bytes ref_curve 7"
  let ?m4 = "write_umem (write_umem (\<lambda>_. 0x41) pa (replicate 33 0)) pa ?pk"
  let ?m5 = "write_umem ?m4 ra (sign_data_req_bytes (signing_request b))"
  obtain x where opn: "go_open ref_krate dev (ref_user (\<lambda>_. 0x41)) =
      (Ok (Inr x), ref_user (\<lambda>_. 0x41))" using ref_open by blast
  obtain w6 where sign: "go_ioctl ref_ffi ref_krate tarakoSignData ra (ref_user ?m5) =
      (Ok (Inr 0), (ref_user ?m5)\<lparr>d_world := w6\<rparr>)" using ref_signs by blast
  have "SetOnce_as_ref (d_key (ref_user ?m5)) = Ok (Some (ref_key_pair True))"
    by (simp add: ref_user_def ref_driver_def ref_cell_ref)
  with sign obtain w where w: "(ref_user ?m5)\<lparr>d_world := w6\<rparr> = (ref_user ?m5)\<lparr>d_world := w\<rparr>"
    and resp: "signed_response ref_ffi ref_curve (ref_key_pair True) ra (d_world (ref_user ?m5)) w"
    using ref_key_pair_ok by (rule ref.client_sign)
  have "w = w6" using arg_cong [OF w, of d_world] by simp
  moreover have "kp_pubkey (ref_key_pair True) = ?pk" by (simp add: ref_key_pair_def)
  ultimately obtain q where q: "quote_of ?pk (sign_data_req_store (read_umem (w_umem w6) ra 257)) = Inr q"
    using ref.quote_of_signed [OF resp ref_key_pair_ok refl] by auto
  have load: "read_umem ?m4 pa 33 = ?pk"
    using read_write_prefix [of 33 ?pk "write_umem (\<lambda>_. 0x41) pa (replicate 33 0)" pa] by simp
  show ?thesis
    unfolding tarakoQuote_def ref_user_running
    using opn sign q load
    by (simp add: rust_simps expect_def ref_hello ref_store ref_get ref_load load_var_def sign_data_req_size_def)
qed

theorem quote_acceptance_witness:
  "\<exists>q d' digest. tarakoQuote ref_ffi ref_krate 0 64 4096 [1] (m_driver ref_running) = (Ok (Inr q), d') \<and>
     verify_tarako_quote (sha256_hash ref_ffi) (ref_verify (sha256_hash ref_ffi)) (quote_json q) [1] digest
       (public_key_bytes ref_curve 7) 7 = Inr (hex_encode (sha256_hash ref_ffi (digest @ padded [1])))"
proof -
  obtain q d' where run: "tarakoQuote ref_ffi ref_krate 0 64 4096 [1] (m_driver ref_running) = (Ok (Inr q), d')"
    using ref_quote by blast
  have pt: "ref_from_point (public_key_bytes ref_curve 7) = Some 7"
    by (rule ref_from_point_key) (simp add: p256_order_def)
  from quote_acceptance [OF ref_lib.ecdsa_library_axioms ref.tarako_kernel_axioms ref_running_reachable _ run] pt
  show ?thesis using run by (auto simp: ref_running_def ref_driver_def ref_cell_ref ref_key_pair_def)
qed

section \<open>The background check\<close>

lemma strip_newline: "list_all (\<lambda>c. \<not> str_space c) t \<Longrightarrow> str_strip (t @ [10]) = t"
proof -
  assume t: "list_all (\<lambda>c. \<not> str_space c) t"
  have "dropWhile str_space u = u" if "list_all (\<lambda>c. \<not> str_space c) u" for u
    using that by (cases u) simp_all
  then have "dropWhile str_space t = t" "dropWhile str_space (rev t) = rev t" using t by simp_all
  moreover have "str_space 10" by (simp add: str_space_def)
  ultimately show ?thesis using t by (cases t) (simp_all add: str_strip_def dropWhile_append2)
qed

lemma hex_not_space: "list_all (\<lambda>c. \<not> str_space c) (hex_encode bs)"
proof (induction bs)
  case (Cons b bs)
  have "\<not> str_space (hex_digit n)" if "n < 16" for n
    using that by (auto simp: str_space_def hex_digit_def)
  then show ?case using Cons byte_nibbles(1) [of b] by (simp add: hex_encode_def hex_byte_def)
qed (simp add: hex_encode_def)

lemma load_policy_hex:
  "load_appraisal_policy from_point \<lparr>approved_digest = Some (hex_encode digest @ [10]), trusted_tak = Some pk\<rparr> =
     py_bind (ok_or_raise InvalidPoint (from_point pk)) (\<lambda>k. Inr (digest, pk, k))"
  by (simp add: load_appraisal_policy_def strip_newline [OF hex_not_space] py_fromhex_encode py_bind_def ok_or_raise_def)

lemma client_body_gets:
  "dict_get [(ascii ''challenge_id'', a), (ascii ''nonce'', b), (ascii ''request'', c), (ascii ''tq'', d)] ''challenge_id'' = a"
    "dict_get [(ascii ''challenge_id'', a), (ascii ''nonce'', b), (ascii ''request'', c), (ascii ''tq'', d)] ''nonce'' = b"
    "dict_get [(ascii ''challenge_id'', a), (ascii ''nonce'', b), (ascii ''request'', c), (ascii ''tq'', d)] ''request'' = c"
    "dict_get [(ascii ''challenge_id'', a), (ascii ''nonce'', b), (ascii ''request'', c), (ascii ''tq'', d)] ''tq'' = d"
  by (simp_all add: dict_get_def ascii_def)

lemma verify_client_body:
  assumes ch: "out c = Some e" "ch_nonce e = hex_encode nonce"
    and k: "from_point pk = Some k"
    and v: "verify_tarako_quote H V (quote_json q) (make_request_binding H (ch_request e) nonce) digest pk k = Inr h"
  shows "\<exists>res. verify H from_point V sign \<lparr>approved_digest = Some (hex_encode digest @ [10]), trusted_tak = Some pk\<rparr>
      (client_verify_body c e (JObject (quote_json q))) out = (Accepted res (hex_encode (sign (utf8 (result_text res)))), out(c := None)) \<and>
    ar_challenge_id res = c \<and> ar_nonce res = ch_nonce e \<and> ar_request res = ch_request e \<and>
    ar_digest res = hex_encode digest \<and> ar_kernel_hash res = h"
proof -
  have "appraise H from_point V \<lparr>approved_digest = Some (hex_encode digest @ [10]), trusted_tak = Some pk\<rparr>
      [(ascii ''challenge_id'', JString c), (ascii ''nonce'', JString (ch_nonce e)),
       (ascii ''request'', JString (ch_request e)), (ascii ''tq'', JObject (quote_json q))] e =
      Inr (make_request_binding H (ch_request e) nonce, digest, h)"
    using ch(2) k v
    by (simp add: appraise_def client_body_gets load_policy_hex py_fromhex_encode py_bind_def ok_or_raise_def Let_def)
  then show ?thesis
    using ch by (simp add: verify_def client_verify_body_def client_body_gets Let_def)
qed

context ecdsa_library
begin

text \<open>The verifier on what the client passes on, for a quote of the driver and its policy.\<close>

lemma client_accepted:
  assumes H: "H = sha256_hash F" and kp: "key_pair_ok C kp"
    and v: "ecdsa_valid C (smul C (vli_val (kp_private kp)) (cg_base C)) (be_val (H (digest @ padded b))) (r, s)"
    and len: "length b \<le> 128" and ch: "out c = Some e" "ch_nonce e = hex_encode nonce"
    and b: "b = make_request_binding H (ch_request e) nonce"
  shows "\<exists>res. verify H from_point V sign
      \<lparr>approved_digest = Some (hex_encode digest @ [10]), trusted_tak = Some (kp_pubkey kp)\<rparr>
      (client_verify_body c e (JObject (quote_json (quote_for F kp digest (padded b) r s)))) out =
        (Accepted res (hex_encode (sign (utf8 (result_text res)))), out(c := None)) \<and>
    ar_challenge_id res = c \<and> ar_nonce res = ch_nonce e \<and> ar_request res = ch_request e \<and>
    ar_digest res = hex_encode digest"
proof -
  obtain k where k: "from_point (kp_pubkey kp) = Some k"
    using lib_point kp by (auto simp: key_pair_ok_def valid_private_def)
  have "verify_tarako_quote H V (quote_json (quote_for F kp digest (padded b) r s)) b digest (kp_pubkey kp) k =
      Inr (hex_encode (H (digest @ padded b)))"
    using appraisal_iff [OF H kp v k] len by blast
  from verify_client_body [where out = out and c = c and from_point = from_point and sign = sign, OF ch k this [unfolded b]] show ?thesis by (auto simp: b)
qed

end

text \<open>
  The background check up to the verifier's reply: if the attester answers the client's request for
  an outstanding challenge, then under the policy that approves the digest of its executable and
  trusts the key of the driver the verifier accepts what the client passes on.
\<close>

lemma attestation_protocol:
  assumes lib: "ecdsa_library C (sha256_hash F) from_point V" and kernel: "tarako_kernel F C K"
    and m: "mod_reachable F K m"
    and ch: "out c = Some e" "ch_nonce e = hex_encode nonce" "length nonce = 32" "ch_request e \<noteq> []"
      "list_all json_agrees (ch_request e)"
    and run: "quoteHandler F K (sha256_hash F) dev pa ra True (Some (client_quote_request e)) (m_driver m) = (Ok (OK q), d')"
  shows "\<exists>kp w digest res. SetOnce_as_ref (d_key (m_driver m)) = Ok (Some kp) \<and> key_pair_ok C kp \<and>
    pubkey_event (kp_pubkey kp) \<in> set (w_ima (d_world (m_driver m))) \<and>
    w_mm w = w_mm (d_world (m_driver m)) \<and> caller_digest F w = Some digest \<and>
    verify (sha256_hash F) from_point V sign
      \<lparr>approved_digest = Some (hex_encode digest @ [10]), trusted_tak = Some (kp_pubkey kp)\<rparr>
      (client_verify_body c e (JObject (quote_json q))) out = (Accepted res (hex_encode (sign (utf8 (result_text res)))), out(c := None)) \<and>
    ar_challenge_id res = c \<and> ar_nonce res = ch_nonce e \<and> ar_request res = ch_request e \<and>
    ar_digest res = hex_encode digest"
proof -
  let ?H = "sha256_hash F"
  let ?b = "make_request_binding ?H (ch_request e) nonce"
  have "list_all (\<lambda>c. c < 0x110000) (ch_request e)"
    using ch(5) by (rule list.pred_mono_strong) (auto simp: json_agrees_def)
  from messages_agree_iff [OF this, of nonce] requestBinding_hex [OF ch(3,4), of ?H]
  have "requestBinding ?H (client_quote_request e) = Inr ?b"
    using ch(2,5) by (simp add: client_quote_request_def make_request_binding_def)
  then have quote: "tarakoQuote F K dev pa ra ?b (m_driver m) = (Ok (Inr q), d')"
    using run by (auto simp: quoteHandler_def ret_def elim!: bind_OkE split: sum.splits)
  have "sha256_ffi F" using kernel by (simp add: tarako_kernel_def)
  from sha256_ffi.length_sha256_hash [OF this] have "length ?b = 32" by (simp add: make_request_binding_def)
  then have len: "length ?b \<le> 128" by simp
  from kernel m len quote obtain kp w digest r s where kp: "SetOnce_as_ref (d_key (m_driver m)) = Ok (Some kp)"
      "key_pair_ok C kp" "pubkey_event (kp_pubkey kp) \<in> set (w_ima (d_world (m_driver m)))"
      "w_mm w = w_mm (d_world (m_driver m))" "caller_digest F w = Some digest"
    and v: "ecdsa_valid C (smul C (vli_val (kp_private kp)) (cg_base C)) (be_val (?H (digest @ padded ?b))) (r, s)"
    and qe: "q = quote_for F kp digest (padded ?b) r s"
    by (rule quote_facts)
  from ecdsa_library.client_accepted [where out = out and c = c and sign = sign, OF lib refl kp(2) v len ch(1,2) refl] kp qe show ?thesis by blast
qed

text \<open>
  Evidence signed by the private key \<open>d\<close>: the quote in the body has the user data \<open>u\<close>, the public key
  of \<open>d\<close>, the hash of the digest and the user data, and, as its own signature, the DER form of a pair
  that is valid for this hash and key.
\<close>

definition signed_evidence ::
    "'p curve_group \<Rightarrow> (u8 list \<Rightarrow> u8 list) \<Rightarrow> nat \<Rightarrow> u8 list \<Rightarrow> u8 list \<Rightarrow> dict \<Rightarrow> bool" where
  "signed_evidence C H d digest u body \<longleftrightarrow>
     (\<exists>quote ud pk sig r s. dict_get body ''tq'' = JObject quote \<and>
        map_of quote (ascii ''user_data'') = Some (JString ud) \<and> py_fromhex ud = Some u \<and>
        map_of quote (ascii ''public_key'') = Some (JString pk) \<and> py_fromhex pk = Some (public_key_bytes C d) \<and>
        map_of quote (ascii ''hash'') = Some (JString (hex_encode (H (digest @ u)))) \<and>
        map_of quote (ascii ''signature_der'') = Some (JString sig) \<and> py_fromhex sig = Some (der_signature r s) \<and>
        ecdsa_valid C (smul C d (cg_base C)) (be_val (H (digest @ u))) (r, s))"

text \<open>What a body is that the verifier accepted, after a history and under a policy.\<close>

lemma accepted_body:
  assumes hist: "v_history H from_point V sign tr out"
    and run: "verify H from_point V sign P body out = (Accepted res sg, out')"
  obtains dict rb nonce digest pk k quote where "body = JObject dict"
    "dict_get dict ''challenge_id'' = JString (ar_challenge_id res)"
    "dict_get dict ''request'' = JString (ar_request res)" "dict_get dict ''nonce'' = JString (ar_nonce res)"
    "dict_get dict ''tq'' = JObject quote" "ar_nonce res = hex_encode nonce"
    "ChallengeEntry rb (ChallengeIssued (ar_challenge_id res) (ar_nonce res) (ar_request res)) \<in> set tr"
    "out' = out(ar_challenge_id res := None)" "load_appraisal_policy from_point P = Inr (digest, pk, k)"
    "ar_digest res = hex_encode digest"
    "ar_request_binding res = hex_encode (make_request_binding H (ar_request res) nonce)"
    "verify_tarako_quote H V quote (make_request_binding H (ar_request res) nonce) digest pk k = Inr (ar_kernel_hash res)"
proof -
  from run obtain c e dict binding digest where v: "body = JObject dict" "dict_get dict ''challenge_id'' = JString c"
    "out c = Some e" "out' = out(c := None)"
    "appraise H from_point V P dict e = Inr (binding, digest, ar_kernel_hash res)"
    "ar_challenge_id res = c" "ar_digest res = hex_encode digest" "ar_nonce res = ch_nonce e"
    "ar_request res = ch_request e" "ar_request_binding res = hex_encode binding"
    by (rule verify_Accepted)
  obtain nonce rb where i: "ch_nonce e = hex_encode nonce"
    "ChallengeEntry rb (ChallengeIssued c (ch_nonce e) (ch_request e)) \<in> set tr"
    using outstanding_issued [OF hist v(3)] by blast
  from v(5) i(1) obtain quote pk k where "dict_get dict ''request'' = JString (ch_request e)"
    "dict_get dict ''nonce'' = JString (ch_nonce e)" "dict_get dict ''tq'' = JObject quote"
    "binding = make_request_binding H (ch_request e) nonce"
    "load_appraisal_policy from_point P = Inr (digest, pk, k)"
    "verify_tarako_quote H V quote binding digest pk k = Inr (ar_kernel_hash res)"
    by (rule appraise_Inr)
  with v i show ?thesis by (intro that) simp_all
qed

context ecdsa_library
begin

text \<open>The verifier on any quote, for a trusted key of the curve.\<close>

lemma quote_valid_iff:
  assumes d: "0 < d" "d < cg_order C" "from_point (public_key_bytes C d) = Some k" and b: "length b \<le> 128"
  shows "(\<exists>h. verify_tarako_quote H V quote b digest (public_key_bytes C d) k = Inr h) \<longleftrightarrow>
    (\<exists>u pk sig r s. map_of quote (ascii ''user_data'') = Some (JString u) \<and> py_fromhex u = Some (padded b) \<and>
       map_of quote (ascii ''public_key'') = Some (JString pk) \<and> py_fromhex pk = Some (public_key_bytes C d) \<and>
       map_of quote (ascii ''hash'') = Some (JString (hex_encode (H (digest @ padded b)))) \<and>
       map_of quote (ascii ''signature_der'') = Some (JString sig) \<and> py_fromhex sig = Some (der_signature r s) \<and>
       ecdsa_valid C (smul C d (cg_base C)) (be_val (H (digest @ padded b))) (r, s))" (is "?L \<longleftrightarrow> ?R")
proof
  assume ?L
  then obtain u pk sig der where x: "map_of quote (ascii ''user_data'') = Some (JString u)" "py_fromhex u = Some (padded b)"
      "map_of quote (ascii ''public_key'') = Some (JString pk)" "py_fromhex pk = Some (public_key_bytes C d)"
      "map_of quote (ascii ''hash'') = Some (JString (hex_encode (H (digest @ padded b))))"
      "map_of quote (ascii ''signature_der'') = Some (JString sig)" "py_fromhex sig = Some der" "V k der (digest @ padded b)"
    unfolding verify_quote_iff by auto
  then obtain r s where "der = der_signature r s"
      "ecdsa_valid C (smul C d (cg_base C)) (be_val (H (digest @ padded b))) (r, s)"
    using lib_verify [OF d] by blast
  then show ?R using x
    by (intro exI [of _ u] exI [of _ pk] exI [of _ sig] exI [of _ r] exI [of _ s]) simp
next
  assume ?R
  moreover have "V k (der_signature r s) m" if "ecdsa_valid C (smul C d (cg_base C)) (be_val (H m)) (r, s)" for r s m
    using that lib_verify [OF d] by blast
  ultimately show ?L unfolding verify_quote_iff using b by auto
qed

lemma quote_signed:
  assumes d: "0 < d" "d < cg_order C" "from_point (public_key_bytes C d) = Some k"
    and q: "dict_get body ''tq'' = JObject quote"
      "verify_tarako_quote H V quote b digest (public_key_bytes C d) k = Inr h"
  shows "signed_evidence C H d digest (padded b) body"
proof -
  have "length b \<le> 128" using q(2) by (simp add: verify_quote_iff)
  from quote_valid_iff [OF d this, of quote digest] q show ?thesis unfolding signed_evidence_def by blast
qed

end

text \<open>
  C8. What an attestation result attests: if the verifier, after any history, accepts a body under a
  policy whose key is the public key of \<open>d\<close>, then the body repeats the identifier, nonce and request
  of the result, a challenge with these was issued and is now consumed, the result names the policy's
  digest and the binding of that request and nonce, and the quote in the body is signed by \<open>d\<close>: its own
  user data is the padded binding, its own hash that of the digest followed by it, its own public key
  that of \<open>d\<close>, and its own signature a valid one of this hash by \<open>d\<close>.
\<close>

theorem accepted_evidence:
  assumes lib: "ecdsa_library C H from_point V" and hist: "v_history H from_point V sign tr out"
    and run: "verify H from_point V sign P body out = (Accepted res sg, out')"
    and pol: "trusted_tak P = Some (public_key_bytes C d)" "0 < d" "d < cg_order C"
  shows "\<exists>dict nonce digest content request_body. body = JObject dict \<and>
    dict_get dict ''challenge_id'' = JString (ar_challenge_id res) \<and>
    dict_get dict ''request'' = JString (ar_request res) \<and> dict_get dict ''nonce'' = JString (ar_nonce res) \<and>
    ChallengeEntry request_body (ChallengeIssued (ar_challenge_id res) (ar_nonce res) (ar_request res)) \<in> set tr \<and>
    out' (ar_challenge_id res) = None \<and> ar_nonce res = hex_encode nonce \<and>
    approved_digest P = Some content \<and> py_fromhex (str_strip content) = Some digest \<and>
    ar_digest res = hex_encode digest \<and>
    ar_request_binding res = hex_encode (make_request_binding H (ar_request res) nonce) \<and>
    signed_evidence C H d digest (padded (make_request_binding H (ar_request res) nonce)) dict"
proof -
  from hist run obtain dict rb nonce digest pk k quote where b: "body = JObject dict"
    "dict_get dict ''challenge_id'' = JString (ar_challenge_id res)"
    "dict_get dict ''request'' = JString (ar_request res)" "dict_get dict ''nonce'' = JString (ar_nonce res)"
    "ChallengeEntry rb (ChallengeIssued (ar_challenge_id res) (ar_nonce res) (ar_request res)) \<in> set tr"
    "out' = out(ar_challenge_id res := None)" "ar_nonce res = hex_encode nonce"
    "ar_digest res = hex_encode digest"
    "ar_request_binding res = hex_encode (make_request_binding H (ar_request res) nonce)"
    and q: "dict_get dict ''tq'' = JObject quote" "load_appraisal_policy from_point P = Inr (digest, pk, k)"
    "verify_tarako_quote H V quote (make_request_binding H (ar_request res) nonce) digest pk k = Inr (ar_kernel_hash res)"
    by (rule accepted_body)
  have p: "pk = public_key_bytes C d" "from_point (public_key_bytes C d) = Some k"
    using q(2) pol(1) by (auto simp: load_policy_Inr)
  have "signed_evidence C H d digest (padded (make_request_binding H (ar_request res) nonce)) dict"
    using ecdsa_library.quote_signed [OF lib pol(2,3) p(2) q(1)] q(3) p(1) by simp
  moreover obtain content where "approved_digest P = Some content" "py_fromhex (str_strip content) = Some digest"
    using q(2) by (auto simp: load_policy_Inr)
  ultimately show ?thesis using b by (intro exI conjI) simp_all
qed

text \<open>The background check on the reference kernel and library.\<close>

definition ref_challenge :: pending where
  "ref_challenge = \<lparr>ch_nonce = hex_encode (replicate 32 7), ch_request = ascii ''GET /''\<rparr>"

lemma ref_challenge_facts:
  "ch_nonce ref_challenge = hex_encode (replicate 32 7)" "length (replicate 32 (7 :: u8)) = 32"
  "ch_request ref_challenge \<noteq> []" "list_all json_agrees (ch_request ref_challenge)"
  by (simp_all add: ref_challenge_def ascii_def json_agrees_def)

lemma ref_handler:
  "\<exists>q d'. quoteHandler ref_ffi ref_krate H 0 64 4096 True (Some (client_quote_request ref_challenge))
     (m_driver ref_running) = (Ok (OK q), d')"
proof -
  have "requestBinding H (client_quote_request ref_challenge) = Inr (H (go_message (ascii ''GET /'') (replicate 32 7)))"
    using requestBinding_hex [of "replicate 32 7" "ascii ''GET /''" H]
    by (simp add: client_quote_request_def ref_challenge_def ascii_def)
  then show ?thesis
    using ref_quote [of 0 64 4096 "H (go_message (ascii ''GET /'') (replicate 32 7))"]
    by (auto simp: quoteHandler_def rust_simps)
qed

lemma ref_accepted:
  "\<exists>digest q res sg. verify (sha256_hash ref_ffi) ref_from_point (ref_verify (sha256_hash ref_ffi)) sign
     \<lparr>approved_digest = Some (hex_encode digest @ [10]), trusted_tak = Some (public_key_bytes ref_curve 7)\<rparr>
     (client_verify_body (hex_encode [1]) ref_challenge (JObject (quote_json q))) [hex_encode [1] \<mapsto> ref_challenge] = (Accepted res sg, Map.empty)"
proof -
  let ?b = "make_request_binding (sha256_hash ref_ffi) (ch_request ref_challenge) (replicate 32 7)"
  have len: "length ?b \<le> 128" using ref.length_sha256_hash by (simp add: make_request_binding_def)
  obtain q d' where run: "tarakoQuote ref_ffi ref_krate 0 64 4096 ?b (m_driver ref_running) = (Ok (Inr q), d')"
    using ref_quote by blast
  from ref.tarako_kernel_axioms ref_running_reachable len run obtain kp digest r s where
      kp: "SetOnce_as_ref (d_key (m_driver ref_running)) = Ok (Some kp)" "key_pair_ok ref_curve kp"
    and v: "ecdsa_valid ref_curve (smul ref_curve (vli_val (kp_private kp)) (cg_base ref_curve))
      (be_val (sha256_hash ref_ffi (digest @ padded ?b))) (r, s)"
    by (rule quote_facts)
  have "kp_pubkey kp = public_key_bytes ref_curve 7"
    using kp(1) by (auto simp: ref_running_def ref_driver_def ref_cell_ref ref_key_pair_def)
  moreover have "[hex_encode [1] \<mapsto> ref_challenge] (hex_encode [1]) = Some ref_challenge" by simp
  ultimately show ?thesis
    using ref_lib.client_accepted [where out = "[hex_encode [1] \<mapsto> ref_challenge]" and c = "hex_encode [1]"
        and sign = sign, OF refl kp(2) v len _ ref_challenge_facts(1) refl] by fastforce
qed

theorem accepted_evidence_witness:
  "\<exists>digest q. signed_evidence ref_curve (sha256_hash ref_ffi) 7 digest
     (padded (make_request_binding (sha256_hash ref_ffi) (ascii ''GET /'') (replicate 32 7)))
     [(ascii ''challenge_id'', JString (hex_encode [1])), (ascii ''nonce'', JString (hex_encode (replicate 32 7))),
      (ascii ''request'', JString (ascii ''GET /'')), (ascii ''tq'', JObject (quote_json q))]"
proof -
  let ?H = "sha256_hash ref_ffi"
  obtain digest q res sg where run: "verify ?H ref_from_point (ref_verify ?H) (ref_sign ?H 11)
     \<lparr>approved_digest = Some (hex_encode digest @ [10]), trusted_tak = Some (public_key_bytes ref_curve 7)\<rparr>
     (client_verify_body (hex_encode [1]) ref_challenge (JObject (quote_json q))) [hex_encode [1] \<mapsto> ref_challenge] = (Accepted res sg, Map.empty)"
    using ref_accepted by blast
  have d: "0 < (7 :: nat)" "7 < cg_order ref_curve" by (simp_all add: ref_curve_def p256_order_def)
  from accepted_evidence [OF ref_lib.ecdsa_library_axioms ref_history [of _ _ _ "replicate 32 7"], folded ref_challenge_def,
      OF run policy.select_convs(2) d]
  obtain dict nonce digest' where "client_verify_body (hex_encode [1]) ref_challenge (JObject (quote_json q)) = JObject dict"
    "dict_get dict ''request'' = JString (ar_request res)" "dict_get dict ''nonce'' = JString (ar_nonce res)"
    "ar_nonce res = hex_encode nonce"
    "signed_evidence ref_curve ?H 7 digest' (padded (make_request_binding ?H (ar_request res) nonce)) dict"
    by blast
  moreover from this have "ar_request res = ascii ''GET /''" "nonce = replicate 32 7"
    by (auto simp: client_verify_body_def client_body_gets ref_challenge_def dest: hex_encode_inj)
  ultimately show ?thesis by (auto simp: client_verify_body_def ref_challenge_def)
qed

text \<open>
  C10. The verifier accepts exactly the right evidence, whoever made it: under a policy of one digest and
  the public key of \<open>d\<close>, a body that names an outstanding challenge is accepted if and only if it
  repeats the request and nonce of the challenge and has a quote with the binding padded to 128 bytes,
  that public key, the hash of digest and padded binding, and the DER form of a signature of this
  hash that is valid for the key.
\<close>

theorem verify_accepts_exactly:
  assumes lib: "ecdsa_library C H from_point V" and d: "0 < d" "d < cg_order C"
    and pol: "approved_digest P = Some content" "py_fromhex (str_strip content) = Some digest"
      "trusted_tak P = Some (public_key_bytes C d)"
    and ch: "dict_get body ''challenge_id'' = JString c" "out c = Some e" "ch_nonce e = hex_encode nonce"
    and len: "length (make_request_binding H (ch_request e) nonce) \<le> 128"
  shows "(\<exists>res sg out'. verify H from_point V sign P (JObject body) out = (Accepted res sg, out')) \<longleftrightarrow>
    dict_get body ''request'' = JString (ch_request e) \<and> dict_get body ''nonce'' = JString (ch_nonce e) \<and>
    (\<exists>quote. dict_get body ''tq'' = JObject quote \<and> (\<exists>u pk sig r s.
       map_of quote (ascii ''user_data'') = Some (JString u) \<and>
       py_fromhex u = Some (padded (make_request_binding H (ch_request e) nonce)) \<and>
       map_of quote (ascii ''public_key'') = Some (JString pk) \<and> py_fromhex pk = Some (public_key_bytes C d) \<and>
       map_of quote (ascii ''hash'') =
         Some (JString (hex_encode (H (digest @ padded (make_request_binding H (ch_request e) nonce))))) \<and>
       map_of quote (ascii ''signature_der'') = Some (JString sig) \<and> py_fromhex sig = Some (der_signature r s) \<and>
       ecdsa_valid C (smul C d (cg_base C))
         (be_val (H (digest @ padded (make_request_binding H (ch_request e) nonce)))) (r, s)))"
proof -
  obtain k where k: "from_point (public_key_bytes C d) = Some k" using ecdsa_library.lib_point [OF lib d] by blast
  have p: "load_appraisal_policy from_point P = Inr (digest, public_key_bytes C d, k)"
    using pol k by (simp add: load_policy_Inr)
  show ?thesis
    unfolding verify_accepts_iff [where out = out, OF ch(1,2)] appraise_iff [OF ch(3) p]
      ecdsa_library.quote_valid_iff [OF lib d k len] ..
qed

theorem verify_accepts_exactly_witness:
  "\<exists>digest sig r s. py_fromhex sig = Some (der_signature r s) \<and>
     ecdsa_valid ref_curve (smul ref_curve 7 (cg_base ref_curve)) (be_val (sha256_hash ref_ffi
       (digest @ padded (make_request_binding (sha256_hash ref_ffi) (ascii ''GET /'') (replicate 32 7))))) (r, s)"
proof -
  let ?H = "sha256_hash ref_ffi" and ?c = "hex_encode [1]" and ?n = "replicate 32 7 :: u8 list"
  obtain digest q res sg where run: "verify ?H ref_from_point (ref_verify ?H) (\<lambda>m. m)
      \<lparr>approved_digest = Some (hex_encode digest @ [10]), trusted_tak = Some (public_key_bytes ref_curve 7)\<rparr>
      (client_verify_body ?c ref_challenge (JObject (quote_json q))) [?c \<mapsto> ref_challenge] = (Accepted res sg, Map.empty)"
    using ref_accepted by blast
  let ?body = "[(ascii ''challenge_id'', JString ?c), (ascii ''nonce'', JString (ch_nonce ref_challenge)),
    (ascii ''request'', JString (ch_request ref_challenge)), (ascii ''tq'', JObject (quote_json q))]"
  have acc: "\<exists>res sg out'. verify ?H ref_from_point (ref_verify ?H) (\<lambda>m. m)
      \<lparr>approved_digest = Some (hex_encode digest @ [10]), trusted_tak = Some (public_key_bytes ref_curve 7)\<rparr>
      (JObject ?body) [?c \<mapsto> ref_challenge] = (Accepted res sg, out')"
    using run by (auto simp: client_verify_body_def)
  have len: "length (make_request_binding ?H (ch_request ref_challenge) ?n) \<le> 128"
    using ref.length_sha256_hash by (simp add: make_request_binding_def)
  have d: "(0 :: nat) < 7" "7 < cg_order ref_curve" by (simp_all add: ref_curve_def p256_order_def)
  have str: "py_fromhex (str_strip (hex_encode digest @ [10])) = Some digest"
    by (simp add: strip_newline [OF hex_not_space] py_fromhex_encode)
  from acc show ?thesis
    unfolding verify_accepts_exactly [where content = "hex_encode digest @ [10]" and c = ?c and nonce = ?n
        and e = ref_challenge, OF ref_lib.ecdsa_library_axioms d policy.select_convs(1) str policy.select_convs(2)
        client_body_gets(1) fun_upd_same ref_challenge_facts(1) len]
    by (auto simp: ref_challenge_def Let_def)
qed

end
