(* ===== verification/Client.thy ===== *)
theory Client
  imports Attestation
begin

text \<open>
  \<open>src/test/attestation/client.py\<close>: the client that runs the background check. The services it calls
  are arguments of its definitions, functions on a state that return no value where \<open>requests\<close>
  raises; so its soundness holds for any services, and its completeness is stated for the driver, the
  attester and the verifier of this development behind a network that may lose messages. The X.509
  functions of \<open>openssl\<close> and of the \<open>cryptography\<close> package are the record \<open>x509\<close>. The members
  of a challenge are strings, as the verifier sends them.
\<close>

section \<open>Definitions\<close>

subsection \<open>Results and replies of the verifier\<close>

text \<open>The attestation result and the reply of the verifier, as JSON values.\<close>

definition result_json :: "attestation_result \<Rightarrow> dict" where
  "result_json r =
     [(ascii ''accepted'', JBool True), (ascii ''challenge_id'', JString (ar_challenge_id r)),
      (ascii ''digest'', JString (ar_digest r)), (ascii ''kernel_hash'', JString (ar_kernel_hash r)),
      (ascii ''nonce'', JString (ar_nonce r)), (ascii ''request'', JString (ar_request r)),
      (ascii ''request_binding'', JString (ar_request_binding r))]"

definition reply_envelope :: "ustring \<Rightarrow> attestation_result \<Rightarrow> ustring \<Rightarrow> json" where
  "reply_envelope certificate r signature =
     JObject [(ascii ''certificate'', JString certificate), (ascii ''result'', JObject (result_json r)),
       (ascii ''signature'', JString signature)]"

subsection \<open>Checking the reply\<close>

datatype client_error =
    RequestFailed
  | BodyType
  | EncodeError
  | PyError verifier_error
  | OpensslFailed
  | CertificateUnreadable
  | WrongIssuer
  | KeyNotEC
  | BadSignature
  | ResultRejected
  | WrongChallengeId
  | WrongNonce
  | WrongRequest

text \<open>
  \<open>openssl verify -CAfile root certificate\<close>, \<open>load_pem_x509_certificate\<close>, the names, and the
  public key if it is one of an elliptic curve.
\<close>

record ('c, 'k) x509 =
  x_verify :: "u8 list \<Rightarrow> u8 list \<Rightarrow> bool"
  x_load :: "u8 list \<Rightarrow> 'c option"
  x_issuer :: "'c \<Rightarrow> u8 list"
  x_subject :: "'c \<Rightarrow> u8 list"
  x_ec_key :: "'c \<Rightarrow> 'k option"

text \<open>\<open>v[k]\<close> and \<open>v.encode()\<close> on any value.\<close>

fun py_item :: "json \<Rightarrow> string \<Rightarrow> client_error + json" where
  "py_item (JObject d) k = map_sum PyError id (dict_item d k)"
| "py_item _ k = Inl BodyType"

fun py_encode :: "json \<Rightarrow> client_error + u8 list" where
  "py_encode (JString t) = (if list_all scalar_value t then Inr (utf8 t) else Inl EncodeError)"
| "py_encode _ = Inl BodyType"

definition check_result :: "ustring \<Rightarrow> ustring \<Rightarrow> pending \<Rightarrow> json \<Rightarrow> client_error + json" where
  "check_result request challenge_id c result =
     (case result of
        JObject d \<Rightarrow>
          if dict_get d ''accepted'' \<noteq> JBool True then Inl ResultRejected
          else if dict_get d ''challenge_id'' \<noteq> JString challenge_id then Inl WrongChallengeId
          else if dict_get d ''nonce'' \<noteq> JString (ch_nonce c) then Inl WrongNonce
          else if dict_get d ''request'' \<noteq> JString request then Inl WrongRequest
          else Inr result
      | _ \<Rightarrow> Inl BodyType)"

definition check_envelope ::
    "('c, 'k) x509 \<Rightarrow> ('k \<Rightarrow> u8 list \<Rightarrow> u8 list \<Rightarrow> bool) \<Rightarrow> u8 list \<Rightarrow> ustring \<Rightarrow> ustring \<Rightarrow> pending \<Rightarrow>
     json \<Rightarrow> client_error + json" where
  "check_envelope X V root request challenge_id c envelope =
     py_bind (py_item envelope ''certificate'') (\<lambda>certificate.
     py_bind (py_encode certificate) (\<lambda>certificate_pem.
     if \<not> x_verify X root certificate_pem then Inl OpensslFailed
     else
       py_bind (ok_or_raise CertificateUnreadable (x_load X root)) (\<lambda>root_certificate.
       py_bind (ok_or_raise CertificateUnreadable (x_load X certificate_pem)) (\<lambda>verifier_certificate.
       if x_issuer X verifier_certificate \<noteq> x_subject X root_certificate then Inl WrongIssuer
       else
         py_bind (ok_or_raise KeyNotEC (x_ec_key X verifier_certificate)) (\<lambda>verifier_public_key.
         py_bind (py_item envelope ''result'') (\<lambda>result.
         py_bind (py_item envelope ''signature'') (\<lambda>signature.
         py_bind (map_sum PyError id (bytes_fromhex signature)) (\<lambda>signature_bytes.
         if \<not> V verifier_public_key signature_bytes (utf8 (json_dumps result)) then Inl BadSignature
         else check_result request challenge_id c result))))))))"

subsection \<open>The run\<close>

text \<open>Five attempts at a challenge; a status that is no success raises as a lost message does.\<close>

function challenge_attempts ::
    "(nat \<Rightarrow> ustring \<Rightarrow> 's \<Rightarrow> (ustring \<times> pending) option \<times> 's) \<Rightarrow> ustring \<Rightarrow> nat \<Rightarrow> 's \<Rightarrow>
     (client_error + ustring \<times> pending) \<times> 's" where
  "challenge_attempts post request attempt s =
     (case post attempt request s of
        (Some c, s') \<Rightarrow> (Inr c, s')
      | (None, s') \<Rightarrow>
          if 4 \<le> attempt then (Inl RequestFailed, s')
          else challenge_attempts post request (attempt + 1) s')"
  by pat_completeness auto
termination
  by (relation "measure (\<lambda>(post, request, attempt, s). 5 - attempt)") auto

declare challenge_attempts.simps [simp del]

definition request_challenge ::
    "(nat \<Rightarrow> ustring \<Rightarrow> 's \<Rightarrow> (ustring \<times> pending) option \<times> 's) \<Rightarrow> ustring \<Rightarrow> 's \<Rightarrow>
     (client_error + ustring \<times> pending) \<times> 's" where
  "request_challenge post request s = challenge_attempts post request 0 s"

definition client_main ::
    "('c, 'k) x509 \<Rightarrow> ('k \<Rightarrow> u8 list \<Rightarrow> u8 list \<Rightarrow> bool) \<Rightarrow> u8 list \<Rightarrow>
     (nat \<Rightarrow> ustring \<Rightarrow> 's \<Rightarrow> (ustring \<times> pending) option \<times> 's) \<Rightarrow>
     (json \<Rightarrow> 's \<Rightarrow> json option \<times> 's) \<Rightarrow> (json \<Rightarrow> 's \<Rightarrow> json option \<times> 's) \<Rightarrow>
     ustring \<Rightarrow> 's \<Rightarrow> (client_error + json) \<times> 's" where
  "client_main X V root post_challenge post_quote post_verify request s =
     (case request_challenge post_challenge request s of
        (Inl e, s1) \<Rightarrow> (Inl e, s1)
      | (Inr (challenge_id, c), s1) \<Rightarrow>
          (case post_quote (client_quote_body c) s1 of
             (None, s2) \<Rightarrow> (Inl RequestFailed, s2)
           | (Some tq, s2) \<Rightarrow>
               (case post_verify (client_verify_body challenge_id c tq) s2 of
                  (None, s3) \<Rightarrow> (Inl RequestFailed, s3)
                | (Some envelope, s3) \<Rightarrow> (check_envelope X V root request challenge_id c envelope, s3))))"

subsection \<open>The services behind a network\<close>

text \<open>A request arrives and is answered, is lost, or its answer is lost.\<close>

datatype delivery = Delivered | RequestLost | ReplyLost

fun post :: "delivery \<Rightarrow> ('s \<Rightarrow> 'r option \<times> 's) \<Rightarrow> 's \<Rightarrow> 'r option \<times> 's" where
  "post Delivered f s = f s"
| "post RequestLost f s = (None, s)"
| "post ReplyLost f s = (None, snd (f s))"

type_synonym 'd services = "'d \<times> outstanding"

definition challenge_service ::
    "(nat \<Rightarrow> delivery) \<Rightarrow> (nat \<Rightarrow> u8 list) \<Rightarrow> (nat \<Rightarrow> u8 list) \<Rightarrow> nat \<Rightarrow> ustring \<Rightarrow> 'd services \<Rightarrow>
     (ustring \<times> pending) option \<times> 'd services" where
  "challenge_service net nonce cid attempt request =
     post (net attempt) (\<lambda>(d, out).
       case challenge (nonce attempt) (cid attempt) (JObject [(ascii ''request'', JString request)]) out of
         (ChallengeIssued i n t, out') \<Rightarrow> (Some (i, \<lparr>ch_nonce = n, ch_request = t\<rparr>), (d, out'))
       | (ChallengeRefused e, out') \<Rightarrow> (None, (d, out')))"

definition quote_service ::
    "'e ffi \<Rightarrow> 'e krate \<Rightarrow> (u8 list \<Rightarrow> u8 list) \<Rightarrow> device \<Rightarrow> usize \<Rightarrow> usize \<Rightarrow> delivery \<Rightarrow> json \<Rightarrow>
     'e driver services \<Rightarrow> json option \<times> 'e driver services" where
  "quote_service F K H dev pk_addr req_addr net body =
     post net (\<lambda>(d, out).
       case attester_serve F K H dev pk_addr req_addr
           \<lparr>hr_method = ''POST'', hr_path = ''/quote'', hr_body = Some body\<rparr> d of
         (Ok (Served (OK q)), d') \<Rightarrow> (Some (JObject (quote_json q)), (d', out))
       | (_, d') \<Rightarrow> (None, (d', out)))"

definition verify_service ::
    "(u8 list \<Rightarrow> u8 list) \<Rightarrow> (u8 list \<Rightarrow> 'k option) \<Rightarrow> ('k \<Rightarrow> u8 list \<Rightarrow> u8 list \<Rightarrow> bool) \<Rightarrow>
     verifier_config \<Rightarrow> policy \<Rightarrow> delivery \<Rightarrow> json \<Rightarrow> 'd services \<Rightarrow> json option \<times> 'd services" where
  "verify_service H from_point V cfg P net body =
     post net (\<lambda>(d, out).
       case verify H from_point V (vc_sign cfg) P body out of
         (Accepted r sig, out') \<Rightarrow> (Some (reply_envelope (vc_certificate cfg) r sig), (d, out'))
       | (_, out') \<Rightarrow> (None, (d, out')))"

lemma attempt_step:
  "p attempt request s = (Some c, s') \<Longrightarrow> challenge_attempts p request attempt s = (Inr c, s')"
  "p attempt request s = (None, s') \<Longrightarrow> challenge_attempts p request attempt s =
     (if 4 \<le> attempt then (Inl RequestFailed, s') else challenge_attempts p request (attempt + 1) s')"
  by (simp_all add: challenge_attempts.simps [of p request attempt s])

lemma result_dumps: "json_dumps (JObject (result_json r)) = result_text r"
proof -
  have "sort_key fst (map (map_prod id json_dumps) (result_json r)) = map (map_prod id json_dumps) (result_json r)"
    by (simp add: result_json_def ascii_def)
  then show ?thesis
    by (simp add: result_json_def result_text_def member_text_def py_member_def) (simp add: ascii_def)
qed

section \<open>Results of the verifier\<close>

text \<open>The request for a challenge was parsed from JSON.\<close>

fun request_parsed :: "v_entry \<Rightarrow> bool" where
  "request_parsed (ChallengeEntry body r) \<longleftrightarrow> json_ok body"
| "request_parsed (VerifyEntry P body r) \<longleftrightarrow> True"

lemma request_value_decoded: "json_request_value body = Inr t \<Longrightarrow> json_ok body \<Longrightarrow> json_decoded t"
  by (auto simp: json_request_value_def dict_get_def list_all_iff dest!: map_of_SomeD
      split: json.splits option.splits if_splits)

lemma issued_decoded:
  assumes "v_history H from_point V sign tr out" "list_all request_parsed tr"
    "ChallengeEntry body (ChallengeIssued i n t) \<in> set tr"
  shows "json_decoded i \<and> json_decoded n \<and> json_decoded t"
  using assms
proof (induction rule: v_history.induct)
  case (challenge tr out cid nonce b r out')
  note hex = ascii_decoded [OF hex_encode_ascii]
  show ?case
  proof (cases "ChallengeEntry body (ChallengeIssued i n t) \<in> set tr")
    case True
    then show ?thesis using challenge.IH challenge.prems by simp
  next
    case False
    then have "ChallengeIssued i n t = r" "body = b" "json_ok b" using challenge.prems by auto
    then show ?thesis
      using challenge.hyps(3) hex by (auto simp: challenge_def intro: request_value_decoded split: sum.splits)
  qed
qed auto

text \<open>A result in a history was accepted in a state that the history passed through.\<close>

lemma history_accepted:
  assumes "v_history H from_point V sign tr out" "VerifyEntry P body (Accepted res sg) \<in> set tr"
  obtains tr' out' out'' where "v_history H from_point V sign tr' out'" "set tr' \<subseteq> set tr"
    "verify H from_point V sign P body out' = (Accepted res sg, out'')"
proof -
  have "\<exists>tr' out' out''. v_history H from_point V sign tr' out' \<and> set tr' \<subseteq> set tr \<and>
      verify H from_point V sign P body out' = (Accepted res sg, out'')"
    using assms
  proof (induction rule: v_history.induct)
    case (challenge tr out cid nonce b r out')
    then have "VerifyEntry P body (Accepted res sg) \<in> set tr" by simp
    from challenge.IH [OF this] show ?case by fastforce
  next
    case (verify tr out Q b r out')
    show ?case
    proof (cases "VerifyEntry P body (Accepted res sg) \<in> set tr")
      case True
      from verify.IH [OF True] show ?thesis by fastforce
    next
      case False
      then have "Q = P" "b = body" "r = Accepted res sg" using verify.prems by simp_all
      then show ?thesis using verify.hyps by fastforce
    qed
  qed simp
  then show ?thesis using that by blast
qed

text \<open>So what is known of an accepted body holds for every result of a history.\<close>

lemma history_evidence:
  assumes hist: "v_history H from_point V sign tr out" and entry: "VerifyEntry P body (Accepted res sg) \<in> set tr"
  obtains dict rb nonce digest pk k quote where "body = JObject dict"
    "dict_get dict ''challenge_id'' = JString (ar_challenge_id res)"
    "dict_get dict ''request'' = JString (ar_request res)" "dict_get dict ''nonce'' = JString (ar_nonce res)"
    "dict_get dict ''tq'' = JObject quote" "ar_nonce res = hex_encode nonce"
    "ChallengeEntry rb (ChallengeIssued (ar_challenge_id res) (ar_nonce res) (ar_request res)) \<in> set tr"
    "load_appraisal_policy from_point P = Inr (digest, pk, k)" "ar_digest res = hex_encode digest"
    "ar_request_binding res = hex_encode (make_request_binding H (ar_request res) nonce)"
    "verify_tarako_quote H V quote (make_request_binding H (ar_request res) nonce) digest pk k = Inr (ar_kernel_hash res)"
proof -
  obtain tr' out' out'' where h: "v_history H from_point V sign tr' out'" "set tr' \<subseteq> set tr"
    and run: "verify H from_point V sign P body out' = (Accepted res sg, out'')"
    using history_accepted [OF hist entry] .
  from h(1) run show ?thesis by (rule accepted_body) (rule that, use h(2) in auto)
qed

lemma result_plain:
  assumes "v_history H from_point V sign tr out" "list_all request_parsed tr"
    "VerifyEntry P body (Accepted res sg) \<in> set tr"
  shows "list_all (\<lambda>(k, v). json_decoded k \<and> plain_value v) (result_json res)"
proof -
  note hex = ascii_decoded [OF hex_encode_ascii]
  have key: "json_decoded (ascii k)" if "list_all (\<lambda>c. of_char c < (0x80 :: nat)) k" for k
    using that by (intro ascii_decoded) (auto simp: ascii_def list_all_iff)
  have "json_decoded (ar_challenge_id res) \<and> json_decoded (ar_nonce res) \<and> json_decoded (ar_request res) \<and>
      json_decoded (ar_digest res) \<and> json_decoded (ar_kernel_hash res) \<and> json_decoded (ar_request_binding res)"
    using history_evidence [OF assms(1,3)] issued_decoded [OF assms(1,2)] hex verify_quote_iff by metis
  then show ?thesis by (simp add: result_json_def key)
qed

section \<open>Soundness of the client\<close>

lemma map_sum_Inr: "map_sum f id m = Inr v \<longleftrightarrow> m = Inr v"
  by (cases m) simp_all

lemma check_result_Inr:
  "check_result request challenge_id c result = Inr r \<longleftrightarrow>
   r = result \<and> (\<exists>d. result = JObject d \<and> dict_get d ''accepted'' = JBool True \<and>
     dict_get d ''challenge_id'' = JString challenge_id \<and> dict_get d ''nonce'' = JString (ch_nonce c) \<and>
     dict_get d ''request'' = JString request)"
  by (cases result) (auto simp: check_result_def)

lemma py_encode_Inr: "py_encode v = Inr bs \<longleftrightarrow> (\<exists>t. v = JString t \<and> list_all scalar_value t \<and> bs = utf8 t)"
  by (cases v) (auto split: if_splits)

lemma check_envelope_Inr:
  assumes "check_envelope X V root request challenge_id c envelope = Inr result"
  obtains p cert k t sig where "py_item envelope ''certificate'' = Inr (JString p)" "x_verify X root (utf8 p)"
    "x_load X (utf8 p) = Some cert" "x_ec_key X cert = Some k" "py_item envelope ''result'' = Inr result"
    "py_item envelope ''signature'' = Inr (JString t)" "py_fromhex t = Some sig"
    "V k sig (utf8 (json_dumps result))" "check_result request challenge_id c result = Inr result"
  using assms unfolding check_envelope_def
  by (auto simp del: json_dumps.simps simp: check_result_Inr map_sum_Inr bytes_fromhex_Inr py_encode_Inr split: if_splits)

lemma client_main_Inr:
  assumes "client_main X V root post_challenge post_quote post_verify request s = (Inr result, s')"
  obtains challenge_id c s1 body s2 envelope where
    "request_challenge post_challenge request s = (Inr (challenge_id, c), s1)"
    "post_verify body s2 = (Some envelope, s')"
    "check_envelope X V root request challenge_id c envelope = Inr result"
  using assms unfolding client_main_def by (auto split: prod.splits sum.splits option.splits)

text \<open>The text of a result of the verifier says what the result is.\<close>

lemma signed_result:
  assumes "v_history H from_point V sign tr out" "list_all request_parsed tr"
    "VerifyEntry P body (Accepted res sg) \<in> set tr" "json_ok (JObject d)"
    "utf8 (json_dumps (JObject d)) = utf8 (result_text res)"
  shows "map_of d = map_of (result_json res)"
proof -
  note plain = result_plain [OF assms(1-3)]
  have "plain_value v \<Longrightarrow> json_ok v" for v by (cases v) simp_all
  then have ok: "json_ok (JObject (result_json res))" using plain by (auto simp: list_all_iff)
  have "json_dumps (JObject d) = json_dumps (JObject (result_json res))"
    using utf8_ascii_inj [OF dumps_ascii [OF assms(4)] dumps_ascii [OF ok]] assms(5) by (simp only: result_dumps)
  from dumps_object [OF assms(4) plain _ _ this] show ?thesis by (simp add: result_json_def ascii_def)
qed

end
