(* ===== verification/Client_Properties.thy ===== *)
theory Client_Properties
  imports Client
begin

text \<open>
  Properties of the client. Soundness, for any services: what the client accepts, the verifier
  accepted. Completeness, for the driver, the attester and the verifier behind a lossy network: the
  background check succeeds. The verifier's signature scheme and its certificate are parameters.
\<close>

section \<open>Completeness of the steps\<close>

text \<open>
  The certificate of the verifier: it was issued under the root of the client for an elliptic curve
  key, and signatures of the verifier verify under this key.
\<close>

definition certificate_ok ::
    "('c, 'k) x509 \<Rightarrow> ('k \<Rightarrow> u8 list \<Rightarrow> u8 list \<Rightarrow> bool) \<Rightarrow> u8 list \<Rightarrow> ustring \<Rightarrow> (u8 list \<Rightarrow> u8 list) \<Rightarrow> bool" where
  "certificate_ok X V root certificate sign \<longleftrightarrow>
     list_all scalar_value certificate \<and> x_verify X root (utf8 certificate) \<and>
     (\<exists>rc vc k. x_load X root = Some rc \<and> x_load X (utf8 certificate) = Some vc \<and>
        x_issuer X vc = x_subject X rc \<and> x_ec_key X vc = Some k \<and> (\<forall>m. V k (sign m) m))"

text \<open>
  A reply without forgery: if its signature verifies, for the text of its own result and under the
  key of its own certificate, which is one under the root, then the verifier signed that text.
\<close>

definition unforged ::
    "('c, 'k) x509 \<Rightarrow> ('k \<Rightarrow> u8 list \<Rightarrow> u8 list \<Rightarrow> bool) \<Rightarrow> u8 list \<Rightarrow> v_entry list \<Rightarrow> json \<Rightarrow> bool" where
  "unforged X V root tr envelope \<longleftrightarrow>
     (\<forall>p cert k result t sig. py_item envelope ''certificate'' = Inr (JString p) \<longrightarrow> x_verify X root (utf8 p) \<longrightarrow>
        x_load X (utf8 p) = Some cert \<longrightarrow> x_ec_key X cert = Some k \<longrightarrow> py_item envelope ''result'' = Inr result \<longrightarrow>
        py_item envelope ''signature'' = Inr (JString t) \<longrightarrow> py_fromhex t = Some sig \<longrightarrow>
        V k sig (utf8 (json_dumps result)) \<longrightarrow>
        (\<exists>P body res sg. VerifyEntry P body (Accepted res sg) \<in> set tr \<and>
           utf8 (json_dumps result) = utf8 (result_text res)))"

lemma result_gets:
  "dict_get (result_json r) ''accepted'' = JBool True"
  "dict_get (result_json r) ''challenge_id'' = JString (ar_challenge_id r)"
  "dict_get (result_json r) ''nonce'' = JString (ar_nonce r)"
  "dict_get (result_json r) ''request'' = JString (ar_request r)"
  by (simp_all add: dict_get_def result_json_def ascii_def)

lemma envelope_items:
  "py_item (reply_envelope certificate r sig) ''certificate'' = Inr (JString certificate)"
  "py_item (reply_envelope certificate r sig) ''result'' = Inr (JObject (result_json r))"
  "py_item (reply_envelope certificate r sig) ''signature'' = Inr (JString sig)"
  by (simp_all add: reply_envelope_def dict_item_def ok_or_raise_def ascii_def)

lemma check_envelope_ok:
  assumes cert: "certificate_ok X V root certificate sign"
    and r: "ar_challenge_id r = challenge_id" "ar_nonce r = ch_nonce c" "ar_request r = request"
  shows "check_envelope X V root request challenge_id c
      (reply_envelope certificate r (hex_encode (sign (utf8 (result_text r))))) = Inr (JObject (result_json r))"
proof -
  have "check_result request challenge_id c (JObject (result_json r)) = Inr (JObject (result_json r))"
    using r by (simp add: check_result_Inr result_gets)
  then show ?thesis
    using cert unfolding check_envelope_def certificate_ok_def
    by (auto simp del: json_dumps.simps
        simp: envelope_items result_dumps py_fromhex_encode py_bind_def ok_or_raise_def)
qed

lemma challenge_delivered:
  assumes "net a = Delivered" "request \<noteq> []"
  shows "challenge_service net nonce cid a request (d, out) =
    (Some (hex_encode (cid a), \<lparr>ch_nonce = hex_encode (nonce a), ch_request = request\<rparr>),
     (d, out(hex_encode (cid a) \<mapsto> \<lparr>ch_nonce = hex_encode (nonce a), ch_request = request\<rparr>)))"
  using assms by (simp add: challenge_service_def challenge_def json_request_value_def dict_get_def)

lemma challenge_lost:
  assumes "net a \<noteq> Delivered"
  shows "\<exists>out'. challenge_service net nonce cid a request (d, out) = (None, (d, out'))"
  using assms by (cases "net a") (auto simp: challenge_service_def split: prod.splits challenge_reply.splits)

text \<open>The first attempt that is delivered gives the challenge.\<close>

lemma attempts_delivered:
  assumes "b \<le> a" "a \<le> 4" "net a = Delivered" "\<forall>i<a. net i \<noteq> Delivered" "request \<noteq> []"
  shows "\<exists>out'. challenge_attempts (challenge_service net nonce cid) request b (d, out) =
      (Inr (hex_encode (cid a), \<lparr>ch_nonce = hex_encode (nonce a), ch_request = request\<rparr>), (d, out')) \<and>
    out' (hex_encode (cid a)) = Some \<lparr>ch_nonce = hex_encode (nonce a), ch_request = request\<rparr>"
  using assms(1)
proof (induction "a - b" arbitrary: b out)
  case 0
  then have "b = a" by simp
  then show ?case
    using attempt_step(1) [of "challenge_service net nonce cid", OF challenge_delivered [of net a request nonce cid d out]]
      assms by simp
next
  case (Suc n)
  then have b: "b < a" "net b \<noteq> Delivered" "\<not> 4 \<le> b" using assms by auto
  obtain out1 where "challenge_service net nonce cid b request (d, out) = (None, (d, out1))"
    using challenge_lost [of net b nonce cid request d out] b(2) by blast
  from attempt_step(2) [of "challenge_service net nonce cid", OF this] show ?case
    using Suc.hyps(1) [of "b + 1" out1] Suc.hyps(2) b by simp
qed

lemma attempts_lost:
  assumes "\<forall>i\<le>4. net i \<noteq> Delivered" "b \<le> 4"
  shows "\<exists>out'. challenge_attempts (challenge_service net nonce cid) request b (d, out) = (Inl RequestFailed, (d, out'))"
  using assms(2)
proof (induction "4 - b" arbitrary: b out)
  case 0
  have "net b \<noteq> Delivered" using assms(1) 0 by simp
  then obtain out1 where "challenge_service net nonce cid b request (d, out) = (None, (d, out1))"
    using challenge_lost [of net b nonce cid request d out] by blast
  from attempt_step(2) [of "challenge_service net nonce cid", OF this] show ?case using 0 by simp
next
  case (Suc n)
  have "net b \<noteq> Delivered" using assms(1) Suc.prems by simp
  then obtain out1 where "challenge_service net nonce cid b request (d, out) = (None, (d, out1))"
    using challenge_lost [of net b nonce cid request d out] by blast
  from attempt_step(2) [of "challenge_service net nonce cid", OF this] show ?case
    using Suc.hyps(1) [of "b + 1" out1] Suc.hyps(2) by simp
qed

section \<open>Accepted evidence\<close>

lemma history_signed:
  assumes lib: "ecdsa_library C H from_point Vq" and hist: "v_history H from_point Vq sign tr out"
    and entry: "VerifyEntry P body (Accepted res sg) \<in> set tr"
  obtains evidence where "body = JObject evidence" "dict_get evidence ''challenge_id'' = JString (ar_challenge_id res)"
    "dict_get evidence ''nonce'' = JString (ar_nonce res)" "dict_get evidence ''request'' = JString (ar_request res)"
    "\<exists>rb nonce digest pk k.
      ChallengeEntry rb (ChallengeIssued (ar_challenge_id res) (ar_nonce res) (ar_request res)) \<in> set tr \<and>
      ar_nonce res = hex_encode nonce \<and> load_appraisal_policy from_point P = Inr (digest, pk, k) \<and>
      ar_digest res = hex_encode digest \<and>
      (\<forall>d. 0 < d \<and> d < cg_order C \<and> pk = public_key_bytes C d \<longrightarrow>
         signed_evidence C H d digest (padded (make_request_binding H (ar_request res) nonce)) evidence)"
proof -
  from hist entry obtain evidence rb nonce digest pk k quote where b: "body = JObject evidence"
      "dict_get evidence ''challenge_id'' = JString (ar_challenge_id res)"
      "dict_get evidence ''request'' = JString (ar_request res)"
      "dict_get evidence ''nonce'' = JString (ar_nonce res)" "ar_nonce res = hex_encode nonce"
      "ChallengeEntry rb (ChallengeIssued (ar_challenge_id res) (ar_nonce res) (ar_request res)) \<in> set tr"
      "load_appraisal_policy from_point P = Inr (digest, pk, k)" "ar_digest res = hex_encode digest"
    and q: "dict_get evidence ''tq'' = JObject quote"
      "verify_tarako_quote H Vq quote (make_request_binding H (ar_request res) nonce) digest pk k = Inr (ar_kernel_hash res)"
    by (rule history_evidence)
  have "from_point pk = Some k" using b(7) by (simp add: load_policy_Inr)
  then have "\<forall>d. 0 < d \<and> d < cg_order C \<and> pk = public_key_bytes C d \<longrightarrow>
      signed_evidence C H d digest (padded (make_request_binding H (ar_request res) nonce)) evidence"
    using ecdsa_library.quote_signed [OF lib _ _ _ q(1), of _ k] q(2) by blast
  then show ?thesis using b(5-8) by (intro that [OF b(1,2,4,3)]) blast
qed

section \<open>A certificate and a history for the witnesses\<close>

text \<open>The verifier signs with the private key 11 of the reference group, which one certificate is for.\<close>

definition ref_x509 :: "(unit, nat) x509" where
  "ref_x509 = \<lparr>x_verify = (\<lambda>_ pem. pem = utf8 (ascii ''PEM'')), x_load = (\<lambda>_. Some ()), x_issuer = (\<lambda>_. []),
     x_subject = (\<lambda>_. []), x_ec_key = (\<lambda>_. ref_from_point (public_key_bytes ref_curve 11))\<rparr>"

lemma ref_certificate: "certificate_ok ref_x509 (ref_verify H) root (ascii ''PEM'') (ref_sign H 11)"
proof -
  have d: "(0 :: nat) < 11" "11 < p256_order" by (simp_all add: p256_order_def)
  show ?thesis
    using ref_sign_verifies [OF d] ref_from_point_key [OF d(2)]
    by (simp add: certificate_ok_def ref_x509_def) (simp add: ascii_def scalar_value_def)
qed

lemma ref_result:
  obtains digest q res where "v_history (sha256_hash ref_ffi) ref_from_point (ref_verify (sha256_hash ref_ffi)) sign
      [ChallengeEntry ref_request (ChallengeIssued (hex_encode [1]) (ch_nonce ref_challenge) (ch_request ref_challenge)),
       VerifyEntry \<lparr>approved_digest = Some (hex_encode digest @ [10]), trusted_tak = Some (public_key_bytes ref_curve 7)\<rparr>
         (client_verify_body (hex_encode [1]) ref_challenge (JObject (quote_json q)))
         (Accepted res (hex_encode (sign (utf8 (result_text res)))))] Map.empty"
    "ar_challenge_id res = hex_encode [1]" "ar_nonce res = ch_nonce ref_challenge" "ar_request res = ch_request ref_challenge"
proof -
  let ?H = "sha256_hash ref_ffi" and ?n = "replicate 32 7 :: u8 list"
  obtain digest q res sg where run: "verify ?H ref_from_point (ref_verify ?H) sign
      \<lparr>approved_digest = Some (hex_encode digest @ [10]), trusted_tak = Some (public_key_bytes ref_curve 7)\<rparr>
      (client_verify_body (hex_encode [1]) ref_challenge (JObject (quote_json q))) [hex_encode [1] \<mapsto> ref_challenge] =
      (Accepted res sg, Map.empty)" using ref_accepted by blast
  from run obtain c e where r: "[hex_encode [1] \<mapsto> ref_challenge] c = Some e" "ar_challenge_id res = c"
      "ar_nonce res = ch_nonce e" "ar_request res = ch_request e" "sg = hex_encode (sign (utf8 (result_text res)))"
    by (rule verify_Accepted)
  then have ce: "c = hex_encode [1]" "e = ref_challenge" by (auto split: if_splits)
  from v_history.verify [OF ref_history [of ?H _ _ ?n, folded ref_challenge_def] run] r ce show ?thesis
    by (intro that) (simp_all add: ref_challenge_def)
qed

section \<open>Properties\<close>

text \<open>
  C29. Asking for a challenge ends after at most five attempts: for a request that is not empty, the
  client gets the challenge of the first attempt whose message and answer both arrive, and that
  challenge is then outstanding at the verifier; if none of the five does, it fails.
\<close>

theorem challenge_retry:
  assumes "request \<noteq> []"
  shows "case request_challenge (challenge_service net nonce cid) request (d, out) of
      (Inr (i, c), (d', out')) \<Rightarrow> d' = d \<and> out' i = Some c \<and> ch_request c = request \<and>
        (\<exists>a\<le>4. net a = Delivered \<and> (\<forall>b<a. net b \<noteq> Delivered) \<and>
          i = hex_encode (cid a) \<and> ch_nonce c = hex_encode (nonce a))
    | (Inl e, (d', out')) \<Rightarrow> d' = d \<and> e = RequestFailed \<and> (\<forall>a\<le>4. net a \<noteq> Delivered)"
proof (cases "\<exists>a\<le>4. net a = Delivered")
  case True
  define a where "a = (LEAST a. net a = Delivered)"
  have a: "a \<le> 4" "net a = Delivered" "\<forall>b<a. net b \<noteq> Delivered"
    using True Least_le [of "\<lambda>a. net a = Delivered"] LeastI [of "\<lambda>a. net a = Delivered"]
      not_less_Least [of _ "\<lambda>a. net a = Delivered"] unfolding a_def by (blast intro: le_trans)+
  obtain out' where "request_challenge (challenge_service net nonce cid) request (d, out) =
      (Inr (hex_encode (cid a), \<lparr>ch_nonce = hex_encode (nonce a), ch_request = request\<rparr>), (d, out')) \<and>
    out' (hex_encode (cid a)) = Some \<lparr>ch_nonce = hex_encode (nonce a), ch_request = request\<rparr>"
    using attempts_delivered [of 0 a net request nonce cid d out] a assms by (auto simp: request_challenge_def)
  then show ?thesis using a by auto
next
  case False
  then show ?thesis
    using attempts_lost [of net 0 nonce cid request d out] by (auto simp: request_challenge_def)
qed

theorem challenge_retry_witness:
  "\<exists>out'. request_challenge (challenge_service (\<lambda>i. if i = 1 then Delivered else ReplyLost) (\<lambda>i. [word_of_nat i]) (\<lambda>i. [word_of_nat i]))
     (ascii ''GET /'') ((), Map.empty) =
   (Inr (hex_encode [1], \<lparr>ch_nonce = hex_encode [1], ch_request = ascii ''GET /''\<rparr>), ((), out'))"
proof -
  let ?net = "\<lambda>i :: nat. if i = 1 then Delivered else ReplyLost" and ?b = "\<lambda>i. [word_of_nat i :: u8]"
  have "ascii ''GET /'' \<noteq> []" by (simp add: ascii_def)
  from challenge_retry [OF this, where net = ?net and nonce = ?b and cid = ?b and d = "()" and out = Map.empty] show ?thesis
    by (auto split: prod.splits sum.splits if_splits intro!: pending.equality)
qed

text \<open>
  C3. What the client accepts, the verifier accepted. Let the services be any programs, and let no
  reply to the client be forged: carry a signature of its result that verifies under a key certified
  under the client's root, although the verifier did not sign this text. If the client
  ends with a result, then the history of the verifier has a request that it accepted with this very
  result, which is for the challenge and nonce that the client was given and for the request that it
  was started with; that challenge had been issued; the body of the accepted request repeats the
  three; the result names the digest that the policy in force for this request approves; and if the
  key of that policy is the public key of \<open>d\<close>, then the quote in that body is signed by \<open>d\<close>, for this
  digest and the padded binding of the client's request and nonce.
\<close>

theorem client_accepts_genuine:
  assumes lib: "ecdsa_library C H from_point Vq" and hist: "v_history H from_point Vq sign tr out"
    and requests: "list_all request_parsed tr"
    and replies: "\<And>body s envelope s'. post_verify body s = (Some envelope, s') \<Longrightarrow> unforged X V root tr envelope"
    and run: "client_main X V root post_challenge post_quote post_verify request s = (Inr result, s')"
    and parsed: "json_ok result"
  shows "\<exists>i c s1 members P evidence res sg. request_challenge post_challenge request s = (Inr (i, c), s1) \<and>
    VerifyEntry P (JObject evidence) (Accepted res sg) \<in> set tr \<and>
    result = JObject members \<and> map_of members = map_of (result_json res) \<and>
    ar_challenge_id res = i \<and> ar_nonce res = ch_nonce c \<and> ar_request res = request \<and>
    dict_get evidence ''challenge_id'' = JString i \<and> dict_get evidence ''nonce'' = JString (ch_nonce c) \<and>
    dict_get evidence ''request'' = JString request \<and>
    (\<exists>rb nonce digest pk k. ChallengeEntry rb (ChallengeIssued i (ch_nonce c) request) \<in> set tr \<and>
      ch_nonce c = hex_encode nonce \<and> load_appraisal_policy from_point P = Inr (digest, pk, k) \<and>
      ar_digest res = hex_encode digest \<and>
      (\<forall>d. 0 < d \<and> d < cg_order C \<and> pk = public_key_bytes C d \<longrightarrow>
         signed_evidence C H d digest (padded (make_request_binding H request nonce)) evidence))"
proof -
  from run obtain i c s1 body s2 envelope where rc: "request_challenge post_challenge request s = (Inr (i, c), s1)"
    and pv: "post_verify body s2 = (Some envelope, s')"
    and ck: "check_envelope X V root request i c envelope = Inr result" by (rule client_main_Inr)
  from ck obtain p cert k t sig where x: "py_item envelope ''certificate'' = Inr (JString p)" "x_verify X root (utf8 p)"
      "x_load X (utf8 p) = Some cert" "x_ec_key X cert = Some k" "py_item envelope ''result'' = Inr result"
      "py_item envelope ''signature'' = Inr (JString t)" "py_fromhex t = Some sig"
      "V k sig (utf8 (json_dumps result))" and "check_result request i c result = Inr result"
    by (rule check_envelope_Inr)
  then obtain d where d: "result = JObject d" "dict_get d ''challenge_id'' = JString i"
      "dict_get d ''nonce'' = JString (ch_nonce c)" "dict_get d ''request'' = JString request"
    by (auto simp: check_result_Inr)
  obtain P body' res sg where e: "VerifyEntry P body' (Accepted res sg) \<in> set tr"
    and t: "utf8 (json_dumps (JObject d)) = utf8 (result_text res)"
    using replies [OF pv] x d(1) unfolding unforged_def by blast
  have m: "map_of d = map_of (result_json res)" using signed_result [OF hist requests e _ t] parsed d(1) by simp
  then have "dict_get d k = dict_get (result_json res) k" for k by (simp add: dict_get_def)
  then have r: "ar_challenge_id res = i" "ar_nonce res = ch_nonce c" "ar_request res = request"
    using d result_gets [of res] by simp_all
  from lib hist e obtain evidence where b0: "body' = JObject evidence"
      "dict_get evidence ''challenge_id'' = JString (ar_challenge_id res)"
      "dict_get evidence ''nonce'' = JString (ar_nonce res)" "dict_get evidence ''request'' = JString (ar_request res)"
    and signed: "\<exists>rb nonce digest pk k.
      ChallengeEntry rb (ChallengeIssued (ar_challenge_id res) (ar_nonce res) (ar_request res)) \<in> set tr \<and>
      ar_nonce res = hex_encode nonce \<and> load_appraisal_policy from_point P = Inr (digest, pk, k) \<and>
      ar_digest res = hex_encode digest \<and>
      (\<forall>d. 0 < d \<and> d < cg_order C \<and> pk = public_key_bytes C d \<longrightarrow>
         signed_evidence C H d digest (padded (make_request_binding H (ar_request res) nonce)) evidence)"
    by (rule history_signed)
  note b = b0 [unfolded r]
  note e' = e [unfolded b(1)]
  show ?thesis
    by (rule exI [of _ i], rule exI [of _ c], rule exI [of _ s1], rule exI [of _ d], rule exI [of _ P],
        rule exI [of _ evidence], rule exI [of _ res], rule exI [of _ sg])
      (intro conjI rc e' d(1) m r b(2-4) signed [unfolded r])
qed

theorem client_accepts_genuine_witness:
  "\<exists>digest evidence. signed_evidence ref_curve (sha256_hash ref_ffi) 7 digest
     (padded (make_request_binding (sha256_hash ref_ffi) (ascii ''GET /'') (replicate 32 7))) evidence \<and>
     dict_get evidence ''challenge_id'' = JString (hex_encode [1])"
proof -
  let ?H = "sha256_hash ref_ffi"
  obtain digest q res where h: "v_history ?H ref_from_point (ref_verify ?H) (ref_sign ?H 11)
      [ChallengeEntry ref_request (ChallengeIssued (hex_encode [1]) (ch_nonce ref_challenge) (ch_request ref_challenge)),
       VerifyEntry \<lparr>approved_digest = Some (hex_encode digest @ [10]), trusted_tak = Some (public_key_bytes ref_curve 7)\<rparr>
         (client_verify_body (hex_encode [1]) ref_challenge (JObject (quote_json q)))
         (Accepted res (hex_encode (ref_sign ?H 11 (utf8 (result_text res)))))] Map.empty"
    (is "v_history _ _ _ _ ?tr _")
    and r: "ar_challenge_id res = hex_encode [1]" "ar_nonce res = ch_nonce ref_challenge"
      "ar_request res = ch_request ref_challenge" by (rule ref_result)
  let ?env = "reply_envelope (ascii ''PEM'') res (hex_encode (ref_sign ?H 11 (utf8 (result_text res))))"
  let ?pc = "\<lambda>(_ :: nat) (_ :: ustring) (s :: unit). (Some (hex_encode [1], ref_challenge), s)"
  let ?pq = "\<lambda>(_ :: json) (s :: unit). (Some JNull, s)" and ?pv = "\<lambda>(_ :: json) (s :: unit). (Some ?env, s)"
  have p: "list_all request_parsed ?tr" by (simp add: ref_request_def ascii_def is_high_def)
  have u: "unforged ref_x509 (ref_verify ?H) [] ?tr ?env"
    by (auto simp del: json_dumps.simps simp: unforged_def envelope_items result_dumps)
  have rc: "request_challenge ?pc (ch_request ref_challenge) () = (Inr (hex_encode [1], ref_challenge), ())"
    using attempt_step(1) [of ?pc 0 "ch_request ref_challenge" "()"] by (simp add: request_challenge_def)
  have run: "client_main ref_x509 (ref_verify ?H) [] ?pc ?pq ?pv (ch_request ref_challenge) () =
      (Inr (JObject (result_json res)), ())"
    using check_envelope_ok [OF ref_certificate r] rc by (simp add: client_main_def)
  have "list_all (\<lambda>(k, v). json_decoded k \<and> plain_value v) (result_json res)"
    by (rule result_plain [OF h p]) simp
  then have ok: "json_ok (JObject (result_json res))" by (simp add: result_json_def)
  have d: "(0 :: nat) < 7 \<and> 7 < cg_order ref_curve" by (simp add: ref_curve_def p256_order_def)
  from client_accepts_genuine [where post_verify = ?pv, OF ref_lib.ecdsa_library_axioms h p _ run ok] u rc
  obtain P evidence res' sg nonce digest' pk k where e: "VerifyEntry P (JObject evidence) (Accepted res' sg) \<in> set ?tr"
    "dict_get evidence ''challenge_id'' = JString (hex_encode [1])" "ch_nonce ref_challenge = hex_encode nonce"
    "load_appraisal_policy ref_from_point P = Inr (digest', pk, k)"
    "\<forall>d. 0 < d \<and> d < cg_order ref_curve \<and> pk = public_key_bytes ref_curve d \<longrightarrow>
       signed_evidence ref_curve ?H d digest' (padded (make_request_binding ?H (ch_request ref_challenge) nonce)) evidence"
    by auto
  have "pk = public_key_bytes ref_curve 7" using e(1,4) by (auto simp: load_policy_Inr)
  moreover have "nonce = replicate 32 7" using e(3) hex_encode_inj by (metis ref_challenge_facts(1))
  ultimately have "signed_evidence ref_curve ?H 7 digest' (padded (make_request_binding ?H (ascii ''GET /'') (replicate 32 7))) evidence"
    using e(5) d by (simp add: ref_challenge_def)
  then show ?thesis using e(2) by blast
qed

text \<open>
  C2. The background check succeeds end to end. Take a module with any history, a verifier with any
  outstanding challenges, files with an elliptic curve key and a certificate for it under the client's
  root, and a request that both JSON libraries write alike. If one of the five attempts at a challenge
  is delivered and the attester answers the quote request for it, then the verifier starts, the driver's
  key is sound and in the IMA log, the attester's executable has a digest, and, with the policy that
  approves this digest and trusts this key, the client ends with a result for its request, the
  challenge and that digest, and the challenge is consumed.
\<close>

theorem background_check:
  assumes lib: "ecdsa_library C (sha256_hash F) from_point V" and kernel: "tarako_kernel F C K"
    and m: "mod_reachable F K m" and cert: "certificate_ok X Vc root certificate sign"
    and key: "load_key pem = Some (ECKey sign)"
    and net: "a \<le> 4" "net a = Delivered" "\<forall>b<a. net b \<noteq> Delivered"
    and request: "request \<noteq> []" "list_all json_agrees request" and nonce: "length (nonce a) = 32"
    and run: "attester_serve F K (sha256_hash F) dev pa ra \<lparr>hr_method = ''POST'', hr_path = ''/quote'', hr_body =
        Some (client_quote_body \<lparr>ch_nonce = hex_encode (nonce a), ch_request = request\<rparr>)\<rparr> (m_driver m) =
      (Ok (Served (OK q)), d')"
  shows "\<exists>cfg kp w digest res out'. verifier_main load_key (Some certificate) (Some pem) = Inr cfg \<and>
    SetOnce_as_ref (d_key (m_driver m)) = Ok (Some kp) \<and> key_pair_ok C kp \<and>
    pubkey_event (kp_pubkey kp) \<in> set (w_ima (d_world (m_driver m))) \<and>
    w_mm w = w_mm (d_world (m_driver m)) \<and> caller_digest F w = Some digest \<and>
    client_main X Vc root (challenge_service net nonce cid) (quote_service F K (sha256_hash F) dev pa ra Delivered)
      (verify_service (sha256_hash F) from_point V cfg
        \<lparr>approved_digest = Some (hex_encode digest @ [10]), trusted_tak = Some (kp_pubkey kp)\<rparr> Delivered)
      request (m_driver m, out) = (Inr (JObject (result_json res)), (d', out')) \<and>
    ar_request res = request \<and> ar_nonce res = hex_encode (nonce a) \<and> ar_digest res = hex_encode digest \<and>
    ar_challenge_id res = hex_encode (cid a) \<and> out' (hex_encode (cid a)) = None"
proof -
  let ?c = "\<lparr>ch_nonce = hex_encode (nonce a), ch_request = request\<rparr>" and ?i = "hex_encode (cid a)"
  let ?cfg = "\<lparr>vc_certificate = certificate, vc_sign = sign\<rparr>"
  obtain out1 where rc: "request_challenge (challenge_service net nonce cid) request (m_driver m, out) =
      (Inr (?i, ?c), (m_driver m, out1))" and out1: "out1 ?i = Some ?c"
    using attempts_delivered [of 0 a net request nonce cid "m_driver m" out] net request by (auto simp: request_challenge_def)
  have "list_all scalar_value request"
    using request(2) by (rule list.pred_mono_strong) (auto simp: json_agrees_def scalar_value_def)
  then have dec: "decodeQuoteRequest (client_quote_body ?c) = Some (client_quote_request ?c)"
    by (intro client_quote_decoded) simp_all
  have req: "quoteHandler F K (sha256_hash F) dev pa ra True (Some (client_quote_request ?c)) (m_driver m) = (Ok (OK q), d')"
    using run dec quote_path_clean unfolding attester_serve_quote by (auto simp: ret_def elim!: bind_OkE)
  from attestation_protocol [where sign = sign and nonce = "nonce a" and out = out1 and c = ?i and e = ?c, OF lib kernel m out1 _ nonce _ _ req] request
  obtain kp w digest res where k: "SetOnce_as_ref (d_key (m_driver m)) = Ok (Some kp)" "key_pair_ok C kp"
      "pubkey_event (kp_pubkey kp) \<in> set (w_ima (d_world (m_driver m)))"
      "w_mm w = w_mm (d_world (m_driver m))" "caller_digest F w = Some digest"
    and v: "verify (sha256_hash F) from_point V sign
      \<lparr>approved_digest = Some (hex_encode digest @ [10]), trusted_tak = Some (kp_pubkey kp)\<rparr>
      (client_verify_body ?i ?c (JObject (quote_json q))) out1 =
        (Accepted res (hex_encode (sign (utf8 (result_text res)))), out1(?i := None))"
    and r: "ar_challenge_id res = ?i" "ar_nonce res = ch_nonce ?c" "ar_request res = ch_request ?c" "ar_digest res = hex_encode digest"
    by auto
  have ck: "check_envelope X Vc root request ?i ?c
      (reply_envelope certificate res (hex_encode (sign (utf8 (result_text res))))) = Inr (JObject (result_json res))"
    using check_envelope_ok [OF cert r(1,2)] r(3) by simp
  have "client_main X Vc root (challenge_service net nonce cid) (quote_service F K (sha256_hash F) dev pa ra Delivered)
      (verify_service (sha256_hash F) from_point V ?cfg
        \<lparr>approved_digest = Some (hex_encode digest @ [10]), trusted_tak = Some (kp_pubkey kp)\<rparr> Delivered)
      request (m_driver m, out) = (Inr (JObject (result_json res)), (d', out1(?i := None)))"
    using rc run v ck by (simp add: client_main_def quote_service_def verify_service_def)
  moreover have "verifier_main load_key (Some certificate) (Some pem) = Inr ?cfg"
    using key by (simp add: verifier_main_def)
  ultimately show ?thesis using k r by fastforce
qed

theorem background_check_witness:
  "\<exists>digest res s'. client_main ref_x509 (ref_verify (sha256_hash ref_ffi)) [] (challenge_service (\<lambda>i. if i = 1 then Delivered else ReplyLost)
       (\<lambda>_. replicate 32 7) (\<lambda>i. [word_of_nat i]))
     (quote_service ref_ffi ref_krate (sha256_hash ref_ffi) 0 64 4096 Delivered)
     (verify_service (sha256_hash ref_ffi) ref_from_point (ref_verify (sha256_hash ref_ffi))
       \<lparr>vc_certificate = ascii ''PEM'', vc_sign = ref_sign (sha256_hash ref_ffi) 11\<rparr>
       \<lparr>approved_digest = Some (hex_encode digest @ [10]), trusted_tak = Some (public_key_bytes ref_curve 7)\<rparr> Delivered) (ascii ''GET /'') (m_driver ref_running, Map.empty) =
   (Inr (JObject (result_json res)), s')"
proof -
  let ?net = "\<lambda>i :: nat. if i = 1 then Delivered else ReplyLost" and ?sign = "ref_sign (sha256_hash ref_ffi) 11"
  let ?c = "\<lparr>ch_nonce = hex_encode (replicate 32 7), ch_request = ascii ''GET /''\<rparr>"
  have "decodeQuoteRequest (client_quote_body ?c) = Some (client_quote_request ?c)"
    by (rule client_quote_decoded) (simp_all add: ascii_def scalar_value_def)
  then obtain q d' where run: "attester_serve ref_ffi ref_krate (sha256_hash ref_ffi) 0 64 4096
      \<lparr>hr_method = ''POST'', hr_path = ''/quote'', hr_body = Some (client_quote_body ?c)\<rparr> (m_driver ref_running) =
      (Ok (Served (OK q)), d')"
    using ref_handler [of "sha256_hash ref_ffi"] by (auto simp: attester_serve_quote quote_path_clean ref_challenge_def bind_def ret_def)
  have f: "1 \<le> (4 :: nat)" "?net 1 = Delivered" "\<forall>b<1. ?net b \<noteq> Delivered" "ascii ''GET /'' \<noteq> []"
      "list_all json_agrees (ascii ''GET /'')" "length (replicate 32 (7 :: u8)) = 32"
    by (simp_all add: ascii_def json_agrees_def)
  have key: "(\<lambda>_ :: u8 list. Some (ECKey ?sign)) [] = Some (ECKey ?sign)" by simp
  from background_check [where load_key = "\<lambda>_. Some (ECKey ?sign)" and pem = "[]" and nonce = "\<lambda>_. replicate 32 7" and cid = "\<lambda>i. [word_of_nat i]" and out = Map.empty and root = "[]",
      OF ref_lib.ecdsa_library_axioms ref.tarako_kernel_axioms ref_running_reachable ref_certificate key f run]
  show ?thesis by (auto simp: verifier_main_def ref_running_def ref_driver_def ref_cell_ref ref_key_pair_def)
qed

end
