(* ===== verification/Quote_Script.thy ===== *)
theory Quote_Script
  imports Attestation
begin

text \<open>
  \<open>src/test/tarako-quote.py\<close>: the script that installs the attester as a file protected by fs-verity and
  asks it for one quote. The programs and file operations it calls are the record \<open>tools\<close>, on files
  of any type; the installed file, when run, is the attester of \<open>Attester_Service\<close> on the driver. The
  output file and the messages are left out.
\<close>

section \<open>Definitions\<close>

datatype script_error =
    InvalidHex
  | NonceSize
  | NotProtected
  | NotInPath
  | CopyFailed
  | EnableFailed
  | NotEnabled
  | AppMissing
  | AttesterFailed attester_error
  | NoOutput

text \<open>
  \<open>fsverity measure\<close>; \<open>shutil.which\<close>; \<open>mkdir\<close> and \<open>copy2\<close>, with what is then at the path;
  \<open>fsverity enable\<close>, with the file afterwards; and the \<open>mm\<close> of a process that runs the file.
\<close>

record 'f tools =
  t_measure :: "'f \<Rightarrow> bool"
  t_which :: "'f option"
  t_copy :: "'f \<Rightarrow> bool \<times> 'f option"
  t_enable :: "'f \<Rightarrow> bool \<times> 'f"
  t_exec :: "'f \<Rightarrow> mm_struct option option"

definition is_verity_enabled :: "'f tools \<Rightarrow> 'f \<Rightarrow> bool" where
  "is_verity_enabled T f \<longleftrightarrow> t_measure T f"

definition use_existing_app :: "'f tools \<Rightarrow> 'f option \<Rightarrow> script_error + bool" where
  "use_existing_app T app =
     (case app of
        None \<Rightarrow> Inr False
      | Some f \<Rightarrow> if \<not> is_verity_enabled T f then Inl NotProtected else Inr True)"

text \<open>The file at \<open>TARAKO_APP\<close> is the state.\<close>

definition prepare_app :: "'f tools \<Rightarrow> 'f option \<Rightarrow> (script_error + unit) \<times> 'f option" where
  "prepare_app T app =
     (case use_existing_app T app of
        Inl e \<Rightarrow> (Inl e, app)
      | Inr True \<Rightarrow> (Inr (), app)
      | Inr False \<Rightarrow>
          (case t_which T of
             None \<Rightarrow> (Inl NotInPath, app)
           | Some source \<Rightarrow>
               (case t_copy T source of
                  (True, Some f) \<Rightarrow>
                    (case t_enable T f of
                       (False, f') \<Rightarrow> (Inl EnableFailed, Some f')
                     | (True, f') \<Rightarrow>
                         if \<not> is_verity_enabled T f' then (Inl NotEnabled, Some f') else (Inr (), Some f'))
                | (_, app') \<Rightarrow> (Inl CopyFailed, app'))))"

definition parse_nonce :: "u8 list \<Rightarrow> ustring option \<Rightarrow> script_error + u8 list" where
  "parse_nonce random value =
     (case value of
        None \<Rightarrow> Inr random
      | Some t \<Rightarrow>
          (case py_fromhex t of
             None \<Rightarrow> Inl InvalidHex
           | Some nonce \<Rightarrow> if nonce = [] \<or> 128 < length nonce then Inl NonceSize else Inr nonce))"

text \<open>The process of the attester has its own \<open>mm\<close>.\<close>

definition run_app ::
    "'f tools \<Rightarrow> 's ffi \<Rightarrow> 's krate \<Rightarrow> device \<Rightarrow> usize \<Rightarrow> usize \<Rightarrow> u8 list \<Rightarrow> ustring list \<Rightarrow> 'f \<Rightarrow>
     ('s driver, attester_exit) prog" where
  "run_app T F K dev pk_addr req_addr random args f d =
     attester_main F K dev pk_addr req_addr random args (d\<lparr>d_world := (d_world d)\<lparr>w_mm := t_exec T f\<rparr>\<rparr>)"

definition script_main ::
    "'f tools \<Rightarrow> 's ffi \<Rightarrow> 's krate \<Rightarrow> device \<Rightarrow> usize \<Rightarrow> usize \<Rightarrow> u8 list \<Rightarrow> u8 list \<Rightarrow> ustring option \<Rightarrow>
     'f option \<Rightarrow> 's driver \<Rightarrow> (script_error + u8 list \<times> quote_response) outcome \<times> 'f option \<times> 's driver" where
  "script_main T F K dev pk_addr req_addr random random' value app d =
     (case parse_nonce random value of
        Inl e \<Rightarrow> (Ok (Inl e), app, d)
      | Inr nonce \<Rightarrow>
          (case prepare_app T app of
             (Inl e, app') \<Rightarrow> (Ok (Inl e), app', d)
           | (Inr _, None) \<Rightarrow> (Ok (Inl AppMissing), None, d)
           | (Inr _, Some f) \<Rightarrow>
               (case run_app T F K dev pk_addr req_addr random'
                   [ascii ''/var/lib/tarako/tarako-attester'', ascii ''quote'', hex_encode nonce] f d of
                  (Ok (Printed q), d') \<Rightarrow> (Ok (Inr (nonce, q)), Some f, d')
                | (Ok (Fatal e), d') \<Rightarrow> (Ok (Inl (AttesterFailed e)), Some f, d')
                | (Ok Listening, d') \<Rightarrow> (Ok (Inl NoOutput), Some f, d')
                | (Err e, d') \<Rightarrow> (Err e, Some f, d')
                | (Fault b, d') \<Rightarrow> (Fault b, Some f, d'))))"

section \<open>The parts\<close>

lemma parse_nonce_Inr:
  assumes "parse_nonce random value = Inr nonce" "length random = 32"
  shows "0 < length nonce \<and> length nonce \<le> 128 \<and>
    (case value of None \<Rightarrow> nonce = random | Some t \<Rightarrow> py_fromhex t = Some nonce)"
  using assms by (auto simp: parse_nonce_def split: option.splits if_splits)

lemma prepare_app_Inr:
  assumes "prepare_app T app = (Inr (), app')"
  obtains f where "app' = Some f" "is_verity_enabled T f"
  using assms by (auto simp: prepare_app_def use_existing_app_def split: option.splits sum.splits bool.splits
      prod.splits if_splits)

lemma parse_nonce_Inl: "parse_nonce random value = Inl e \<Longrightarrow> e \<in> {InvalidHex, NonceSize}"
  by (auto simp: parse_nonce_def split: option.splits if_splits)

lemma prepare_app_Inl:
  "prepare_app T app = (Inl e, app') \<Longrightarrow> e \<in> {NotProtected, NotInPath, CopyFailed, EnableFailed, NotEnabled}"
  by (auto simp: prepare_app_def use_existing_app_def split: option.splits sum.splits bool.splits prod.splits if_splits)

lemma parse_hex_encode:
  "0 < length nonce \<Longrightarrow> length nonce \<le> 128 \<Longrightarrow> parseUserData (hex_encode nonce) = Inr nonce"
  by (simp add: parseUserData_def hex_decode_encode userDataBytes_def)

text \<open>The attester run by the script goes straight to the quote.\<close>

lemma run_app_quote:
  assumes "0 < length nonce" "length nonce \<le> 128"
  shows "run_app T F K dev pa ra random' [name, ascii ''quote'', hex_encode nonce] f d =
    bind (tarakoQuote F K dev pa ra nonce) (\<lambda>r. ret (case r of Inl e \<Rightarrow> Fatal e | Inr q \<Rightarrow> Printed q))
      (d\<lparr>d_world := (d_world d)\<lparr>w_mm := t_exec T f\<rparr>\<rparr>)"
  using parse_hex_encode [OF assms] by (simp add: run_app_def attester_main_def runQuote_def)

text \<open>A process that starts does not change what the module has been through.\<close>

lemma exec_reachable:
  assumes "mod_reachable F K m"
  shows "mod_reachable F K (m\<lparr>m_driver := (m_driver m)\<lparr>d_world := (d_world (m_driver m))\<lparr>w_mm := mm\<rparr>\<rparr>\<rparr>)"
proof -
  have "mod_step F K m (m\<lparr>m_driver := (m_driver m)\<lparr>d_world := (d_world (m_driver m))\<lparr>w_mm := mm\<rparr>\<rparr>\<rparr>)"
    by (rule mod_step.system) (simp add: system_step_def)
  then show ?thesis using assms unfolding mod_reachable_def by (meson rtranclp.rtrancl_into_rtrancl)
qed

text \<open>The errors of \<open>tarakoQuote\<close> are those of the device.\<close>

lemma expect_InlE:
  assumes "expect call want failed returned rest d = (Ok (Inl e), d')"
  obtains (failed) x where "e = failed x" | (returned) v where "e = returned v"
  | (goes_on) d1 where "rest d1 = (Ok (Inl e), d')"
  using assms unfolding expect_def
  by (auto simp: ret_def elim!: bind_OkE split: sum.splits if_splits)

lemma tarakoQuote_error:
  assumes "tarakoQuote F K dev pa ra b d = (Ok (Inl e), d')"
  shows "e \<notin> {DecodeNonce, NonceLength, RequestEmpty, DecodeUserData, UserDataLength, Usage}"
  using assms unfolding tarakoQuote_def quote_of_def
  by (auto simp: ret_def Let_def elim!: bind_OkE expect_InlE split: sum.splits if_splits)

section \<open>Properties\<close>

text \<open>
  C32. The script quotes its nonce with the protected application: with any tools, in a module with any
  history, it ends without a fault of the driver. If it ends with a quote, then the nonce has 1 to
  128 bytes and is the argument read as hexadecimal, or the 32 random bytes; the application passed
  \<open>fsverity measure\<close>; and the quote is for the padded nonce and the digest of a process that runs this
  application, validly signed by the key of the driver, which is in the IMA log. If the attester
  fails, it is for a reason of the device, never for the argument that the script gave it.
\<close>

theorem script_quote:
  assumes kernel: "tarako_kernel F C K" and m: "mod_reachable F K m" and rnd: "length random = 32"
    and run: "script_main T F K dev pa ra random random' value app (m_driver m) = (r, app', d')"
  shows "case r of
      Ok (Inr (nonce, q)) \<Rightarrow> 0 < length nonce \<and> length nonce \<le> 128 \<and>
        (case value of None \<Rightarrow> nonce = random | Some t \<Rightarrow> py_fromhex t = Some nonce) \<and>
        (\<exists>f kp w digest sr ss. app' = Some f \<and> is_verity_enabled T f \<and>
          SetOnce_as_ref (d_key (m_driver m)) = Ok (Some kp) \<and>
          pubkey_event (kp_pubkey kp) \<in> set (w_ima (d_world (m_driver m))) \<and>
          w_mm w = t_exec T f \<and> caller_digest F w = Some digest \<and>
          ecdsa_valid C (smul C (vli_val (kp_private kp)) (cg_base C))
            (be_val (sha256_hash F (digest @ padded nonce))) (sr, ss) \<and>
          q = quote_for F kp digest (padded nonce) sr ss)
    | Ok (Inl e) \<Rightarrow> e \<noteq> NoOutput \<and> e \<noteq> AppMissing \<and>
        (\<forall>x. e = AttesterFailed x \<longrightarrow>
           x \<notin> {DecodeNonce, NonceLength, RequestEmpty, DecodeUserData, UserDataLength, Usage})
    | _ \<Rightarrow> False"
proof (cases "\<exists>nonce f. parse_nonce random value = Inr nonce \<and> prepare_app T app = (Inr (), Some f)")
  case True
  then obtain nonce f where n: "parse_nonce random value = Inr nonce" and f: "prepare_app T app = (Inr (), Some f)" by blast
  note nonce = parse_nonce_Inr [OF n rnd]
  have v: "is_verity_enabled T f" using prepare_app_Inr [OF f] by auto
  let ?m = "m\<lparr>m_driver := (m_driver m)\<lparr>d_world := (d_world (m_driver m))\<lparr>w_mm := t_exec T f\<rparr>\<rparr>\<rparr>"
  note m' = exec_reachable [OF m, of "t_exec T f"]
  have "prog_post (tarakoQuote F K dev pa ra nonce) (m_driver ?m) (safe_run (m_driver ?m))"
    by (rule tarako_kernel.tarakoQuote_safe [OF kernel tarako_kernel.reachable_key(1,3) [OF kernel m']])
      (simp_all add: kept_def)
  then obtain x d1 where x: "tarakoQuote F K dev pa ra nonce (m_driver ?m) = (Ok x, d1)"
    by (auto simp: prog_post_def safe_run_def prod_eq_iff)
  have app: "run_app T F K dev pa ra random' [ascii ''/var/lib/tarako/tarako-attester'', ascii ''quote'', hex_encode nonce]
      f (m_driver m) = (Ok (case x of Inl e \<Rightarrow> Fatal e | Inr q \<Rightarrow> Printed q), d1)"
    using run_app_quote [of nonce T F K dev pa ra random' _ f "m_driver m"] nonce x by (simp add: rust_simps)
  show ?thesis
  proof (cases x)
    case (Inl e)
    then have "r = Ok (Inl (AttesterFailed e))" using run n f app by (simp add: script_main_def)
    then show ?thesis using tarakoQuote_error [OF x [unfolded Inl]] by simp
  next
    case (Inr q)
    then have r: "r = Ok (Inr (nonce, q))" "app' = Some f" using run n f app by (simp_all add: script_main_def)
    from kernel m' _ x [unfolded Inr] obtain kp w digest sr ss where
        "SetOnce_as_ref (d_key (m_driver ?m)) = Ok (Some kp)" "key_pair_ok C kp"
        "pubkey_event (kp_pubkey kp) \<in> set (w_ima (d_world (m_driver ?m)))"
        "w_mm w = w_mm (d_world (m_driver ?m))" "caller_digest F w = Some digest"
        "ecdsa_valid C (smul C (vli_val (kp_private kp)) (cg_base C))
          (be_val (sha256_hash F (digest @ padded nonce))) (sr, ss)"
        "q = quote_for F kp digest (padded nonce) sr ss"
      by (rule quote_facts) (use nonce in simp)
    then show ?thesis using r nonce v by auto
  qed
next
  case False
  have "\<exists>e. r = Ok (Inl e) \<and> e \<in> {InvalidHex, NonceSize, NotProtected, NotInPath, CopyFailed, EnableFailed, NotEnabled}"
  proof (cases "parse_nonce random value")
    case (Inl e)
    then show ?thesis using run parse_nonce_Inl [OF Inl] by (auto simp: script_main_def)
  next
    case (Inr nonce)
    then obtain e where e: "prepare_app T app = (Inl e, snd (prepare_app T app))"
      using False prepare_app_Inr [of T app "snd (prepare_app T app)"] by (cases "prepare_app T app"; cases "fst (prepare_app T app)") auto
    then have "r = Ok (Inl e)" using run Inr by (simp add: script_main_def split: prod.splits)
    then show ?thesis using prepare_app_Inl [OF e] by auto
  qed
  then show ?thesis by auto
qed

text \<open>The script on the reference kernel, with an application that is in place.\<close>

definition ref_tools :: "unit tools" where
  "ref_tools = \<lparr>t_measure = (\<lambda>_. True), t_which = None, t_copy = (\<lambda>_. (False, None)), t_enable = (\<lambda>f. (True, f)),
     t_exec = (\<lambda>_. w_mm (d_world (m_driver ref_running)))\<rparr>"

theorem script_quote_witness:
  "\<exists>q d' digest r s. script_main ref_tools ref_ffi ref_krate 0 64 4096 (replicate 32 1) [] (Some (ascii ''0a 0b''))
       (Some ()) (m_driver ref_running) = (Ok (Inr ([10, 11], q)), Some (), d') \<and>
     ecdsa_valid ref_curve (smul ref_curve 7 (cg_base ref_curve))
       (be_val (sha256_hash ref_ffi (digest @ padded [10, 11]))) (r, s)"
proof -
  have hex: "py_fromhex (ascii ''0a 0b'') = Some [10, 11]" by (simp add: ascii_def hex_value_def py_space_def)
  obtain q d' where "tarakoQuote ref_ffi ref_krate 0 64 4096 [10, 11] (m_driver ref_running) = (Ok (Inr q), d')"
    using ref_quote by blast
  then have "run_app ref_tools ref_ffi ref_krate 0 64 4096 [] [name, ascii ''quote'', hex_encode [10, 11]] () (m_driver ref_running) =
      (Ok (Printed q), d')" for name
    using run_app_quote [of "[10, 11]" ref_tools ref_ffi ref_krate 0 64 4096 "[]" name "()" "m_driver ref_running"]
    by (simp add: ref_tools_def rust_simps)
  moreover have "prepare_app ref_tools (Some ()) = (Inr (), Some ())"
    by (simp add: prepare_app_def use_existing_app_def is_verity_enabled_def ref_tools_def)
  ultimately have run: "script_main ref_tools ref_ffi ref_krate 0 64 4096 (replicate 32 1) [] (Some (ascii ''0a 0b''))
      (Some ()) (m_driver ref_running) = (Ok (Inr ([10, 11], q)), Some (), d')"
    by (simp add: script_main_def parse_nonce_def hex)
  have "SetOnce_as_ref (d_key (m_driver ref_running)) = Ok (Some (ref_key_pair True))"
    by (simp add: ref_running_def ref_driver_def ref_cell_ref)
  then obtain digest r s where "ecdsa_valid ref_curve (smul ref_curve (vli_val (kp_private (ref_key_pair True))) (cg_base ref_curve))
      (be_val (sha256_hash ref_ffi (digest @ padded [10, 11]))) (r, s)"
    using script_quote [OF ref.tarako_kernel_axioms ref_running_reachable _ run] by auto
  moreover have "vli_val (kp_private (ref_key_pair True)) = 7" by (simp add: ref_key_pair_def vli_val_def)
  ultimately show ?thesis using run by (intro exI conjI) simp_all
qed

end
