(* ===== verification/Ioctl_Steps.thy ===== *)
theory Ioctl_Steps
  imports Tarako_Module
begin

text \<open>
  The ioctls of \<open>src/driver/src/lib.rs\<close> and \<open>ioctl.rs\<close> cut into the steps between which other tasks
  can run. A handler holds a shared reference to the key pair in \<open>KEY_PAIR\<close> from its first step on;
  a step that reads through the reference when the cell does not hold that key pair any more is
  undefined behaviour. An undisturbed call does what \<open>TarakoDevice_ioctl\<close> does.
\<close>

section \<open>Definitions\<close>

text \<open>
  Where a call stands: before the dispatcher; before the public key is written; before the digest of
  the caller is read, before the request is read, before it is signed, before the response is
  written; and the result.
\<close>

datatype ioctl_pc =
    Dispatch u32 usize
  | PubkeyWrite u32 usize key_pair
  | SignDigest u32 usize key_pair
  | SignRead u32 usize key_pair "u8 list"
  | SignCompute u32 usize key_pair "u8 list" sign_data_req
  | SignWrite u32 usize sign_data_req
  | Return "isize outcome"

text \<open>A read through the reference that \<open>as_ref\<close> returned.\<close>

definition use_key :: "key_pair set_once \<Rightarrow> key_pair \<Rightarrow> key_pair outcome" where
  "use_key cell kp = (if so_value cell = Live kp then Ok kp else Fault UndefinedBehaviour)"

definition key_ref :: "key_pair set_once \<Rightarrow> ('s world, key_pair) prog" where
  "key_ref cell = bind (lift_outcome (SetOnce_as_ref cell)) (\<lambda>kp. lift_outcome (ok_or kp ENXIO))"

fun pc_step :: "'s ffi \<Rightarrow> 's krate \<Rightarrow> key_pair set_once \<Rightarrow> ioctl_pc \<Rightarrow> ('s world, ioctl_pc) prog" where
  "pc_step F K cell (Dispatch cmd arg) =
     (if cmd = TARAKO_HELLO K then ret (Return (Ok 0))
      else if cmd = TARAKO_GET_PUBKEY K then bind (key_ref cell) (\<lambda>kp. ret (PubkeyWrite cmd arg kp))
      else if cmd = TARAKO_SIGN_DATA K then
        bind (key_ref cell) (\<lambda>kp. if \<not> kp_ima_measured kp then fail EPERM else ret (SignDigest cmd arg kp))
      else fail ENOTTY)"
| "pc_step F K cell (PubkeyWrite cmd arg kp) =
     (if k_IOC_SIZE K cmd < P256_PUBKEY_BYTES then fail E2BIG
      else
        bind (lift_outcome (use_key cell kp)) (\<lambda>kp.
        bind (write_slice K arg (k_IOC_SIZE K cmd) (kp_pubkey kp)) (\<lambda>_.
        ret (Return (Ok (int P256_PUBKEY_BYTES))))))"
| "pc_step F K cell (SignDigest cmd arg kp) =
     bind (current_exe_fsverity_digest F K) (\<lambda>digest.
     bind (lift_outcome (FsverityDigest_digest digest)) (\<lambda>digest.
     ret (SignRead cmd arg kp digest)))"
| "pc_step F K cell (SignRead cmd arg kp digest) =
     bind (read_sign_data_req K arg (k_IOC_SIZE K cmd)) (\<lambda>req. ret (SignCompute cmd arg kp digest req))"
| "pc_step F K cell (SignCompute cmd arg kp digest req) =
     bind (lift_outcome (build_to_sign digest (req_user_data req))) (\<lambda>to_sign.
     bind (lift_outcome (use_key cell kp)) (\<lambda>kp.
     bind (KeyPair_sign F K kp to_sign) (\<lambda>sig.
     bind (lift_outcome (fill_response (req\<lparr>req_hash := sha256_hash F to_sign\<rparr>) sig (kp_pubkey kp))) (\<lambda>req.
     ret (SignWrite cmd arg req)))))"
| "pc_step F K cell (SignWrite cmd arg req) =
     bind (write_sign_data_req K arg (k_IOC_SIZE K cmd) req) (\<lambda>_. ret (Return (Ok 0)))"
| "pc_step F K cell (Return r) = ret (Return r)"

text \<open>An error or a fault of a step is the result of the call.\<close>

definition pc_next ::
    "'s ffi \<Rightarrow> 's krate \<Rightarrow> key_pair set_once \<Rightarrow> ioctl_pc \<Rightarrow> 's world \<Rightarrow> ioctl_pc \<times> 's world" where
  "pc_next F K cell pc w =
     (case pc_step F K cell pc w of
        (Ok pc', w') \<Rightarrow> (pc', w')
      | (Err e, w') \<Rightarrow> (Return (Err e), w')
      | (Fault b, w') \<Rightarrow> (Return (Fault b), w'))"

fun pc_run ::
    "nat \<Rightarrow> 's ffi \<Rightarrow> 's krate \<Rightarrow> key_pair set_once \<Rightarrow> ioctl_pc \<Rightarrow> 's world \<Rightarrow> ioctl_pc \<times> 's world" where
  "pc_run 0 F K cell pc w = (pc, w)"
| "pc_run (Suc n) F K cell pc w = (let (pc', w') = pc_next F K cell pc w in pc_run n F K cell pc' w')"

section \<open>An undisturbed call\<close>

text \<open>A bound on the steps that a call still has to make.\<close>

fun pc_left :: "ioctl_pc \<Rightarrow> nat" where
  "pc_left (Dispatch cmd arg) = 5"
| "pc_left (SignDigest cmd arg kp) = 4"
| "pc_left (SignRead cmd arg kp digest) = 3"
| "pc_left (SignCompute cmd arg kp digest req) = 2"
| "pc_left (SignWrite cmd arg req) = 1"
| "pc_left (PubkeyWrite cmd arg kp) = 1"
| "pc_left (Return r) = 0"

text \<open>The rest of a call as one program.\<close>

function pc_rest :: "'s ffi \<Rightarrow> 's krate \<Rightarrow> key_pair set_once \<Rightarrow> ioctl_pc \<Rightarrow> ('s world, isize) prog" where
  "pc_rest F K cell (Return r) = lift_outcome r"
| "pc_rest F K cell (SignWrite cmd arg req) =
     bind (write_sign_data_req K arg (k_IOC_SIZE K cmd) req) (\<lambda>_. ret 0)"
| "pc_rest F K cell (SignCompute cmd arg kp digest req) =
     bind (lift_outcome (build_to_sign digest (req_user_data req))) (\<lambda>to_sign.
     bind (KeyPair_sign F K kp to_sign) (\<lambda>sig.
     bind (lift_outcome (fill_response (req\<lparr>req_hash := sha256_hash F to_sign\<rparr>) sig (kp_pubkey kp))) (\<lambda>req.
     bind (write_sign_data_req K arg (k_IOC_SIZE K cmd) req) (\<lambda>_. ret 0))))"
| "pc_rest F K cell (SignRead cmd arg kp digest) =
     bind (read_sign_data_req K arg (k_IOC_SIZE K cmd)) (\<lambda>req. pc_rest F K cell (SignCompute cmd arg kp digest req))"
| "pc_rest F K cell (SignDigest cmd arg kp) =
     bind (current_exe_fsverity_digest F K) (\<lambda>digest.
     bind (lift_outcome (FsverityDigest_digest digest)) (\<lambda>digest.
     pc_rest F K cell (SignRead cmd arg kp digest)))"
| "pc_rest F K cell (PubkeyWrite cmd arg kp) =
     (if k_IOC_SIZE K cmd < P256_PUBKEY_BYTES then fail E2BIG
      else bind (write_slice K arg (k_IOC_SIZE K cmd) (kp_pubkey kp)) (\<lambda>_. ret (int P256_PUBKEY_BYTES)))"
| "pc_rest F K cell (Dispatch cmd arg) = TarakoDevice_ioctl F K cell cmd arg"
  by pat_completeness auto

termination
  by (relation "measure (\<lambda>(F, K, cell, pc). pc_left pc)") simp_all

text \<open>The references that a call holds are good.\<close>

fun pc_key :: "ioctl_pc \<Rightarrow> key_pair option" where
  "pc_key (PubkeyWrite cmd arg kp) = Some kp"
| "pc_key (SignDigest cmd arg kp) = Some kp"
| "pc_key (SignRead cmd arg kp digest) = Some kp"
| "pc_key (SignCompute cmd arg kp digest req) = Some kp"
| "pc_key _ = None"

definition refs_ok :: "key_pair set_once \<Rightarrow> ioctl_pc \<Rightarrow> bool" where
  "refs_ok cell pc \<longleftrightarrow> (\<forall>kp. pc_key pc = Some kp \<longrightarrow> so_value cell = Live kp)"

lemma as_ref_live: "SetOnce_as_ref cell = Ok (Some kp) \<Longrightarrow> so_value cell = Live kp"
  by (auto simp: SetOnce_as_ref_def split: if_splits storage.splits)

lemma key_ref_apply:
  "key_ref cell w = (case SetOnce_as_ref cell of
     Ok (Some kp) \<Rightarrow> (Ok kp, w) | Ok None \<Rightarrow> (Err ENXIO, w) | Err e \<Rightarrow> (Err e, w) | Fault b \<Rightarrow> (Fault b, w))"
  by (auto simp: key_ref_def bind_def lift_outcome_def ok_or_def split: outcome.splits option.splits)

text \<open>A step decreases the bound, keeps the references good and keeps the rest of the call.\<close>

lemma pc_next_left:
  assumes "pc_next F K cell pc w = (pc', w')" "pc_left pc = Suc n"
  shows "pc_left pc' \<le> n"
  using assms
  by (cases pc) (auto simp: pc_next_def bind_def lift_outcome_def ret_def fail_def key_ref_apply
      split: prod.splits outcome.splits option.splits if_splits)

lemma pc_next_rest:
  assumes "refs_ok cell pc" "pc_next F K cell pc w = (pc', w')"
  shows "refs_ok cell pc' \<and> pc_rest F K cell pc w = pc_rest F K cell pc' w'"
proof (cases pc)
  case (Dispatch cmd arg)
  then show ?thesis
    using assms(2) as_ref_live [of cell]
    by (auto simp: pc_next_def bind_def lift_outcome_def ret_def fail_def key_ref_apply refs_ok_def
        TarakoDevice_ioctl_def handle_get_pubkey_def handle_sign_data_def ok_or_def Let_def
        split: outcome.splits option.splits if_splits)
qed (use assms in \<open>auto simp: pc_next_def bind_def lift_outcome_def ret_def fail_def refs_ok_def use_key_def
      split: prod.splits outcome.splits if_splits\<close>)

lemma pc_run_rest:
  "refs_ok cell pc \<Longrightarrow> pc_left pc \<le> n \<Longrightarrow> pc_rest F K cell pc w = (r, w') \<Longrightarrow> pc_run n F K cell pc w = (Return r, w')"
proof (induction n arbitrary: pc w)
  case 0
  then show ?case by (cases pc) (auto simp: lift_outcome_def)
next
  case (Suc n)
  obtain pc1 w1 where nx: "pc_next F K cell pc w = (pc1, w1)" by fastforce
  have "pc_left pc1 \<le> n"
  proof (cases "pc_left pc")
    case 0
    then show ?thesis using nx by (cases pc) (auto simp: pc_next_def ret_def)
  next
    case (Suc k)
    then show ?thesis using pc_next_left [OF nx Suc] Suc.prems by simp
  qed
  then show ?case using Suc nx pc_next_rest [OF Suc.prems(1) nx] by simp
qed

end
