(* ===== verification/Concurrent_Device.thy ===== *)
theory Concurrent_Device
  imports Ioctl_Steps Module_Properties
begin

text \<open>
  The device under concurrent use: any number of tasks with any number of open files, whose calls
  take the steps of \<open>Ioctl_Steps\<close> in any order, while the module is loaded and removed, other code
  writes user memory, and the executables of tasks change. An open file pins the module: removal
  starts only when no file is open. The parameter \<open>pinned\<close> says whether the kernel enforces this.
\<close>

section \<open>Definitions\<close>

type_synonym task = nat
type_synonym fd = nat

text \<open>
  A record of what the current call of a task read: a digest, with the \<open>mm\<close> of the task at that time;
  the user data of a request, with its address and the user memory at that time.
\<close>

datatype sys_event =
    Measured task "mm_struct option option" "u8 list"
  | Fetched task usize "usize \<Rightarrow> u8" "u8 list"

record 's system =
  y_module :: "'s module"
  y_files :: "fd set"
  y_calls :: "task \<rightharpoonup> fd \<times> ioctl_pc"
  y_exe :: "task \<Rightarrow> mm_struct option option"
  y_log :: "sys_event list"

abbreviation y_world :: "'s system \<Rightarrow> 's world" where
  "y_world y \<equiv> d_world (m_driver (y_module y))"

abbreviation y_key :: "'s system \<Rightarrow> key_pair set_once" where
  "y_key y \<equiv> d_key (m_driver (y_module y))"

definition set_world :: "'s world \<Rightarrow> 's system \<Rightarrow> 's system" where
  "set_world w y = y\<lparr>y_module := (y_module y)\<lparr>m_driver := (m_driver (y_module y))\<lparr>d_world := w\<rparr>\<rparr>\<rparr>"

fun event_task :: "sys_event \<Rightarrow> task" where
  "event_task (Measured t mm digest) = t"
| "event_task (Fetched t arg m u) = t"

fun pc_events :: "task \<Rightarrow> 's world \<Rightarrow> ioctl_pc \<Rightarrow> ioctl_pc \<Rightarrow> sys_event list" where
  "pc_events t w (SignDigest _ _ _) (SignRead _ _ _ digest) = [Measured t (w_mm w) digest]"
| "pc_events t w (SignRead _ arg _ _) (SignCompute _ _ _ _ req) = [Fetched t arg (w_umem w) (req_user_data req)]"
| "pc_events t w _ _ = []"

definition sys_start :: "'s world \<Rightarrow> (task \<Rightarrow> mm_struct option option) \<Rightarrow> 's system" where
  "sys_start w exe = \<lparr>y_module = m_start w, y_files = {}, y_calls = Map.empty, y_exe = exe, y_log = []\<rparr>"

text \<open>
  \<open>life\<close> is a step of the module itself: of the steps of \<open>mod_step\<close>, those that change the phase.
  A task that enters a call starts with an empty record.
\<close>

inductive sys_step :: "bool \<Rightarrow> 's ffi \<Rightarrow> 's krate \<Rightarrow> 's system \<Rightarrow> 's system \<Rightarrow> bool"
  for pinned :: bool and F :: "'s ffi" and K :: "'s krate" where
  life:
    "mod_step F K (y_module y) m' \<Longrightarrow> m_phase m' \<noteq> m_phase (y_module y) \<Longrightarrow>
     (pinned \<and> m_phase m' = Removing \<longrightarrow> y_files y = {}) \<Longrightarrow>
     sys_step pinned F K y (y\<lparr>y_module := m'\<rparr>)"
| open_file:
    "d_registered (m_driver (y_module y)) \<Longrightarrow> TarakoDevice_open K dev (y_world y) = (Ok h, w') \<Longrightarrow>
     f \<notin> y_files y \<Longrightarrow> sys_step pinned F K y ((set_world w' y)\<lparr>y_files := insert f (y_files y)\<rparr>)"
| open_fails:
    "d_registered (m_driver (y_module y)) \<Longrightarrow> TarakoDevice_open K dev (y_world y) = (Err e, w') \<Longrightarrow>
     sys_step pinned F K y (set_world w' y)"
| enter:
    "f \<in> y_files y \<Longrightarrow> y_calls y t = None \<Longrightarrow>
     sys_step pinned F K y (y\<lparr>y_calls := (y_calls y)(t \<mapsto> (f, Dispatch cmd arg)),
       y_log := filter (\<lambda>e. event_task e \<noteq> t) (y_log y)\<rparr>)"
| run:
    "y_calls y t = Some (f, pc) \<Longrightarrow> (\<nexists>r. pc = Return r) \<Longrightarrow>
     pc_next F K (y_key y) pc ((y_world y)\<lparr>w_mm := y_exe y t\<rparr>) = (pc', w') \<Longrightarrow>
     sys_step pinned F K y ((set_world w' y)\<lparr>y_calls := (y_calls y)(t \<mapsto> (f, pc')),
       y_log := y_log y @ pc_events t ((y_world y)\<lparr>w_mm := y_exe y t\<rparr>) pc pc'\<rparr>)"
| leave:
    "y_calls y t = Some (f, Return r) \<Longrightarrow> sys_step pinned F K y (y\<lparr>y_calls := (y_calls y)(t := None)\<rparr>)"
| close_file:
    "f \<in> y_files y \<Longrightarrow> (\<nexists>t pc. y_calls y t = Some (f, pc)) \<Longrightarrow>
     sys_step pinned F K y (y\<lparr>y_files := y_files y - {f}\<rparr>)"
| system:
    "system_step (y_world y) w' \<Longrightarrow> sys_step pinned F K y ((set_world w' y)\<lparr>y_exe := exe'\<rparr>)"

definition sys_reachable :: "bool \<Rightarrow> 's ffi \<Rightarrow> 's krate \<Rightarrow> 's system \<Rightarrow> bool" where
  "sys_reachable pinned F K y \<longleftrightarrow> (\<exists>w exe. (sys_step pinned F K)\<^sup>*\<^sup>* (sys_start w exe) y)"

section \<open>The invariant\<close>

text \<open>A filled-in request: a signature by a logged key of a digest and of data that were read for the task.\<close>

definition attested ::
    "'s ffi \<Rightarrow> 'p curve_group \<Rightarrow> ima_event list \<Rightarrow> sys_event list \<Rightarrow> task \<Rightarrow> usize \<Rightarrow> sign_data_req \<Rightarrow>
     bool" where
  "attested F C ima log t arg req \<longleftrightarrow>
     sign_data_req_ok req \<and> (\<exists>m. Fetched t arg m (req_user_data req) \<in> set log) \<and>
     (\<exists>kp mm digest r s. key_pair_ok C kp \<and> pubkey_event (kp_pubkey kp) \<in> set ima \<and>
        Measured t mm digest \<in> set log \<and> req_pubkey req = kp_pubkey kp \<and>
        req_hash req = sha256_hash F (digest @ req_user_data req) \<and>
        req_sig_r req = to_be_bytes 32 r \<and> req_sig_s req = to_be_bytes 32 s \<and>
        ecdsa_valid C (smul C (vli_val (kp_private kp)) (cg_base C)) (be_val (req_hash req)) (r, s))"

fun pc_ok ::
    "'s ffi \<Rightarrow> 'p curve_group \<Rightarrow> ima_event list \<Rightarrow> sys_event list \<Rightarrow> task \<Rightarrow> ioctl_pc \<Rightarrow> bool" where
  "pc_ok F C ima log t (SignDigest cmd arg kp) \<longleftrightarrow> kp_ima_measured kp"
| "pc_ok F C ima log t (SignRead cmd arg kp digest) \<longleftrightarrow>
     kp_ima_measured kp \<and> length digest \<le> 64 \<and> (\<exists>mm. Measured t mm digest \<in> set log)"
| "pc_ok F C ima log t (SignCompute cmd arg kp digest req) \<longleftrightarrow>
     kp_ima_measured kp \<and> length digest \<le> 64 \<and> (\<exists>mm. Measured t mm digest \<in> set log) \<and>
     sign_data_req_ok req \<and> (\<exists>m. Fetched t arg m (req_user_data req) \<in> set log)"
| "pc_ok F C ima log t (SignWrite cmd arg req) \<longleftrightarrow> attested F C ima log t arg req"
| "pc_ok F C ima log t (Return r) \<longleftrightarrow> \<not> is_fault r"
| "pc_ok F C ima log t _ \<longleftrightarrow> True"

definition event_ok :: "'s ffi \<Rightarrow> sys_event \<Rightarrow> bool" where
  "event_ok F e \<longleftrightarrow>
     (case e of
        Measured t mm digest \<Rightarrow> \<exists>w. w_mm w = mm \<and> caller_digest F w = Some digest
      | Fetched t arg m u \<Rightarrow> read_umem m arg 128 = u)"

definition sys_inv :: "'s ffi \<Rightarrow> 'p curve_group \<Rightarrow> 's system \<Rightarrow> bool" where
  "sys_inv F C y \<longleftrightarrow>
     mod_inv C (y_module y) \<and> (y_files y \<noteq> {} \<longrightarrow> d_registered (m_driver (y_module y))) \<and>
     (\<forall>t f pc. y_calls y t = Some (f, pc) \<longrightarrow>
        f \<in> y_files y \<and> refs_ok (y_key y) pc \<and> pc_ok F C (w_ima (y_world y)) (y_log y) t pc) \<and>
     list_all (event_ok F) (y_log y)"

lemma sys_inv_call:
  assumes "sys_inv F C y" "y_calls y t = Some (f, pc)"
  shows "f \<in> y_files y" "refs_ok (y_key y) pc" "pc_ok F C (w_ima (y_world y)) (y_log y) t pc"
    "d_registered (m_driver (y_module y))"
  using assms by (auto simp: sys_inv_def)

lemma attested_mono:
  "attested F C ima log t arg req \<Longrightarrow> attested F C (ima @ l) (log @ k) t arg req"
  unfolding attested_def set_append by blast

lemma pc_ok_mono: "pc_ok F C ima log t pc \<Longrightarrow> pc_ok F C (ima @ l) (log @ k) t pc"
  by (cases pc) (auto intro: attested_mono)

text \<open>The record of a task does not depend on those of others.\<close>

lemma pc_ok_other:
  assumes "pc_ok F C ima log t' pc" "t' \<noteq> t"
  shows "pc_ok F C ima (filter (\<lambda>e. event_task e \<noteq> t) log) t' pc"
proof -
  have "Measured t' mm d \<in> set log \<Longrightarrow> Measured t' mm d \<in> set (filter (\<lambda>e. event_task e \<noteq> t) log)"
    "Fetched t' a m u \<in> set log \<Longrightarrow> Fetched t' a m u \<in> set (filter (\<lambda>e. event_task e \<noteq> t) log)" for mm d a m u
    using assms(2) by simp_all
  then show ?thesis using assms(1) unfolding attested_def by (cases pc) (simp_all add: attested_def, blast+)
qed

lemma set_world_simps [simp]:
  "y_world (set_world w y) = w" "y_key (set_world w y) = y_key y" "y_files (set_world w y) = y_files y"
  "y_calls (set_world w y) = y_calls y" "y_exe (set_world w y) = y_exe y" "y_log (set_world w y) = y_log y"
  "m_phase (y_module (set_world w y)) = m_phase (y_module y)"
  "d_registered (m_driver (y_module (set_world w y))) = d_registered (m_driver (y_module y))"
  by (simp_all add: set_world_def)

lemma mod_inv_set_world:
  "mod_inv C (y_module y) \<Longrightarrow> w_ima w' = w_ima (y_world y) @ l \<Longrightarrow> mod_inv C (y_module (set_world w' y))"
  using phase_inv_grows [of C "m_phase (y_module y)" "m_driver (y_module y)" w' l]
  by (simp add: mod_inv_def set_world_def)

lemma sys_start_inv: "sys_inv F C (sys_start w exe)"
  using start_inv [of C w] by (simp add: sys_inv_def sys_start_def)

text \<open>What a step of a call establishes.\<close>

definition step_ok ::
    "'s ffi \<Rightarrow> 'p curve_group \<Rightarrow> sys_event list \<Rightarrow> task \<Rightarrow> ioctl_pc \<Rightarrow> 's world \<Rightarrow> ioctl_pc outcome \<Rightarrow> 's world \<Rightarrow> bool" where
  "step_ok F C log t pc w r w' \<longleftrightarrow>
     w_ima w' = w_ima w \<and>
     (case r of
        Ok pc' \<Rightarrow>
          pc_ok F C (w_ima w) (log @ pc_events t w pc pc') t pc' \<and>
          list_all (event_ok F) (pc_events t w pc pc')
      | Err e \<Rightarrow> True
      | Fault b \<Rightarrow> False)"

context tarako_kernel
begin

text \<open>The key of a call is the key of the module.\<close>

lemma live_key_logged:
  assumes "mod_inv C m" "so_value (d_key (m_driver m)) = Live kp"
  shows "SetOnce_as_ref (d_key (m_driver m)) = Ok (Some kp) \<and> key_logged C (d_world (m_driver m)) kp"
proof -
  have "SetOnce_as_ref (d_key (m_driver m)) = Ok (Some kp)"
    using assms by (auto simp: mod_inv_def so_inv_def SetOnce_as_ref_def)
  then show ?thesis using assms(1) phase_inv_key by (auto simp: mod_inv_def)
qed

text \<open>A step of the module while a file is open is the publication of the key.\<close>

lemma life_open:
  assumes step: "mod_step F K m m'" and ph: "m_phase m' \<noteq> m_phase m" "m_phase m' \<noteq> Removing"
    and inv: "mod_inv C m" and reg: "d_registered (m_driver m)"
  shows "d_registered (m_driver m') \<and> d_world (m_driver m') = d_world (m_driver m) \<and>
    (\<forall>kp. so_value (d_key (m_driver m)) \<noteq> Live kp)"
  using step
proof cases
  case (publish kp d')
  then show ?thesis
    using publish_post [of "m_driver m" kp] inv reg live_key_logged [OF inv] by (auto simp: mod_inv_def)
next
  case (publish_fails kp e d')
  then show ?thesis using publish_post [of "m_driver m" kp] inv by (auto simp: mod_inv_def)
qed (use ph inv reg in \<open>auto simp: mod_inv_def\<close>)

lemma dispatch_ok:
  assumes "so_inv cell"
  shows "prog_post (pc_step F K cell (Dispatch cmd arg)) w (step_ok F C log t (Dispatch cmd arg) w)"
proof -
  obtain st where "SetOnce_as_ref cell = Ok st" using so.as_ref_total [OF assms] by blast
  then show ?thesis
    by (cases st) (auto simp: prog_post_def step_ok_def bind_def key_ref_apply ret_def fail_def)
qed

lemma pubkey_write_ok:
  assumes "so_value cell = Live kp"
  shows "prog_post (pc_step F K cell (PubkeyWrite cmd arg kp)) w (step_ok F C log t (PubkeyWrite cmd arg kp) w)"
proof (cases "k_IOC_SIZE K cmd < P256_PUBKEY_BYTES")
  case True
  then show ?thesis by (simp add: fail_post step_ok_def)
next
  case False
  have "prog_post (bind (write_slice K arg (k_IOC_SIZE K cmd) (kp_pubkey kp)) (\<lambda>_. ret (Return (Ok (int P256_PUBKEY_BYTES)))))
      w (step_ok F C log t (PubkeyWrite cmd arg kp) w)"
    by (rule bind_post [OF write_bytes_post])
      (auto simp: ret_post step_ok_def same_kernel_def failed_request_def)
  then show ?thesis using False assms by (simp add: use_key_def lift_post)
qed

lemma sign_digest_ok:
  assumes "kp_ima_measured kp"
  shows "prog_post (pc_step F K cell (SignDigest cmd arg kp)) w (step_ok F C log t (SignDigest cmd arg kp) w)"
  unfolding pc_step.simps
proof (rule bind_post [OF digest_post])
  fix fd w1 assume "same_kernel w w1 \<and> (case Ok fd of
      Ok fd \<Rightarrow> \<exists>d. caller_digest F w = Some d \<and> FsverityDigest_digest fd = Ok d
    | Err e \<Rightarrow> caller_digest F w = None \<and> e = digest_error F K w | Fault b \<Rightarrow> False)"
  then obtain d where "same_kernel w w1" "caller_digest F w = Some d" "FsverityDigest_digest fd = Ok d" by auto
  then show "prog_post (bind (lift_outcome (FsverityDigest_digest fd)) (\<lambda>digest. ret (SignRead cmd arg kp digest))) w1
      (step_ok F C log t (SignDigest cmd arg kp) w)"
    using assms caller_digest_length [of w d]
    by (auto simp: lift_post ret_post step_ok_def same_kernel_def event_ok_def)
qed (auto simp: step_ok_def same_kernel_def)

lemma sign_read_ok:
  assumes "pc_ok F C (w_ima w) log t (SignRead cmd arg kp digest)"
  shows "prog_post (pc_step F K cell (SignRead cmd arg kp digest)) w (step_ok F C log t (SignRead cmd arg kp digest) w)"
  unfolding pc_step.simps
  by (rule bind_post [OF read_req_post]) (use assms in \<open>auto simp: ret_post step_ok_def same_kernel_def event_ok_def\<close>)

lemma sign_compute_ok:
  assumes pc: "pc_ok F C (w_ima w) log t (SignCompute cmd arg kp digest req)"
    and cell: "so_value cell = Live kp" and kp: "key_logged C w kp"
  shows "prog_post (pc_step F K cell (SignCompute cmd arg kp digest req)) w
    (step_ok F C log t (SignCompute cmd arg kp digest req) w)"
proof -
  let ?m = "digest @ req_user_data req"
  have ok: "key_pair_ok C kp" and ima: "pubkey_event (kp_pubkey kp) \<in> set (w_ima w)"
    using kp pc by (simp_all add: key_logged_def)
  have req: "sign_data_req_ok req" and len: "length digest \<le> 64" using pc by simp_all
  have pk: "length (kp_pubkey kp) = 33" using ok by (simp add: key_pair_ok_def)
  have b: "build_to_sign digest (req_user_data req) = Ok ?m"
    using len req by (intro build_to_sign_ok) (simp_all add: sign_data_req_ok_def)
  have "prog_post (bind (KeyPair_sign F K kp ?m) (\<lambda>sig.
      bind (lift_outcome (fill_response (req\<lparr>req_hash := sha256_hash F ?m\<rparr>) sig (kp_pubkey kp))) (\<lambda>req.
      ret (SignWrite cmd arg req)))) w (step_ok F C log t (SignCompute cmd arg kp digest req) w)"
  proof (rule bind_post [OF sign_post [OF ok]])
    fix sig w3 assume "same_kernel w w3 \<and> (case Ok sig of
        Ok (r, s) \<Rightarrow> vli_ok 4 r \<and> vli_ok 4 s \<and>
          ecdsa_valid C (smul C (vli_val (kp_private kp)) (cg_base C)) (be_val (sha256_hash F ?m)) (vli_val r, vli_val s)
      | Err e \<Rightarrow> True | Fault b \<Rightarrow> False)"
    then obtain r s where sig: "sig = (r, s)" "vli_ok 4 r" "vli_ok 4 s" and w3: "same_kernel w w3"
      and v: "ecdsa_valid C (smul C (vli_val (kp_private kp)) (cg_base C)) (be_val (sha256_hash F ?m)) (vli_val r, vli_val s)"
      by (cases sig) auto
    let ?req = "req\<lparr>req_hash := sha256_hash F ?m, req_sig_r := to_be_bytes 32 (vli_val r),
      req_sig_s := to_be_bytes 32 (vli_val s), req_pubkey := kp_pubkey kp\<rparr>"
    have f: "fill_response (req\<lparr>req_hash := sha256_hash F ?m\<rparr>) sig (kp_pubkey kp) = Ok ?req"
      using fill_response_ok [of "req\<lparr>req_hash := sha256_hash F ?m\<rparr>" r s "kp_pubkey kp"] req sig pk
      by (simp add: sign_data_req_ok_def)
    obtain mm where "Measured t mm digest \<in> set log" using pc by auto
    then have "attested F C (w_ima w) log t arg ?req"
      unfolding attested_def using ok ima v req pk pc
      by (intro conjI exI [of _ kp] exI [of _ mm] exI [of _ digest] exI [of _ "vli_val r"] exI [of _ "vli_val s"])
        (simp_all add: sign_data_req_ok_def)
    then show "prog_post (bind (lift_outcome (fill_response (req\<lparr>req_hash := sha256_hash F ?m\<rparr>) sig (kp_pubkey kp)))
        (\<lambda>req. ret (SignWrite cmd arg req))) w3 (step_ok F C log t (SignCompute cmd arg kp digest req) w)"
      unfolding f lift_post ret_post step_ok_def using w3 by (simp add: same_kernel_def)
  qed (auto simp: step_ok_def same_kernel_def)
  then show ?thesis unfolding pc_step.simps b lift_post using cell by (simp add: use_key_def lift_post)
qed

lemma sign_write_ok: "prog_post (pc_step F K cell (SignWrite cmd arg req)) w (step_ok F C log t (SignWrite cmd arg req) w)"
  unfolding pc_step.simps
  by (rule bind_post [OF write_req_post])
    (auto simp: ret_post step_ok_def same_kernel_def failed_request_def)

lemmas pc_steps_ok = dispatch_ok pubkey_write_ok sign_digest_ok sign_read_ok sign_compute_ok sign_write_ok

lemma pc_next_ok:
  assumes cell: "so_inv cell" "\<And>kp. so_value cell = Live kp \<Longrightarrow> key_logged C w kp"
    and pc: "refs_ok cell pc" "pc_ok F C (w_ima w) log t pc" and nx: "pc_next F K cell pc w = (pc', w')"
  shows "w_ima w' = w_ima w \<and> refs_ok cell pc' \<and> pc_ok F C (w_ima w) (log @ pc_events t w pc pc') t pc' \<and>
    list_all (event_ok F) (pc_events t w pc pc')"
proof -
  have "prog_post (pc_step F K cell pc) w (step_ok F C log t pc w)"
    using cell pc pc_steps_ok
    by (cases pc) (auto simp: refs_ok_def ret_post step_ok_def simp del: pc_step.simps, simp add: ret_post step_ok_def)
  then show ?thesis
    using nx pc_next_rest [OF pc(1) nx]
    by (cases "fst (pc_step F K cell pc w)")
      (auto simp: prog_post_def pc_next_def step_ok_def split: prod.splits)
qed

lemma sys_inv_life:
  assumes inv: "sys_inv F C y" and step: "mod_step F K (y_module y) m'" "m_phase m' \<noteq> m_phase (y_module y)"
    and pin: "m_phase m' = Removing \<longrightarrow> y_files y = {}"
  shows "sys_inv F C (y\<lparr>y_module := m'\<rparr>)"
proof (cases "y_files y = {}")
  case True
  then show ?thesis using inv mod_inv_step [OF step(1)] by (auto simp: sys_inv_def)
next
  case False
  then have m: "mod_inv C (y_module y)" "d_registered (m_driver (y_module y))" using inv by (auto simp: sys_inv_def)
  have "m_phase m' \<noteq> Removing" using pin False by blast
  from life_open [OF step this m] show ?thesis
    using inv mod_inv_step [OF step(1) m(1)] by (auto simp: sys_inv_def refs_ok_def)
qed

lemma sys_inv_world:
  assumes inv: "sys_inv F C y" and w: "w_ima w' = w_ima (y_world y) @ l"
  shows "sys_inv F C (set_world w' y)"
  using inv mod_inv_set_world [OF _ w] pc_ok_mono [of F C "w_ima (y_world y)" "y_log y" _ _ l "[]"] w
  by (auto simp: sys_inv_def)

lemma sys_inv_run:
  assumes inv: "sys_inv F C y" and t: "y_calls y t = Some (f, pc)"
    and nx: "pc_next F K (y_key y) pc ((y_world y)\<lparr>w_mm := y_exe y t\<rparr>) = (pc', w')"
  shows "sys_inv F C ((set_world w' y)\<lparr>y_calls := (y_calls y)(t \<mapsto> (f, pc')),
    y_log := y_log y @ pc_events t ((y_world y)\<lparr>w_mm := y_exe y t\<rparr>) pc pc'\<rparr>)"
proof -
  let ?w = "(y_world y)\<lparr>w_mm := y_exe y t\<rparr>"
  have m: "mod_inv C (y_module y)" and pc: "refs_ok (y_key y) pc" "pc_ok F C (w_ima ?w) (y_log y) t pc"
    using inv t by (auto simp: sys_inv_def)
  have so: "so_inv (y_key y)" using m by (simp add: mod_inv_def)
  have key: "key_logged C ?w kp" if "so_value (y_key y) = Live kp" for kp
    using live_key_logged [OF m that] by (simp add: key_logged_def)
  note ok = pc_next_ok [OF so key pc nx]
  then have "w_ima w' = w_ima (y_world y) @ []" by simp
  from sys_inv_world [OF inv this] ok inv show ?thesis
    using t pc_ok_mono [of F C "w_ima (y_world y)" "y_log y" _ _ "[]"] by (auto simp: sys_inv_def)
qed

lemma sys_inv_step: "sys_step True F K y y' \<Longrightarrow> sys_inv F C y \<Longrightarrow> sys_inv F C y'"
proof (induction rule: sys_step.induct)
  case (life y m')
  then show ?case using sys_inv_life by blast
next
  case (open_file y dev h w' f)
  have "w_ima w' = w_ima (y_world y) @ []"
    using open_kernel [OF open_file.hyps(2)] by (simp add: same_kernel_def)
  from sys_inv_world [OF open_file.prems this] show ?case
    using open_file.hyps(1) by (auto simp: sys_inv_def)
next
  case (open_fails y dev e w')
  have "w_ima w' = w_ima (y_world y) @ []"
    using open_kernel [OF open_fails.hyps(2)] by (simp add: same_kernel_def)
  from sys_inv_world [OF open_fails.prems this] show ?case .
next
  case (enter f y t cmd arg)
  then show ?case
    using pc_ok_other [of F C "w_ima (y_world y)" "y_log y" _ _ t] by (auto simp: sys_inv_def refs_ok_def list_all_iff)
next
  case (run y t f pc pc' w')
  then show ?case using sys_inv_run by blast
next
  case (leave y t f r)
  then show ?case by (auto simp: sys_inv_def)
next
  case (close_file f y)
  then show ?case by (auto simp: sys_inv_def)
next
  case (system y w' exe')
  then obtain l where "w_ima w' = w_ima (y_world y) @ l" by (auto simp: system_step_def)
  from sys_inv_world [OF system.prems this] show ?case by (auto simp: sys_inv_def)
qed

lemma sys_inv_reachable: "sys_reachable True F K y \<Longrightarrow> sys_inv F C y"
proof -
  have "(sys_step True F K)\<^sup>*\<^sup>* (sys_start w exe) y \<Longrightarrow> sys_inv F C y" for w exe
    by (induction rule: rtranclp_induct) (auto intro: sys_start_inv sys_inv_step)
  then show "sys_reachable True F K y \<Longrightarrow> sys_inv F C y" by (auto simp: sys_reachable_def)
qed

end

end
