(* ===== verification/Concurrent_Properties.thy ===== *)
theory Concurrent_Properties
  imports Concurrent_Device
begin

text \<open>
  Properties of concurrent use of the device. A run on the reference kernel, from the load of the
  module to the last step of a signing call, gives the witnesses. The properties: an undisturbed call
  is the sequential dispatcher; with open files pinning the module, no interleaving makes a call
  panic, read a dropped key or return a reply that is not genuine; without pinning one does.
\<close>

section \<open>Calls on the reference kernel\<close>

definition ref_exe :: "mm_struct option option" where
  "ref_exe = Some (Some \<lparr>exe_file = Some \<lparr>f_inode = Some 7\<rparr>\<rparr>)"

definition ref_system :: "fd set \<Rightarrow> (task \<rightharpoonup> fd \<times> ioctl_pc) \<Rightarrow> sys_event list \<Rightarrow> ref_env system" where
  "ref_system fs calls log =
     \<lparr>y_module = ref_running, y_files = fs, y_calls = calls, y_exe = (\<lambda>_. ref_exe), y_log = log\<rparr>"

lemma ref_running_parts:
  "d_registered (m_driver ref_running)" "d_key (m_driver ref_running) = ref_cell True"
  "d_world (m_driver ref_running) = ref_world [ref_event] [5]" "m_phase ref_running = Running"
  by (simp_all add: ref_running_def ref_driver_def)

lemma ref_exe_world: "(ref_memory m l ks)\<lparr>w_mm := ref_exe\<rparr> = ref_memory m l ks"
  by (simp add: ref_memory_def ref_exe_def)

lemma ref_sys_running: "(sys_step pinned ref_ffi ref_krate)\<^sup>*\<^sup>* (sys_start (ref_world [] [6]) (\<lambda>_. ref_exe)) (ref_system {} Map.empty [])"
proof -
  let ?y = "\<lambda>m. \<lparr>y_module = m, y_files = {}, y_calls = Map.empty, y_exe = (\<lambda>_. ref_exe), y_log = []\<rparr>"
  let ?S = "sys_step pinned ref_ffi ref_krate"
  have life: "?S (?y m) (?y m')" if "mod_step ref_ffi ref_krate m m'" "m_phase m' \<noteq> m_phase m" for m m'
    using sys_step.life [of ref_ffi ref_krate "?y m" m' pinned] that by simp
  have 1: "?S (sys_start (ref_world [] [6]) (\<lambda>_. ref_exe)) (?y ref_generated)"
    unfolding sys_start_def by (rule life [OF ref_life(1)]) (simp add: m_start_def ref_generated_def)
  have 2: "?S (?y ref_generated) (?y ref_registered)"
    by (rule life [OF ref_life(2)]) (simp add: ref_generated_def ref_registered_def)
  have 3: "?S (?y ref_registered) (?y ref_published)"
    by (rule life [OF ref_life(3)]) (simp add: ref_published_def ref_registered_def)
  have 4: "?S (?y ref_published) (ref_system {} Map.empty [])"
    using sys_step.system [of "?y ref_published" "ref_world [ref_event] [5]" pinned ref_ffi ref_krate "\<lambda>_. ref_exe"]
    by (simp add: set_world_def system_step_def ref_published_def ref_running_def ref_driver_def ref_system_def
        ref_memory_def)
  show ?thesis using 1 2 3 4 by (meson converse_rtranclp_into_rtranclp rtranclp.rtrancl_refl)
qed

lemma ref_entered:
  "(sys_step pinned ref_ffi ref_krate)\<^sup>*\<^sup>* (sys_start (ref_world [] [6]) (\<lambda>_. ref_exe)) (ref_system {3} [1 \<mapsto> (3, Dispatch cmd arg)] [])"
proof -
  have "TarakoDevice_open ref_krate 0 (ref_world [ref_event] [5]) = (Ok \<lparr>td_dev = 0\<rparr>, ref_world [ref_event] [5])"
    by (simp add: TarakoDevice_open_def ref_krate_def rust_simps)
  then have 1: "sys_step pinned ref_ffi ref_krate (ref_system {} Map.empty []) (ref_system {3} Map.empty [])"
    using sys_step.open_file [of "ref_system {} Map.empty []" ref_krate 0 _ _ 3 pinned ref_ffi]
    by (simp add: ref_system_def ref_running_parts set_world_def) (simp add: ref_running_def ref_driver_def)
  have 2: "sys_step pinned ref_ffi ref_krate (ref_system {3} Map.empty []) (ref_system {3} [1 \<mapsto> (3, Dispatch cmd arg)] [])"
    using sys_step.enter [of 3 "ref_system {3} Map.empty []" 1 pinned ref_ffi ref_krate cmd arg]
    by (simp add: ref_system_def)
  show ?thesis using ref_sys_running 1 2 by (meson rtranclp.rtrancl_into_rtrancl)
qed

lemma ref_run_step:
  assumes "pc_next ref_ffi ref_krate (ref_cell True) pc (ref_world [ref_event] [5]) = (pc', ref_world [ref_event] [5])"
    "\<nexists>r. pc = Return r"
  shows "sys_step pinned ref_ffi ref_krate (ref_system {3} [1 \<mapsto> (3, pc)] log)
    (ref_system {3} [1 \<mapsto> (3, pc')] (log @ pc_events 1 (ref_world [ref_event] [5]) pc pc'))"
  using sys_step.run [of "ref_system {3} [1 \<mapsto> (3, pc)] log" 1 3 pc ref_ffi ref_krate pc' "ref_world [ref_event] [5]" pinned] assms
  by (simp add: ref_system_def ref_running_parts ref_exe_world set_world_def) (simp add: ref_running_def ref_driver_def)

lemma ref_pc_pubkey:
  "pc_next ref_ffi ref_krate (ref_cell True) (Dispatch (TARAKO_GET_PUBKEY ref_krate) arg) w =
     (PubkeyWrite (TARAKO_GET_PUBKEY ref_krate) arg (ref_key_pair True), w)"
  by (simp add: pc_next_def key_ref_apply ref_cell_ref bind_def ret_def ref.command_numbers)

lemma ref_pc_sign:
  "pc_next ref_ffi ref_krate (ref_cell True) (Dispatch (TARAKO_SIGN_DATA ref_krate) arg) w =
     (SignDigest (TARAKO_SIGN_DATA ref_krate) arg (ref_key_pair True), w)"
  by (simp add: pc_next_def key_ref_apply ref_cell_ref bind_def ret_def ref.command_numbers) (simp add: ref_key_pair_def)

lemma ref_pc_digest:
  "pc_next ref_ffi ref_krate (ref_cell True) (SignDigest cmd arg kp) (ref_memory m l ks) =
     (SignRead cmd arg kp (replicate 32 0xAB), ref_memory m l ks)"
  by (simp add: pc_next_def ref_exe_digest bind_def lift_outcome_def ret_def FsverityDigest_digest_def slice_to_def
      write_out_def)

lemma ref_pc_read:
  obtains req where "pc_next ref_ffi ref_krate (ref_cell True) (SignRead (TARAKO_SIGN_DATA ref_krate) arg kp d) (ref_memory m l ks) =
    (SignCompute (TARAKO_SIGN_DATA ref_krate) arg kp d req, ref_memory m l ks)" "sign_data_req_ok req"
proof -
  obtain req where "read_sign_data_req ref_krate arg 257 (ref_memory m l ks) = (Ok req, ref_memory m l ks)"
    "sign_data_req_ok req" using ref_read_req .
  then show ?thesis by (intro that) (simp_all add: pc_next_def bind_def ret_def ref.command_sizes)
qed

lemma ref_pc_compute:
  assumes "sign_data_req_ok req"
  obtains req' w' where "pc_next ref_ffi ref_krate (ref_cell True)
      (SignCompute cmd arg (ref_key_pair True) (replicate 32 0xAB) req) (ref_memory m l [5]) = (SignWrite cmd arg req', w')"
    "sign_data_req_ok req'" "w_env w' = w_env (ref_memory m l [])"
proof -
  let ?d = "replicate 32 (0xAB :: u8)" and ?u = "req_user_data req"
  have b: "build_to_sign ?d ?u = Ok (?d @ ?u)"
    using build_to_sign_ok [of ?d ?u] assms by (simp add: sign_data_req_ok_def)
  obtain r s w' where sg:
    "KeyPair_sign ref_ffi ref_krate (ref_key_pair True) (?d @ ?u) (ref_memory m l [5]) = (Ok (r, s), w')"
    and rs: "vli_ok 4 r" "vli_ok 4 s" and e: "w_env w' = w_env (ref_memory m l [])"
    using ref_key_pair_signs by blast
  have pk: "length (kp_pubkey (ref_key_pair True)) = 33" by (simp add: ref_key_pair_def)
  obtain req' where f: "fill_response (req\<lparr>req_hash := sha256_hash ref_ffi (?d @ ?u)\<rparr>) (r, s)
      (kp_pubkey (ref_key_pair True)) = Ok req'" and ok: "sign_data_req_ok req'"
    using fill_response_ok [of "req\<lparr>req_hash := sha256_hash ref_ffi (?d @ ?u)\<rparr>" r s] assms rs pk
      ref.length_sha256_hash by (auto simp: sign_data_req_ok_def)
  have "use_key (ref_cell True) (ref_key_pair True) = Ok (ref_key_pair True)" by (simp add: use_key_def ref_cell_def)
  then show ?thesis using b sg f ok e by (intro that [of req' w']) (simp_all add: pc_next_def bind_def lift_outcome_def ret_def)
qed

lemma ref_pc_write:
  assumes "sign_data_req_ok req" "re_mapped (w_env w) = (\<lambda>_. True)"
  shows "\<exists>w'. pc_next ref_ffi ref_krate cell (SignWrite (TARAKO_SIGN_DATA ref_krate) arg req) w = (Return (Ok 0), w')"
proof -
  have "length (sign_data_req_bytes req) = 257" using assms by (simp add: sign_data_req_ok_def sign_data_req_bytes_def)
  then have "write_sign_data_req ref_krate arg 257 req w =
      (Ok (), w\<lparr>w_umem := write_umem (w_umem w) arg (sign_data_req_bytes req)\<rparr>)"
    using assms by (simp add: write_sign_data_req_def ref_krate_def ref_write_slice_def ref_mapped_def
        list_all_iff bind_def ret_def)
  then show ?thesis by (simp add: pc_next_def bind_def ret_def ref.command_sizes)
qed

lemma ref_pubkey_call:
  "(sys_step pinned ref_ffi ref_krate)\<^sup>*\<^sup>* (sys_start (ref_world [] [6]) (\<lambda>_. ref_exe))
     (ref_system {3} [1 \<mapsto> (3, PubkeyWrite (TARAKO_GET_PUBKEY ref_krate) arg (ref_key_pair True))] [])"
  using ref_entered [of pinned "TARAKO_GET_PUBKEY ref_krate" arg]
    ref_run_step [OF ref_pc_pubkey, where pinned = pinned and log = "[]" and arg1 = arg]
  by (simp add: rtranclp.rtrancl_into_rtrancl)

lemma ref_sign_call:
  obtains y req w' where "sys_reachable True ref_ffi ref_krate y"
    "y_calls y 1 = Some (3, SignWrite (TARAKO_SIGN_DATA ref_krate) arg req)"
    "pc_next ref_ffi ref_krate (y_key y) (SignWrite (TARAKO_SIGN_DATA ref_krate) arg req)
       ((y_world y)\<lparr>w_mm := y_exe y 1\<rparr>) = (Return (Ok 0), w')"
proof -
  let ?cmd = "TARAKO_SIGN_DATA ref_krate" and ?kp = "ref_key_pair True" and ?d = "replicate 32 (0xAB :: u8)"
  let ?S = "sys_step True ref_ffi ref_krate" and ?w = "ref_world [ref_event] [5]"
  let ?log = "[Measured 1 (w_mm ?w) ?d]"
  obtain req where rd: "pc_next ref_ffi ref_krate (ref_cell True) (SignRead ?cmd arg ?kp ?d) ?w = (SignCompute ?cmd arg ?kp ?d req, ?w)"
    and ok: "sign_data_req_ok req" by (rule ref_pc_read)
  obtain req' w4 where cp: "pc_next ref_ffi ref_krate (ref_cell True) (SignCompute ?cmd arg ?kp ?d req) ?w = (SignWrite ?cmd arg req', w4)"
    and ok': "sign_data_req_ok req'" and e: "w_env w4 = w_env (ref_world [ref_event] [])" using ok by (rule ref_pc_compute)
  have 1: "?S (ref_system {3} [1 \<mapsto> (3, Dispatch ?cmd arg)] []) (ref_system {3} [1 \<mapsto> (3, SignDigest ?cmd arg ?kp)] [])"
    using ref_run_step [OF ref_pc_sign, where log = "[]"] by simp
  have 2: "?S (ref_system {3} [1 \<mapsto> (3, SignDigest ?cmd arg ?kp)] []) (ref_system {3} [1 \<mapsto> (3, SignRead ?cmd arg ?kp ?d)] ?log)"
    using ref_run_step [OF ref_pc_digest, where log = "[]"] by simp
  let ?log' = "?log @ [Fetched 1 arg (w_umem ?w) (req_user_data req)]"
  have 3: "?S (ref_system {3} [1 \<mapsto> (3, SignRead ?cmd arg ?kp ?d)] ?log) (ref_system {3} [1 \<mapsto> (3, SignCompute ?cmd arg ?kp ?d req)] ?log')"
    using ref_run_step [OF rd, where log = ?log] by simp
  let ?y3 = "ref_system {3} [1 \<mapsto> (3, SignCompute ?cmd arg ?kp ?d req)] ?log'"
  let ?y = "(set_world w4 ?y3)\<lparr>y_calls := [1 \<mapsto> (3, SignWrite ?cmd arg req')], y_log := ?log'\<rparr>"
  have "pc_next ref_ffi ref_krate (y_key ?y3) (SignCompute ?cmd arg ?kp ?d req) ((y_world ?y3)\<lparr>w_mm := y_exe ?y3 1\<rparr>) =
      (SignWrite ?cmd arg req', w4)" using cp by (simp add: ref_system_def ref_running_parts ref_exe_world)
  from sys_step.run [OF _ _ this, of 3 True] have 4: "?S ?y3 ?y" by (simp add: ref_system_def)
  have "sys_reachable True ref_ffi ref_krate ?y"
    unfolding sys_reachable_def
    by (intro exI) (rule ref_entered [THEN rtranclp.rtrancl_into_rtrancl, OF 1, THEN rtranclp.rtrancl_into_rtrancl, OF 2,
          THEN rtranclp.rtrancl_into_rtrancl, OF 3, THEN rtranclp.rtrancl_into_rtrancl, OF 4])
  moreover obtain w' where "pc_next ref_ffi ref_krate (y_key ?y) (SignWrite ?cmd arg req') ((y_world ?y)\<lparr>w_mm := y_exe ?y 1\<rparr>) =
      (Return (Ok 0), w')"
    using ref_pc_write [OF ok', of "(y_world ?y)\<lparr>w_mm := y_exe ?y 1\<rparr>" "y_key ?y" arg] e
    by (auto simp: ref_memory_def)
  ultimately show ?thesis by (intro that [of ?y req' w']) simp_all
qed

section \<open>Properties\<close>

text \<open>
  C21. An undisturbed call refines the sequential dispatcher: five steps from the entry of any ioctl,
  whatever its command, its argument, the cell and the kernel, end in the result of
  \<open>TarakoDevice_ioctl\<close> and in the same kernel state.
\<close>

theorem undisturbed_call:
  "pc_run 5 F K cell (Dispatch cmd arg) w =
     (let (r, w') = TarakoDevice_ioctl F K cell cmd arg w in (Return r, w'))"
  using pc_run_rest [of cell "Dispatch cmd arg" 5 F K w] by (auto simp: refs_ok_def split: prod.splits)

text \<open>
  C5. Concurrent calls are safe if open files pin the module: in any interleaving of the steps of any
  number of calls with loading, publication, removal and foreign code, a call that is under way
  belongs to an open file of a registered device, a key reference that it holds is the key pair in
  the cell, and a call that has ended did not panic and had no undefined behaviour.
\<close>

theorem concurrent_calls_safe:
  assumes kernel: "tarako_kernel F C K" and y: "sys_reachable True F K y"
    and call: "y_calls y t = Some (f, pc)"
  shows "f \<in> y_files y \<and> d_registered (m_driver (y_module y)) \<and> m_phase (y_module y) \<noteq> Removing \<and>
    (case pc_key pc of None \<Rightarrow> True | Some kp \<Rightarrow> SetOnce_as_ref (y_key y) = Ok (Some kp) \<and> key_pair_ok C kp) \<and>
    (case pc of Return r \<Rightarrow> \<not> is_fault r | _ \<Rightarrow> True)"
proof -
  have inv: "sys_inv F C y" using tarako_kernel.sys_inv_reachable [OF kernel y] .
  note c = sys_inv_call [OF inv call]
  have m: "mod_inv C (y_module y)" using inv by (simp add: sys_inv_def)
  have "m_phase (y_module y) \<noteq> Removing" using m c(4) by (auto simp: mod_inv_def)
  moreover have "SetOnce_as_ref (y_key y) = Ok (Some kp) \<and> key_pair_ok C kp" if "pc_key pc = Some kp" for kp
    using tarako_kernel.live_key_logged [OF kernel m] c(2) that by (auto simp: refs_ok_def key_logged_def)
  ultimately show ?thesis using c by (cases pc) (auto split: option.splits)
qed

theorem concurrent_calls_safe_witness:
  "SetOnce_as_ref (y_key (ref_system {3} [1 \<mapsto> (3, PubkeyWrite (TARAKO_GET_PUBKEY ref_krate) 64 (ref_key_pair True))] [])) =
     Ok (Some (ref_key_pair True))"
proof -
  let ?y = "ref_system {3} [1 \<mapsto> (3, PubkeyWrite (TARAKO_GET_PUBKEY ref_krate) 64 (ref_key_pair True))] []"
  have "sys_reachable True ref_ffi ref_krate ?y"
    unfolding sys_reachable_def by (intro exI) (rule ref_pubkey_call)
  from concurrent_calls_safe [OF ref.tarako_kernel_axioms this, of 1 3] show ?thesis
    by (simp add: ref_system_def)
qed

text \<open>
  C4. Concurrent replies are genuine: in any interleaving, if the last step of a signing call
  succeeds, it returns 0 and writes 257 bytes, which carry the user data that was at the address
  when this call read it, a hash of the digest that fs-verity reported during this call for the
  executable of its task and of that data, a signature of this hash that verifies, and the key that
  made it, which is sound and in the IMA log. Neither another task that writes to the same memory
  nor one that signs at the same time can change this.
\<close>

theorem concurrent_replies_genuine:
  assumes kernel: "tarako_kernel F C K" and y: "sys_reachable True F K y"
    and call: "y_calls y t = Some (f, SignWrite cmd arg req)"
    and nx: "pc_next F K (y_key y) (SignWrite cmd arg req) ((y_world y)\<lparr>w_mm := y_exe y t\<rparr>) = (Return (Ok v), w')"
  shows "v = 0 \<and> (\<exists>kp mem mm w digest r s.
    w_umem w' = write_umem (w_umem (y_world y)) arg
      (req_user_data req @ sha256_hash F (digest @ req_user_data req) @ to_be_bytes 32 r @ to_be_bytes 32 s @ kp_pubkey kp) \<and>
    Fetched t arg mem (req_user_data req) \<in> set (y_log y) \<and> read_umem mem arg 128 = req_user_data req \<and>
    Measured t mm digest \<in> set (y_log y) \<and> w_mm w = mm \<and> caller_digest F w = Some digest \<and>
    key_pair_ok C kp \<and> pubkey_event (kp_pubkey kp) \<in> set (w_ima w') \<and>
    ecdsa_valid C (smul C (vli_val (kp_private kp)) (cg_base C))
      (be_val (sha256_hash F (digest @ req_user_data req))) (r, s))"
proof -
  let ?w = "(y_world y)\<lparr>w_mm := y_exe y t\<rparr>"
  have inv: "sys_inv F C y" using tarako_kernel.sys_inv_reachable [OF kernel y] .
  have att: "attested F C (w_ima (y_world y)) (y_log y) t arg req" using sys_inv_call(3) [OF inv call] by simp
  have K: "user_access K" using kernel by (simp add: tarako_kernel_def)
  obtain r1 where wr: "write_sign_data_req K arg (k_IOC_SIZE K cmd) req ?w = (Ok r1, w')" and v: "v = 0"
    using nx by (auto simp: pc_next_def bind_def ret_def split: prod.splits outcome.splits)
  from prog_postD [OF user_access.write_req_post [OF K] wr]
  have w': "w_umem w' = write_umem (w_umem (y_world y)) arg (sign_data_req_bytes req)" "w_ima w' = w_ima (y_world y)"
    by (simp_all add: same_kernel_def)
  obtain mem kp mm digest r s where a: "key_pair_ok C kp" "pubkey_event (kp_pubkey kp) \<in> set (w_ima (y_world y))"
      "Measured t mm digest \<in> set (y_log y)" "req_pubkey req = kp_pubkey kp"
      "req_hash req = sha256_hash F (digest @ req_user_data req)"
      "req_sig_r req = to_be_bytes 32 r" "req_sig_s req = to_be_bytes 32 s"
      "ecdsa_valid C (smul C (vli_val (kp_private kp)) (cg_base C)) (be_val (req_hash req)) (r, s)"
    and ft: "Fetched t arg mem (req_user_data req) \<in> set (y_log y)"
    using att unfolding attested_def by blast
  have "event_ok F (Measured t mm digest)" "event_ok F (Fetched t arg mem (req_user_data req))" using inv a(3) ft by (auto simp: sys_inv_def list_all_iff)
  then obtain w where "w_mm w = mm" "caller_digest F w = Some digest"
    "read_umem mem arg 128 = req_user_data req" by (auto simp: event_ok_def)
  then show ?thesis
    using v w' a ft
    by (intro conjI exI [of _ kp] exI [of _ mem] exI [of _ mm] exI [of _ w] exI [of _ digest] exI [of _ r] exI [of _ s])
      (simp_all add: sign_data_req_bytes_def)
qed

theorem concurrent_replies_genuine_witness:
  "\<exists>y (w' :: ref_world) kp digest u r s. sys_reachable True ref_ffi ref_krate y \<and> key_pair_ok ref_curve kp \<and>
     w_umem w' = write_umem (w_umem (y_world y)) 4096
       (u @ sha256_hash ref_ffi (digest @ u) @ to_be_bytes 32 r @ to_be_bytes 32 s @ kp_pubkey kp) \<and>
     ecdsa_valid ref_curve (smul ref_curve (vli_val (kp_private kp)) (cg_base ref_curve))
       (be_val (sha256_hash ref_ffi (digest @ u))) (r, s)"
proof -
  obtain y req w' where y: "sys_reachable True ref_ffi ref_krate y"
    "y_calls y 1 = Some (3, SignWrite (TARAKO_SIGN_DATA ref_krate) 4096 req)"
    "pc_next ref_ffi ref_krate (y_key y) (SignWrite (TARAKO_SIGN_DATA ref_krate) 4096 req)
       ((y_world y)\<lparr>w_mm := y_exe y 1\<rparr>) = (Return (Ok 0), w')" by (rule ref_sign_call)
  from concurrent_replies_genuine [OF ref.tarako_kernel_axioms y] y(1) show ?thesis by blast
qed

text \<open>
  Deregistration alone does not protect a call that is under way: without pinning, the module can be
  removed between the two steps of a public key request, which then reads a key that was dropped.
\<close>

lemma unpinned_removal_faults:
  "\<exists>y. sys_reachable False ref_ffi ref_krate y \<and> y_calls y 1 = Some (3, Return (Fault UndefinedBehaviour))"
proof -
  let ?pc = "PubkeyWrite (TARAKO_GET_PUBKEY ref_krate) 64 (ref_key_pair True)"
  let ?S = "sys_step False ref_ffi ref_krate" and ?y = "ref_system {3} [1 \<mapsto> (3, ?pc)] []"
  let ?m1 = "\<lparr>m_phase = Removing, m_driver = deregister_device ref_krate (m_driver ref_running)\<rparr>"
  have cell: "so_inv (d_key (m_driver ?m1))" "SetOnce_as_ref (d_key (m_driver ?m1)) = Ok (Some (ref_key_pair True))"
    by (simp_all add: deregister_device_def ref_running_parts ref_cell_ref) (simp add: ref_cell_def so_inv_def)
  let ?d2 = "(m_driver ?m1)\<lparr>d_key := \<lparr>so_init = 0, so_value = Dropped (KeyPair_drop (ref_key_pair True))\<rparr>\<rparr>"
  let ?m2 = "\<lparr>m_phase = Unloaded, m_driver = ?d2\<rparr>"
  have 1: "?S ?y (?y\<lparr>y_module := ?m1\<rparr>)"
    using mod_step.remove [of ref_running ref_ffi ref_krate]
    by (intro sys_step.life) (simp_all add: ref_system_def ref_running_parts)
  have 2: "?S (?y\<lparr>y_module := ?m1\<rparr>) (?y\<lparr>y_module := ?m2\<rparr>)"
    using sys_step.life [of ref_ffi ref_krate "?y\<lparr>y_module := ?m1\<rparr>" ?m2 False]
      mod_step.cleanup [of ?m1 ?d2 ref_ffi ref_krate] ref.cleanup_post [OF cell] by (simp add: ref_system_def)
  let ?y2 = "?y\<lparr>y_module := ?m2\<rparr>"
  have "k_IOC_SIZE ref_krate (TARAKO_GET_PUBKEY ref_krate) = 33" by (rule ref.command_sizes)
  then have nx: "pc_next ref_ffi ref_krate (y_key ?y2) ?pc ((y_world ?y2)\<lparr>w_mm := y_exe ?y2 1\<rparr>) =
      (Return (Fault UndefinedBehaviour), (y_world ?y2)\<lparr>w_mm := y_exe ?y2 1\<rparr>)"
    by (simp add: pc_next_def use_key_def bind_def lift_outcome_def)
  have "\<exists>y3. ?S ?y2 y3 \<and> y_calls y3 1 = Some (3, Return (Fault UndefinedBehaviour))"
    by (intro exI conjI) (rule sys_step.run [OF _ _ nx], simp_all add: ref_system_def)
  then show ?thesis
    using ref_pubkey_call [of False 64] 1 2 unfolding sys_reachable_def
    by (meson rtranclp.rtrancl_into_rtrancl)
qed

end
