(* ===== verification/Set_Once_Steps.thy ===== *)
theory Set_Once_Steps
  imports Set_Once
begin

text \<open>
  \<open>src/driver/src/set_once.rs\<close> under concurrency: any number of threads, each memory access a
  step of its own, and the acquire and release orderings the code asks for.

  The state word is modelled by its modification order, a list of messages. A plain load may
  return any message that the thread has not yet seen superseded; a compare-and-exchange that
  succeeds reads the last one. The storage of the value is not atomic: \<open>o_writes\<close> counts its
  writes, and every thread has a view, the number of writes that are known to happen before its
  next access. An access to the storage with an outdated view is a data race and an access to a
  missing value is undefined behaviour; both lead to the state \<open>Faulted\<close>. A release store puts
  the view of the storing thread on its message, an acquire load takes it over, a relaxed
  read-modify-write passes on the view of the message it replaces and takes over nothing.

  The safety contract of \<open>clear\<close> is part of the step relation: it starts only while no other
  thread uses the cell, no other thread takes a step before it returns, and what follows its
  return happens after it. Theorems: no thread ever faults, at most one \<open>populate\<close> succeeds
  between two calls of \<open>clear\<close>, every reference points to the value of that call, and a
  whole call, whatever other threads do meanwhile, has the effect of the operation of \<open>Set_Once\<close>.
\<close>

section \<open>Steps\<close>

type_synonym tid = nat

text \<open>Where a thread is inside a call; \<open>HasRef\<close>: it holds a reference that \<open>as_ref\<close> returned.\<close>

datatype 'a pc = Idle | HasRef | Writing 'a | Publishing | Dropping | Emptying | Faulted

record 'a ostate =
  o_hist :: "(u32 \<times> nat) list"
  o_value :: "'a storage"
  o_writes :: nat
  o_pc :: "tid \<Rightarrow> 'a pc"
  o_idx :: "tid \<Rightarrow> nat"
  o_seen :: "tid \<Rightarrow> nat"
  o_wins :: "'a list"

definition o_init :: "'a ostate" where
  "o_init = \<lparr>o_hist = [(0, 0)], o_value = Uninit, o_writes = 0, o_pc = (\<lambda>_. Idle),
     o_idx = (\<lambda>_. 0), o_seen = (\<lambda>_. 0), o_wins = []\<rparr>"

fun clearing :: "'a pc \<Rightarrow> bool" where
  "clearing Dropping = True"
| "clearing Emptying = True"
| "clearing _ = False"

text \<open>The contract of \<open>clear\<close> for the other threads.\<close>

definition may_step :: "tid \<Rightarrow> 'a ostate \<Rightarrow> bool" where
  "may_step t st \<longleftrightarrow> (\<forall>u. u \<noteq> t \<longrightarrow> \<not> clearing (o_pc st u))"

definition set_pc :: "tid \<Rightarrow> 'a pc \<Rightarrow> 'a ostate \<Rightarrow> 'a ostate" where
  "set_pc t p st = st\<lparr>o_pc := (o_pc st)(t := p)\<rparr>"

text \<open>The load of \<open>as_ref\<close> with acquire ordering, reading message \<open>i\<close>.\<close>

definition load_acquire :: "tid \<Rightarrow> nat \<Rightarrow> 'a ostate \<Rightarrow> 'a ostate" where
  "load_acquire t i st =
     st\<lparr>o_idx := (o_idx st)(t := i),
        o_seen := (o_seen st)(t := max (o_seen st t) (snd (o_hist st ! i)))\<rparr>"

text \<open>A new message on the state word.\<close>

definition put_msg :: "tid \<Rightarrow> u32 \<Rightarrow> nat \<Rightarrow> 'a ostate \<Rightarrow> 'a ostate" where
  "put_msg t v vw st =
     st\<lparr>o_hist := o_hist st @ [(v, vw)], o_idx := (o_idx st)(t := length (o_hist st))\<rparr>"

text \<open>A write to the storage, and the check that no other write races with an access.\<close>

definition put_value :: "tid \<Rightarrow> 'a storage \<Rightarrow> 'a ostate \<Rightarrow> 'a ostate" where
  "put_value t s st =
     st\<lparr>o_value := s, o_writes := o_writes st + 1, o_seen := (o_seen st)(t := o_writes st + 1)\<rparr>"

definition race_free :: "tid \<Rightarrow> 'a ostate \<Rightarrow> bool" where
  "race_free t st \<longleftrightarrow> o_seen st t = o_writes st"

text \<open>What the contract of \<open>clear\<close> promises after its return.\<close>

definition sync_all :: "'a ostate \<Rightarrow> 'a ostate" where
  "sync_all st = st\<lparr>o_idx := (\<lambda>_. length (o_hist st) - 1), o_seen := (\<lambda>_. o_writes st), o_wins := []\<rparr>"

inductive so_step :: "('a \<Rightarrow> 'a) \<Rightarrow> 'a ostate \<Rightarrow> 'a ostate \<Rightarrow> bool" for drp :: "'a \<Rightarrow> 'a" where
  load_set:
    "may_step t st \<Longrightarrow> o_pc st t = Idle \<Longrightarrow> o_idx st t \<le> i \<Longrightarrow> i < length (o_hist st) \<Longrightarrow>
     fst (o_hist st ! i) = 2 \<Longrightarrow> so_step drp st (set_pc t HasRef (load_acquire t i st))"
| load_unset:
    "may_step t st \<Longrightarrow> o_pc st t = Idle \<Longrightarrow> o_idx st t \<le> i \<Longrightarrow> i < length (o_hist st) \<Longrightarrow>
     fst (o_hist st ! i) \<noteq> 2 \<Longrightarrow> so_step drp st (load_acquire t i st)"
| use_ref:
    "may_step t st \<Longrightarrow> o_pc st t = HasRef \<Longrightarrow> race_free t st \<Longrightarrow> o_value st = Live v \<Longrightarrow>
     so_step drp st st"
| use_ref_fault:
    "may_step t st \<Longrightarrow> o_pc st t = HasRef \<Longrightarrow> \<not> (race_free t st \<and> (\<exists>v. o_value st = Live v)) \<Longrightarrow>
     so_step drp st (set_pc t Faulted st)"
| end_ref:
    "may_step t st \<Longrightarrow> o_pc st t = HasRef \<Longrightarrow> so_step drp st (set_pc t Idle st)"
| populate_claim:
    "may_step t st \<Longrightarrow> o_pc st t = Idle \<Longrightarrow> last (o_hist st) = (0, vw) \<Longrightarrow>
     so_step drp st (set_pc t (Writing v) (put_msg t 1 vw st))"
| populate_refused:
    "may_step t st \<Longrightarrow> o_pc st t = Idle \<Longrightarrow> o_idx st t \<le> i \<Longrightarrow> i < length (o_hist st) \<Longrightarrow>
     fst (o_hist st ! i) \<noteq> 0 \<Longrightarrow> so_step drp st (st\<lparr>o_idx := (o_idx st)(t := i)\<rparr>)"
| populate_write:
    "may_step t st \<Longrightarrow> o_pc st t = Writing v \<Longrightarrow> race_free t st \<Longrightarrow>
     so_step drp st (set_pc t Publishing (put_value t (Live v) (st\<lparr>o_wins := v # o_wins st\<rparr>)))"
| populate_race:
    "may_step t st \<Longrightarrow> o_pc st t = Writing v \<Longrightarrow> \<not> race_free t st \<Longrightarrow>
     so_step drp st (set_pc t Faulted st)"
| populate_publish:
    "may_step t st \<Longrightarrow> o_pc st t = Publishing \<Longrightarrow>
     so_step drp st (set_pc t Idle (put_msg t 2 (o_seen st t) st))"
| clear_claim:
    "(\<And>u. o_pc st u = Idle) \<Longrightarrow> last (o_hist st) = (2, vw) \<Longrightarrow>
     so_step drp st (set_pc t Dropping
       (put_msg t 1 vw (load_acquire t (length (o_hist st) - 1) st)))"
| clear_refused:
    "(\<And>u. o_pc st u = Idle) \<Longrightarrow> fst (last (o_hist st)) \<noteq> 2 \<Longrightarrow> so_step drp st st"
| clear_drop:
    "o_pc st t = Dropping \<Longrightarrow> race_free t st \<Longrightarrow> o_value st = Live v \<Longrightarrow>
     so_step drp st (set_pc t Emptying (put_value t (Dropped (drp v)) st))"
| clear_fault:
    "o_pc st t = Dropping \<Longrightarrow> \<not> (race_free t st \<and> (\<exists>v. o_value st = Live v)) \<Longrightarrow>
     so_step drp st (set_pc t Faulted st)"
| clear_publish:
    "o_pc st t = Emptying \<Longrightarrow>
     so_step drp st (sync_all (set_pc t Idle (put_msg t 0 (o_seen st t) st)))"

definition so_reachable :: "('a \<Rightarrow> 'a) \<Rightarrow> 'a ostate \<Rightarrow> bool" where
  "so_reachable drp st \<longleftrightarrow> (so_step drp)\<^sup>*\<^sup>* o_init st"

section \<open>The invariant\<close>

text \<open>No thread can still read that the cell is set, except from the last message.\<close>

definition no_stale_set :: "'a ostate \<Rightarrow> bool" where
  "no_stale_set st \<longleftrightarrow>
     (\<forall>t i. o_idx st t \<le> i \<and> i < length (o_hist st) - 1 \<longrightarrow> fst (o_hist st ! i) \<noteq> 2)"

text \<open>
  The four phases of the cell: empty, being populated by one thread, set, and being cleared by
  one thread.
\<close>

datatype phase = Empty | Populating tid | Set | Clearing tid

fun phase_ok :: "phase \<Rightarrow> 'a ostate \<Rightarrow> bool" where
  "phase_ok Empty st \<longleftrightarrow>
     fst (last (o_hist st)) = 0 \<and> o_pc st = (\<lambda>_. Idle) \<and> o_seen st = (\<lambda>_. o_writes st) \<and>
     (\<forall>v. o_value st \<noteq> Live v) \<and> o_wins st = [] \<and> no_stale_set st \<and>
     o_idx st = (\<lambda>_. length (o_hist st) - 1)"
| "phase_ok (Populating t) st \<longleftrightarrow>
     fst (last (o_hist st)) = 1 \<and> (\<forall>u. u \<noteq> t \<longrightarrow> o_pc st u = Idle) \<and> o_seen st t = o_writes st \<and>
     ((\<exists>v. o_pc st t = Writing v) \<and> o_wins st = [] \<or>
      o_pc st t = Publishing \<and> (\<exists>v. o_value st = Live v \<and> o_wins st = [v])) \<and> no_stale_set st"
| "phase_ok Set st \<longleftrightarrow>
     last (o_hist st) = (2, o_writes st) \<and>
     (\<exists>v. o_value st = Live v \<and> o_wins st = [v]) \<and>
     (\<forall>t. o_seen st t \<le> o_writes st) \<and>
     (\<forall>t. o_pc st t = Idle \<or> o_pc st t = HasRef \<and> o_seen st t = o_writes st) \<and> no_stale_set st"
| "phase_ok (Clearing t) st \<longleftrightarrow>
     (\<forall>u. u \<noteq> t \<longrightarrow> o_pc st u = Idle) \<and> o_seen st t = o_writes st \<and> length (o_wins st) \<le> 1 \<and>
     (o_pc st t = Dropping \<and> (\<exists>v. o_value st = Live v) \<or>
      o_pc st t = Emptying \<and> (\<forall>v. o_value st \<noteq> Live v))"

definition views_ok :: "'a ostate \<Rightarrow> bool" where
  "views_ok st \<longleftrightarrow>
     o_hist st \<noteq> [] \<and> (\<forall>t. o_seen st t \<le> o_writes st) \<and>
     (\<forall>m \<in> set (o_hist st). snd m \<le> o_writes st)"

definition so_steps_inv :: "'a ostate \<Rightarrow> bool" where
  "so_steps_inv st \<longleftrightarrow> views_ok st \<and> (\<exists>ph. phase_ok ph st)"

lemmas step_defs = set_pc_def load_acquire_def put_msg_def put_value_def sync_all_def

lemma inv_init: "so_steps_inv o_init"
  unfolding so_steps_inv_def
  by (intro conjI exI [of _ Empty]) (simp_all add: o_init_def no_stale_set_def views_ok_def)

lemma hist_last: "o_hist st \<noteq> [] \<Longrightarrow> o_hist st ! (length (o_hist st) - 1) = last (o_hist st)"
  by (simp add: last_conv_nth)

text \<open>A readable message that says the cell is set is the last one.\<close>

lemma readable_set:
  "no_stale_set st \<Longrightarrow> o_idx st t \<le> i \<Longrightarrow> i < length (o_hist st) \<Longrightarrow> fst (o_hist st ! i) = 2 \<Longrightarrow>
   o_hist st ! i = last (o_hist st)"
  by (metis Suc_pred' hist_last length_greater_0_conv less_Suc_eq no_stale_set_def not_less_zero
      list.size(3))

lemma no_stale_moves:
  "no_stale_set st \<Longrightarrow> o_idx st t \<le> i \<Longrightarrow> o_hist st' = o_hist st \<Longrightarrow>
   o_idx st' = (o_idx st)(t := i) \<Longrightarrow> no_stale_set st'"
  unfolding no_stale_set_def by (metis fun_upd_apply order_trans)

lemma no_stale_put:
  assumes n: "no_stale_set st" and h: "o_hist st \<noteq> []" "fst (last (o_hist st)) \<noteq> 2"
    and st': "o_hist st' = o_hist st @ [m]" "o_idx st' = (o_idx st)(t := length (o_hist st))"
  shows "no_stale_set st'"
  unfolding no_stale_set_def
proof (intro allI impI)
  fix u i assume i: "o_idx st' u \<le> i \<and> i < length (o_hist st') - 1"
  then have lt: "i < length (o_hist st)" and u: "o_idx st u \<le> i"
    using st' by (auto split: if_splits)
  have "fst (o_hist st ! i) \<noteq> 2"
    using readable_set [OF n u lt] h(2) by auto
  then show "fst (o_hist st' ! i) \<noteq> 2" using lt st'(1) by (simp add: nth_append)
qed

lemma views_okD:
  assumes "views_ok st"
  shows "o_hist st \<noteq> []" "o_seen st t \<le> o_writes st"
    "i < length (o_hist st) \<Longrightarrow> snd (o_hist st ! i) \<le> o_writes st"
    "last (o_hist st) = (v, vw) \<Longrightarrow> vw \<le> o_writes st"
  using assms last_in_set [of "o_hist st"] by (auto simp: views_ok_def)

lemma views_step: "so_step drp st st' \<Longrightarrow> views_ok st \<Longrightarrow> views_ok st'"
proof (induction rule: so_step.induct)
  case (populate_claim t st vw v)
  then show ?case using views_okD(4) [OF populate_claim.prems] by (auto simp: views_ok_def step_defs)
next
  case (clear_claim st vw t)
  then show ?case
    using views_okD(4) [OF clear_claim.prems] views_okD(3) [OF clear_claim.prems, of "length (o_hist st) - 1"]
    by (auto simp: views_ok_def step_defs)
qed (auto simp: views_ok_def step_defs le_SucI)

text \<open>What the position of a thread says about the phase.\<close>

lemma phase_of_pc:
  assumes ph: "phase_ok ph st"
  shows "o_pc st t \<noteq> Faulted"
    and "o_pc st t = HasRef \<Longrightarrow> ph = Set \<and> o_seen st t = o_writes st"
    and "o_pc st t = Writing v \<Longrightarrow> ph = Populating t"
    and "o_pc st t = Publishing \<Longrightarrow> ph = Populating t"
    and "o_pc st t = Dropping \<Longrightarrow> ph = Clearing t"
    and "o_pc st t = Emptying \<Longrightarrow> ph = Clearing t"
proof -
  have busy: "o_pc st t \<noteq> Faulted \<and> (o_pc st t = HasRef \<longrightarrow> ph = Set \<and> o_seen st t = o_writes st) \<and>
      (\<forall>v. o_pc st t = Writing v \<longrightarrow> ph = Populating t) \<and> (o_pc st t = Publishing \<longrightarrow> ph = Populating t) \<and>
      (clearing (o_pc st t) \<longrightarrow> ph = Clearing t)"
  proof (cases ph)
    case (Populating u)
    then show ?thesis using ph by (cases "t = u") auto
  next
    case (Clearing u)
    then show ?thesis using ph by (cases "t = u") auto
  next
    case Set
    then have "o_pc st t = Idle \<or> o_pc st t = HasRef \<and> o_seen st t = o_writes st" using ph by simp
    then show ?thesis using Set by auto
  qed (use ph in auto)
  show "o_pc st t \<noteq> Faulted" using busy by simp
  show "o_pc st t = HasRef \<Longrightarrow> ph = Set \<and> o_seen st t = o_writes st" using busy by simp
  show "o_pc st t = Writing v \<Longrightarrow> ph = Populating t" using busy by simp
  show "o_pc st t = Publishing \<Longrightarrow> ph = Populating t" using busy by simp
  show "o_pc st t = Dropping \<Longrightarrow> ph = Clearing t" using busy by simp
  show "o_pc st t = Emptying \<Longrightarrow> ph = Clearing t" using busy by simp
qed

lemma phase_of_idle:
  assumes ph: "phase_ok ph st" and t: "may_step t st" "o_pc st t = Idle"
  obtains (Empty) "ph = Empty" | (Set) "ph = Set" | (Populating) u where "ph = Populating u" "u \<noteq> t"
proof (cases ph)
  case (Populating u)
  then have "u \<noteq> t" using ph t by auto
  then show ?thesis using Populating that by blast
next
  case (Clearing u)
  then have "u \<noteq> t" "clearing (o_pc st u)" using ph t by auto
  then show ?thesis using t(1) by (auto simp: may_step_def)
qed (use that in auto)

lemma idle_no_stale:
  assumes ph: "phase_ok ph st" and t: "may_step t st" "o_pc st t = Idle"
  shows "no_stale_set st"
  using ph t by (cases rule: phase_of_idle) (use ph in auto)

text \<open>The steps of \<open>as_ref\<close>, \<open>populate\<close> and \<open>clear\<close> that move on the state word.\<close>

lemma load_set_phase:
  assumes ph: "phase_ok ph st" and v: "views_ok st" and t: "may_step t st" "o_pc st t = Idle"
    and i: "o_idx st t \<le> i" "i < length (o_hist st)" "fst (o_hist st ! i) = 2"
  shows "phase_ok Set (set_pc t HasRef (load_acquire t i st))"
proof -
  have last: "o_hist st ! i = last (o_hist st)" by (rule readable_set [OF idle_no_stale [OF ph t] i])
  have s: "phase_ok Set st" using ph t
  proof (cases rule: phase_of_idle)
    case Set
    then show ?thesis using ph by simp
  qed (use ph last i(3) in auto)
  have "no_stale_set (set_pc t HasRef (load_acquire t i st))"
    by (rule no_stale_moves [OF idle_no_stale [OF ph t] i(1)]) (simp_all add: step_defs)
  then show ?thesis using s last views_okD(2) [OF v, of t] by (auto simp: step_defs max_absorb2)
qed

lemma idx_latest:
  "o_idx st = (\<lambda>_. length (o_hist st) - 1) \<Longrightarrow> o_idx st t \<le> i \<Longrightarrow> i < length (o_hist st) \<Longrightarrow>
   (o_idx st)(t := i) = o_idx st"
  by (rule ext) auto

lemma load_unset_phase:
  assumes ph: "phase_ok ph st" and v: "views_ok st" and t: "may_step t st" "o_pc st t = Idle"
    and i: "o_idx st t \<le> i" "i < length (o_hist st)"
  shows "phase_ok ph (load_acquire t i st)"
proof -
  have n: "no_stale_set (load_acquire t i st)"
    by (rule no_stale_moves [OF idle_no_stale [OF ph t] i(1)]) (simp_all add: step_defs)
  have le: "max (o_seen st t) (snd (o_hist st ! i)) \<le> o_writes st"
    using views_okD(2) [OF v, of t] views_okD(3) [OF v i(2)] by simp
  show ?thesis using ph t
  proof (cases rule: phase_of_idle)
    case Empty
    then have e: "o_seen st t = o_writes st" "o_idx st = (\<lambda>_. length (o_hist st) - 1)" using ph by simp_all
    have "(o_idx st)(t := i) = o_idx st" using idx_latest [OF e(2) i] .
    then show ?thesis using Empty ph n le e(1) by (simp add: step_defs max_absorb1 fun_upd_idem)
  next
    case Set
    then have *: "\<forall>u. o_pc st u = Idle \<or> o_pc st u = HasRef \<and> o_seen st u = o_writes st" using ph by simp
    show ?thesis using Set ph n le t(2) by (auto simp: step_defs)
  next
    case (Populating u)
    then show ?thesis using ph n by (auto simp: step_defs)
  qed
qed

lemma populate_refused_phase:
  assumes ph: "phase_ok ph st" and t: "may_step t st" "o_pc st t = Idle"
    and i: "o_idx st t \<le> i" "i < length (o_hist st)"
  shows "phase_ok ph (st\<lparr>o_idx := (o_idx st)(t := i)\<rparr>)"
proof -
  have n: "no_stale_set (st\<lparr>o_idx := (o_idx st)(t := i)\<rparr>)"
    by (rule no_stale_moves [OF idle_no_stale [OF ph t] i(1)]) simp_all
  show ?thesis using ph t
  proof (cases rule: phase_of_idle)
    case Empty
    then have "(o_idx st)(t := i) = o_idx st" using ph by (intro idx_latest [OF _ i]) simp
    then show ?thesis using ph by simp
  qed (use ph n in auto)
qed

lemma populate_claim_phase:
  assumes ph: "phase_ok ph st" and v: "views_ok st" and t: "may_step t st" "o_pc st t = Idle"
    and l: "last (o_hist st) = (0, vw)"
  shows "phase_ok (Populating t) (set_pc t (Writing x) (put_msg t 1 vw st))"
proof -
  have e: "phase_ok Empty st" using ph t by (cases rule: phase_of_idle) (use ph l in auto)
  have "no_stale_set (set_pc t (Writing x) (put_msg t 1 vw st))"
    using l by (intro no_stale_put [OF idle_no_stale [OF ph t] views_okD(1) [OF v]]) (simp_all add: step_defs)
  then show ?thesis using e by (auto simp: step_defs)
qed

lemma populate_publish_phase:
  assumes p: "phase_ok (Populating t) st" and v: "views_ok st" and t: "o_pc st t = Publishing"
  shows "phase_ok Set (set_pc t Idle (put_msg t 2 (o_seen st t) st))"
proof -
  have n: "no_stale_set st" "fst (last (o_hist st)) \<noteq> 2" using p by simp_all
  have "no_stale_set (set_pc t Idle (put_msg t 2 (o_seen st t) st))"
    by (rule no_stale_put [OF n(1) views_okD(1) [OF v] n(2)]) (simp_all add: step_defs)
  moreover have "o_seen st u \<le> o_writes st" for u by (rule views_okD(2) [OF v])
  ultimately show ?thesis using p t by (simp add: step_defs)
qed

lemma clear_claim_phase:
  assumes ph: "phase_ok ph st" and v: "views_ok st" and t: "\<And>u. o_pc st u = Idle"
    and l: "last (o_hist st) = (2, vw)"
  shows "phase_ok (Clearing t)
    (set_pc t Dropping (put_msg t 1 vw (load_acquire t (length (o_hist st) - 1) st)))"
proof -
  have "phase_ok Set st" using ph l t by (cases ph) auto
  then show ?thesis
    using t l hist_last [OF views_okD(1) [OF v]] views_okD(2) [OF v] by (auto simp: step_defs max_absorb2)
qed

lemma phase_step:
  "so_step drp st st' \<Longrightarrow> views_ok st \<Longrightarrow> phase_ok ph st \<Longrightarrow> \<exists>ph'. phase_ok ph' st'"
proof (induction rule: so_step.induct)
  case (use_ref_fault t st)
  then show ?case using phase_of_pc(2) [of ph st t] by (auto simp: race_free_def)
next
  case (end_ref t st)
  then have "phase_ok Set (set_pc t Idle st)" using phase_of_pc(2) [of ph st t]
    by (auto simp: step_defs no_stale_set_def)
  then show ?case ..
next
  case (populate_write t st v)
  then have "phase_ok (Populating t)
      (set_pc t Publishing (put_value t (Live v) (st\<lparr>o_wins := v # o_wins st\<rparr>)))"
    using phase_of_pc(3) [of ph st t v] by (auto simp: step_defs no_stale_set_def)
  then show ?case ..
next
  case (populate_race t st v)
  then show ?case using phase_of_pc(3) [of ph st t v] by (auto simp: race_free_def)
next
  case (populate_publish t st)
  then show ?case using phase_of_pc(4) [of ph st t] populate_publish_phase by blast
next
  case (clear_drop st t v)
  then have "phase_ok (Clearing t) (set_pc t Emptying (put_value t (Dropped (drp v)) st))"
    using phase_of_pc(5) [of ph st t] by (auto simp: step_defs)
  then show ?case ..
next
  case (clear_fault st t)
  then show ?case using phase_of_pc(5) [of ph st t] by (auto simp: race_free_def)
next
  case (clear_publish st t)
  then have "phase_ok Empty (sync_all (set_pc t Idle (put_msg t 0 (o_seen st t) st)))"
    using phase_of_pc(6) [of ph st t] by (auto simp: step_defs no_stale_set_def)
  then show ?case ..
qed (blast intro: load_set_phase load_unset_phase populate_claim_phase populate_refused_phase
    clear_claim_phase)+

lemma inv_step: "so_step drp st st' \<Longrightarrow> so_steps_inv st \<Longrightarrow> so_steps_inv st'"
  unfolding so_steps_inv_def using views_step phase_step by blast

lemma inv_reachable: "so_reachable drp st \<Longrightarrow> so_steps_inv st"
  unfolding so_reachable_def by (induction rule: rtranclp_induct) (auto intro: inv_init inv_step)

section \<open>Consequences\<close>

lemma reachable_phase:
  assumes "so_reachable drp st"
  obtains ph where "phase_ok ph st" "views_ok st"
  using inv_reachable [OF assms] by (auto simp: so_steps_inv_def)

text \<open>The wins since the last \<open>clear\<close>, at most one in every phase.\<close>

lemma wins_phase: "phase_ok ph st \<Longrightarrow> length (o_wins st) \<le> 1"
  by (cases ph) auto

section \<open>Whole calls\<close>

text \<open>
  A run while thread \<open>t\<close> is inside a call: it ends at the step with which the call returns. Other
  threads may take steps in between.
\<close>

inductive busy_run :: "('a \<Rightarrow> 'a) \<Rightarrow> tid \<Rightarrow> 'a ostate \<Rightarrow> 'a ostate \<Rightarrow> bool" for drp t where
  busy_start: "o_pc st t \<noteq> Idle \<Longrightarrow> busy_run drp t st st"
| busy_step: "busy_run drp t st st1 \<Longrightarrow> o_pc st1 t \<noteq> Idle \<Longrightarrow> so_step drp st1 st2 \<Longrightarrow> busy_run drp t st st2"

text \<open>A call of thread \<open>t\<close> from its first step, which takes the thread to \<open>p\<close>, to its return.\<close>

definition complete_call :: "('a \<Rightarrow> 'a) \<Rightarrow> tid \<Rightarrow> 'a pc \<Rightarrow> 'a ostate \<Rightarrow> 'a ostate \<Rightarrow> bool" where
  "complete_call drp t p st st' \<longleftrightarrow>
     o_pc st t = Idle \<and> (\<exists>st1. so_step drp st st1 \<and> o_pc st1 t = p \<and> busy_run drp t st1 st') \<and> o_pc st' t = Idle"

text \<open>The cell of \<open>Set_Once\<close> that a state of the concurrent model shows.\<close>

definition cell_of :: "'a ostate \<Rightarrow> 'a set_once" where
  "cell_of st = \<lparr>so_init = fst (last (o_hist st)), so_value = o_value st\<rparr>"

lemma cell_populate: "fst (last (o_hist st)) = 0 \<Longrightarrow> fst (last (o_hist st')) = 2 \<Longrightarrow> o_value st' = Live v \<Longrightarrow>
    SetOnce_populate (cell_of st) v = (True, cell_of st')"
  by (simp add: cell_of_def SetOnce_populate_def init_cmpxchg_def)

lemma cell_populate_refused: "fst (last (o_hist st)) \<noteq> 0 \<Longrightarrow> SetOnce_populate (cell_of st) v = (False, cell_of st)"
  by (simp add: cell_of_def SetOnce_populate_def init_cmpxchg_def)

lemma cell_clear: "fst (last (o_hist st)) = 2 \<Longrightarrow> o_value st = Live v \<Longrightarrow> fst (last (o_hist st')) = 0 \<Longrightarrow>
    o_value st' = Dropped (drp v) \<Longrightarrow> SetOnce_clear drp (cell_of st) = (Ok (), cell_of st')"
  by (simp add: cell_of_def SetOnce_clear_def init_cmpxchg_def drop_in_place_def bind_def)

text \<open>What any step of any thread does while one thread populates or clears the cell.\<close>

lemma populating_step:
  assumes "so_step drp st st'" "phase_ok (Populating t) st"
  shows "o_pc st' t = o_pc st t \<and> o_value st' = o_value st \<or>
    (\<exists>v. o_pc st t = Writing v \<and> o_pc st' t = Publishing \<and> o_value st' = Live v) \<or>
    o_pc st t = Publishing \<and> o_pc st' t = Idle \<and> o_value st' = o_value st \<and> fst (last (o_hist st')) = 2"
  using assms
proof (induction rule: so_step.induct)
  case (populate_write u st v)
  then show ?case using phase_of_pc(3) [of "Populating t" st u v] by (simp add: step_defs)
next
  case (populate_race u st v)
  then show ?case using phase_of_pc(3) [of "Populating t" st u v] by (auto simp: race_free_def)
next
  case (populate_publish u st)
  then show ?case using phase_of_pc(4) [of "Populating t" st u] by (simp add: step_defs)
next
  case (clear_drop st u v)
  then show ?case using phase_of_pc(5) [of "Populating t" st u] by simp
next
  case (clear_fault st u)
  then show ?case using phase_of_pc(5) [of "Populating t" st u] by simp
next
  case (clear_publish st u)
  then show ?case using phase_of_pc(6) [of "Populating t" st u] by simp
qed (auto simp: step_defs)

lemma clearing_step:
  assumes "so_step drp st st'" "phase_ok (Clearing t) st"
  shows "(\<exists>v. o_pc st t = Dropping \<and> o_value st = Live v \<and> o_pc st' t = Emptying \<and> o_value st' = Dropped (drp v)) \<or>
    o_pc st t = Emptying \<and> o_pc st' t = Idle \<and> o_value st' = o_value st \<and> fst (last (o_hist st')) = 0"
proof -
  have busy: "clearing (o_pc st t)" using assms(2) by auto
  then have alone: "u = t" if "may_step u st" for u using that by (auto simp: may_step_def)
  from assms(1) show ?thesis
  proof (cases rule: so_step.cases)
    case (clear_drop u v)
    then show ?thesis using phase_of_pc(5) [OF assms(2), of u] by (auto simp: step_defs)
  next
    case (clear_fault u)
    then show ?thesis using phase_of_pc(5) [OF assms(2), of u] assms(2) by (auto simp: race_free_def)
  next
    case (clear_publish u)
    then show ?thesis using phase_of_pc(6) [OF assms(2), of u] by (auto simp: step_defs)
  next
    case (clear_claim vw u)
    then have "o_pc st t = Idle" by blast
    then show ?thesis using busy by simp
  next
    case clear_refused
    then have "o_pc st t = Idle" by blast
    then show ?thesis using busy by simp
  qed (use alone busy in force)+
qed

lemma busy_populate:
  assumes "busy_run drp t st st'" "phase_ok (Populating t) st" "views_ok st" "o_pc st t = Writing v"
  shows "views_ok st' \<and>
    (phase_ok (Populating t) st' \<and> (o_pc st' t = Writing v \<or> o_pc st' t = Publishing \<and> o_value st' = Live v) \<or>
     o_pc st' t = Idle \<and> o_value st' = Live v \<and> fst (last (o_hist st')) = 2)"
  using assms
proof (induction rule: busy_run.induct)
  case (busy_step st1 st2 st3)
  then have ph: "phase_ok (Populating t) st2" "views_ok st2" by (auto simp del: phase_ok.simps)
  obtain ph' where ph': "phase_ok ph' st3" using phase_step [OF busy_step.hyps(3) ph(2,1)] by blast
  then have "phase_ok (Populating t) st3" if "o_pc st3 t = Writing v \<or> o_pc st3 t = Publishing"
    using that phase_of_pc(3,4) [OF ph'] by blast
  then show ?case
    using busy_step populating_step [OF busy_step.hyps(3) ph(1)] views_step [OF busy_step.hyps(3) ph(2)]
    by (auto simp del: phase_ok.simps)
qed (simp del: phase_ok.simps)

lemma busy_clear:
  assumes "busy_run drp t st st'" "phase_ok (Clearing t) st" "views_ok st" "o_pc st t = Dropping" "o_value st = Live v"
  shows "views_ok st' \<and>
    (phase_ok (Clearing t) st' \<and> (o_pc st' t = Dropping \<and> o_value st' = Live v \<or>
       o_pc st' t = Emptying \<and> o_value st' = Dropped (drp v)) \<or>
     o_pc st' t = Idle \<and> o_value st' = Dropped (drp v) \<and> fst (last (o_hist st')) = 0)"
  using assms
proof (induction rule: busy_run.induct)
  case (busy_step st1 st2 st3)
  then have ph: "phase_ok (Clearing t) st2" "views_ok st2" by (auto simp del: phase_ok.simps)
  obtain ph' where ph': "phase_ok ph' st3" using phase_step [OF busy_step.hyps(3) ph(2,1)] by blast
  then have "phase_ok (Clearing t) st3" if "o_pc st3 t = Emptying"
    using that phase_of_pc(6) [OF ph'] by blast
  then show ?case
    using busy_step clearing_step [OF busy_step.hyps(3) ph(1)] views_step [OF busy_step.hyps(3) ph(2)]
    by (auto simp del: phase_ok.simps)
qed (simp del: phase_ok.simps)

lemma populate_claimed:
  "so_step drp st st1 \<Longrightarrow> o_pc st t = Idle \<Longrightarrow> o_pc st1 t = Writing v \<Longrightarrow> fst (last (o_hist st)) = 0"
  by (cases rule: so_step.cases) (auto simp: step_defs split: if_splits)

lemma clear_claimed:
  "so_step drp st st1 \<Longrightarrow> o_pc st t = Idle \<Longrightarrow> o_pc st1 t = Dropping \<Longrightarrow>
   fst (last (o_hist st)) = 2 \<and> o_value st1 = o_value st"
  by (cases rule: so_step.cases) (auto simp: step_defs split: if_splits)

lemma ref_taken:
  "so_step drp st st1 \<Longrightarrow> o_pc st t = Idle \<Longrightarrow> o_pc st1 t = HasRef \<Longrightarrow> o_value st1 = o_value st \<and> o_hist st1 = o_hist st"
  by (cases rule: so_step.cases) (auto simp: step_defs split: if_splits)

text \<open>A whole call changes the cell as the operation of the sequential model does.\<close>

lemma complete_populate:
  assumes reach: "so_reachable drp st" and call: "complete_call drp t (Writing v) st st'"
  shows "SetOnce_populate (cell_of st) v = (True, cell_of st')"
proof -
  from call obtain st1 where c: "o_pc st t = Idle" "so_step drp st st1" "o_pc st1 t = Writing v"
      "busy_run drp t st1 st'" "o_pc st' t = Idle" by (auto simp: complete_call_def)
  have "so_steps_inv st1" by (rule inv_step [OF c(2) inv_reachable [OF reach]])
  then obtain ph where ph: "phase_ok ph st1" "views_ok st1" by (auto simp: so_steps_inv_def)
  then have "phase_ok (Populating t) st1" using phase_of_pc(3) [OF ph(1) c(3)] by simp
  from busy_populate [OF c(4) this ph(2) c(3)] show ?thesis
    using c(5) by (intro cell_populate populate_claimed [OF c(2,1,3)]) simp_all
qed

lemma complete_clear:
  assumes reach: "so_reachable drp st" and call: "complete_call drp t Dropping st st'"
  shows "SetOnce_clear drp (cell_of st) = (Ok (), cell_of st')"
proof -
  from call obtain st1 where c: "o_pc st t = Idle" "so_step drp st st1" "o_pc st1 t = Dropping"
      "busy_run drp t st1 st'" "o_pc st' t = Idle" by (auto simp: complete_call_def)
  have "so_steps_inv st1" by (rule inv_step [OF c(2) inv_reachable [OF reach]])
  then obtain ph where ph: "phase_ok ph st1" "views_ok st1" by (auto simp: so_steps_inv_def)
  then have cl: "phase_ok (Clearing t) st1" using phase_of_pc(5) [OF ph(1) c(3)] by simp
  then obtain v where v: "o_value st1 = Live v" using c(3) by auto
  from busy_clear [OF c(4) cl ph(2) c(3) v] show ?thesis
    using c(5) v clear_claimed [OF c(2,1,3)] by (intro cell_clear [of st v]) simp_all
qed

text \<open>The calls can be completed.\<close>

lemma populate_completes:
  assumes reach: "so_reachable drp st" and t: "may_step t st" "o_pc st t = Idle" and l: "fst (last (o_hist st)) = 0"
  shows "\<exists>st'. complete_call drp t (Writing v) st st'"
proof -
  obtain ph where ph: "phase_ok ph st" using reachable_phase [OF reach] .
  have e: "phase_ok Empty st" using ph t by (cases rule: phase_of_idle) (use ph l in auto)
  obtain vw where vw: "last (o_hist st) = (0, vw)" using l by (metis prod.collapse)
  let ?s1 = "set_pc t (Writing v) (put_msg t 1 vw st)"
  let ?s2 = "set_pc t Publishing (put_value t (Live v) (?s1\<lparr>o_wins := v # o_wins ?s1\<rparr>))"
  let ?s3 = "set_pc t Idle (put_msg t 2 (o_seen ?s2 t) ?s2)"
  have 1: "so_step drp st ?s1" by (rule so_step.populate_claim [OF t vw])
  have 2: "so_step drp ?s1 ?s2"
    by (rule so_step.populate_write) (use t e in \<open>auto simp: may_step_def step_defs race_free_def\<close>)
  have 3: "so_step drp ?s2 ?s3"
    by (rule so_step.populate_publish) (use t in \<open>auto simp: may_step_def step_defs\<close>)
  have pc: "o_pc ?s1 t = Writing v" "o_pc ?s2 t = Publishing" "o_pc ?s3 t = Idle" by (simp_all add: step_defs)
  have "busy_run drp t ?s1 ?s3"
    by (rule busy_step [OF busy_step [OF busy_start _ 2] _ 3]) (simp_all only: pc pc.distinct not_False_eq_True)
  then show ?thesis using 1 pc t(2) unfolding complete_call_def by blast
qed

lemma clear_completes:
  assumes reach: "so_reachable drp st" and t: "\<And>u. o_pc st u = Idle" and l: "fst (last (o_hist st)) = 2"
  shows "\<exists>st'. complete_call drp t Dropping st st'"
proof -
  obtain ph where ph: "phase_ok ph st" and v: "views_ok st" using reachable_phase [OF reach] .
  have "phase_ok Set st" using ph t l by (cases ph) auto
  then obtain x where x: "o_value st = Live x" by auto
  obtain vw where vw: "last (o_hist st) = (2, vw)" using l by (metis prod.collapse)
  let ?s1 = "set_pc t Dropping (put_msg t 1 vw (load_acquire t (length (o_hist st) - 1) st))"
  let ?s2 = "set_pc t Emptying (put_value t (Dropped (drp x)) ?s1)"
  let ?s3 = "sync_all (set_pc t Idle (put_msg t 0 (o_seen ?s2 t) ?s2))"
  have 1: "so_step drp st ?s1" by (rule so_step.clear_claim [OF t vw])
  have "phase_ok (Clearing t) ?s1" by (rule clear_claim_phase [OF ph v t vw])
  then have 2: "so_step drp ?s1 ?s2" using x by (intro so_step.clear_drop) (auto simp: step_defs race_free_def)
  have 3: "so_step drp ?s2 ?s3" by (rule so_step.clear_publish) (simp add: step_defs)
  have pc: "o_pc ?s1 t = Dropping" "o_pc ?s2 t = Emptying" "o_pc ?s3 t = Idle" by (simp_all add: step_defs)
  have "busy_run drp t ?s1 ?s3"
    by (rule busy_step [OF busy_step [OF busy_start _ 2] _ 3]) (simp_all only: pc pc.distinct not_False_eq_True)
  then show ?thesis using 1 pc t unfolding complete_call_def by blast
qed

text \<open>A thread that reads a state word other than 0 reads it of a cell that is not empty.\<close>

lemma populate_refusal:
  assumes reach: "so_reachable drp st" and t: "may_step t st" "o_pc st t = Idle"
    and i: "o_idx st t \<le> i" "i < length (o_hist st)" "fst (o_hist st ! i) \<noteq> 0"
  shows "SetOnce_populate (cell_of st) v = (False, cell_of st)"
proof (rule cell_populate_refused)
  obtain ph where ph: "phase_ok ph st" and v: "views_ok st" using reachable_phase [OF reach] .
  from ph t show "fst (last (o_hist st)) \<noteq> 0"
  proof (cases rule: phase_of_idle)
    case Empty
    then have "i = length (o_hist st) - 1" using ph i by auto
    then show ?thesis using i(3) hist_last [OF views_okD(1) [OF v]] by simp
  qed (use ph in auto)
qed

lemma reference_taken:
  assumes reach: "so_reachable drp st" and step: "so_step drp st st1" "o_pc st t = Idle" "o_pc st1 t = HasRef"
  shows "\<exists>v. SetOnce_as_ref (cell_of st) = Ok (Some v) \<and> o_value st1 = Live v"
proof -
  obtain ph where ph: "phase_ok ph st1" using inv_step [OF step(1) inv_reachable [OF reach]] by (auto simp: so_steps_inv_def)
  then have "phase_ok Set st1" using phase_of_pc(2) [OF ph step(3)] by simp
  then show ?thesis using ref_taken [OF step] by (auto simp: cell_of_def SetOnce_as_ref_def)
qed

section \<open>Properties\<close>

text \<open>
  C14. Under the contract of \<open>clear\<close>, in every interleaving of every number of threads and with
  the memory orderings of the code: no thread ever runs into a data race, a read of a missing
  value or a second drop; at most one \<open>populate\<close> wins between two calls of \<open>clear\<close>; and
  whoever holds a reference sees, without a race, the value that the winner stored.
\<close>

theorem set_once_race_free:
  assumes "so_reachable drp st"
  shows "o_pc st t \<noteq> Faulted \<and> length (o_wins st) \<le> 1 \<and>
    (o_pc st t = HasRef \<longrightarrow> race_free t st \<and> (\<exists>v. o_value st = Live v \<and> o_wins st = [v]))"
proof -
  obtain ph where ph: "phase_ok ph st" using reachable_phase [OF assms] .
  show ?thesis
    using phase_of_pc(1,2) [OF ph, of t] wins_phase [OF ph] ph by (auto simp: race_free_def)
qed

text \<open>A run in which thread 0 populates the cell and thread 1 then takes a reference.\<close>

definition demo_set :: "nat ostate" where
  "demo_set = \<lparr>o_hist = [(0, 0), (1, 0), (2, 1)], o_value = Live 5, o_writes = 1,
     o_pc = (\<lambda>_. Idle), o_idx = (\<lambda>_. 0)(0 := 2), o_seen = (\<lambda>_. 0)(0 := 1), o_wins = [5]\<rparr>"

lemma demo_set_reachable: "so_reachable id demo_set"
proof -
  let ?s1 = "set_pc 0 (Writing 5) (put_msg 0 1 0 (o_init :: nat ostate))"
  let ?s2 = "set_pc 0 Publishing (put_value 0 (Live 5) (?s1\<lparr>o_wins := 5 # o_wins ?s1\<rparr>))"
  let ?s3 = "set_pc 0 Idle (put_msg 0 2 (o_seen ?s2 0) ?s2)"
  have "so_step id o_init ?s1"
    by (rule so_step.populate_claim) (simp_all add: may_step_def o_init_def)
  moreover have "so_step id ?s1 ?s2"
    by (rule so_step.populate_write) (simp_all add: may_step_def o_init_def step_defs race_free_def)
  moreover have "so_step id ?s2 ?s3"
    by (rule so_step.populate_publish) (simp_all add: may_step_def o_init_def step_defs)
  moreover have "?s3 = demo_set" by (simp add: demo_set_def o_init_def step_defs fun_eq_iff)
  ultimately show ?thesis
    unfolding so_reachable_def by (metis rtranclp.rtrancl_into_rtrancl rtranclp.rtrancl_refl)
qed

lemma demo_ref_reachable: "so_reachable id (set_pc 1 HasRef (load_acquire 1 2 demo_set))"
proof -
  have "so_step id demo_set (set_pc 1 HasRef (load_acquire 1 2 demo_set))"
    by (rule so_step.load_set) (simp_all add: may_step_def demo_set_def)
  then show ?thesis
    using demo_set_reachable unfolding so_reachable_def by (rule rtranclp.rtrancl_into_rtrancl [rotated])
qed

theorem set_once_race_free_witness:
  "race_free 1 (set_pc 1 HasRef (load_acquire 1 2 demo_set)) \<and> length (o_wins demo_set) \<le> 1"
  using set_once_race_free [OF demo_ref_reachable, of 1] set_once_race_free [OF demo_set_reachable, of 0]
  by (simp add: step_defs)



end
