(* ===== verification/Spec2Isabelle.thy ===== *)
theory Spec2Isabelle
  imports Client_Properties Quote_Script Concurrent_Properties Set_Once_Steps
begin

text \<open>
  A verification of TARAKO, a Linux kernel module in Rust (\<open>src/driver/src\<close>) that signs evidence
  about the executable that calls it, of the Go service that asks the module for quotes
  (\<open>src/attester/main.go\<close>), and of the Python verifier of these quotes and the client that runs the
  background check (\<open>verifier.py\<close> and \<open>client.py\<close> in \<open>src/test/attestation\<close>) and of the script for a
  single quote (\<open>src/test/tarako-quote.py\<close>).

  \<^bold>\<open>The program.\<close> On load the module generates an ECDSA P-256 key pair, asks IMA to record the
  public key in the measurement list, registers \<open>/dev/tarako\<close> and stores the key pair in a global
  write-once cell. Three ioctls reach it: a hello, one that returns the compressed public key, and
  one that signs the fs-verity digest of the calling executable followed by 128 bytes of the
  caller. Signing is refused unless the key was measured and the caller is protected by fs-verity.
  On removal the device goes first, then the key is dropped and zeroed. The attester is a client of
  the device: it hashes a request and a nonce into a binding, has the binding signed and returns the
  quote as JSON. The verifier issues challenges, each good for one appraisal, and checks a quote
  against the binding it expects and a policy of one digest and one key. The client asks the verifier
  for a challenge, the attester for a quote and the verifier for a signed result, and checks the
  verifier's certificate, the signature and what the result says. The script installs the attester
  as a file protected by fs-verity and runs its command line.

  \<^bold>\<open>Parts and theories.\<close>
  \<^item> \<open>Rust_Prelude\<close>: machine integers, \<open>Result\<close> with panics and undefined behaviour as a third
    outcome, sequencing as the \<open>?\<close> operator does it, slices, byte order, positional numbers.
  \<^item> \<open>Kernel_Interface\<close>: the declarations of \<open>ffi.rs\<close> as the record \<open>ffi\<close>, the calls into the
    \<open>kernel\<close> crate as the record \<open>krate\<close>, the state shared with the kernel as the record \<open>world\<close>
    (allocated points, user memory, IMA list, the \<open>mm\<close> of the caller). The kernel is a parameter of
    every definition. What the driver relies on is stated by one locale per kernel interface
    (\<open>vli_ffi\<close>, \<open>p256_group\<close>, \<open>ecc_ffi\<close>, \<open>sha256_ffi\<close>, \<open>ima_ffi\<close>, \<open>fsverity_ffi\<close>, \<open>user_access\<close>,
    \<open>ioctl_abi\<close>, \<open>misc_api\<close>), together \<open>tarako_kernel\<close>.
  \<^item> \<open>Primality\<close>, \<open>P256_Order\<close>, \<open>Reference_Kernel\<close>: an executable kernel that satisfies all these
    locales over the true group order, whose primality is proved; so the contracts are
    consistent, and the witnesses run the driver on it.
  \<^item> \<open>Vli\<close>: all of \<open>vli.rs\<close>. Integers of \<open>N\<close> limbs are lists of 64-bit words; \<open>vli_val\<close> is their
    value, \<open>vli_ok N\<close> their type invariant.
  \<^item> \<open>Ecc\<close>: all of \<open>ecc.rs\<close>; \<open>Ecdsa\<close>: \<open>ecdsa_sign\<close> of \<open>ioctl.rs\<close> with the specification of ECDSA
    signing and verification.
  \<^item> \<open>Set_Once\<close>: \<open>set_once.rs\<close> run by one caller; \<open>Set_Once_Steps\<close>: the same code with one
    step per memory access, any number of threads, and release/acquire views.
  \<^item> \<open>Ioctl\<close>, \<open>Ioctl_Properties\<close>: the rest of \<open>ioctl.rs\<close>. The global \<open>KEY_PAIR\<close> is an argument.
  \<^item> \<open>Tarako_Module\<close>, \<open>Module_Properties\<close>: \<open>lib.rs\<close>, the dispatcher, initialisation, removal, and
    the life of the module as a step relation.
  \<^item> \<open>Ioctl_Steps\<close>, \<open>Concurrent_Device\<close>, \<open>Concurrent_Properties\<close>: the same ioctls cut into the steps
    between which other tasks run, and a step relation for any number of tasks and open files with
    loading and removal of the module, foreign writes to user memory and changes of executables.
    Whether open files pin the module is a parameter of the relation.
  \<^item> \<open>Text_Encoding\<close>: UTF-8, hexadecimal, JSON strings as Go and as Python write them, DER signatures.
  \<^item> \<open>Json\<close>: JSON values, and their canonical text, which can be read back.
  \<^item> \<open>Attester\<close>: the request binding and the quote of \<open>main.go\<close>. Its system calls run the dispatcher of
    \<open>Tarako_Module\<close> on the memory of the process; the addresses of the two variables that the driver writes are parameters.
  \<^item> \<open>Attester_Service\<close>: the rest of \<open>main.go\<close>, how a body is decoded, routes, status codes, the command line.
  \<^item> \<open>Verifier\<close>: \<open>verifier.py\<close>, with every exception as a value, and the histories of its requests.
    The \<open>cryptography\<close> package is the locale \<open>ecdsa_library\<close>, with a reference implementation.
  \<^item> \<open>Attestation\<close>: attester, verifier and driver together, with the request bodies of
    \<open>client.py\<close>.
  \<^item> \<open>Client\<close>, \<open>Client_Properties\<close>: \<open>client.py\<close>. The services are arguments of the run; the deployed
    services are the definitions of the other theories behind a network that may lose messages.
  \<^item> \<open>Quote_Script\<close>: \<open>tarako-quote.py\<close>, over the attester's command line.

  \<^bold>\<open>What is shown.\<close> For any kernel that meets the contracts: the limb arithmetic is exact and the
  comparison operators are the numeric order; every signature verifies under the public key, signing
  ends with a signature as soon as a nonce is not degenerate, and every other end has a stated
  reason; no wrapper, handler or file operation panics, has undefined behaviour or leaks an
  allocation; a signing request that returns has written exactly the specified response; refusals
  have no effect; the message determines digest and data, and scalars can be read back from the response.
  The cell refines a write-once optional value, is free of data races under the contract of \<open>clear\<close>,
  and whole calls on it are atomic in any interleaving, with the effect of the sequential operations. For a
  module with any history, a signature is made only by a key whose public half is in the IMA list,
  initialisation is all or nothing, and removal leaves only zeros of the private key.
  Undisturbed, the steps of an ioctl are the sequential dispatcher; in any interleaving, with open
  files pinning the module, no call faults or uses a key that is gone, and a reply carries what its
  call measured and read, validly signed; without pinning, removal under a call reads a dropped key.
  The verifier accepts a quote of the driver exactly if binding, key and digest are the right ones, and
  evidence from anyone exactly if its parts are the expected ones with a valid signature; the attester
  answers every request with the status for its reason and decodes bodies as specified; the two
  programs hash the same message exactly for requests that both JSON libraries write alike;
  an accepted result stands for an issued challenge, which is consumed, and for a body whose own quote
  is signed by the trusted key; each challenge is used at most once. The client, whatever the services
  do, accepts only results that the verifier gave for its challenge, nonce and request, on such a body,
  unless the reply itself is forged; and the whole background check, from the client to the driver and back, succeeds. The script ends with a
  valid quote of its nonce for the protected application, or with an error.

  \<^bold>\<open>Bounds.\<close> The loop of \<open>ecdsa_sign\<close> has the 100 turns of the code, the client the five attempts of
  its loop; a call takes at most five steps. \<open>usize\<close> values are natural
  numbers; the code's checked operations test against \<open>2 ^ 64\<close>. The lemmas on \<open>N\<close>-limb integers
  assume \<open>N < 2 ^ 32\<close> (\<open>2 ^ 29\<close> for byte strings), which the casts to \<open>c_uint\<close> need; the driver uses 4.

  \<^bold>\<open>Not modelled.\<close> Log messages; stack copies of a value that Rust moves; the RCU read section around
  the load of the executable (the caller's \<open>mm\<close> is fixed during one step of a call); user memory that
  changes while one copy to or from it is under way; the steps inside one signature, which touch no
  shared state but the reference to the key. Of the attester and the verifier: the HTTP servers, except for
  the choice of a handler by a path without percent escapes, JSON as
  bytes (a body is the value that the library read), timing, log messages and flags, and the closing of
  the device, for which the driver has no handler. Of the client and
  the script: argument parsing, output files, and challenges whose members are not strings. The benchmark and TDX test programs, the ProVerif model
  and the build files are not modelled.
\<close>

end
